(* ===== verification/Prelude.thy ===== *)
theory Prelude
  imports Main "HOL-Library.Word"
begin

text \<open>
  Shared vocabulary of the development: Go errors and panics as values, multi-value
  returns, nil-able pointers and slices, the loops over slices that every component
  uses, and the facts about them that carry the component proofs.

  \<^item> \<open>gerror\<close>: the error values the program builds. \<open>ErrNew\<close> is \<open>errors.New\<close>,
    \<open>Errorf\<close> is \<open>errors.Errorf\<close> / \<open>fmt.Errorf\<close> with its format string and arguments
    (formatting itself is left uninterpreted), \<open>WithMsg\<close> is the result of
    \<open>errors.Wrap\<close> / \<open>errors.WithMessage\<close> on a non-nil error (of the formatted variants the
    format string is kept and the arguments are dropped), \<open>ErrExt\<close> is an error that
    came from a library or from a peer.
  \<^item> \<open>'a ret\<close>: what a Go function \<open>func f() (T, error)\<close> returns, both components.
  \<^item> \<open>'a outcome\<close>: the same once the caller has tested \<open>err != nil\<close>, with run-time panics as
    a third case.
\<close>

section \<open>Bytes, slices and pointers\<close>

type_synonym byte = "8 word"
type_synonym bytes = "byte list"

text \<open>A \<open>[]byte\<close> whose nil-ness the program tests; reading a nil slice reads no bytes.\<close>

type_synonym slice = "bytes option"

definition slice_bytes :: "slice \<Rightarrow> bytes" where
  "slice_bytes s = (case s of None \<Rightarrow> [] | Some b \<Rightarrow> b)"

text \<open>The conversion \<open>[]byte(s)\<close> of a Go string, which is a sequence of bytes.\<close>

definition bytes_of_string :: "string \<Rightarrow> bytes" where
  "bytes_of_string s = map (\<lambda>c. word_of_nat (of_char c)) s"

section \<open>Errors, returns and outcomes\<close>

datatype gerror =
    ErrNew string
  | Errorf string "earg list"
  | WithMsg string gerror
  | ErrExt string
and earg = AStr string | AInt int | ABytes bytes | AErr gerror

datatype panic = NilDeref | IndexOutOfRange | PanicErr gerror | PanicMsg string

type_synonym 'a ret = "'a \<times> gerror option"

datatype 'a outcome = Ok 'a | Err gerror | Panic panic

text \<open>\<open>errors.Wrap(err, msg)\<close> and \<open>errors.WithMessage(err, msg)\<close> return nil on a nil error.\<close>

definition errors_Wrap :: "gerror option \<Rightarrow> string \<Rightarrow> gerror option" where
  "errors_Wrap e msg = (case e of None \<Rightarrow> None | Some x \<Rightarrow> Some (WithMsg msg x))"

definition ret_wrap :: "string \<Rightarrow> 'a ret \<Rightarrow> 'a ret" where
  "ret_wrap msg r = (fst r, errors_Wrap (snd r) msg)"

text \<open>\<open>v, err := f(); if err != nil { return nil, err }\<close>\<close>

definition check :: "'a ret \<Rightarrow> 'a outcome" where
  "check r = (case snd r of None \<Rightarrow> Ok (fst r) | Some e \<Rightarrow> Err e)"

text \<open>\<open>if err != nil { return nil, errors.WithMessage(err, msg) }\<close>\<close>

fun on_err :: "string \<Rightarrow> 'a outcome \<Rightarrow> 'a outcome" where
  "on_err msg (Ok x) = Ok x"
| "on_err msg (Err e) = Err (WithMsg msg e)"
| "on_err msg (Panic p) = Panic p"

fun bind :: "'a outcome \<Rightarrow> ('a \<Rightarrow> 'b outcome) \<Rightarrow> 'b outcome" where
  "bind (Ok x) f = f x"
| "bind (Err e) f = Err e"
| "bind (Panic p) f = Panic p"

text \<open>\<open>if err != nil { return nil, fmt.Errorf(format, err) }\<close>\<close>

definition reformat :: "string \<Rightarrow> 'a outcome \<Rightarrow> 'a outcome" where
  "reformat format r = (case r of Err err \<Rightarrow> Err (Errorf format [AErr err]) | _ \<Rightarrow> r)"

text \<open>Dereferencing a pointer: nil panics.\<close>

definition deref :: "'a option \<Rightarrow> 'a outcome" where
  "deref p = (case p of None \<Rightarrow> Panic NilDeref | Some x \<Rightarrow> Ok x)"

text \<open>\<open>if err != nil { panic(err) }\<close>\<close>

fun or_panic :: "'a outcome \<Rightarrow> 'a outcome" where
  "or_panic (Ok x) = Ok x"
| "or_panic (Err e) = Panic (PanicErr e)"
| "or_panic (Panic p) = Panic p"

text \<open>\<open>for _, x := range xs { y, err := f(x); if err != nil { return nil, err }; ys = append(ys, y) }\<close>\<close>

fun map_outcome :: "('a \<Rightarrow> 'b outcome) \<Rightarrow> 'a list \<Rightarrow> 'b list outcome" where
  "map_outcome f [] = Ok []"
| "map_outcome f (x # xs) = bind (f x) (\<lambda>y. bind (map_outcome f xs) (\<lambda>ys. Ok (y # ys)))"

fun is_ok :: "'a outcome \<Rightarrow> bool" where
  "is_ok (Ok x) = True"
| "is_ok _ = False"

fun is_panic :: "'a outcome \<Rightarrow> bool" where
  "is_panic (Panic p) = True"
| "is_panic _ = False"

fun is_err :: "'a outcome \<Rightarrow> bool" where
  "is_err (Err e) = True"
| "is_err _ = False"

text \<open>
  Slice operations with Go's bounds checks: \<open>xs[i]\<close>, \<open>xs[i] = v\<close>, \<open>xs[lo:hi]\<close>, and
  \<open>copy(dst[off:], src)\<close>, which copies as many elements as both slices have.
\<close>

definition go_index :: "'a list \<Rightarrow> nat \<Rightarrow> 'a outcome" where
  "go_index xs i = (if i < length xs then Ok (xs ! i) else Panic IndexOutOfRange)"

definition go_update :: "'a list \<Rightarrow> nat \<Rightarrow> 'a \<Rightarrow> 'a list outcome" where
  "go_update xs i v = (if i < length xs then Ok (xs[i := v]) else Panic IndexOutOfRange)"

definition go_slice :: "'a list \<Rightarrow> nat \<Rightarrow> nat \<Rightarrow> 'a list outcome" where
  "go_slice xs lo hi =
     (if lo \<le> hi \<and> hi \<le> length xs then Ok (take (hi - lo) (drop lo xs))
      else Panic IndexOutOfRange)"

definition go_copy_at :: "'a list \<Rightarrow> nat \<Rightarrow> 'a list \<Rightarrow> 'a list" where
  "go_copy_at dst off src =
     take off dst @ take (length dst - off) src @ drop (off + length src) dst"

section \<open>Facts about them\<close>

named_theorems go_simps \<open>equations that evaluate the Go vocabulary\<close>
named_theorems go_split \<open>inversion of successful computations\<close>

lemma slice_bytes_simps [simp, go_simps]:
  "slice_bytes None = []" "slice_bytes (Some b) = b"
  by (simp_all add: slice_bytes_def)

lemma check_simps [simp, go_simps]: "check (v, None) = Ok v" "check (v, Some e) = Err e"
  by (simp_all add: check_def)

lemma deref_simps [simp, go_simps]: "deref None = Panic NilDeref" "deref (Some x) = Ok x"
  by (simp_all add: deref_def)

lemma errors_Wrap_simps [simp, go_simps]:
  "errors_Wrap None m = None" "errors_Wrap (Some e) m = Some (WithMsg m e)"
  "errors_Wrap err m = None \<longleftrightarrow> err = None"
  by (simp_all add: errors_Wrap_def split: option.splits)

lemma ret_wrap_simps [simp, go_simps]:
  "ret_wrap m (v, None) = (v, None)" "ret_wrap m (v, Some e) = (v, Some (WithMsg m e))"
  "fst (ret_wrap m r) = fst r" "snd (ret_wrap m r) = None \<longleftrightarrow> snd r = None"
  by (simp_all add: ret_wrap_def)

lemma check_eq_Ok [simp, go_split]: "check r = Ok x \<longleftrightarrow> r = (x, None)"
  by (cases r) (auto simp: check_def split: option.splits)

lemma ret_wrap_eq_ok [simp, go_split]: "ret_wrap m r = (x, None) \<longleftrightarrow> r = (x, None)"
  by (cases r; cases "snd r") auto

lemma check_not_Panic [simp]: "check r \<noteq> Panic p"
  by (cases r; cases "snd r") auto

lemma deref_eq_Ok [simp, go_split]: "deref p = Ok x \<longleftrightarrow> p = Some x"
  by (cases p) auto

lemma deref_not_Err [simp]: "deref p \<noteq> Err e"
  by (cases p) auto

lemma bind_eq_Ok [simp, go_split]: "bind m f = Ok y \<longleftrightarrow> (\<exists>x. m = Ok x \<and> f x = Ok y)"
  by (cases m) auto

lemma bind_eq_Panic: "bind m f = Panic p \<longleftrightarrow> m = Panic p \<or> (\<exists>x. m = Ok x \<and> f x = Panic p)"
  by (cases m) auto

lemma bind_eq_Err: "bind m f = Err e \<longleftrightarrow> m = Err e \<or> (\<exists>x. m = Ok x \<and> f x = Err e)"
  by (cases m) auto

lemma bind_assoc [simp]: "bind (bind m f) g = bind m (\<lambda>x. bind (f x) g)"
  by (cases m) auto

lemma bind_Ok_right [simp]: "bind m Ok = m"
  by (cases m) auto

lemma on_err_eq_Ok [simp, go_split]: "on_err msg m = Ok x \<longleftrightarrow> m = Ok x"
  by (cases m) auto

lemma reformat_ok [simp]: "reformat f r = Ok x \<longleftrightarrow> r = Ok x"
  by (auto simp: reformat_def split: outcome.splits)

lemma on_err_eq_Panic [simp]: "on_err msg m = Panic p \<longleftrightarrow> m = Panic p"
  by (cases m) auto

lemma or_panic_eq_Ok [simp, go_split]: "or_panic m = Ok x \<longleftrightarrow> m = Ok x"
  by (cases m) auto

lemma is_ok_iff: "is_ok m \<longleftrightarrow> (\<exists>x. m = Ok x)"
  by (cases m) auto

lemma is_panic_iff: "is_panic m \<longleftrightarrow> (\<exists>p. m = Panic p)"
  by (cases m) auto

lemma is_panic_bind [simp]:
  "is_panic (bind m f) \<longleftrightarrow> is_panic m \<or> (\<exists>x. m = Ok x \<and> is_panic (f x))"
  by (cases m) auto

lemma is_panic_check [simp]: "\<not> is_panic (check r)"
  by (cases r; cases "snd r") auto

lemma is_panic_on_err [simp]: "is_panic (on_err msg m) \<longleftrightarrow> is_panic m"
  by (cases m) auto

lemma is_panic_deref [simp]: "is_panic (deref p) \<longleftrightarrow> p = None"
  by (cases p) auto

subsection \<open>The mapping loop\<close>

lemma map_outcome_eq_Ok:
  "map_outcome f xs = Ok ys \<longleftrightarrow> list_all2 (\<lambda>x y. f x = Ok y) xs ys"
  by (induction xs arbitrary: ys) (auto simp: list_all2_Cons1)

lemma map_outcome_length: "map_outcome f xs = Ok ys \<Longrightarrow> length ys = length xs"
  by (auto simp: map_outcome_eq_Ok dest: list_all2_lengthD)

lemma map_outcome_Ok_map [simp]: "map_outcome (\<lambda>x. Ok (g x)) xs = Ok (map g xs)"
  by (induction xs) auto

lemma map_outcome_append:
  "map_outcome f (xs @ ys) =
     bind (map_outcome f xs) (\<lambda>us. bind (map_outcome f ys) (\<lambda>vs. Ok (us @ vs)))"
proof (induction xs)
  case (Cons x xs)
  then show ?case by (cases "f x"; cases "map_outcome f xs"; cases "map_outcome f ys") auto
qed (cases "map_outcome f ys"; simp)

lemma map_outcome_cong [fundef_cong]:
  "xs = ys \<Longrightarrow> (\<And>x. x \<in> set ys \<Longrightarrow> f x = g x) \<Longrightarrow> map_outcome f xs = map_outcome g ys"
  by (induction ys arbitrary: xs) auto

lemma map_outcome_roundtrip:
  assumes "map_outcome f xs = Ok ys"
    and "\<And>x y. x \<in> set xs \<Longrightarrow> f x = Ok y \<Longrightarrow> g y = Ok x"
  shows "map_outcome g ys = Ok xs"
  using assms by (induction xs arbitrary: ys) auto

lemma map_outcome_no_panic:
  "(\<And>x. x \<in> set xs \<Longrightarrow> \<not> is_panic (f x)) \<Longrightarrow> \<not> is_panic (map_outcome f xs)"
  by (induction xs) auto

subsection \<open>Slices\<close>

lemma go_index_append [simp]: "i < length xs \<Longrightarrow> go_index (xs @ ys) i = Ok (xs ! i)"
  by (simp add: go_index_def nth_append)

lemma go_slice_from [simp]: "lo \<le> length xs \<Longrightarrow> go_slice xs lo (length xs) = Ok (drop lo xs)"
  by (simp add: go_slice_def)

lemma length_go_copy_at [simp]:
  "off \<le> length dst \<Longrightarrow> length (go_copy_at dst off src) = length dst"
  by (simp add: go_copy_at_def)

lemma go_update_length: "go_update xs i v = Ok ys \<Longrightarrow> length ys = length xs"
  by (auto simp: go_update_def split: if_splits)

subsection \<open>Words\<close>

lemma unat_byte_less: "unat (b :: byte) < 256"
  using unsigned_less [where ?'a = nat, of b] by simp

lemma unat_uint64_less: "unat (n :: 64 word) < 256 ^ 8"
  using unsigned_less [where ?'a = nat, of n] by simp

lemma unat_byte_of_nat: "n < 256 \<Longrightarrow> unat (word_of_nat n :: byte) = n"
  by (simp add: unat_of_nat)

lemma unat_uint64_of_nat: "n < 2 ^ 64 \<Longrightarrow> unat (word_of_nat n :: 64 word) = n"
  by (simp add: unat_of_nat)

text \<open>Reading a 64-bit difference as a signed integer.\<close>

lemma odd_bit_value: "0 \<le> v \<Longrightarrow> v < 2 \<Longrightarrow> odd v \<longleftrightarrow> 1 \<le> (v :: int)"
  by presburger

lemma sint_pos_iff: "0 < sint (w :: 64 word) \<longleftrightarrow> 0 < unat w \<and> unat w < 2 ^ 63"
proof -
  define u where "u = uint w"
  have u: "0 \<le> u" "u < 2 ^ 64"
    using unsigned_less [where ?'a = int, of w] by (simp_all add: u_def)
  have "odd (u div 2 ^ 63) \<longleftrightarrow> 1 \<le> u div 2 ^ 63"
    using u by (intro odd_bit_value) (simp_all add: pos_imp_zdiv_nonneg_iff)
  also have "\<dots> \<longleftrightarrow> 2 ^ 63 \<le> u" by (simp add: int_one_le_iff_zero_less pos_imp_zdiv_pos_iff)
  finally have b: "bit u 63 \<longleftrightarrow> 2 ^ 63 \<le> u" by (simp only: bit_iff_odd)
  have "sint w = signed_take_bit 63 u"
    by (simp add: sint_uint u_def)
  also have "\<dots> = take_bit 64 u - 2 ^ 64 * of_bool (bit u 63)"
    by (simp add: signed_take_bit_eq_take_bit_minus)
  also have "take_bit 64 u = u"
    using u by (simp add: take_bit_int_eq_self_iff)
  finally have s: "sint w = u - 2 ^ 64 * of_bool (2 ^ 63 \<le> u)" unfolding b .
  have "unat w = nat u" by (simp add: u_def)
  then show ?thesis using u unfolding s by (auto simp: zless_nat_eq_int_zless nat_less_iff)
qed

lemma sint_diff_pos:
  fixes a b :: "64 word"
  shows "0 < sint (a - b) \<longleftrightarrow> (b < a \<and> unat a - unat b < 2 ^ 63) \<or> (a < b \<and> 2 ^ 63 < unat b - unat a)"
proof -
  have l: "unat a < 2 ^ 64" "unat b < 2 ^ 64"
    using unsigned_less [where ?'a = nat, of a] unsigned_less [where ?'a = nat, of b] by simp_all
  show ?thesis
    unfolding sint_pos_iff word_less_nat_alt using l by (auto simp: unat_sub_if')
qed

subsection \<open>The conversion to \<open>int32\<close>\<close>

definition go_int32 :: "int \<Rightarrow> int" where
  "go_int32 i = signed_take_bit 31 i"

lemma go_int32_id: "- (2 ^ 31) \<le> i \<Longrightarrow> i < 2 ^ 31 \<Longrightarrow> go_int32 i = i"
  by (simp add: go_int32_def signed_take_bit_int_eq_self)

end
