(* ===== verification/OrderedCodec.thy ===== *)
theory OrderedCodec
  imports Prelude
begin

text \<open>
  \<open>internal/utils/util.go\<close>: the order-preserving variable-length encoding of \<open>uint64\<close>, the
  concatenation of byte slices and the hash helpers, with \<open>internal/cryptoutil/hash.go\<close> and
  the second concatenation of \<open>internal/channel/util.go\<close>.

  \<open>proto.EncodeVarint\<close> and \<open>proto.DecodeVarint\<close> belong to golang/protobuf: they are the
  parameters \<open>encV\<close> and \<open>decV\<close>, and the locale \<open>varint_lib\<close> holds what the code relies on
  (a value below 128 is the one byte of that value). It is interpreted on the base-128
  encoding that protobuf documents. The locale \<open>ordered_codec\<close> is the contract the ledger
  keys rely on: encodings are self-delimiting and compare as the values do.
\<close>

section \<open>Big-endian bytes\<close>

text \<open>\<open>binary.BigEndian.PutUint64\<close> into \<open>k\<close> bytes, and \<open>binary.BigEndian.Uint64\<close>.\<close>

fun be_digits :: "nat \<Rightarrow> nat \<Rightarrow> bytes" where
  "be_digits 0 n = []"
| "be_digits (Suc k) n = word_of_nat (n div 256 ^ k) # be_digits k n"

fun be_val :: "bytes \<Rightarrow> nat" where
  "be_val [] = 0"
| "be_val (b # bs) = unat b * 256 ^ length bs + be_val bs"

definition be_uint64 :: "bytes \<Rightarrow> 64 word" where
  "be_uint64 bs = word_of_nat (be_val bs)"

lemma length_be_digits [simp]: "length (be_digits k n) = k"
  by (induction k) auto

lemma be_val_bound: "be_val bs < 256 ^ length bs"
proof (induction bs)
  case (Cons b bs)
  have "unat b \<le> 255"
    using unat_byte_less [of b] by simp
  then have "unat b * 256 ^ length bs \<le> 255 * 256 ^ length bs"
    by (rule mult_le_mono1)
  with Cons.IH have "unat b * 256 ^ length bs + be_val bs < 256 * 256 ^ length bs"
    by linarith
  then show ?case by simp
qed simp

lemma be_val_digits: "be_val (be_digits k n) = n mod 256 ^ k"
proof (induction k)
  case (Suc k)
  have "unat (word_of_nat (n div 256 ^ k) :: byte) = n div 256 ^ k mod 256"
    by (simp add: unat_of_nat)
  with Suc show ?case
    using mod_mult2_eq [of n "256 ^ k" 256] by (simp add: mult.commute)
qed simp

lemma be_val_digits_uint64 [simp]: "be_val (be_digits 8 (unat (n :: 64 word))) = unat n"
  using unat_uint64_less [of n] by (simp add: be_val_digits)

lemma be_val_dropWhile [simp]: "be_val (dropWhile (\<lambda>b. b = 0) bs) = be_val bs"
  by (induction bs) auto

lemma be_val_zeros [simp]: "be_val (replicate k 0 @ bs) = be_val bs"
  by (induction k) auto

lemma be_digits_numeral:
  "be_digits (numeral k) n = word_of_nat (n div 256 ^ pred_numeral k) # be_digits (pred_numeral k) n"
  by (subst numeral_eq_Suc) (rule be_digits.simps(2))

lemma be_uint64_val: "be_val bs = unat n \<Longrightarrow> be_uint64 bs = n"
  by (simp add: be_uint64_def)

text \<open>\<open>bytes.Compare(x, y) < 0\<close>: the lexicographic order of byte strings.\<close>

fun bytes_less :: "bytes \<Rightarrow> bytes \<Rightarrow> bool" where
  "bytes_less xs [] = False"
| "bytes_less [] (y # ys) = True"
| "bytes_less (x # xs) (y # ys) = (x < y \<or> (x = y \<and> bytes_less xs ys))"

lemma bytes_less_irrefl [simp]: "\<not> bytes_less xs xs"
  by (induction xs) auto

lemma bytes_less_same_prefix [simp]: "bytes_less (xs @ ys) (xs @ zs) = bytes_less ys zs"
  by (induction xs) auto

lemma bytes_less_trans: "bytes_less xs ys \<Longrightarrow> bytes_less ys zs \<Longrightarrow> bytes_less xs zs"
proof (induction xs ys arbitrary: zs rule: bytes_less.induct)
  case (2 y ys)
  then show ?case by (cases zs) auto
next
  case (3 x xs y ys)
  then show ?case by (cases zs) auto
qed auto

lemma bytes_less_append:
  "length xs = length ys \<Longrightarrow> bytes_less xs ys \<Longrightarrow> bytes_less (xs @ us) (ys @ vs)"
  by (induction xs ys rule: list_induct2) auto

lemma digit_less:
  assumes "a * B + u < (b :: nat) * B + v" "u < B" "v < B" "a \<noteq> b"
  shows "a < b"
proof (rule ccontr)
  assume "\<not> a < b"
  with \<open>a \<noteq> b\<close> have "Suc b \<le> a" by simp
  then have "Suc b * B \<le> a * B" by (rule mult_le_mono1)
  with assms show False by simp
qed

lemma bytes_less_if_val_less:
  "length xs = length ys \<Longrightarrow> be_val xs < be_val ys \<Longrightarrow> bytes_less xs ys"
proof (induction xs ys rule: list_induct2)
  case (Cons x xs y ys)
  show ?case
  proof (cases "x = y")
    case True
    with Cons show ?thesis by simp
  next
    case False
    then have "unat x \<noteq> unat y" by (simp add: word_unat_eq_iff)
    moreover have "be_val xs < 256 ^ length xs" and "be_val ys < 256 ^ length xs"
      using be_val_bound [of xs] be_val_bound [of ys] Cons.hyps by simp_all
    ultimately have "unat x < unat y"
      using Cons.prems Cons.hyps digit_less [of "unat x" "256 ^ length xs" "be_val xs" "unat y"]
      by simp
    then show ?thesis by (simp add: word_less_nat_alt)
  qed
qed simp

section \<open>The encoding\<close>

text \<open>The loop that finds the first non-zero byte: \<open>startingIndex\<close> and \<open>size\<close>.\<close>

fun scan_nonzero :: "nat \<Rightarrow> bytes \<Rightarrow> nat \<times> nat" where
  "scan_nonzero i [] = (0, 0)"
| "scan_nonzero i (b # bs) = (if b \<noteq> 0 then (i, 8 - i) else scan_nonzero (Suc i) bs)"

definition EncodeOrderPreservingVarUint64 :: "(64 word \<Rightarrow> bytes) \<Rightarrow> 64 word \<Rightarrow> bytes outcome" where
  "EncodeOrderPreservingVarUint64 encV number =
     (let bs = be_digits 8 (unat number);
          (startingIndex, size) = scan_nonzero 0 bs;
          sizeBytes = encV (word_of_nat size)
      in if length sizeBytes > 1
         then Panic (PanicErr (Errorf
                ''[]sizeBytes should not be more than one byte because the max number it needs to hold is 8. size=%d''
                [AInt (int size)]))
         else bind (go_index sizeBytes 0) (\<lambda>s0.
              bind (go_update (replicate (size + 1) 0) 0 s0) (\<lambda>encodedBytes.
              bind (go_slice bs startingIndex (length bs)) (\<lambda>src.
              Ok (go_copy_at encodedBytes 1 src)))))"

definition DecodeOrderPreservingVarUint64 ::
    "(bytes \<Rightarrow> 64 word \<times> nat) \<Rightarrow> bytes \<Rightarrow> (64 word \<times> nat) outcome" where
  "DecodeOrderPreservingVarUint64 decV bs =
     (let (s, numBytes) = decV bs
      in if numBytes \<noteq> 1
         then Err (Errorf
                ''number of consumed bytes from DecodeVarint is invalid, expected 1, but got %d''
                [AInt (int numBytes)])
         else if s > 8
         then Err (Errorf
                ''decoded size from DecodeVarint is invalid, expected <=8, but got %d''
                [AInt (uint s)])
         else if int (unat s) > int (length bs) - 1
         then Err (Errorf
                ''decoded size (%d) from DecodeVarint is more than available bytes (%d)''
                [AInt (uint s), AInt (int (length bs) - 1)])
         else let size = unat s
              in bind (go_slice bs 1 (size + 1)) (\<lambda>src.
                 Ok (be_uint64 (go_copy_at (replicate 8 0) (8 - size) src), size + 1)))"

text \<open>The significant bytes of a number: its big-endian bytes without the leading zeros.\<close>

definition sig_bytes :: "64 word \<Rightarrow> bytes" where
  "sig_bytes n = dropWhile (\<lambda>b. b = 0) (be_digits 8 (unat n))"

lemma be_val_sig_bytes [simp]: "be_val (sig_bytes n) = unat n"
  by (simp add: sig_bytes_def)

lemma sig_bytes_zero: "sig_bytes 0 = []"
proof -
  have "be_digits k 0 = replicate k 0" for k
    by (induction k) auto
  then show ?thesis by (simp add: sig_bytes_def)
qed

lemma sig_bytes_empty_iff: "sig_bytes n = [] \<longleftrightarrow> n = 0"
proof
  assume "sig_bytes n = []"
  then have "unat n = 0"
    using be_val_sig_bytes [of n] by simp
  then show "n = 0" by (simp add: word_unat_eq_iff)
qed (simp add: sig_bytes_zero)

lemma length_sig_bytes: "length (sig_bytes n) \<le> 8"
  using length_dropWhile_le [of "\<lambda>b. b = 0" "be_digits 8 (unat n)"] by (simp add: sig_bytes_def)

lemma scan_nonzero_dropWhile:
  assumes "scan_nonzero i bs = (st, sz)" and "i + length bs = 8"
  shows "sz = length (dropWhile (\<lambda>b. b = 0) bs) \<and>
         (sz \<noteq> 0 \<longrightarrow> i \<le> st \<and> drop (st - i) bs = dropWhile (\<lambda>b. b = 0) bs) \<and> (sz = 0 \<longrightarrow> st = 0)"
  using assms
proof (induction i bs rule: scan_nonzero.induct)
  case (2 i b bs)
  show ?case
  proof (cases "b = 0")
    case True
    with 2 show ?thesis
      by (auto simp: drop_Cons' Suc_diff_Suc)
  next
    case False
    with 2 show ?thesis by auto
  qed
qed auto

lemma scan_nonzero_digits:
  assumes "scan_nonzero 0 (be_digits 8 (unat n)) = (st, sz)"
  shows "sz = length (sig_bytes n)" and "st \<le> 8"
    and "take sz (drop st (be_digits 8 (unat n))) = sig_bytes n"
proof -
  let ?bs = "be_digits 8 (unat n)"
  note scan = scan_nonzero_dropWhile [OF assms, simplified, folded sig_bytes_def]
  show sz: "sz = length (sig_bytes n)"
    using scan by simp
  show "take sz (drop st ?bs) = sig_bytes n"
    using scan by (cases "sz = 0") auto
  then show "st \<le> 8"
    using sz scan length_drop [of st ?bs] by (cases "sz = 0") force+
qed

lemma sig_bytes_lower: "sig_bytes n \<noteq> [] \<Longrightarrow> 256 ^ (length (sig_bytes n) - 1) \<le> unat n"
proof -
  assume "sig_bytes n \<noteq> []"
  then obtain b bs where eq: "sig_bytes n = b # bs"
    by (cases "sig_bytes n") auto
  then have "b \<noteq> 0"
    using hd_dropWhile [of "\<lambda>b. b = 0" "be_digits 8 (unat n)"] by (auto simp: sig_bytes_def)
  then have "1 \<le> unat b"
    by (simp add: unat_gt_0 Suc_le_eq)
  then have "1 * 256 ^ length bs \<le> unat b * 256 ^ length bs"
    by (rule mult_le_mono1)
  then have "256 ^ length bs \<le> be_val (b # bs)"
    unfolding be_val.simps mult_1 by (rule trans_le_add1)
  then show ?thesis
    using be_val_sig_bytes [of n] eq by simp
qed

lemma sig_bytes_length_mono:
  assumes "n \<le> m"
  shows "length (sig_bytes n) \<le> length (sig_bytes m)"
proof (rule ccontr)
  assume gt: "\<not> length (sig_bytes n) \<le> length (sig_bytes m)"
  then have "(256 :: nat) ^ length (sig_bytes m) \<le> 256 ^ (length (sig_bytes n) - 1)"
    by (intro power_increasing) auto
  also have "\<dots> \<le> unat n"
    using gt by (intro sig_bytes_lower) auto
  also have "\<dots> \<le> unat m"
    using assms by (simp add: word_le_nat_alt)
  also have "\<dots> < 256 ^ length (sig_bytes m)"
    using be_val_bound [of "sig_bytes m"] by simp
  finally show False by simp
qed

section \<open>The varint library and the contract of the encoding\<close>

locale varint_lib =
  fixes encV :: "64 word \<Rightarrow> bytes" and decV :: "bytes \<Rightarrow> 64 word \<times> nat"
  assumes encV_small: "unat x < 128 \<Longrightarrow> encV x = [word_of_nat (unat x)]"
    and decV_small: "unat b < 128 \<Longrightarrow> decV (b # bs) = (word_of_nat (unat b), 1)"

text \<open>
  A codec for keys: every value has an encoding, decoding reads back the value and how many
  bytes it took whatever follows, and encodings compare as the values.
\<close>

locale ordered_codec =
  fixes enc :: "'a :: linorder \<Rightarrow> bytes outcome" and dec :: "bytes \<Rightarrow> ('a \<times> nat) outcome"
  assumes enc_total: "\<exists>bs. enc x = Ok bs"
    and dec_enc: "enc x = Ok bs \<Longrightarrow> dec (bs @ rest) = Ok (x, length bs)"
    and enc_less: "enc x = Ok bx \<Longrightarrow> enc y = Ok by' \<Longrightarrow> x < y \<Longrightarrow> bytes_less (bx @ r) (by' @ s)"
begin

lemma enc_prefix_free:
  assumes "enc x = Ok bx" "enc y = Ok by'" "bx @ r = by' @ s"
  shows "x = y"
  using dec_enc [OF assms(1), of r] dec_enc [OF assms(2), of s] assms(3) by simp

lemma enc_less_iff:
  assumes "enc x = Ok bx" "enc y = Ok by'"
  shows "bytes_less (bx @ r) (by' @ s) \<longleftrightarrow> x < y \<or> (x = y \<and> bytes_less r s)"
proof (cases x y rule: linorder_cases)
  case less
  with assms show ?thesis by (simp add: enc_less)
next
  case equal
  with assms show ?thesis by simp
next
  case greater
  then have "bytes_less (by' @ s) (bx @ r)"
    using assms by (simp add: enc_less)
  then have "\<not> bytes_less (bx @ r) (by' @ s)"
    using bytes_less_trans bytes_less_irrefl by blast
  with greater show ?thesis by auto
qed

lemma enc_less_iff_simple:
  "enc x = Ok bx \<Longrightarrow> enc y = Ok by' \<Longrightarrow> bytes_less bx by' \<longleftrightarrow> x < y"
  using enc_less_iff [of x bx y by' "[]" "[]"] by simp

end

context varint_lib begin

lemma Encode_eq:
  "EncodeOrderPreservingVarUint64 encV n =
     Ok (word_of_nat (length (sig_bytes n)) # sig_bytes n)"
proof -
  let ?bs = "be_digits 8 (unat n)"
  obtain st sz where scan: "scan_nonzero 0 ?bs = (st, sz)" by fastforce
  note d = scan_nonzero_digits [OF scan]
  have "sz \<le> 8"
    using d(1) length_sig_bytes by simp
  then have "unat (word_of_nat sz :: 64 word) = sz"
    by (simp add: unat_of_nat)
  then have v: "encV (word_of_nat sz) = [word_of_nat sz]"
    using \<open>sz \<le> 8\<close> encV_small [of "word_of_nat sz"] by simp
  have "sz \<le> 8 - st"
    using d(1) arg_cong [OF d(3), of length] by simp
  then show ?thesis
    using d v [unfolded d(1)] by (simp add: EncodeOrderPreservingVarUint64_def scan v Let_def go_index_def
        go_update_def go_slice_def go_copy_at_def)
qed

lemma Decode_Encode:
  assumes "EncodeOrderPreservingVarUint64 encV n = Ok bs"
  shows "DecodeOrderPreservingVarUint64 decV (bs @ rest) = Ok (n, length bs)"
proof -
  let ?k = "length (sig_bytes n)"
  have k: "?k \<le> 8"
    by (rule length_sig_bytes)
  then have ub: "unat (word_of_nat ?k :: byte) = ?k" and uw: "unat (word_of_nat ?k :: 64 word) = ?k"
    by (simp_all add: unat_of_nat)
  have le: "\<not> (word_of_nat ?k :: 64 word) > 8"
    using k uw by (simp add: word_less_nat_alt)
  have "be_val (go_copy_at (replicate 8 0) (8 - ?k) (sig_bytes n)) = unat n"
    using k by (simp add: go_copy_at_def)
  moreover have "bs = word_of_nat ?k # sig_bytes n"
    using assms by (simp add: Encode_eq)
  ultimately show ?thesis
    using k ub uw le decV_small [of "word_of_nat ?k"]
    by (simp add: DecodeOrderPreservingVarUint64_def go_slice_def be_uint64_val)
qed

lemma Encode_less:
  assumes "EncodeOrderPreservingVarUint64 encV n = Ok bx"
    and "EncodeOrderPreservingVarUint64 encV m = Ok by'" and "n < m"
  shows "bytes_less (bx @ r) (by' @ s)"
proof -
  let ?k = "\<lambda>n. length (sig_bytes n)"
  have "?k n \<le> ?k m"
    using \<open>n < m\<close> by (intro sig_bytes_length_mono) simp
  then consider "?k n < ?k m" | "?k n = ?k m" by linarith
  then show ?thesis
  proof cases
    case 1
    then have "(word_of_nat (?k n) :: byte) < word_of_nat (?k m)"
      using length_sig_bytes [of n] length_sig_bytes [of m]
      by (simp add: word_less_nat_alt unat_of_nat)
    with assms show ?thesis by (auto simp: Encode_eq)
  next
    case 2
    have "bytes_less (sig_bytes n) (sig_bytes m)"
      using 2 \<open>n < m\<close> by (simp add: bytes_less_if_val_less word_less_nat_alt)
    with 2 have "bytes_less (sig_bytes n @ r) (sig_bytes m @ s)"
      by (simp add: bytes_less_append)
    with assms 2 show ?thesis by (auto simp: Encode_eq)
  qed
qed

end

sublocale varint_lib \<subseteq> opv: ordered_codec
  "EncodeOrderPreservingVarUint64 encV" "DecodeOrderPreservingVarUint64 decV"
  by unfold_locales (auto simp: Encode_eq Decode_Encode intro: Encode_less)

context varint_lib begin

lemmas Encode_less_iff = opv.enc_less_iff
lemmas Encode_prefix_free = opv.enc_prefix_free

end

subsection \<open>The protobuf base-128 encoding\<close>

text \<open>
  Base 128, least significant group first, the high bit of a byte set when another follows:
  the wire format protobuf documents. It shows that the laws of \<open>varint_lib\<close> can hold, and
  is the instance the witnesses compute with.
\<close>

fun varint_groups :: "nat \<Rightarrow> nat \<Rightarrow> bytes" where
  "varint_groups 0 n = []"
| "varint_groups (Suc k) n =
     (if n < 128 then [word_of_nat n]
      else word_of_nat (n mod 128 + 128) # varint_groups k (n div 128))"

definition pb_encode_varint :: "64 word \<Rightarrow> bytes" where
  "pb_encode_varint x = varint_groups 10 (unat x)"

fun varint_read :: "nat \<Rightarrow> nat \<Rightarrow> nat \<Rightarrow> bytes \<Rightarrow> 64 word \<times> nat" where
  "varint_read k shift acc [] = (0, 0)"
| "varint_read 0 shift acc (b # bs) = (0, 0)"
| "varint_read (Suc k) shift acc (b # bs) =
     (if unat b < 128 then (word_of_nat (acc + unat b * 2 ^ shift), 11 - Suc k)
      else varint_read k (shift + 7) (acc + (unat b - 128) * 2 ^ shift) bs)"

definition pb_decode_varint :: "bytes \<Rightarrow> 64 word \<times> nat" where
  "pb_decode_varint bs = varint_read 10 0 0 bs"

lemma varint_groups_small: "0 < k \<Longrightarrow> n < 128 \<Longrightarrow> varint_groups k n = [word_of_nat n]"
  by (cases k) auto

lemma varint_read_small:
  "unat b < 128 \<Longrightarrow> varint_read 10 0 0 (b # bs) = (word_of_nat (unat b), 1)"
  using varint_read.simps(3) [of 9 0 0 b bs] by simp

interpretation pbv: varint_lib pb_encode_varint pb_decode_varint
  by unfold_locales
    (simp_all add: pb_encode_varint_def pb_decode_varint_def varint_groups_small varint_read_small)

section \<open>Concatenation\<close>

text \<open>
  \<open>ConcatenateBytes\<close> allocates the result and writes byte by byte at \<open>i+last\<close>;
  \<open>concatenateBytes\<close> of \<open>internal/channel/util.go\<close> appends.
\<close>

fun write_bytes :: "bytes \<Rightarrow> nat \<Rightarrow> nat \<Rightarrow> bytes \<Rightarrow> bytes outcome" where
  "write_bytes result pos i [] = Ok result"
| "write_bytes result pos i (b # bs) =
     bind (go_update result (i + pos) b) (\<lambda>result'. write_bytes result' pos (Suc i) bs)"

fun concat_loop :: "bytes \<Rightarrow> nat \<Rightarrow> bytes list \<Rightarrow> bytes outcome" where
  "concat_loop result pos [] = Ok result"
| "concat_loop result pos (d # data) =
     bind (write_bytes result pos 0 d) (\<lambda>result'. concat_loop result' (pos + length d) data)"

definition ConcatenateBytes :: "bytes list \<Rightarrow> bytes outcome" where
  "ConcatenateBytes data =
     (let finalLength = foldl (\<lambda>n d. n + length d) 0 data
      in concat_loop (replicate finalLength 0) 0 data)"

definition concatenateBytes :: "bytes list \<Rightarrow> bytes" where
  "concatenateBytes data = foldl (\<lambda>res d. res @ d) [] data"

lemma write_bytes_eq:
  "i + pos = length pre \<Longrightarrow> length d \<le> length rest \<Longrightarrow>
   write_bytes (pre @ rest) pos i d = Ok (pre @ d @ drop (length d) rest)"
proof (induction d arbitrary: pre rest i)
  case (Cons b bs)
  then obtain r rs where r: "rest = r # rs"
    by (cases rest) auto
  with Cons.prems have "go_update (pre @ rest) (i + pos) b = Ok ((pre @ [b]) @ rs)"
    by (simp add: go_update_def list_update_append)
  moreover have "write_bytes ((pre @ [b]) @ rs) pos (Suc i) bs = Ok ((pre @ [b]) @ bs @ drop (length bs) rs)"
    using Cons.prems r by (intro Cons.IH) auto
  ultimately show ?case using r by simp
qed simp

lemma concat_loop_eq:
  "pos = length pre \<Longrightarrow> length (concat data) = length rest \<Longrightarrow>
   concat_loop (pre @ rest) pos data = Ok (pre @ concat data)"
proof (induction data arbitrary: pre rest pos)
  case (Cons d data)
  have "write_bytes (pre @ rest) pos 0 d = Ok ((pre @ d) @ drop (length d) rest)"
    using Cons.prems by (simp add: write_bytes_eq)
  moreover have "concat_loop ((pre @ d) @ drop (length d) rest) (pos + length d) data =
      Ok ((pre @ d) @ concat data)"
    using Cons.prems by (intro Cons.IH) auto
  ultimately show ?case by simp
qed simp

lemma foldl_length_sum: "foldl (\<lambda>n d. n + length d) k data = k + length (concat data)"
  by (induction data arbitrary: k) auto

lemma ConcatenateBytes_eq [simp]: "ConcatenateBytes data = Ok (concat data)"
  using concat_loop_eq [of 0 "[]" data "replicate (length (concat data)) 0"]
  by (simp add: ConcatenateBytes_def foldl_length_sum)

lemma concatenateBytes_eq [simp]: "concatenateBytes data = concat data"
proof -
  have "foldl (\<lambda>res d. res @ d) acc data = acc @ concat data" for acc :: bytes
    by (induction data arbitrary: acc) auto
  then show ?thesis by (simp add: concatenateBytes_def)
qed

section \<open>Hashes\<close>

text \<open>
  \<open>cryptoutil.Hash\<close> selects SHA-256 or SHA3-256 by name. The two digest functions are the
  parameters \<open>sha2\<close> and \<open>sha3\<close>; a \<open>hash.Hash\<close> is the bytes written so far.
\<close>

definition SHA2_256 :: string where "SHA2_256 = ''SHA256''"
definition SHA3_256 :: string where "SHA3_256 = ''SHA3_256''"

definition Hash :: "(bytes \<Rightarrow> bytes) \<Rightarrow> (bytes \<Rightarrow> bytes) \<Rightarrow> bytes \<Rightarrow> string \<Rightarrow> bytes outcome" where
  "Hash sha2 sha3 msg opt =
     (if opt = SHA2_256 then Ok (sha2 msg)
      else if opt = SHA3_256 then Ok (sha3 msg)
      else Err (ErrNew ''not support hash func''))"

definition ComputeSHA256 :: "(bytes \<Rightarrow> bytes) \<Rightarrow> (bytes \<Rightarrow> bytes) \<Rightarrow> bytes \<Rightarrow> bytes outcome" where
  "ComputeSHA256 sha2 sha3 data =
     (case Hash sha2 sha3 data SHA2_256 of
        Err e \<Rightarrow> Panic (PanicErr (Errorf ''Failed computing SHA256 on [% x]'' [ABytes data]))
      | r \<Rightarrow> r)"

definition ComputeSHA3256 :: "(bytes \<Rightarrow> bytes) \<Rightarrow> (bytes \<Rightarrow> bytes) \<Rightarrow> bytes \<Rightarrow> bytes outcome" where
  "ComputeSHA3256 sha2 sha3 data =
     (case Hash sha2 sha3 data SHA3_256 of
        Err e \<Rightarrow> Panic (PanicErr (Errorf ''Failed computing SHA3_256 on [% x]'' [ABytes data]))
      | r \<Rightarrow> r)"

definition ComputeHash :: "(bytes \<Rightarrow> bytes) \<Rightarrow> (bytes \<Rightarrow> bytes) \<Rightarrow> bytes \<Rightarrow> bytes outcome" where
  "ComputeHash sha2 sha3 input = ComputeSHA256 sha2 sha3 input"

definition ComputeStringHash :: "(bytes \<Rightarrow> bytes) \<Rightarrow> (bytes \<Rightarrow> bytes) \<Rightarrow> string \<Rightarrow> bytes outcome" where
  "ComputeStringHash sha2 sha3 input = ComputeHash sha2 sha3 (bytes_of_string input)"

lemma Hash_simps [simp]:
  "Hash sha2 sha3 msg SHA2_256 = Ok (sha2 msg)"
  "Hash sha2 sha3 msg SHA3_256 = Ok (sha3 msg)"
  by (simp_all add: Hash_def SHA2_256_def SHA3_256_def)

lemma ComputeHash_simps [simp]:
  "ComputeSHA256 sha2 sha3 data = Ok (sha2 data)"
  "ComputeSHA3256 sha2 sha3 data = Ok (sha3 data)"
  "ComputeHash sha2 sha3 data = Ok (sha2 data)"
  "ComputeStringHash sha2 sha3 s = Ok (sha2 (bytes_of_string s))"
  by (simp_all add: ComputeSHA256_def ComputeSHA3256_def ComputeHash_def ComputeStringHash_def)

section \<open>Properties\<close>

lemma Decode_bounds:
  assumes "DecodeOrderPreservingVarUint64 decV bs = Ok (n, k)"
  shows "1 \<le> k \<and> k \<le> 9 \<and> k \<le> length bs"
proof -
  obtain s m where d: "decV bs = (s, m)" by fastforce
  have "unat s \<le> 8" if "\<not> s > 8"
    using that by (simp add: word_less_nat_alt)
  then show ?thesis
    using assms
    by (auto simp: DecodeOrderPreservingVarUint64_def d go_slice_def Let_def split: if_splits)
qed

lemma Decode_no_panic: "\<not> is_panic (DecodeOrderPreservingVarUint64 decV bs)"
proof -
  obtain s m where "decV bs = (s, m)" by fastforce
  moreover have "\<not> int (length bs) - 1 < uint s \<Longrightarrow> Suc (unat s) \<le> length bs"
    unfolding uint_nat by linarith
  ultimately show ?thesis
    by (auto simp: DecodeOrderPreservingVarUint64_def go_slice_def Let_def)
qed

text \<open>C1. Decoding an encoded number gives back the number and the length of its encoding,
  whatever bytes follow it; the encoding always exists and has at least one and at most nine
  bytes. So a number can be embedded in a longer key.\<close>

theorem decode_encode_uint64:
  assumes "varint_lib encV decV"
  shows "\<exists>bs. EncodeOrderPreservingVarUint64 encV n = Ok bs \<and> 1 \<le> length bs \<and> length bs \<le> 9 \<and>
              DecodeOrderPreservingVarUint64 decV (bs @ rest) = Ok (n, length bs)"
  using varint_lib.Encode_eq [OF assms, of n] varint_lib.Decode_Encode [OF assms, of n _ rest]
    length_sig_bytes [of n]
  by auto

theorem decode_encode_uint64_witness:
  "EncodeOrderPreservingVarUint64 pb_encode_varint 258 = Ok [2, 1, 2] \<and>
   DecodeOrderPreservingVarUint64 pb_decode_varint [2, 1, 2, 7] = Ok (258, 3)"
proof -
  have enc: "EncodeOrderPreservingVarUint64 pb_encode_varint 258 = Ok [2, 1, 2]"
    by (simp add: pbv.Encode_eq sig_bytes_def be_digits_numeral)
  obtain bs where "EncodeOrderPreservingVarUint64 pb_encode_varint 258 = Ok bs"
    "DecodeOrderPreservingVarUint64 pb_decode_varint (bs @ [7]) = Ok (258, length bs)"
    using decode_encode_uint64 [OF pbv.varint_lib_axioms, of 258 "[7]"] by blast
  with enc show ?thesis by simp
qed

text \<open>Byte-wise comparison of two encodings, each followed by anything, is comparison of the
  numbers, and only equal numbers leave the decision to what follows.\<close>

lemma encode_uint64_order:
  assumes "varint_lib encV decV"
    and "EncodeOrderPreservingVarUint64 encV n = Ok bn"
    and "EncodeOrderPreservingVarUint64 encV m = Ok bm"
  shows "bytes_less (bn @ r) (bm @ s) \<longleftrightarrow> n < m \<or> (n = m \<and> bytes_less r s)"
  by (rule varint_lib.Encode_less_iff [OF assms])

theorem encode_uint64_order_witness:
  "EncodeOrderPreservingVarUint64 pb_encode_varint 258 = Ok [2, 1, 2] \<and>
   EncodeOrderPreservingVarUint64 pb_encode_varint 7 = Ok [1, 7] \<and>
   bytes_less ([1, 7] @ [255]) ([2, 1, 2] @ [0])"
proof -
  have a: "EncodeOrderPreservingVarUint64 pb_encode_varint 258 = Ok [2, 1, 2]"
    and b: "EncodeOrderPreservingVarUint64 pb_encode_varint 7 = Ok [1, 7]"
    by (simp_all add: pbv.Encode_eq sig_bytes_def be_digits_numeral)
  have "bytes_less ([1, 7] @ [255]) ([2, 1, 2] @ [0])"
    using encode_uint64_order [OF pbv.varint_lib_axioms b a, of "[255]" "[0]"] by simp
  with a b show ?thesis by blast
qed

text \<open>C2. Decoding never panics on any input, even with an arbitrary \<open>DecodeVarint\<close>: it returns an
  error or a number with a count between 1 and 9 that does not run past the input.\<close>

theorem decode_uint64_total:
  "case DecodeOrderPreservingVarUint64 decV bs of
     Ok (n, k) \<Rightarrow> 1 \<le> k \<and> k \<le> 9 \<and> k \<le> length bs
   | Err e \<Rightarrow> True
   | Panic p \<Rightarrow> False"
  using Decode_bounds [of decV bs] Decode_no_panic [of decV bs]
  by (auto split: outcome.splits prod.splits)

text \<open>The encoding is minimal: beside the length byte it has exactly as many bytes as the number
  needs in base 256 (none for 0).\<close>

lemma encode_uint64_minimal:
  assumes "varint_lib encV decV"
    and "EncodeOrderPreservingVarUint64 encV n = Ok bs"
  shows "unat n < 256 ^ (length bs - 1) \<and> (n = 0 \<or> 256 ^ (length bs - 2) \<le> unat n) \<and>
         (n = 0 \<longleftrightarrow> length bs = 1)"
proof -
  have bs: "length bs = Suc (length (sig_bytes n))"
    using varint_lib.Encode_eq [OF assms(1), of n] assms(2) by auto
  have "sig_bytes n = [] \<longleftrightarrow> n = 0"
    by (rule sig_bytes_empty_iff)
  with bs show ?thesis
    using sig_bytes_lower [of n] be_val_bound [of "sig_bytes n"] by auto
qed

theorem encode_uint64_minimal_witness:
  "EncodeOrderPreservingVarUint64 pb_encode_varint 258 = Ok [2, 1, 2] \<and>
   256 ^ 1 \<le> unat (258 :: 64 word) \<and> unat (258 :: 64 word) < 256 ^ 2"
proof -
  have a: "EncodeOrderPreservingVarUint64 pb_encode_varint 258 = Ok [2, 1, 2]"
    by (simp add: pbv.Encode_eq sig_bytes_def be_digits_numeral)
  then show ?thesis
    using encode_uint64_minimal [OF pbv.varint_lib_axioms a] by simp
qed

text \<open>The byte-by-byte \<open>ConcatenateBytes\<close> writes inside its buffer and returns exactly what the
  appending \<open>concatenateBytes\<close> of the channel package returns, the concatenation; so a
  signature made over one is checked over the other.\<close>

lemma concatenate_bytes_equivalent:
  "ConcatenateBytes data = Ok (concatenateBytes data) \<and> concatenateBytes data = concat data"
  by simp

end
