(* ===== verification/Height.thy ===== *)
theory Height
  imports OrderedCodec
begin

text \<open>
  \<open>internal/rwsetutil/version.go\<close>: the height of a transaction (block number, transaction
  number), its serialization as two order-preserving numbers, its comparison and equality.

  Heights are ordered lexicographically (\<open>instantiation\<close> of \<open>linorder\<close>); the serialization is
  an interpretation of \<open>ordered_codec\<close>, so serialized heights sort as heights do.
  \<open>Compare\<close> is modelled as written: the two numbers are subtracted at 64 bits and the
  difference is read as a signed \<open>int\<close> (64 bits wide on the platforms the SDK targets).
\<close>

record Height =
  BlockNum :: "64 word"
  TxNum :: "64 word"

instantiation Height_ext :: (linorder) linorder
begin

definition less_eq_Height_ext :: "'a Height_scheme \<Rightarrow> 'a Height_scheme \<Rightarrow> bool" where
  "less_eq_Height_ext h k \<longleftrightarrow>
     BlockNum h < BlockNum k \<or>
     (BlockNum h = BlockNum k \<and> (TxNum h < TxNum k \<or>
        (TxNum h = TxNum k \<and> Height.more h \<le> Height.more k)))"

definition less_Height_ext :: "'a Height_scheme \<Rightarrow> 'a Height_scheme \<Rightarrow> bool" where
  "less_Height_ext h k \<longleftrightarrow>
     BlockNum h < BlockNum k \<or>
     (BlockNum h = BlockNum k \<and> (TxNum h < TxNum k \<or>
        (TxNum h = TxNum k \<and> Height.more h < Height.more k)))"

instance
  by standard (auto simp: less_eq_Height_ext_def less_Height_ext_def intro: Height.equality)

end

lemma Height_less_iff:
  "(h :: Height) < k \<longleftrightarrow> BlockNum h < BlockNum k \<or> (BlockNum h = BlockNum k \<and> TxNum h < TxNum k)"
  by (simp add: less_Height_ext_def)

section \<open>Operations\<close>

definition NewHeight :: "64 word \<Rightarrow> 64 word \<Rightarrow> Height" where
  "NewHeight blockNum txNum = \<lparr>BlockNum = blockNum, TxNum = txNum\<rparr>"

definition NewHeightFromBytes :: "(bytes \<Rightarrow> 64 word \<times> nat) \<Rightarrow> bytes \<Rightarrow> (Height \<times> nat) outcome" where
  "NewHeightFromBytes decV b =
     bind (DecodeOrderPreservingVarUint64 decV b) (\<lambda>(blockNum, n1).
     bind (go_slice b n1 (length b)) (\<lambda>rest.
     bind (DecodeOrderPreservingVarUint64 decV rest) (\<lambda>(txNum, n2).
     Ok (NewHeight blockNum txNum, n1 + n2))))"

definition ToBytes :: "(64 word \<Rightarrow> bytes) \<Rightarrow> Height \<Rightarrow> bytes outcome" where
  "ToBytes encV h =
     bind (EncodeOrderPreservingVarUint64 encV (BlockNum h)) (\<lambda>blockNumBytes.
     bind (EncodeOrderPreservingVarUint64 encV (TxNum h)) (\<lambda>txNumBytes.
     Ok (blockNumBytes @ txNumBytes)))"

definition Compare :: "Height \<Rightarrow> Height \<Rightarrow> int" where
  "Compare h h1 =
     (if BlockNum h \<noteq> BlockNum h1 then
        (let res = sint (BlockNum h - BlockNum h1) in if res > 0 then 1 else -1)
      else if TxNum h \<noteq> TxNum h1 then
        (let res = sint (TxNum h - TxNum h1) in if res > 0 then 1 else -1)
      else 0)"

definition AreSame :: "Height option \<Rightarrow> Height option \<Rightarrow> bool" where
  "AreSame h1 h2 =
     (case h1 of
        None \<Rightarrow> h2 = None
      | Some a \<Rightarrow> (case h2 of None \<Rightarrow> False | Some b \<Rightarrow> Compare a b = 0))"

section \<open>Serialization\<close>

context varint_lib begin

lemma ToBytes_total: "\<exists>bs. ToBytes encV h = Ok bs"
  by (simp add: ToBytes_def Encode_eq)

lemma NewHeightFromBytes_ToBytes:
  assumes "ToBytes encV h = Ok bs"
  shows "NewHeightFromBytes decV (bs @ rest) = Ok (h, length bs)"
proof -
  obtain bb bt where b: "EncodeOrderPreservingVarUint64 encV (BlockNum h) = Ok bb"
    and t: "EncodeOrderPreservingVarUint64 encV (TxNum h) = Ok bt" and bs: "bs = bb @ bt"
    using assms by (auto simp: ToBytes_def)
  have "DecodeOrderPreservingVarUint64 decV (bb @ bt @ rest) = Ok (BlockNum h, length bb)"
    using opv.dec_enc [OF b] .
  moreover have "DecodeOrderPreservingVarUint64 decV (bt @ rest) = Ok (TxNum h, length bt)"
    using opv.dec_enc [OF t] .
  ultimately show ?thesis
    by (simp add: NewHeightFromBytes_def NewHeight_def bs go_slice_def)
qed

lemma ToBytes_less:
  assumes "ToBytes encV h = Ok bx" and "ToBytes encV k = Ok by'" and "h < k"
  shows "bytes_less (bx @ r) (by' @ s)"
  using assms by (auto simp: ToBytes_def Height_less_iff opv.enc_less_iff)

end

sublocale varint_lib \<subseteq> height: ordered_codec "ToBytes encV" "NewHeightFromBytes decV"
  by unfold_locales (auto simp: ToBytes_total NewHeightFromBytes_ToBytes intro: ToBytes_less)

context varint_lib begin

lemmas ToBytes_less_iff = height.enc_less_iff_simple

end

lemma NewHeightFromBytes_no_panic: "\<not> is_panic (NewHeightFromBytes decV b)"
  using Decode_no_panic [of decV] Decode_bounds [of decV b]
  by (auto simp: NewHeightFromBytes_def go_slice_def split: prod.splits)

section \<open>Comparison\<close>

lemma Compare_eq_0 [simp]: "Compare h k = 0 \<longleftrightarrow> BlockNum h = BlockNum k \<and> TxNum h = TxNum k"
  by (auto simp: Compare_def Let_def)

definition Compare_spec :: "Height \<Rightarrow> Height \<Rightarrow> int" where
  "Compare_spec h k = (if h < k then -1 else if h = k then 0 else 1)"

text \<open>The distances for which a 64-bit difference has the sign of the comparison.\<close>

definition diff_in_range :: "64 word \<Rightarrow> 64 word \<Rightarrow> bool" where
  "diff_in_range a b \<longleftrightarrow>
     (if b < a then unat a - unat b < 2 ^ 63 else unat b - unat a \<le> 2 ^ 63)"

lemma sint_diff_sign: "a \<noteq> b \<Longrightarrow> (0 < sint (a - b) \<longleftrightarrow> b < a) \<longleftrightarrow> diff_in_range a b"
  by (cases a b rule: linorder_cases) (auto simp: sint_diff_pos diff_in_range_def)

section \<open>Properties\<close>

text \<open>A serialized height reads back as the same height with the number of bytes it took,
  whatever follows it in the key.\<close>

lemma height_roundtrip:
  assumes "varint_lib encV decV"
  shows "\<exists>bs. ToBytes encV h = Ok bs \<and> NewHeightFromBytes decV (bs @ rest) = Ok (h, length bs)"
  using varint_lib.ToBytes_total [OF assms, of h]
    varint_lib.NewHeightFromBytes_ToBytes [OF assms, of h _ rest]
  by blast

theorem height_roundtrip_witness:
  "\<exists>bs. ToBytes pb_encode_varint \<lparr>BlockNum = 300, TxNum = 0\<rparr> = Ok bs \<and>
        NewHeightFromBytes pb_decode_varint (bs @ [1, 2]) =
          Ok (\<lparr>BlockNum = 300, TxNum = 0\<rparr>, length bs)"
  by (rule height_roundtrip [OF pbv.varint_lib_axioms])

text \<open>Serialized heights compare byte-wise as heights compare lexicographically, block number
  first: the ledger iterates in commit order.\<close>

lemma height_bytes_order:
  assumes "varint_lib encV decV"
    and "ToBytes encV h = Ok bh" and "ToBytes encV k = Ok bk"
  shows "bytes_less bh bk \<longleftrightarrow> h < k"
  by (rule varint_lib.ToBytes_less_iff [OF assms])

theorem height_bytes_order_witness:
  "ToBytes pb_encode_varint \<lparr>BlockNum = 7, TxNum = 300\<rparr> = Ok [1, 7, 2, 1, 44] \<and>
   ToBytes pb_encode_varint \<lparr>BlockNum = 258, TxNum = 0\<rparr> = Ok [2, 1, 2, 0] \<and>
   bytes_less [1, 7, 2, 1, 44] [2, 1, 2, 0]"
proof -
  have a: "ToBytes pb_encode_varint \<lparr>BlockNum = 7, TxNum = 300\<rparr> = Ok [1, 7, 2, 1, 44]"
    and b: "ToBytes pb_encode_varint \<lparr>BlockNum = 258, TxNum = 0\<rparr> = Ok [2, 1, 2, 0]"
    by (simp_all add: ToBytes_def pbv.Encode_eq sig_bytes_def be_digits_numeral)
  have "\<lparr>BlockNum = 7, TxNum = 300\<rparr> < (\<lparr>BlockNum = 258, TxNum = 0\<rparr> :: Height)"
    by (simp add: Height_less_iff)
  then show ?thesis
    using a b height_bytes_order [OF pbv.varint_lib_axioms a b] by blast
qed

text \<open>C15. \<open>Compare\<close> gives the documented sign exactly when the first differing number differs by
  less than \<open>2^63\<close> (at most \<open>2^63\<close> when it is smaller): the unsigned difference wraps before
  it is read as a signed integer.\<close>

theorem compare_exact:
  "Compare h k = Compare_spec h k \<longleftrightarrow>
     (if BlockNum h \<noteq> BlockNum k then diff_in_range (BlockNum h) (BlockNum k)
      else diff_in_range (TxNum h) (TxNum k))"
proof -
  have spec: "Compare_spec h k =
      (if BlockNum h \<noteq> BlockNum k then (if BlockNum k < BlockNum h then 1 else -1)
       else if TxNum h \<noteq> TxNum k then (if TxNum k < TxNum h then 1 else -1) else 0)"
    by (auto simp: Compare_spec_def Height_less_iff intro: Height.equality)
  show ?thesis
    using sint_diff_sign [of "BlockNum h" "BlockNum k"] sint_diff_sign [of "TxNum h" "TxNum k"]
    by (auto simp: spec Compare_def diff_in_range_def split: if_splits)
qed

text \<open>\<open>AreSame\<close> decides equality of heights, nil included, and so is not affected by the
  wrap-around of \<open>Compare\<close>.\<close>

lemma are_same_iff_equal: "AreSame h1 h2 \<longleftrightarrow> h1 = h2"
  by (cases h1; cases h2) (auto simp: AreSame_def intro: Height.equality)

text \<open>Reading a height from arbitrary bytes never panics: it fails with an error or consumes
  between 2 and 18 bytes of the input.\<close>

lemma height_from_bytes_total:
  "case NewHeightFromBytes decV b of
     Ok (h, k) \<Rightarrow> 2 \<le> k \<and> k \<le> 18 \<and> k \<le> length b
   | Err e \<Rightarrow> True
   | Panic p \<Rightarrow> False"
proof (cases "NewHeightFromBytes decV b")
  case (Ok r)
  then obtain bn n1 tn n2 where
    "DecodeOrderPreservingVarUint64 decV b = Ok (bn, n1)"
    and rest: "DecodeOrderPreservingVarUint64 decV (drop n1 b) = Ok (tn, n2)"
    and "r = (NewHeight bn tn, n1 + n2)"
    by (auto simp: NewHeightFromBytes_def go_slice_def split: if_splits)
  then show ?thesis
    using Ok Decode_bounds [of decV b bn n1] Decode_bounds [OF rest] by auto
next
  case (Panic p)
  then show ?thesis
    using NewHeightFromBytes_no_panic [of decV b] by simp
qed simp

end
