(* ===== verification/Codec.thy ===== *)
theory Codec
  imports Prelude
begin

text \<open>
  \<open>proto.Marshal\<close> and \<open>proto.Unmarshal\<close> as the code uses them: a \<open>codec\<close> is a parameter of the
  model for each message type, and \<open>codec_laws\<close> is what protobuf documents of the pair. The
  \<open>table_codec\<close> of a list of messages is a concrete codec that keeps the laws, so that every
  theorem that assumes them can be applied to concrete messages.
\<close>

section \<open>Codecs and their laws\<close>

text \<open>\<open>Marshal\<close> takes a pointer, which may be nil; \<open>Unmarshal\<close> returns the message as it is after
  the call beside the error.\<close>

record 'm codec =
  Marshal :: "'m option \<Rightarrow> bytes ret"
  Unmarshal :: "bytes \<Rightarrow> 'm ret"

text \<open>
  What protobuf promises: reading back a message that was marshalled gives that message, and
  marshalling a nil pointer is an error. A slice that is empty but not nil comes back as a nil
  slice: \<open>norm m\<close> is the message \<open>m\<close> with such slices made nil. The promise is made of the
  messages that are \<open>ok\<close>, for instance because they have no nil element in a list of messages.
  \<open>codec_laws\<close> is the case of messages that come back as they are.
\<close>

definition codec_norm :: "('m \<Rightarrow> bool) \<Rightarrow> ('m \<Rightarrow> 'm) \<Rightarrow> 'm codec \<Rightarrow> bool" where
  "codec_norm ok norm c \<longleftrightarrow>
     (\<forall>m b. ok m \<longrightarrow> Marshal c (Some m) = (b, None) \<longrightarrow> Unmarshal c b = (norm m, None)) \<and>
     (\<forall>b. Marshal c None \<noteq> (b, None))"

definition codec_laws :: "('m \<Rightarrow> bool) \<Rightarrow> 'm codec \<Rightarrow> bool" where
  "codec_laws ok c = codec_norm ok (\<lambda>m. m) c"

definition opt_ok :: "('a \<Rightarrow> bool) \<Rightarrow> 'a option \<Rightarrow> bool" where
  "opt_ok ok p = (case p of None \<Rightarrow> True | Some x \<Rightarrow> ok x)"

fun norm_slice :: "slice \<Rightarrow> slice" where
  "norm_slice (Some []) = None"
| "norm_slice s = s"

definition normal_slice :: "slice \<Rightarrow> bool" where
  "normal_slice s \<longleftrightarrow> s \<noteq> Some []"

lemma slice_bytes_norm [simp]: "slice_bytes (norm_slice s) = slice_bytes s"
  by (cases s rule: norm_slice.cases) auto

lemma codec_norm_read:
  "codec_norm ok norm c \<Longrightarrow> Marshal c (Some m) = (b, None) \<Longrightarrow> ok m \<Longrightarrow> Unmarshal c b = (norm m, None)"
  by (simp add: codec_norm_def)

lemma codec_roundtrip:
  "codec_laws ok c \<Longrightarrow> Marshal c (Some m) = (b, None) \<Longrightarrow> ok m \<Longrightarrow> Unmarshal c b = (m, None)"
  by (simp add: codec_laws_def codec_norm_def)

lemma codec_marshal_Some:
  "codec_laws ok c \<Longrightarrow> Marshal c p = (b, None) \<Longrightarrow> \<exists>m. p = Some m"
  by (cases p) (auto simp: codec_laws_def codec_norm_def)

lemma opt_ok_simps [simp]: "opt_ok ok None" "opt_ok ok (Some x) = ok x"
  by (simp_all add: opt_ok_def)

lemma codec_opt:
  "codec_laws ok c \<Longrightarrow> opt_ok ok p \<Longrightarrow> Marshal c p = (b, None) \<Longrightarrow>
     \<exists>m. p = Some m \<and> Unmarshal c b = (m, None)"
  using codec_marshal_Some[of ok c p b] codec_roundtrip[of ok c _ b] by auto

section \<open>A codec that keeps the laws\<close>

fun index_of :: "'a list \<Rightarrow> 'a \<Rightarrow> nat option" where
  "index_of [] x = None"
| "index_of (y # ys) x = (if y = x then Some 0 else map_option Suc (index_of ys x))"

definition table_codec :: "'m list \<Rightarrow> 'm codec" where
  "table_codec ms =
     \<lparr>Marshal = (\<lambda>p. case p of
          None \<Rightarrow> ([], Some (ErrExt ''proto: Marshal called with nil''))
        | Some m \<Rightarrow> (case index_of ms m of
              None \<Rightarrow> ([], Some (ErrExt ''proto: cannot encode''))
            | Some i \<Rightarrow> (replicate (Suc i) 0, None))),
      Unmarshal = (\<lambda>b. if b \<noteq> [] \<and> length b \<le> length ms
                       then (ms ! (length b - 1), None) else (hd ms, Some (ErrExt ''unexpected EOF'')))\<rparr>"

lemma index_of_Some: "index_of ms m = Some i \<Longrightarrow> i < length ms \<and> ms ! i = m"
  by (induction ms arbitrary: i) (auto split: if_splits)

lemma table_codec_norm:
  "list_all (\<lambda>m. norm m = m) ms \<Longrightarrow> codec_norm ok norm (table_codec ms)"
  by (auto simp: codec_norm_def table_codec_def list_all_iff dest!: index_of_Some split: option.splits)

lemma table_codec_laws [simp]: "codec_laws ok (table_codec ms)"
  unfolding codec_laws_def by (rule table_codec_norm) (simp add: list_all_iff)

lemma table_codec_simps:
  "Marshal (table_codec ms) (Some m) =
     (case index_of ms m of None \<Rightarrow> ([], Some (ErrExt ''proto: cannot encode''))
      | Some i \<Rightarrow> (replicate (Suc i) 0, None))"
  "Marshal (table_codec ms) None = ([], Some (ErrExt ''proto: Marshal called with nil''))"
  "Unmarshal (table_codec ms) b =
     (if b \<noteq> [] \<and> length b \<le> length ms then (ms ! (length b - 1), None)
      else (hd ms, Some (ErrExt ''unexpected EOF'')))"
  by (simp_all add: table_codec_def)

end
