(* ===== verification/RwSet.thy ===== *)
theory RwSet
  imports Height Codec
begin

text \<open>
  \<open>internal/rwsetutil/rw_util.go\<close>: public and private read-write sets, their conversion to and
  from the protobuf messages of \<open>fabric-protos-go/ledger/rwset\<close>, and the small constructors of
  reads, writes and their hashes.

  A \<open>[]*T\<close> is a list of \<open>option\<close>s, because a nil element panics where the code reads a field
  of it. \<open>kvrwset.KVRWSet\<close> and \<open>kvrwset.HashedRWSet\<close> are never opened by this code and are the
  type variables \<open>'kv\<close> and \<open>'h\<close>. \<open>proto.Marshal\<close> and \<open>proto.Unmarshal\<close> are a \<open>codec\<close> per
  message type, parameters collected in the record \<open>rwpb\<close>.
\<close>

section \<open>Data\<close>

record 'h CollHashedRwSet =
  chr_CollectionName :: string
  chr_HashedRwSet :: "'h option"
  chr_PvtRwSetHash :: slice

record ('kv, 'h) NsRwSet =
  ns_NameSpace :: string
  ns_KvRwSet :: "'kv option"
  ns_CollHashedRwSets :: "'h CollHashedRwSet option list"

record ('kv, 'h) TxRwSet =
  NsRwSets :: "('kv, 'h) NsRwSet option list"

record 'kv CollPvtRwSet =
  cpr_CollectionName :: string
  cpr_KvRwSet :: "'kv option"

record 'kv NsPvtRwSet =
  np_NameSpace :: string
  np_CollPvtRwSets :: "'kv CollPvtRwSet option list"

record 'kv TxPvtRwSet =
  NsPvtRwSets :: "'kv NsPvtRwSet option list"

text \<open>The protobuf messages, with the fields this code reads and writes.\<close>

record CollectionHashedReadWriteSet =
  pch_CollectionName :: string
  pch_HashedRwset :: bytes
  pch_PvtRwsetHash :: slice

record NsReadWriteSet =
  pns_Namespace :: string
  pns_Rwset :: bytes
  pns_CollectionHashedRwset :: "CollectionHashedReadWriteSet option list"

datatype DataModel = TxReadWriteSet_KV

record TxReadWriteSet =
  ptx_DataModel :: DataModel
  ptx_NsRwset :: "NsReadWriteSet option list"

record CollectionPvtReadWriteSet =
  pcp_CollectionName :: string
  pcp_Rwset :: bytes

record NsPvtReadWriteSet =
  pnp_Namespace :: string
  pnp_CollectionPvtRwset :: "CollectionPvtReadWriteSet option list"

record TxPvtReadWriteSet =
  ptp_DataModel :: DataModel
  ptp_NsPvtRwset :: "NsPvtReadWriteSet option list"

record ('kv, 'h) rwpb =
  rw_KVRWSet :: "'kv codec"
  rw_HashedRWSet :: "'h codec"
  rw_TxReadWriteSet :: "TxReadWriteSet codec"
  rw_TxPvtReadWriteSet :: "TxPvtReadWriteSet codec"

section \<open>Lookup\<close>

fun coll_loop :: "'h CollHashedRwSet option list \<Rightarrow> string \<Rightarrow> slice outcome" where
  "coll_loop [] coll = Ok None"
| "coll_loop (p # ps) coll =
     bind (deref p) (\<lambda>c. if chr_CollectionName c \<noteq> coll then coll_loop ps coll
                         else Ok (chr_PvtRwSetHash c))"

definition getPvtDataHash :: "('kv, 'h) NsRwSet \<Rightarrow> string \<Rightarrow> slice outcome" where
  "getPvtDataHash nsRwSet coll = coll_loop (ns_CollHashedRwSets nsRwSet) coll"

fun ns_loop :: "('kv, 'h) NsRwSet option list \<Rightarrow> string \<Rightarrow> string \<Rightarrow> slice outcome" where
  "ns_loop [] ns coll = Ok None"
| "ns_loop (p # ps) ns coll =
     bind (deref p) (\<lambda>nsRwSet. if ns_NameSpace nsRwSet \<noteq> ns then ns_loop ps ns coll
                               else getPvtDataHash nsRwSet coll)"

definition GetPvtDataHash :: "('kv, 'h) TxRwSet \<Rightarrow> string \<Rightarrow> string \<Rightarrow> slice outcome" where
  "GetPvtDataHash txRwSet ns coll = ns_loop (NsRwSets txRwSet) ns coll"

text \<open>\<open>NumCollections\<close> on a nil receiver is 0; a nil namespace panics.\<close>

fun num_colls_loop :: "('kv, 'h) NsRwSet option list \<Rightarrow> nat \<Rightarrow> nat outcome" where
  "num_colls_loop [] n = Ok n"
| "num_colls_loop (p # ps) n =
     bind (deref p) (\<lambda>nsRwset. num_colls_loop ps (n + length (ns_CollHashedRwSets nsRwset)))"

definition NumCollections :: "('kv, 'h) TxRwSet option \<Rightarrow> nat outcome" where
  "NumCollections txRwSet =
     (case txRwSet of None \<Rightarrow> Ok 0 | Some tx \<Rightarrow> num_colls_loop (NsRwSets tx) 0)"

section \<open>Conversion of public sets\<close>

definition collHashed_toProtoMsg ::
    "('kv, 'h) rwpb \<Rightarrow> 'h CollHashedRwSet option \<Rightarrow> CollectionHashedReadWriteSet option outcome" where
  "collHashed_toProtoMsg R p =
     bind (deref p) (\<lambda>c.
     bind (check (Marshal (rw_HashedRWSet R) (chr_HashedRwSet c))) (\<lambda>b.
     Ok (Some \<lparr>pch_CollectionName = chr_CollectionName c, pch_HashedRwset = b,
               pch_PvtRwsetHash = chr_PvtRwSetHash c\<rparr>)))"

definition collHashedRwSetFromProtoMsg ::
    "('kv, 'h) rwpb \<Rightarrow> CollectionHashedReadWriteSet option \<Rightarrow> 'h CollHashedRwSet option outcome" where
  "collHashedRwSetFromProtoMsg R p =
     bind (deref p) (\<lambda>m.
     bind (check (Unmarshal (rw_HashedRWSet R) (pch_HashedRwset m))) (\<lambda>h.
     Ok (Some \<lparr>chr_CollectionName = pch_CollectionName m, chr_HashedRwSet = Some h,
               chr_PvtRwSetHash = pch_PvtRwsetHash m\<rparr>)))"

definition nsRwSet_toProtoMsg ::
    "('kv, 'h) rwpb \<Rightarrow> ('kv, 'h) NsRwSet option \<Rightarrow> NsReadWriteSet option outcome" where
  "nsRwSet_toProtoMsg R p =
     bind (deref p) (\<lambda>n.
     bind (check (Marshal (rw_KVRWSet R) (ns_KvRwSet n))) (\<lambda>b.
     bind (map_outcome (collHashed_toProtoMsg R) (ns_CollHashedRwSets n)) (\<lambda>cs.
     Ok (Some \<lparr>pns_Namespace = ns_NameSpace n, pns_Rwset = b, pns_CollectionHashedRwset = cs\<rparr>))))"

definition nsRwSetFromProtoMsg ::
    "('kv, 'h) rwpb \<Rightarrow> NsReadWriteSet option \<Rightarrow> ('kv, 'h) NsRwSet option outcome" where
  "nsRwSetFromProtoMsg R p =
     bind (deref p) (\<lambda>m.
     bind (check (Unmarshal (rw_KVRWSet R) (pns_Rwset m))) (\<lambda>kv.
     bind (map_outcome (collHashedRwSetFromProtoMsg R) (pns_CollectionHashedRwset m)) (\<lambda>cs.
     Ok (Some \<lparr>ns_NameSpace = pns_Namespace m, ns_KvRwSet = Some kv, ns_CollHashedRwSets = cs\<rparr>))))"

definition txRwSet_toProtoMsg ::
    "('kv, 'h) rwpb \<Rightarrow> ('kv, 'h) TxRwSet \<Rightarrow> TxReadWriteSet outcome" where
  "txRwSet_toProtoMsg R tx =
     bind (map_outcome (nsRwSet_toProtoMsg R) (NsRwSets tx)) (\<lambda>ns.
     Ok \<lparr>ptx_DataModel = TxReadWriteSet_KV, ptx_NsRwset = ns\<rparr>)"

definition TxRwSetFromProtoMsg ::
    "('kv, 'h) rwpb \<Rightarrow> TxReadWriteSet \<Rightarrow> ('kv, 'h) TxRwSet outcome" where
  "TxRwSetFromProtoMsg R m =
     bind (map_outcome (nsRwSetFromProtoMsg R) (ptx_NsRwset m)) (\<lambda>ns. Ok \<lparr>NsRwSets = ns\<rparr>)"

definition ToProtoBytes :: "('kv, 'h) rwpb \<Rightarrow> ('kv, 'h) TxRwSet \<Rightarrow> bytes outcome" where
  "ToProtoBytes R tx =
     bind (txRwSet_toProtoMsg R tx) (\<lambda>m. check (Marshal (rw_TxReadWriteSet R) (Some m)))"

text \<open>\<open>FromProtoBytes\<close> fills its receiver; the model returns the receiver after the call and the
  result.\<close>

definition FromProtoBytes ::
    "('kv, 'h) rwpb \<Rightarrow> ('kv, 'h) TxRwSet \<Rightarrow> bytes \<Rightarrow> ('kv, 'h) TxRwSet \<times> unit outcome" where
  "FromProtoBytes R txRwSet protoBytes =
     (case bind (check (Unmarshal (rw_TxReadWriteSet R) protoBytes)) (TxRwSetFromProtoMsg R) of
        Ok t \<Rightarrow> (txRwSet\<lparr>NsRwSets := NsRwSets t\<rparr>, Ok ())
      | Err e \<Rightarrow> (txRwSet, Err e)
      | Panic p \<Rightarrow> (txRwSet, Panic p))"

definition ProtoUnmarshal :: "('kv, 'h) rwpb \<Rightarrow> bytes \<Rightarrow> ('kv, 'h) TxRwSet outcome" where
  "ProtoUnmarshal R data =
     (let (txrwSet, r) = FromProtoBytes R \<lparr>NsRwSets = []\<rparr> data in bind r (\<lambda>_. Ok txrwSet))"

section \<open>Conversion of private sets\<close>

definition collPvtRwSet_toProtoMsg ::
    "('kv, 'h) rwpb \<Rightarrow> 'kv CollPvtRwSet option \<Rightarrow> CollectionPvtReadWriteSet option outcome" where
  "collPvtRwSet_toProtoMsg R p =
     bind (deref p) (\<lambda>c.
     bind (check (Marshal (rw_KVRWSet R) (cpr_KvRwSet c))) (\<lambda>b.
     Ok (Some \<lparr>pcp_CollectionName = cpr_CollectionName c, pcp_Rwset = b\<rparr>)))"

definition collPvtRwSetFromProtoMsg ::
    "('kv, 'h) rwpb \<Rightarrow> CollectionPvtReadWriteSet option \<Rightarrow> 'kv CollPvtRwSet option outcome" where
  "collPvtRwSetFromProtoMsg R p =
     bind (deref p) (\<lambda>m.
     bind (check (Unmarshal (rw_KVRWSet R) (pcp_Rwset m))) (\<lambda>kv.
     Ok (Some \<lparr>cpr_CollectionName = pcp_CollectionName m, cpr_KvRwSet = Some kv\<rparr>)))"

definition nsPvtRwSet_toProtoMsg ::
    "('kv, 'h) rwpb \<Rightarrow> 'kv NsPvtRwSet option \<Rightarrow> NsPvtReadWriteSet option outcome" where
  "nsPvtRwSet_toProtoMsg R p =
     bind (deref p) (\<lambda>n.
     bind (map_outcome (collPvtRwSet_toProtoMsg R) (np_CollPvtRwSets n)) (\<lambda>cs.
     Ok (Some \<lparr>pnp_Namespace = np_NameSpace n, pnp_CollectionPvtRwset = cs\<rparr>)))"

definition nsPvtRwSetFromProtoMsg ::
    "('kv, 'h) rwpb \<Rightarrow> NsPvtReadWriteSet option \<Rightarrow> 'kv NsPvtRwSet option outcome" where
  "nsPvtRwSetFromProtoMsg R p =
     bind (deref p) (\<lambda>m.
     bind (map_outcome (collPvtRwSetFromProtoMsg R) (pnp_CollectionPvtRwset m)) (\<lambda>cs.
     Ok (Some \<lparr>np_NameSpace = pnp_Namespace m, np_CollPvtRwSets = cs\<rparr>)))"

definition txPvtRwSet_toProtoMsg ::
    "('kv, 'h) rwpb \<Rightarrow> 'kv TxPvtRwSet \<Rightarrow> TxPvtReadWriteSet outcome" where
  "txPvtRwSet_toProtoMsg R tx =
     bind (map_outcome (nsPvtRwSet_toProtoMsg R) (NsPvtRwSets tx)) (\<lambda>ns.
     Ok \<lparr>ptp_DataModel = TxReadWriteSet_KV, ptp_NsPvtRwset = ns\<rparr>)"

definition TxPvtRwSetFromProtoMsg ::
    "('kv, 'h) rwpb \<Rightarrow> TxPvtReadWriteSet \<Rightarrow> 'kv TxPvtRwSet outcome" where
  "TxPvtRwSetFromProtoMsg R m =
     bind (map_outcome (nsPvtRwSetFromProtoMsg R) (ptp_NsPvtRwset m)) (\<lambda>ns.
     Ok \<lparr>NsPvtRwSets = ns\<rparr>)"

definition pvt_ToProtoBytes :: "('kv, 'h) rwpb \<Rightarrow> 'kv TxPvtRwSet \<Rightarrow> bytes outcome" where
  "pvt_ToProtoBytes R tx =
     bind (txPvtRwSet_toProtoMsg R tx) (\<lambda>m. check (Marshal (rw_TxPvtReadWriteSet R) (Some m)))"

definition pvt_FromProtoBytes ::
    "('kv, 'h) rwpb \<Rightarrow> 'kv TxPvtRwSet \<Rightarrow> bytes \<Rightarrow> 'kv TxPvtRwSet \<times> unit outcome" where
  "pvt_FromProtoBytes R txPvtRwSet protoBytes =
     (case bind (check (Unmarshal (rw_TxPvtReadWriteSet R) protoBytes)) (TxPvtRwSetFromProtoMsg R) of
        Ok t \<Rightarrow> (txPvtRwSet\<lparr>NsPvtRwSets := NsPvtRwSets t\<rparr>, Ok ())
      | Err e \<Rightarrow> (txPvtRwSet, Err e)
      | Panic p \<Rightarrow> (txPvtRwSet, Panic p))"

section \<open>Reads, writes and their hashes\<close>

record Version =
  ver_BlockNum :: "64 word"
  ver_TxNum :: "64 word"

record KVRead =
  kvr_Key :: string
  kvr_Version :: "Version option"

record KVWrite =
  kvw_Key :: string
  kvw_IsDelete :: bool
  kvw_Value :: slice

record KVReadHash =
  krh_KeyHash :: slice
  krh_Version :: "Version option"

record KVWriteHash =
  kwh_KeyHash :: slice
  kwh_IsDelete :: bool
  kwh_ValueHash :: slice

fun NewVersion :: "Version option \<Rightarrow> Height option" where
  "NewVersion None = None"
| "NewVersion (Some v) = Some (NewHeight (ver_BlockNum v) (ver_TxNum v))"

fun newProtoVersion :: "Height option \<Rightarrow> Version option" where
  "newProtoVersion None = None"
| "newProtoVersion (Some h) = Some \<lparr>ver_BlockNum = BlockNum h, ver_TxNum = TxNum h\<rparr>"

definition NewKVRead :: "string \<Rightarrow> Height option \<Rightarrow> KVRead" where
  "NewKVRead key version = \<lparr>kvr_Key = key, kvr_Version = newProtoVersion version\<rparr>"

definition newKVWrite :: "string \<Rightarrow> slice \<Rightarrow> KVWrite" where
  "newKVWrite key val = \<lparr>kvw_Key = key, kvw_IsDelete = (val = None), kvw_Value = val\<rparr>"

definition newPvtKVReadHash ::
    "(bytes \<Rightarrow> bytes) \<Rightarrow> (bytes \<Rightarrow> bytes) \<Rightarrow> string \<Rightarrow> Height option \<Rightarrow> KVReadHash outcome" where
  "newPvtKVReadHash sha2 sha3 key version =
     bind (ComputeStringHash sha2 sha3 key) (\<lambda>h.
     Ok \<lparr>krh_KeyHash = Some h, krh_Version = newProtoVersion version\<rparr>)"

definition newPvtKVWriteAndHash ::
    "(bytes \<Rightarrow> bytes) \<Rightarrow> (bytes \<Rightarrow> bytes) \<Rightarrow> string \<Rightarrow> slice \<Rightarrow> (KVWrite \<times> KVWriteHash) outcome" where
  "newPvtKVWriteAndHash sha2 sha3 key val =
     (let kvWrite = newKVWrite key val in
      bind (ComputeStringHash sha2 sha3 key) (\<lambda>keyHash.
      bind (if \<not> kvw_IsDelete kvWrite
            then bind (ComputeHash sha2 sha3 (slice_bytes val)) (\<lambda>h. Ok (Some h))
            else Ok None) (\<lambda>valueHash.
      Ok (kvWrite, \<lparr>kwh_KeyHash = Some keyHash, kwh_IsDelete = kvw_IsDelete kvWrite,
                    kwh_ValueHash = valueHash\<rparr>))))"

section \<open>What protobuf promises about these messages\<close>

text \<open>
  \<open>kv_ok\<close> and \<open>h_ok\<close> say which messages of the two opaque types come back unchanged; for the
  messages of this file it is the absence of slices that are empty but not nil.
\<close>

fun hash_msg_normal :: "CollectionHashedReadWriteSet option \<Rightarrow> bool" where
  "hash_msg_normal None = False"
| "hash_msg_normal (Some m) = normal_slice (pch_PvtRwsetHash m)"

fun ns_msg_normal :: "NsReadWriteSet option \<Rightarrow> bool" where
  "ns_msg_normal None = False"
| "ns_msg_normal (Some m) = list_all hash_msg_normal (pns_CollectionHashedRwset m)"

fun ns_pvt_msg_normal :: "NsPvtReadWriteSet option \<Rightarrow> bool" where
  "ns_pvt_msg_normal None = False"
| "ns_pvt_msg_normal (Some m) = list_all (\<lambda>c. c \<noteq> None) (pnp_CollectionPvtRwset m)"

definition rw_laws :: "('kv \<Rightarrow> bool) \<Rightarrow> ('h \<Rightarrow> bool) \<Rightarrow> ('kv, 'h) rwpb \<Rightarrow> bool" where
  "rw_laws kv_ok h_ok R \<longleftrightarrow>
     codec_laws kv_ok (rw_KVRWSet R) \<and> codec_laws h_ok (rw_HashedRWSet R) \<and>
     codec_laws (\<lambda>m. list_all ns_msg_normal (ptx_NsRwset m)) (rw_TxReadWriteSet R) \<and>
     codec_laws (\<lambda>m. list_all ns_pvt_msg_normal (ptp_NsPvtRwset m)) (rw_TxPvtReadWriteSet R)"

definition coll_ok :: "('h \<Rightarrow> bool) \<Rightarrow> 'h CollHashedRwSet \<Rightarrow> bool" where
  "coll_ok h_ok c \<longleftrightarrow> opt_ok h_ok (chr_HashedRwSet c) \<and> normal_slice (chr_PvtRwSetHash c)"

definition ns_ok :: "('kv \<Rightarrow> bool) \<Rightarrow> ('h \<Rightarrow> bool) \<Rightarrow> ('kv, 'h) NsRwSet \<Rightarrow> bool" where
  "ns_ok kv_ok h_ok n \<longleftrightarrow>
     opt_ok kv_ok (ns_KvRwSet n) \<and> list_all (opt_ok (coll_ok h_ok)) (ns_CollHashedRwSets n)"

definition tx_ok :: "('kv \<Rightarrow> bool) \<Rightarrow> ('h \<Rightarrow> bool) \<Rightarrow> ('kv, 'h) TxRwSet \<Rightarrow> bool" where
  "tx_ok kv_ok h_ok tx = list_all (opt_ok (ns_ok kv_ok h_ok)) (NsRwSets tx)"

definition coll_pvt_ok :: "('kv \<Rightarrow> bool) \<Rightarrow> 'kv CollPvtRwSet \<Rightarrow> bool" where
  "coll_pvt_ok kv_ok c = opt_ok kv_ok (cpr_KvRwSet c)"

definition ns_pvt_ok :: "('kv \<Rightarrow> bool) \<Rightarrow> 'kv NsPvtRwSet \<Rightarrow> bool" where
  "ns_pvt_ok kv_ok n = list_all (opt_ok (coll_pvt_ok kv_ok)) (np_CollPvtRwSets n)"

definition tx_pvt_ok :: "('kv \<Rightarrow> bool) \<Rightarrow> 'kv TxPvtRwSet \<Rightarrow> bool" where
  "tx_pvt_ok kv_ok tx = list_all (opt_ok (ns_pvt_ok kv_ok)) (NsPvtRwSets tx)"

section \<open>The interface of a conversion to a message and back\<close>

text \<open>
  \<open>to_msg\<close> and \<open>from_msg\<close> convert one element, \<open>good\<close> holds of the elements protobuf returns
  unchanged and \<open>normal\<close> of the messages the enclosing codec returns unchanged.
\<close>

locale msg_pair =
  fixes to_msg :: "'a \<Rightarrow> 'm outcome"
    and from_msg :: "'m \<Rightarrow> 'a outcome"
    and good :: "'a \<Rightarrow> bool"
    and normal :: "'m \<Rightarrow> bool"
  assumes from_to: "good x \<Longrightarrow> to_msg x = Ok m \<Longrightarrow> from_msg m = Ok x"
    and to_normal: "good x \<Longrightarrow> to_msg x = Ok m \<Longrightarrow> normal m"
begin

lemma list_from_to:
  "list_all good xs \<Longrightarrow> map_outcome to_msg xs = Ok ms \<Longrightarrow> map_outcome from_msg ms = Ok xs"
  by (rule map_outcome_roundtrip) (auto simp: list_all_iff intro: from_to)

lemma list_normal:
  "list_all good xs \<Longrightarrow> map_outcome to_msg xs = Ok ms \<Longrightarrow> list_all normal ms"
  by (induction xs arbitrary: ms) (auto intro: to_normal)

lemma list_injective:
  assumes "list_all good xs" "list_all good ys"
    and "map_outcome to_msg xs = Ok ms" "map_outcome to_msg ys = Ok ms"
  shows "xs = ys"
  using list_from_to[OF assms(1,3)] list_from_to[OF assms(2,4)] by simp

end

interpretation coll: msg_pair "collHashed_toProtoMsg R" "collHashedRwSetFromProtoMsg R"
    "\<lambda>p. rw_laws kv_ok h_ok R \<and> opt_ok (coll_ok h_ok) p" hash_msg_normal
  for R kv_ok h_ok
  by unfold_locales
     (auto simp: collHashed_toProtoMsg_def collHashedRwSetFromProtoMsg_def rw_laws_def coll_ok_def
       dest!: codec_opt intro!: CollHashedRwSet.equality)

interpretation coll_pvt: msg_pair "collPvtRwSet_toProtoMsg R" "collPvtRwSetFromProtoMsg R"
    "\<lambda>p. rw_laws kv_ok h_ok R \<and> opt_ok (coll_pvt_ok kv_ok) p" "\<lambda>m. m \<noteq> None"
  for R kv_ok h_ok
  by unfold_locales
     (auto simp: collPvtRwSet_toProtoMsg_def collPvtRwSetFromProtoMsg_def rw_laws_def coll_pvt_ok_def
       dest!: codec_opt intro!: CollPvtRwSet.equality)

interpretation ns: msg_pair "nsRwSet_toProtoMsg R" "nsRwSetFromProtoMsg R"
    "\<lambda>p. rw_laws kv_ok h_ok R \<and> opt_ok (ns_ok kv_ok h_ok) p" ns_msg_normal
  for R kv_ok h_ok
proof (unfold_locales, goal_cases)
  case (1 p m)
  then obtain n b cs where n: "p = Some n" "Marshal (rw_KVRWSet R) (ns_KvRwSet n) = (b, None)"
    "map_outcome (collHashed_toProtoMsg R) (ns_CollHashedRwSets n) = Ok cs"
    "m = Some \<lparr>pns_Namespace = ns_NameSpace n, pns_Rwset = b, pns_CollectionHashedRwset = cs\<rparr>"
    by (auto simp: nsRwSet_toProtoMsg_def)
  moreover have "map_outcome (collHashedRwSetFromProtoMsg R) cs = Ok (ns_CollHashedRwSets n)"
    using 1(1) n by (intro coll.list_from_to[of kv_ok h_ok]) (auto simp: ns_ok_def list_all_iff)
  ultimately show ?case using 1(1)
    by (auto simp: nsRwSetFromProtoMsg_def rw_laws_def ns_ok_def
        dest!: codec_opt[of kv_ok] intro!: NsRwSet.equality)
next
  case (2 p m)
  then show ?case
    by (auto simp: nsRwSet_toProtoMsg_def ns_ok_def list_all_iff
        dest!: coll.list_normal[of kv_ok h_ok R, rotated])
qed

interpretation ns_pvt: msg_pair "nsPvtRwSet_toProtoMsg R" "nsPvtRwSetFromProtoMsg R"
    "\<lambda>p. rw_laws kv_ok h_ok R \<and> opt_ok (ns_pvt_ok kv_ok) p" ns_pvt_msg_normal
  for R kv_ok h_ok
proof (unfold_locales, goal_cases)
  case (1 p m)
  then obtain n cs where n: "p = Some n"
    "map_outcome (collPvtRwSet_toProtoMsg R) (np_CollPvtRwSets n) = Ok cs"
    "m = Some \<lparr>pnp_Namespace = np_NameSpace n, pnp_CollectionPvtRwset = cs\<rparr>"
    by (auto simp: nsPvtRwSet_toProtoMsg_def)
  moreover have "map_outcome (collPvtRwSetFromProtoMsg R) cs = Ok (np_CollPvtRwSets n)"
    using 1(1) n by (intro coll_pvt.list_from_to[of kv_ok h_ok]) (auto simp: ns_pvt_ok_def list_all_iff)
  ultimately show ?case by (auto simp: nsPvtRwSetFromProtoMsg_def)
next
  case (2 p m)
  then show ?case
    by (auto simp: nsPvtRwSet_toProtoMsg_def ns_pvt_ok_def list_all_iff
        dest!: coll_pvt.list_normal[of kv_ok h_ok R, rotated])
qed

lemma tx_from_to:
  assumes "rw_laws kv_ok h_ok R" "tx_ok kv_ok h_ok tx" "txRwSet_toProtoMsg R tx = Ok m"
  shows "TxRwSetFromProtoMsg R m = Ok tx \<and> list_all ns_msg_normal (ptx_NsRwset m)"
proof -
  have g: "list_all (\<lambda>p. rw_laws kv_ok h_ok R \<and> opt_ok (ns_ok kv_ok h_ok) p) (NsRwSets tx)"
    using assms by (auto simp: tx_ok_def list_all_iff)
  show ?thesis
    using assms ns.list_from_to[OF g] ns.list_normal[OF g]
    by (auto simp: txRwSet_toProtoMsg_def TxRwSetFromProtoMsg_def)
qed

lemma tx_pvt_from_to:
  assumes "rw_laws kv_ok h_ok R" "tx_pvt_ok kv_ok tx" "txPvtRwSet_toProtoMsg R tx = Ok m"
  shows "TxPvtRwSetFromProtoMsg R m = Ok tx \<and> list_all ns_pvt_msg_normal (ptp_NsPvtRwset m)"
proof -
  have g: "list_all (\<lambda>p. rw_laws kv_ok h_ok R \<and> opt_ok (ns_pvt_ok kv_ok) p) (NsPvtRwSets tx)"
    using assms by (auto simp: tx_pvt_ok_def list_all_iff)
  show ?thesis
    using assms ns_pvt.list_from_to[OF g] ns_pvt.list_normal[OF g]
    by (auto simp: txPvtRwSet_toProtoMsg_def TxPvtRwSetFromProtoMsg_def)
qed

section \<open>Properties\<close>

text \<open>C16. A public read-write set that was serialised is read back as it was, into any receiver.\<close>

theorem tx_rwset_roundtrip:
  assumes "rw_laws kv_ok h_ok R" "tx_ok kv_ok h_ok tx" "ToProtoBytes R tx = Ok b"
  shows "FromProtoBytes R old b = (tx, Ok ()) \<and> ProtoUnmarshal R b = Ok tx"
proof -
  obtain m where m: "txRwSet_toProtoMsg R tx = Ok m" "Marshal (rw_TxReadWriteSet R) (Some m) = (b, None)"
    using assms(3) by (auto simp: ToProtoBytes_def)
  moreover have "codec_laws (\<lambda>m. list_all ns_msg_normal (ptx_NsRwset m)) (rw_TxReadWriteSet R)"
    using assms(1) by (simp add: rw_laws_def)
  ultimately have "Unmarshal (rw_TxReadWriteSet R) b = (m, None)" "TxRwSetFromProtoMsg R m = Ok tx"
    using tx_from_to[OF assms(1,2) m(1)] by (auto dest: codec_roundtrip)
  then show ?thesis by (simp add: FromProtoBytes_def ProtoUnmarshal_def)
qed

text \<open>Concrete codecs: two namespaces, one collection, and opaque sets that are numbers.\<close>

definition sample_tx :: "(nat, nat) TxRwSet" where
  "sample_tx = \<lparr>NsRwSets =
     [Some \<lparr>ns_NameSpace = ''cc'', ns_KvRwSet = Some 1,
            ns_CollHashedRwSets = [Some \<lparr>chr_CollectionName = ''coll'', chr_HashedRwSet = Some 7,
                                         chr_PvtRwSetHash = Some [9]\<rparr>]\<rparr>,
      Some \<lparr>ns_NameSpace = ''lscc'', ns_KvRwSet = Some 0, ns_CollHashedRwSets = []\<rparr>]\<rparr>"

definition sample_pvt :: "nat TxPvtRwSet" where
  "sample_pvt = \<lparr>NsPvtRwSets =
     [Some \<lparr>np_NameSpace = ''cc'',
            np_CollPvtRwSets = [Some \<lparr>cpr_CollectionName = ''coll'', cpr_KvRwSet = Some 1\<rparr>]\<rparr>]\<rparr>"

definition sample_rwpb :: "(nat, nat) rwpb" where
  "sample_rwpb =
     \<lparr>rw_KVRWSet = table_codec [0, 1], rw_HashedRWSet = table_codec [7],
      rw_TxReadWriteSet = table_codec
        [\<lparr>ptx_DataModel = TxReadWriteSet_KV, ptx_NsRwset =
           [Some \<lparr>pns_Namespace = ''cc'', pns_Rwset = [0, 0], pns_CollectionHashedRwset =
              [Some \<lparr>pch_CollectionName = ''coll'', pch_HashedRwset = [0],
                     pch_PvtRwsetHash = Some [9]\<rparr>]\<rparr>,
            Some \<lparr>pns_Namespace = ''lscc'', pns_Rwset = [0], pns_CollectionHashedRwset = []\<rparr>]\<rparr>],
      rw_TxPvtReadWriteSet = table_codec
        [\<lparr>ptp_DataModel = TxReadWriteSet_KV, ptp_NsPvtRwset =
           [Some \<lparr>pnp_Namespace = ''cc'', pnp_CollectionPvtRwset =
              [Some \<lparr>pcp_CollectionName = ''coll'', pcp_Rwset = [0, 0]\<rparr>]\<rparr>]\<rparr>]\<rparr>"

lemma sample_rw_laws: "rw_laws kv_ok h_ok sample_rwpb"
  by (simp add: rw_laws_def sample_rwpb_def)

lemmas sample_rw_defs = sample_tx_def sample_pvt_def sample_rwpb_def table_codec_simps

lemma tx_rwset_roundtrip_witness:
  "ToProtoBytes sample_rwpb sample_tx = Ok [0] \<and> ProtoUnmarshal sample_rwpb [0] = Ok sample_tx"
proof -
  have b: "ToProtoBytes sample_rwpb sample_tx = Ok [0]"
    by (simp add: ToProtoBytes_def txRwSet_toProtoMsg_def nsRwSet_toProtoMsg_def
        collHashed_toProtoMsg_def sample_rw_defs)
  have "tx_ok (\<lambda>_. True) (\<lambda>_. True) sample_tx"
    by (simp add: tx_ok_def ns_ok_def coll_ok_def normal_slice_def sample_tx_def)
  from tx_rwset_roundtrip[OF sample_rw_laws this b] b show ?thesis by simp
qed

text \<open>The same of a private read-write set.\<close>

lemma pvt_rwset_roundtrip:
  assumes "rw_laws kv_ok h_ok R" "tx_pvt_ok kv_ok tx" "pvt_ToProtoBytes R tx = Ok b"
  shows "pvt_FromProtoBytes R old b = (tx, Ok ())"
proof -
  obtain m where m: "txPvtRwSet_toProtoMsg R tx = Ok m"
      "Marshal (rw_TxPvtReadWriteSet R) (Some m) = (b, None)"
    using assms(3) by (auto simp: pvt_ToProtoBytes_def)
  moreover have "codec_laws (\<lambda>m. list_all ns_pvt_msg_normal (ptp_NsPvtRwset m)) (rw_TxPvtReadWriteSet R)"
    using assms(1) by (simp add: rw_laws_def)
  ultimately have "Unmarshal (rw_TxPvtReadWriteSet R) b = (m, None)" "TxPvtRwSetFromProtoMsg R m = Ok tx"
    using tx_pvt_from_to[OF assms(1,2) m(1)] by (auto dest: codec_roundtrip)
  then show ?thesis by (simp add: pvt_FromProtoBytes_def)
qed

lemma pvt_rwset_roundtrip_witness:
  "pvt_FromProtoBytes sample_rwpb \<lparr>NsPvtRwSets = []\<rparr> [0] = (sample_pvt, Ok ())"
proof -
  have b: "pvt_ToProtoBytes sample_rwpb sample_pvt = Ok [0]"
    by (simp add: pvt_ToProtoBytes_def txPvtRwSet_toProtoMsg_def nsPvtRwSet_toProtoMsg_def
        collPvtRwSet_toProtoMsg_def sample_rw_defs)
  have "tx_pvt_ok (\<lambda>_. True) sample_pvt"
    by (simp add: tx_pvt_ok_def ns_pvt_ok_def coll_pvt_ok_def sample_pvt_def)
  from pvt_rwset_roundtrip[OF sample_rw_laws[of "\<lambda>_. True"] this b] show ?thesis .
qed

text \<open>Reading bytes into a set is atomic: the receiver becomes the decoded set when both
  levels of decoding succeed, and is left as it was on every error and panic.\<close>

lemma rwset_from_bytes_atomic:
  "case FromProtoBytes R t b of (t', r) \<Rightarrow>
     (if is_ok r then \<exists>m. Unmarshal (rw_TxReadWriteSet R) b = (m, None) \<and> TxRwSetFromProtoMsg R m = Ok t'
      else t' = t)"
  by (auto simp: FromProtoBytes_def intro!: TxRwSet.equality split: outcome.splits)

definition first_match :: "('a \<Rightarrow> string) \<Rightarrow> string \<Rightarrow> 'a option list \<Rightarrow> 'a option outcome" where
  "first_match name k ps =
     (case dropWhile (\<lambda>p. case p of None \<Rightarrow> False | Some x \<Rightarrow> name x \<noteq> k) ps of
        [] \<Rightarrow> Ok None
      | p # _ \<Rightarrow> bind (deref p) (\<lambda>x. Ok (Some x)))"

lemma coll_loop_first_match:
  "coll_loop ps coll = bind (first_match chr_CollectionName coll ps)
     (\<lambda>q. Ok (case q of None \<Rightarrow> None | Some c \<Rightarrow> chr_PvtRwSetHash c))"
  by (induction ps) (auto simp: first_match_def split: option.splits)

text \<open>A lookup returns the hash of the first collection of that name in the first namespace
  of that name, nil when either is missing; it panics exactly when it meets a nil element first.\<close>

lemma get_pvt_data_hash_first_match:
  "GetPvtDataHash tx ns coll =
     bind (first_match ns_NameSpace ns (NsRwSets tx)) (\<lambda>q.
     case q of None \<Rightarrow> Ok None
     | Some n \<Rightarrow> bind (first_match chr_CollectionName coll (ns_CollHashedRwSets n)) (\<lambda>r.
                  Ok (case r of None \<Rightarrow> None | Some c \<Rightarrow> chr_PvtRwSetHash c)))"
proof -
  have "ns_loop ps ns coll = bind (first_match ns_NameSpace ns ps)
          (\<lambda>q. case q of None \<Rightarrow> Ok None | Some n \<Rightarrow> coll_loop (ns_CollHashedRwSets n) coll)" for ps
    by (induction ps) (auto simp: first_match_def getPvtDataHash_def split: option.splits)
  then show ?thesis by (simp add: GetPvtDataHash_def coll_loop_first_match cong: option.case_cong)
qed

text \<open>\<open>NumCollections\<close> is the number of collections over all namespaces; a nil namespace
  panics, a nil receiver has none.\<close>

lemma num_collections_sum:
  "NumCollections p =
     (case p of None \<Rightarrow> Ok 0
      | Some tx \<Rightarrow> (if None \<in> set (NsRwSets tx) then Panic NilDeref
                    else Ok (\<Sum>q\<leftarrow>NsRwSets tx. length (ns_CollHashedRwSets (the q)))))"
proof -
  have "num_colls_loop ps n = (if None \<in> set ps then Panic NilDeref
          else Ok (n + (\<Sum>q\<leftarrow>ps. length (ns_CollHashedRwSets (the q)))))"
    for ps :: "('a, 'b) NsRwSet option list" and n
  proof (induction ps arbitrary: n)
    case (Cons p ps)
    then show ?case by (cases p) auto
  qed simp
  then show ?thesis by (simp add: NumCollections_def split: option.splits)
qed

text \<open>The hashed form of a private write never panics and agrees with the write: the same
  delete flag, a value hash exactly when there is a value, and that hash is the value's.\<close>

lemma pvt_write_and_hash_agree:
  "newPvtKVWriteAndHash sha2 sha3 key val =
     Ok (\<lparr>kvw_Key = key, kvw_IsDelete = (val = None), kvw_Value = val\<rparr>,
         \<lparr>kwh_KeyHash = Some (sha2 (bytes_of_string key)), kwh_IsDelete = (val = None),
          kwh_ValueHash = map_option sha2 val\<rparr>)"
  by (cases val) (simp_all add: newPvtKVWriteAndHash_def newKVWrite_def ComputeStringHash_def
      ComputeHash_def ComputeSHA256_def)

text \<open>The version of a read is converted to its message and back without loss.\<close>

lemma kv_read_version_roundtrip:
  "NewVersion (kvr_Version (NewKVRead key version)) = version"
  by (cases version) (auto simp: NewKVRead_def NewHeight_def intro!: Height.equality)

end
