(* ===== verification/Messages.thy ===== *)
theory Messages
  imports Codec
begin

text \<open>
  The protobuf messages of \<open>fabric-protos-go\<close> that the code builds and reads, one record per
  message with the fields the code uses, and the record \<open>pb\<close> of their codecs, which is a
  parameter of every function that serialises.

  A pointer to a message is an \<open>option\<close>. A \<open>bytes\<close> field whose nil-ness the code tests is a
  \<open>slice\<close>, the others are \<open>bytes\<close>. Enumerations and \<open>int32\<close> fields are \<open>int\<close> (the code compares
  them and never computes with them), \<open>uint64\<close> fields are words. A Go map is a partial function.
\<close>

section \<open>Enumerations\<close>

abbreviation HeaderType_MESSAGE :: int where "HeaderType_MESSAGE \<equiv> 0"
abbreviation HeaderType_CONFIG :: int where "HeaderType_CONFIG \<equiv> 1"
abbreviation HeaderType_CONFIG_UPDATE :: int where "HeaderType_CONFIG_UPDATE \<equiv> 2"
abbreviation HeaderType_ENDORSER_TRANSACTION :: int where "HeaderType_ENDORSER_TRANSACTION \<equiv> 3"
abbreviation HeaderType_ORDERER_TRANSACTION :: int where "HeaderType_ORDERER_TRANSACTION \<equiv> 4"
abbreviation HeaderType_DELIVER_SEEK_INFO :: int where "HeaderType_DELIVER_SEEK_INFO \<equiv> 5"

abbreviation ChaincodeSpec_UNDEFINED :: int where "ChaincodeSpec_UNDEFINED \<equiv> 0"
abbreviation ChaincodeSpec_GOLANG :: int where "ChaincodeSpec_GOLANG \<equiv> 1"
abbreviation ChaincodeSpec_NODE :: int where "ChaincodeSpec_NODE \<equiv> 2"
abbreviation ChaincodeSpec_JAVA :: int where "ChaincodeSpec_JAVA \<equiv> 4"

abbreviation BlockMetadataIndex_SIGNATURES :: int where "BlockMetadataIndex_SIGNATURES \<equiv> 0"
abbreviation BlockMetadataIndex_LAST_CONFIG :: int where "BlockMetadataIndex_LAST_CONFIG \<equiv> 1"

section \<open>common\<close>

record Timestamp =
  ts_Seconds :: int
  ts_Nanos :: int

record Header =
  hdr_ChannelHeader :: slice
  hdr_SignatureHeader :: slice

record ChannelHeader =
  ch_Type :: int
  ch_Version :: int
  ch_Timestamp :: "Timestamp option"
  ch_ChannelId :: string
  ch_TxId :: string
  ch_Epoch :: "64 word"
  ch_Extension :: bytes
  ch_TlsCertHash :: bytes

record SignatureHeader =
  sh_Creator :: bytes
  sh_Nonce :: bytes

record Payload =
  payl_Header :: "Header option"
  payl_Data :: bytes

record Envelope =
  env_Payload :: bytes
  env_Signature :: bytes

record BlockHeader =
  bh_Number :: "64 word"
  bh_PreviousHash :: bytes
  bh_DataHash :: bytes

record BlockMetadata =
  bm_Metadata :: "bytes list"

record BlockData =
  bd_Data :: "bytes list"

record Block =
  blk_Header :: "BlockHeader option"
  blk_Data :: "BlockData option"
  blk_Metadata :: "BlockMetadata option"

record Metadata =
  md_Value :: bytes

record LastConfig =
  lc_Index :: "64 word"

record OrdererBlockMetadata =
  obm_LastConfig :: "LastConfig option"

record ConfigSignature =
  csig_SignatureHeader :: bytes
  csig_Signature :: bytes

record ConfigUpdateEnvelope =
  cue_ConfigUpdate :: bytes
  cue_Signatures :: "ConfigSignature option list"

section \<open>msp\<close>

record SerializedIdentity =
  sid_Mspid :: string
  sid_IdBytes :: bytes

section \<open>peer\<close>

record ChaincodeID =
  ccid_Path :: string
  ccid_Name :: string
  ccid_Version :: string

record ChaincodeInput =
  cin_Args :: "bytes list"
  cin_IsInit :: bool

record ChaincodeSpec =
  cspec_Type :: int
  cspec_ChaincodeId :: "ChaincodeID option"
  cspec_Input :: "ChaincodeInput option"

record ChaincodeInvocationSpec =
  cis_ChaincodeSpec :: "ChaincodeSpec option"

record ChaincodeDeploymentSpec =
  cds_ChaincodeSpec :: "ChaincodeSpec option"
  cds_CodePackage :: bytes

record ChaincodeHeaderExtension =
  che_ChaincodeId :: "ChaincodeID option"

record ChaincodeProposalPayload =
  cpp_Input :: bytes
  cpp_TransientMap :: "string \<rightharpoonup> bytes"

record Proposal =
  prop_Header :: bytes
  prop_Payload :: bytes

record SignedProposal =
  sp_ProposalBytes :: bytes
  sp_Signature :: bytes

record Response =
  resp_Status :: int
  resp_Message :: string
  resp_Payload :: bytes

record Endorsement =
  end_Endorser :: bytes
  end_Signature :: bytes

record ProposalResponse =
  pr_Version :: int
  pr_Response :: "Response option"
  pr_Payload :: slice
  pr_Endorsement :: "Endorsement option"

record ProposalResponsePayload =
  prp_ProposalHash :: bytes
  prp_Extension :: slice

record ChaincodeAction =
  ca_Results :: bytes
  ca_Events :: bytes
  ca_Response :: "Response option"
  ca_ChaincodeId :: "ChaincodeID option"

record ChaincodeEvent =
  ce_ChaincodeId :: string
  ce_TxId :: string
  ce_EventName :: string
  ce_Payload :: bytes

record ChaincodeEndorsedAction =
  cea_ProposalResponsePayload :: slice
  cea_Endorsements :: "Endorsement option list"

record ChaincodeActionPayload =
  cap_ChaincodeProposalPayload :: slice
  cap_Action :: "ChaincodeEndorsedAction option"

record TransactionAction =
  ta_Header :: bytes
  ta_Payload :: bytes

record Transaction =
  tx_Actions :: "TransactionAction option list"

section \<open>The codecs\<close>

record pb =
  pb_Header :: "Header codec"
  pb_ChannelHeader :: "ChannelHeader codec"
  pb_SignatureHeader :: "SignatureHeader codec"
  pb_Payload :: "Payload codec"
  pb_Envelope :: "Envelope codec"
  pb_Block :: "Block codec"
  pb_Metadata :: "Metadata codec"
  pb_LastConfig :: "LastConfig codec"
  pb_OrdererBlockMetadata :: "OrdererBlockMetadata codec"
  pb_ConfigUpdateEnvelope :: "ConfigUpdateEnvelope codec"
  pb_SerializedIdentity :: "SerializedIdentity codec"
  pb_ChaincodeID :: "ChaincodeID codec"
  pb_ChaincodeInvocationSpec :: "ChaincodeInvocationSpec codec"
  pb_ChaincodeDeploymentSpec :: "ChaincodeDeploymentSpec codec"
  pb_ChaincodeHeaderExtension :: "ChaincodeHeaderExtension codec"
  pb_ChaincodeProposalPayload :: "ChaincodeProposalPayload codec"
  pb_Proposal :: "Proposal codec"
  pb_Response :: "Response codec"
  pb_ProposalResponse :: "ProposalResponse codec"
  pb_ProposalResponsePayload :: "ProposalResponsePayload codec"
  pb_ChaincodeAction :: "ChaincodeAction codec"
  pb_ChaincodeEvent :: "ChaincodeEvent codec"
  pb_ChaincodeActionPayload :: "ChaincodeActionPayload codec"
  pb_Transaction :: "Transaction codec"

text \<open>
  What protobuf promises of them: each codec reads back what it wrote, with the slices that are
  empty made nil, as long as the message has no nil element in a list of messages.
\<close>

definition norm_header :: "Header \<Rightarrow> Header" where
  "norm_header h = \<lparr>hdr_ChannelHeader = norm_slice (hdr_ChannelHeader h),
                    hdr_SignatureHeader = norm_slice (hdr_SignatureHeader h)\<rparr>"

definition norm_payload :: "Payload \<Rightarrow> Payload" where
  "norm_payload p = p\<lparr>payl_Header := map_option norm_header (payl_Header p)\<rparr>"

definition norm_prp :: "ProposalResponsePayload \<Rightarrow> ProposalResponsePayload" where
  "norm_prp p = p\<lparr>prp_Extension := norm_slice (prp_Extension p)\<rparr>"

definition norm_cap :: "ChaincodeActionPayload \<Rightarrow> ChaincodeActionPayload" where
  "norm_cap c = c\<lparr>cap_ChaincodeProposalPayload := norm_slice (cap_ChaincodeProposalPayload c),
     cap_Action := map_option (\<lambda>a. a\<lparr>cea_ProposalResponsePayload :=
     norm_slice (cea_ProposalResponsePayload a)\<rparr>) (cap_Action c)\<rparr>"

definition no_nil_cap :: "ChaincodeActionPayload \<Rightarrow> bool" where
  "no_nil_cap c = opt_ok (\<lambda>a. None \<notin> set (cea_Endorsements a)) (cap_Action c)"

abbreviation any :: "'a \<Rightarrow> bool" where "any \<equiv> \<lambda>_. True"

definition pb_laws :: "pb \<Rightarrow> bool" where
  "pb_laws P \<longleftrightarrow>
     codec_norm any norm_header (pb_Header P) \<and>
     codec_laws any (pb_ChannelHeader P) \<and>
     codec_laws any (pb_SignatureHeader P) \<and>
     codec_norm any norm_payload (pb_Payload P) \<and>
     codec_laws any (pb_Envelope P) \<and>
     codec_laws any (pb_SerializedIdentity P) \<and>
     codec_laws any (pb_ChaincodeID P) \<and>
     codec_laws any (pb_ChaincodeInvocationSpec P) \<and>
     codec_laws any (pb_ChaincodeDeploymentSpec P) \<and>
     codec_laws any (pb_ChaincodeProposalPayload P) \<and>
     codec_laws any (pb_Proposal P) \<and>
     codec_norm any norm_prp (pb_ProposalResponsePayload P) \<and>
     codec_laws any (pb_ChaincodeAction P) \<and>
     codec_norm no_nil_cap norm_cap (pb_ChaincodeActionPayload P) \<and>
     codec_laws (\<lambda>m. None \<notin> set (tx_Actions m)) (pb_Transaction P)"

text \<open>Reading a message from the bytes it was written to.\<close>

named_theorems pb_read \<open>what a codec that keeps the laws reads\<close>

lemma pb_laws_read [pb_read]:
  assumes "pb_laws P"
  shows "Marshal (pb_Header P) (Some h) = (b, None) \<Longrightarrow> Unmarshal (pb_Header P) b = (norm_header h, None)"
    and "Marshal (pb_ChannelHeader P) (Some ch) = (b, None) \<Longrightarrow> Unmarshal (pb_ChannelHeader P) b = (ch, None)"
    and "Marshal (pb_SignatureHeader P) (Some sh) = (b, None) \<Longrightarrow> Unmarshal (pb_SignatureHeader P) b = (sh, None)"
    and "Marshal (pb_Payload P) (Some pl) = (b, None) \<Longrightarrow> Unmarshal (pb_Payload P) b = (norm_payload pl, None)"
    and "Marshal (pb_Envelope P) (Some e) = (b, None) \<Longrightarrow> Unmarshal (pb_Envelope P) b = (e, None)"
    and "Marshal (pb_SerializedIdentity P) (Some sid) = (b, None) \<Longrightarrow> Unmarshal (pb_SerializedIdentity P) b = (sid, None)"
    and "Marshal (pb_ChaincodeInvocationSpec P) (Some cis) = (b, None) \<Longrightarrow>
           Unmarshal (pb_ChaincodeInvocationSpec P) b = (cis, None)"
    and "Marshal (pb_ChaincodeDeploymentSpec P) (Some cds) = (b, None) \<Longrightarrow>
           Unmarshal (pb_ChaincodeDeploymentSpec P) b = (cds, None)"
    and "Marshal (pb_ChaincodeProposalPayload P) (Some cpp) = (b, None) \<Longrightarrow>
           Unmarshal (pb_ChaincodeProposalPayload P) b = (cpp, None)"
    and "Marshal (pb_Proposal P) (Some pr) = (b, None) \<Longrightarrow> Unmarshal (pb_Proposal P) b = (pr, None)"
    and "Marshal (pb_ProposalResponsePayload P) (Some prp) = (b, None) \<Longrightarrow>
           Unmarshal (pb_ProposalResponsePayload P) b = (norm_prp prp, None)"
    and "Marshal (pb_ChaincodeAction P) (Some ca) = (b, None) \<Longrightarrow> Unmarshal (pb_ChaincodeAction P) b = (ca, None)"
    and "Marshal (pb_ChaincodeActionPayload P) (Some cap) = (b, None) \<Longrightarrow> no_nil_cap cap \<Longrightarrow>
           Unmarshal (pb_ChaincodeActionPayload P) b = (norm_cap cap, None)"
    and "Marshal (pb_Transaction P) (Some tx) = (b, None) \<Longrightarrow> None \<notin> set (tx_Actions tx) \<Longrightarrow>
           Unmarshal (pb_Transaction P) b = (tx, None)"
  using assms by (auto simp: pb_laws_def intro: codec_roundtrip codec_norm_read)

lemma norm_header_simps [simp]:
  "slice_bytes (hdr_ChannelHeader (norm_header h)) = slice_bytes (hdr_ChannelHeader h)"
  "slice_bytes (hdr_SignatureHeader (norm_header h)) = slice_bytes (hdr_SignatureHeader h)"
  by (simp_all add: norm_header_def)

lemma norm_payload_simps [simp]:
  "payl_Data (norm_payload p) = payl_Data p"
  "payl_Header (norm_payload p) = map_option norm_header (payl_Header p)"
  by (simp_all add: norm_payload_def)

section \<open>Signing identities\<close>

text \<open>\<open>cryptoutil.Signer\<close>, an interface: the functions of the value behind it. The nonce of
  \<open>NewSignatureHeader\<close> is part of its result. \<open>utils.Signer\<close> has two of the four methods.\<close>

record Signer =
  sg_Serialize :: "bytes ret"
  sg_Sign :: "bytes \<Rightarrow> bytes ret"
  sg_NewSignatureHeader :: "SignatureHeader ret"
  sg_GetMSPId :: string

end
