(* ===== verification/Unmarshal.thy ===== *)
theory Unmarshal
  imports Messages
begin

text \<open>
  \<open>internal/utils/unmarshal.go\<close>, the serialisers \<open>GetBytes...\<close> of \<open>internal/utils/protoutil.go\<close>
  and the marshalling helpers of \<open>internal/utils/common.go\<close>.

  Every unmarshaler returns the message as \<open>proto.Unmarshal\<close> left it, together with the wrapped
  error: callers that ignore the error see that message.
\<close>

section \<open>Unmarshalers\<close>

definition UnmarshalBlock :: "pb \<Rightarrow> bytes \<Rightarrow> Block ret" where
  "UnmarshalBlock P encoded =
     ret_wrap ''error unmarshaling Block'' (Unmarshal (pb_Block P) encoded)"

definition UnmarshalChaincodeDeploymentSpec :: "pb \<Rightarrow> bytes \<Rightarrow> ChaincodeDeploymentSpec ret" where
  "UnmarshalChaincodeDeploymentSpec P encoded =
     ret_wrap ''error unmarshaling ChaincodeDeploymentSpec'' (Unmarshal (pb_ChaincodeDeploymentSpec P) encoded)"

definition UnmarshalChaincodeInvocationSpec :: "pb \<Rightarrow> bytes \<Rightarrow> ChaincodeInvocationSpec ret" where
  "UnmarshalChaincodeInvocationSpec P encoded =
     ret_wrap ''error unmarshaling ChaincodeInvocationSpec'' (Unmarshal (pb_ChaincodeInvocationSpec P) encoded)"

definition UnmarshalPayload :: "pb \<Rightarrow> bytes \<Rightarrow> Payload ret" where
  "UnmarshalPayload P encoded =
     ret_wrap ''error unmarshaling Payload'' (Unmarshal (pb_Payload P) encoded)"

definition UnmarshalEnvelope :: "pb \<Rightarrow> bytes \<Rightarrow> Envelope ret" where
  "UnmarshalEnvelope P encoded =
     ret_wrap ''error unmarshaling Envelope'' (Unmarshal (pb_Envelope P) encoded)"

definition UnmarshalChannelHeader :: "pb \<Rightarrow> bytes \<Rightarrow> ChannelHeader ret" where
  "UnmarshalChannelHeader P encoded =
     ret_wrap ''error unmarshaling ChannelHeader'' (Unmarshal (pb_ChannelHeader P) encoded)"

definition UnmarshalChaincodeID :: "pb \<Rightarrow> bytes \<Rightarrow> ChaincodeID ret" where
  "UnmarshalChaincodeID P encoded =
     ret_wrap ''error unmarshaling ChaincodeID'' (Unmarshal (pb_ChaincodeID P) encoded)"

definition UnmarshalSignatureHeader :: "pb \<Rightarrow> bytes \<Rightarrow> SignatureHeader ret" where
  "UnmarshalSignatureHeader P encoded =
     ret_wrap ''error unmarshaling SignatureHeader'' (Unmarshal (pb_SignatureHeader P) encoded)"

definition UnmarshalSerializedIdentity :: "pb \<Rightarrow> bytes \<Rightarrow> SerializedIdentity ret" where
  "UnmarshalSerializedIdentity P encoded =
     ret_wrap ''error unmarshaling SerializedIdentity'' (Unmarshal (pb_SerializedIdentity P) encoded)"

definition UnmarshalHeader :: "pb \<Rightarrow> bytes \<Rightarrow> Header ret" where
  "UnmarshalHeader P encoded =
     ret_wrap ''error unmarshaling Header'' (Unmarshal (pb_Header P) encoded)"

definition UnmarshalChaincodeHeaderExtension :: "pb \<Rightarrow> bytes \<Rightarrow> ChaincodeHeaderExtension ret" where
  "UnmarshalChaincodeHeaderExtension P encoded =
     ret_wrap ''error unmarshaling ChaincodeHeaderExtension'' (Unmarshal (pb_ChaincodeHeaderExtension P) encoded)"

definition UnmarshalProposalResponse :: "pb \<Rightarrow> bytes \<Rightarrow> ProposalResponse ret" where
  "UnmarshalProposalResponse P encoded =
     ret_wrap ''error unmarshaling ProposalResponse'' (Unmarshal (pb_ProposalResponse P) encoded)"

definition UnmarshalChaincodeAction :: "pb \<Rightarrow> bytes \<Rightarrow> ChaincodeAction ret" where
  "UnmarshalChaincodeAction P encoded =
     ret_wrap ''error unmarshaling ChaincodeAction'' (Unmarshal (pb_ChaincodeAction P) encoded)"

definition UnmarshalResponse :: "pb \<Rightarrow> bytes \<Rightarrow> Response ret" where
  "UnmarshalResponse P encoded =
     ret_wrap ''error unmarshaling Response'' (Unmarshal (pb_Response P) encoded)"

definition UnmarshalChaincodeEvents :: "pb \<Rightarrow> bytes \<Rightarrow> ChaincodeEvent ret" where
  "UnmarshalChaincodeEvents P encoded =
     ret_wrap ''error unmarshaling ChaicnodeEvent'' (Unmarshal (pb_ChaincodeEvent P) encoded)"

definition UnmarshalProposalResponsePayload :: "pb \<Rightarrow> bytes \<Rightarrow> ProposalResponsePayload ret" where
  "UnmarshalProposalResponsePayload P encoded =
     ret_wrap ''error unmarshaling ProposalResponsePayload'' (Unmarshal (pb_ProposalResponsePayload P) encoded)"

definition UnmarshalProposal :: "pb \<Rightarrow> bytes \<Rightarrow> Proposal ret" where
  "UnmarshalProposal P encoded =
     ret_wrap ''error unmarshaling Proposal'' (Unmarshal (pb_Proposal P) encoded)"

definition UnmarshalTransaction :: "pb \<Rightarrow> bytes \<Rightarrow> Transaction ret" where
  "UnmarshalTransaction P encoded =
     ret_wrap ''error unmarshaling Transaction'' (Unmarshal (pb_Transaction P) encoded)"

definition UnmarshalChaincodeActionPayload :: "pb \<Rightarrow> bytes \<Rightarrow> ChaincodeActionPayload ret" where
  "UnmarshalChaincodeActionPayload P encoded =
     ret_wrap ''error unmarshaling ChaincodeActionPayload'' (Unmarshal (pb_ChaincodeActionPayload P) encoded)"

definition UnmarshalChaincodeProposalPayload :: "pb \<Rightarrow> bytes \<Rightarrow> ChaincodeProposalPayload ret" where
  "UnmarshalChaincodeProposalPayload P encoded =
     ret_wrap ''error unmarshaling ChaincodeProposalPayload'' (Unmarshal (pb_ChaincodeProposalPayload P) encoded)"

definition UnmarshalPayloadOrPanic :: "pb \<Rightarrow> bytes \<Rightarrow> Payload outcome" where
  "UnmarshalPayloadOrPanic P encoded = or_panic (check (UnmarshalPayload P encoded))"

definition UnmarshalEnvelopeOrPanic :: "pb \<Rightarrow> bytes \<Rightarrow> Envelope outcome" where
  "UnmarshalEnvelopeOrPanic P encoded = or_panic (check (UnmarshalEnvelope P encoded))"

definition UnmarshalBlockOrPanic :: "pb \<Rightarrow> bytes \<Rightarrow> Block outcome" where
  "UnmarshalBlockOrPanic P encoded = or_panic (check (UnmarshalBlock P encoded))"

definition UnmarshalChannelHeaderOrPanic :: "pb \<Rightarrow> bytes \<Rightarrow> ChannelHeader outcome" where
  "UnmarshalChannelHeaderOrPanic P encoded = or_panic (check (UnmarshalChannelHeader P encoded))"

definition UnmarshalSignatureHeaderOrPanic :: "pb \<Rightarrow> bytes \<Rightarrow> SignatureHeader outcome" where
  "UnmarshalSignatureHeaderOrPanic P encoded = or_panic (check (UnmarshalSignatureHeader P encoded))"

definition UnmarshalConfigUpdateEnvelope :: "pb \<Rightarrow> bytes \<Rightarrow> ConfigUpdateEnvelope outcome" where
  "UnmarshalConfigUpdateEnvelope P data = check (Unmarshal (pb_ConfigUpdateEnvelope P) data)"

section \<open>Serialisers\<close>

definition MarshalOrPanic :: "'m codec \<Rightarrow> 'm option \<Rightarrow> bytes outcome" where
  "MarshalOrPanic c m = or_panic (check (Marshal c m))"

definition GetBytesChaincodeProposalPayload :: "pb \<Rightarrow> ChaincodeProposalPayload option \<Rightarrow> bytes ret" where
  "GetBytesChaincodeProposalPayload P m = ret_wrap ''error marshaling ChaincodeProposalPayload'' (Marshal (pb_ChaincodeProposalPayload P) m)"

definition GetBytesResponse :: "pb \<Rightarrow> Response option \<Rightarrow> bytes ret" where
  "GetBytesResponse P m = ret_wrap ''error marshaling Response'' (Marshal (pb_Response P) m)"

definition GetBytesChaincodeEvent :: "pb \<Rightarrow> ChaincodeEvent option \<Rightarrow> bytes ret" where
  "GetBytesChaincodeEvent P m = ret_wrap ''error marshaling ChaincodeEvent'' (Marshal (pb_ChaincodeEvent P) m)"

definition GetBytesChaincodeActionPayload :: "pb \<Rightarrow> ChaincodeActionPayload option \<Rightarrow> bytes ret" where
  "GetBytesChaincodeActionPayload P m = ret_wrap ''error marshaling ChaincodeActionPayload'' (Marshal (pb_ChaincodeActionPayload P) m)"

definition GetBytesProposalResponse :: "pb \<Rightarrow> ProposalResponse option \<Rightarrow> bytes ret" where
  "GetBytesProposalResponse P m = ret_wrap ''error marshaling ProposalResponse'' (Marshal (pb_ProposalResponse P) m)"

definition GetBytesHeader :: "pb \<Rightarrow> Header option \<Rightarrow> bytes ret" where
  "GetBytesHeader P m = ret_wrap ''error marshaling Header'' (Marshal (pb_Header P) m)"

definition GetBytesSignatureHeader :: "pb \<Rightarrow> SignatureHeader option \<Rightarrow> bytes ret" where
  "GetBytesSignatureHeader P m = ret_wrap ''error marshaling SignatureHeader'' (Marshal (pb_SignatureHeader P) m)"

definition GetBytesTransaction :: "pb \<Rightarrow> Transaction option \<Rightarrow> bytes ret" where
  "GetBytesTransaction P m = ret_wrap ''error unmarshaling Transaction'' (Marshal (pb_Transaction P) m)"

definition GetBytesPayload :: "pb \<Rightarrow> Payload option \<Rightarrow> bytes ret" where
  "GetBytesPayload P m = ret_wrap ''error marshaling Payload'' (Marshal (pb_Payload P) m)"

definition GetBytesEnvelope :: "pb \<Rightarrow> Envelope option \<Rightarrow> bytes ret" where
  "GetBytesEnvelope P m = ret_wrap ''error marshaling Envelope'' (Marshal (pb_Envelope P) m)"

section \<open>Facts\<close>

lemmas unmarshal_defs =
  UnmarshalBlock_def
  UnmarshalChaincodeDeploymentSpec_def
  UnmarshalChaincodeInvocationSpec_def
  UnmarshalPayload_def
  UnmarshalEnvelope_def
  UnmarshalChannelHeader_def
  UnmarshalChaincodeID_def
  UnmarshalSignatureHeader_def
  UnmarshalSerializedIdentity_def
  UnmarshalHeader_def
  UnmarshalChaincodeHeaderExtension_def
  UnmarshalProposalResponse_def
  UnmarshalChaincodeAction_def
  UnmarshalResponse_def
  UnmarshalChaincodeEvents_def
  UnmarshalProposalResponsePayload_def
  UnmarshalProposal_def
  UnmarshalTransaction_def
  UnmarshalChaincodeActionPayload_def
  UnmarshalChaincodeProposalPayload_def

lemmas get_bytes_defs =
  GetBytesChaincodeProposalPayload_def
  GetBytesResponse_def
  GetBytesChaincodeEvent_def
  GetBytesChaincodeActionPayload_def
  GetBytesProposalResponse_def
  GetBytesHeader_def
  GetBytesSignatureHeader_def
  GetBytesTransaction_def
  GetBytesPayload_def
  GetBytesEnvelope_def

text \<open>Rebuilding a message from its bytes, for each message that is both written and read.\<close>

lemma marshal_or_panic_Ok [simp]: "MarshalOrPanic c m = Ok b \<longleftrightarrow> Marshal c m = (b, None)"
  by (simp add: MarshalOrPanic_def)

lemma codec_True_roundtrip:
  "codec_laws (\<lambda>_. True) c \<Longrightarrow> Marshal c (Some m) = (b, None) \<Longrightarrow> Unmarshal c b = (m, None)"
  by (rule codec_roundtrip) auto

end
