(* ===== verification/TxUtils.thy ===== *)
theory TxUtils
  imports Unmarshal
begin

text \<open>
  \<open>internal/utils/common.go\<close>, \<open>protoutil.go\<close> and \<open>txutil.go\<close>: headers and nonces, chaincode
  proposals and their transaction ids, endorsements, and the assembly of a signed transaction
  from a proposal and its responses.

  Parameters: \<open>P\<close> the codecs, \<open>sha2\<close> the function SHA-256, \<open>rnd\<close> the result of reading 24 random
  bytes, \<open>now\<close> the Unix time in seconds, \<open>ts\<close> the result of \<open>ptypes.TimestampProto\<close> on the
  current time. A signer is a \<open>Signer option\<close> where the code tests it for nil and a \<open>Signer\<close>
  elsewhere.
\<close>

section \<open>Nonces, transaction ids and headers\<close>

definition getRandomNonce :: "bytes ret \<Rightarrow> bytes outcome" where
  "getRandomNonce rnd = on_err ''error getting random bytes'' (check rnd)"

definition CreateNonce :: "bytes ret \<Rightarrow> bytes outcome" where
  "CreateNonce rnd = on_err ''error generating random nonce'' (getRandomNonce rnd)"

definition CreateNonceOrPanic :: "bytes ret \<Rightarrow> bytes outcome" where
  "CreateNonceOrPanic rnd = or_panic (CreateNonce rnd)"

text \<open>\<open>hex.EncodeToString\<close>: two lower-case digits per byte, the high one first.\<close>

definition hex_digit :: "nat \<Rightarrow> char" where
  "hex_digit n = (if n < 10 then char_of (48 + n) else char_of (87 + n))"

definition hex_of_bytes :: "bytes \<Rightarrow> string" where
  "hex_of_bytes bs = concat (map (\<lambda>b. [hex_digit (unat b div 16), hex_digit (unat b mod 16)]) bs)"

definition ComputeTxID :: "(bytes \<Rightarrow> bytes) \<Rightarrow> bytes \<Rightarrow> bytes \<Rightarrow> string" where
  "ComputeTxID sha2 nonce creator = hex_of_bytes (sha2 (nonce @ creator))"

definition CheckTxID :: "(bytes \<Rightarrow> bytes) \<Rightarrow> string \<Rightarrow> bytes \<Rightarrow> bytes \<Rightarrow> gerror option" where
  "CheckTxID sha2 txid nonce creator =
     (let computedTxID = ComputeTxID sha2 nonce creator in
      if txid \<noteq> computedTxID
      then Some (Errorf ''invalid txid. got [%s], expected [%s]'' [AStr txid, AStr computedTxID])
      else None)"

definition MakeChannelHeader :: "int \<Rightarrow> int \<Rightarrow> int \<Rightarrow> string \<Rightarrow> 64 word \<Rightarrow> ChannelHeader" where
  "MakeChannelHeader now headerType version chainID epoch =
     \<lparr>ch_Type = headerType, ch_Version = version,
      ch_Timestamp = Some \<lparr>ts_Seconds = now, ts_Nanos = 0\<rparr>, ch_ChannelId = chainID,
      ch_TxId = '''', ch_Epoch = epoch, ch_Extension = [], ch_TlsCertHash = []\<rparr>"

definition MakeSignatureHeader :: "bytes \<Rightarrow> bytes \<Rightarrow> SignatureHeader" where
  "MakeSignatureHeader serializedCreatorCertChain nonce =
     \<lparr>sh_Creator = serializedCreatorCertChain, sh_Nonce = nonce\<rparr>"

text \<open>\<open>SetTxID\<close> updates the channel header it is given; the model returns it.\<close>

definition SetTxID ::
    "(bytes \<Rightarrow> bytes) \<Rightarrow> ChannelHeader option \<Rightarrow> SignatureHeader option \<Rightarrow> ChannelHeader outcome" where
  "SetTxID sha2 channelHeader signatureHeader =
     bind (deref signatureHeader) (\<lambda>sh. bind (deref channelHeader) (\<lambda>ch.
     Ok (ch\<lparr>ch_TxId := ComputeTxID sha2 (sh_Nonce sh) (sh_Creator sh)\<rparr>)))"

definition MakePayloadHeader ::
    "pb \<Rightarrow> ChannelHeader option \<Rightarrow> SignatureHeader option \<Rightarrow> Header outcome" where
  "MakePayloadHeader P ch sh =
     bind (MarshalOrPanic (pb_ChannelHeader P) ch) (\<lambda>c.
     bind (MarshalOrPanic (pb_SignatureHeader P) sh) (\<lambda>s.
     Ok \<lparr>hdr_ChannelHeader = Some c, hdr_SignatureHeader = Some s\<rparr>))"

definition NewSignatureHeader :: "bytes ret \<Rightarrow> Signer \<Rightarrow> SignatureHeader outcome" where
  "NewSignatureHeader rnd signer =
     bind (check (sg_Serialize signer)) (\<lambda>creator.
     bind (CreateNonce rnd) (\<lambda>nonce.
     Ok \<lparr>sh_Creator = creator, sh_Nonce = nonce\<rparr>))"

section \<open>Reading envelopes and blocks\<close>

text \<open>\<open>UnmarshalEnvelopeOfType\<close> fills \<open>message\<close> through its pointer: the model returns the channel
  header, the message after the call, and the error.\<close>

definition UnmarshalEnvelopeOfType ::
    "pb \<Rightarrow> 'm codec \<Rightarrow> Envelope option \<Rightarrow> int \<Rightarrow> 'm
       \<Rightarrow> (ChannelHeader option \<times> 'm \<times> gerror option) outcome" where
  "UnmarshalEnvelopeOfType P c envelope headerType message =
     bind (deref envelope) (\<lambda>env.
     case UnmarshalPayload P (env_Payload env) of
       (payload, Some err) \<Rightarrow> Ok (None, message, Some err)
     | (payload, None) \<Rightarrow>
       (case payl_Header payload of
          None \<Rightarrow> Ok (None, message, Some (ErrNew ''envelope must have a Header''))
        | Some hdr \<Rightarrow>
          (case UnmarshalChannelHeader P (slice_bytes (hdr_ChannelHeader hdr)) of
             (chdr, Some err) \<Rightarrow> Ok (None, message, Some err)
           | (chdr, None) \<Rightarrow>
             (if ch_Type chdr \<noteq> headerType
              then Ok (None, message, Some (Errorf ''invalid type %s, expected %s''
                        [AInt (ch_Type chdr), AInt headerType]))
              else let (msg, err) = Unmarshal c (payl_Data payload)
                   in Ok (Some chdr, msg, errors_Wrap err ''error unmarshaling message for type %s'')))))"

definition GetEnvelopeFromBlock :: "pb \<Rightarrow> bytes \<Rightarrow> Envelope outcome" where
  "GetEnvelopeFromBlock P data =
     on_err ''error unmarshaling Envelope'' (check (Unmarshal (pb_Envelope P) data))"

definition ExtractEnvelope :: "pb \<Rightarrow> Block option \<Rightarrow> int \<Rightarrow> Envelope outcome" where
  "ExtractEnvelope P block index =
     bind (deref block) (\<lambda>b.
     case blk_Data b of
       None \<Rightarrow> Err (ErrNew ''block data is nil'')
     | Some d \<Rightarrow>
       (if index < 0 \<or> index \<ge> int (length (bd_Data d))
        then Err (ErrNew ''envelope index out of bounds'')
        else bind (go_index (bd_Data d) (nat index)) (\<lambda>marshaledEnvelope.
             on_err ''block data does not carry an envelope at index %d''
               (GetEnvelopeFromBlock P marshaledEnvelope))))"

definition ExtractEnvelopeOrPanic :: "pb \<Rightarrow> Block option \<Rightarrow> int \<Rightarrow> Envelope outcome" where
  "ExtractEnvelopeOrPanic P block index = or_panic (ExtractEnvelope P block index)"

definition ExtractPayload :: "pb \<Rightarrow> Envelope option \<Rightarrow> Payload ret outcome" where
  "ExtractPayload P envelope =
     bind (deref envelope) (\<lambda>env.
     Ok (ret_wrap ''no payload in envelope'' (Unmarshal (pb_Payload P) (env_Payload env))))"

definition IsConfigBlock :: "pb \<Rightarrow> Block option \<Rightarrow> bool outcome" where
  "IsConfigBlock P block =
     (case ExtractEnvelope P block 0 of
        Panic p \<Rightarrow> Panic p
      | Err _ \<Rightarrow> Ok False
      | Ok envelope \<Rightarrow>
        (case UnmarshalPayload P (env_Payload envelope) of
           (_, Some _) \<Rightarrow> Ok False
         | (payload, None) \<Rightarrow>
           (case payl_Header payload of
              None \<Rightarrow> Ok False
            | Some h \<Rightarrow>
              (case UnmarshalChannelHeader P (slice_bytes (hdr_ChannelHeader h)) of
                 (_, Some _) \<Rightarrow> Ok False
               | (hdr, None) \<Rightarrow> Ok (ch_Type hdr = HeaderType_CONFIG \<or>
                                    ch_Type hdr = HeaderType_ORDERER_TRANSACTION)))))"

definition ChannelHeader_of :: "pb \<Rightarrow> Envelope option \<Rightarrow> ChannelHeader outcome" where
  "ChannelHeader_of P e =
     bind (deref e) (\<lambda>env.
     bind (check (UnmarshalPayload P (env_Payload env))) (\<lambda>envPayload.
     case payl_Header envPayload of
       None \<Rightarrow> Err (ErrNew ''header not set'')
     | Some h \<Rightarrow>
       (case hdr_ChannelHeader h of
          None \<Rightarrow> Err (ErrNew ''channel header not set'')
        | Some c \<Rightarrow> on_err ''error unmarshaling channel header'' (check (UnmarshalChannelHeader P c)))))"

definition ChannelID :: "pb \<Rightarrow> Envelope option \<Rightarrow> string outcome" where
  "ChannelID P env =
     bind (on_err ''error retrieving channel header'' (ChannelHeader_of P env)) (\<lambda>chdr.
     Ok (ch_ChannelId chdr))"

definition EnvelopeToConfigUpdate :: "pb \<Rightarrow> Envelope option \<Rightarrow> ConfigUpdateEnvelope outcome" where
  "EnvelopeToConfigUpdate P configtx =
     bind (UnmarshalEnvelopeOfType P (pb_ConfigUpdateEnvelope P) configtx HeaderType_CONFIG_UPDATE
             \<lparr>cue_ConfigUpdate = [], cue_Signatures = []\<rparr>) (\<lambda>(_, configUpdateEnv, err).
     check (configUpdateEnv, err))"

section \<open>Proposals\<close>

definition CreateChaincodeProposalWithTxIDNonceAndTransient ::
    "pb \<Rightarrow> Timestamp ret \<Rightarrow> string \<Rightarrow> int \<Rightarrow> string \<Rightarrow> ChaincodeInvocationSpec option \<Rightarrow> bytes \<Rightarrow> bytes
       \<Rightarrow> (string \<rightharpoonup> bytes) \<Rightarrow> (Proposal \<times> string) outcome" where
  "CreateChaincodeProposalWithTxIDNonceAndTransient P ts txid typ channelID cis nonce creator transientMap =
     bind (deref cis) (\<lambda>c.
     bind (deref (cis_ChaincodeSpec c)) (\<lambda>spec.
     bind (on_err ''error marshaling ChaincodeHeaderExtension''
             (check (Marshal (pb_ChaincodeHeaderExtension P)
                       (Some \<lparr>che_ChaincodeId = cspec_ChaincodeId spec\<rparr>)))) (\<lambda>ccHdrExtBytes.
     bind (on_err ''error marshaling ChaincodeInvocationSpec''
             (check (Marshal (pb_ChaincodeInvocationSpec P) cis))) (\<lambda>cisBytes.
     bind (on_err ''error marshaling ChaincodeProposalPayload''
             (check (Marshal (pb_ChaincodeProposalPayload P)
                       (Some \<lparr>cpp_Input = cisBytes, cpp_TransientMap = transientMap\<rparr>))))
       (\<lambda>ccPropPayloadBytes.
     bind (on_err ''error validating Timestamp'' (check ts)) (\<lambda>timestamp.
     bind (MarshalOrPanic (pb_ChannelHeader P)
             (Some \<lparr>ch_Type = typ, ch_Version = 0, ch_Timestamp = Some timestamp,
                    ch_ChannelId = channelID, ch_TxId = txid, ch_Epoch = 0,
                    ch_Extension = ccHdrExtBytes, ch_TlsCertHash = []\<rparr>)) (\<lambda>chBytes.
     bind (MarshalOrPanic (pb_SignatureHeader P) (Some \<lparr>sh_Creator = creator, sh_Nonce = nonce\<rparr>))
       (\<lambda>shBytes.
     bind (check (Marshal (pb_Header P)
             (Some \<lparr>hdr_ChannelHeader = Some chBytes, hdr_SignatureHeader = Some shBytes\<rparr>)))
       (\<lambda>hdrBytes.
     Ok (\<lparr>prop_Header = hdrBytes, prop_Payload = ccPropPayloadBytes\<rparr>, txid))))))))))"

definition CreateChaincodeProposalWithTransient ::
    "pb \<Rightarrow> (bytes \<Rightarrow> bytes) \<Rightarrow> bytes ret \<Rightarrow> Timestamp ret \<Rightarrow> int \<Rightarrow> string
       \<Rightarrow> ChaincodeInvocationSpec option \<Rightarrow> bytes \<Rightarrow> (string \<rightharpoonup> bytes) \<Rightarrow> (Proposal \<times> string) outcome" where
  "CreateChaincodeProposalWithTransient P sha2 rnd ts typ channelID cis creator transientMap =
     bind (getRandomNonce rnd) (\<lambda>nonce.
     let txid = ComputeTxID sha2 nonce creator in
     CreateChaincodeProposalWithTxIDNonceAndTransient P ts txid typ channelID cis nonce creator transientMap)"

definition CreateChaincodeProposal ::
    "pb \<Rightarrow> (bytes \<Rightarrow> bytes) \<Rightarrow> bytes ret \<Rightarrow> Timestamp ret \<Rightarrow> int \<Rightarrow> string
       \<Rightarrow> ChaincodeInvocationSpec option \<Rightarrow> bytes \<Rightarrow> (Proposal \<times> string) outcome" where
  "CreateChaincodeProposal P sha2 rnd ts typ channelID cis creator =
     CreateChaincodeProposalWithTransient P sha2 rnd ts typ channelID cis creator Map.empty"

definition CreateChaincodeProposalWithTxIDAndTransient ::
    "pb \<Rightarrow> (bytes \<Rightarrow> bytes) \<Rightarrow> bytes ret \<Rightarrow> Timestamp ret \<Rightarrow> int \<Rightarrow> string
       \<Rightarrow> ChaincodeInvocationSpec option \<Rightarrow> bytes \<Rightarrow> string \<Rightarrow> (string \<rightharpoonup> bytes)
       \<Rightarrow> (Proposal \<times> string) outcome" where
  "CreateChaincodeProposalWithTxIDAndTransient P sha2 rnd ts typ channelID cis creator txid transientMap =
     bind (getRandomNonce rnd) (\<lambda>nonce.
     let txid' = (if txid = '''' then ComputeTxID sha2 nonce creator else txid) in
     CreateChaincodeProposalWithTxIDNonceAndTransient P ts txid' typ channelID cis nonce creator transientMap)"

definition CreateProposalFromCISAndTxid ::
    "pb \<Rightarrow> bytes ret \<Rightarrow> Timestamp ret \<Rightarrow> string \<Rightarrow> int \<Rightarrow> string
       \<Rightarrow> ChaincodeInvocationSpec option \<Rightarrow> bytes \<Rightarrow> (Proposal \<times> string) outcome" where
  "CreateProposalFromCISAndTxid P rnd ts txid typ channelID cis creator =
     bind (getRandomNonce rnd) (\<lambda>nonce.
     CreateChaincodeProposalWithTxIDNonceAndTransient P ts txid typ channelID cis nonce creator Map.empty)"

definition CreateProposalFromCIS ::
    "pb \<Rightarrow> (bytes \<Rightarrow> bytes) \<Rightarrow> bytes ret \<Rightarrow> Timestamp ret \<Rightarrow> int \<Rightarrow> string
       \<Rightarrow> ChaincodeInvocationSpec option \<Rightarrow> bytes \<Rightarrow> (Proposal \<times> string) outcome" where
  "CreateProposalFromCIS P sha2 rnd ts typ channelID cis creator =
     CreateChaincodeProposal P sha2 rnd ts typ channelID cis creator"

text \<open>The invocation of \<open>lscc\<close> that the three lifecycle proposals share in the source, written out
  there each time.\<close>

definition lscc_spec :: "ChaincodeInput option \<Rightarrow> ChaincodeInvocationSpec" where
  "lscc_spec ccinp =
     \<lparr>cis_ChaincodeSpec = Some
        \<lparr>cspec_Type = ChaincodeSpec_GOLANG,
         cspec_ChaincodeId = Some \<lparr>ccid_Path = '''', ccid_Name = ''lscc'', ccid_Version = ''''\<rparr>,
         cspec_Input = ccinp\<rparr>\<rparr>"

definition CreateGetChaincodesProposal ::
    "pb \<Rightarrow> (bytes \<Rightarrow> bytes) \<Rightarrow> bytes ret \<Rightarrow> Timestamp ret \<Rightarrow> string \<Rightarrow> bytes \<Rightarrow> (Proposal \<times> string) outcome" where
  "CreateGetChaincodesProposal P sha2 rnd ts channelID creator =
     CreateProposalFromCIS P sha2 rnd ts HeaderType_ENDORSER_TRANSACTION channelID
       (Some (lscc_spec (Some \<lparr>cin_Args = [bytes_of_string ''getchaincodes''], cin_IsInit = False\<rparr>))) creator"

definition CreateGetInstalledChaincodesProposal ::
    "pb \<Rightarrow> (bytes \<Rightarrow> bytes) \<Rightarrow> bytes ret \<Rightarrow> Timestamp ret \<Rightarrow> bytes \<Rightarrow> (Proposal \<times> string) outcome" where
  "CreateGetInstalledChaincodesProposal P sha2 rnd ts creator =
     CreateProposalFromCIS P sha2 rnd ts HeaderType_ENDORSER_TRANSACTION ''''
       (Some (lscc_spec (Some \<lparr>cin_Args = [bytes_of_string ''getinstalledchaincodes''],
                               cin_IsInit = False\<rparr>))) creator"

text \<open>The \<open>proto.Message\<close> argument of \<open>createProposalFromCDS\<close>: a nil interface, a deployment spec
  (perhaps a nil pointer), or another message, of which only its marshalling is used.\<close>

datatype ccmsg = NilMsg | CDSMsg "ChaincodeDeploymentSpec option" | OtherMsg "bytes ret"

fun ccmsg_marshal :: "pb \<Rightarrow> ccmsg \<Rightarrow> bytes outcome" where
  "ccmsg_marshal P NilMsg = Ok []"
| "ccmsg_marshal P (CDSMsg cds) = check (Marshal (pb_ChaincodeDeploymentSpec P) cds)"
| "ccmsg_marshal P (OtherMsg r) = check r"

definition createProposalFromCDS ::
    "pb \<Rightarrow> (bytes \<Rightarrow> bytes) \<Rightarrow> bytes ret \<Rightarrow> Timestamp ret \<Rightarrow> string \<Rightarrow> ccmsg \<Rightarrow> bytes \<Rightarrow> string
       \<Rightarrow> bytes list \<Rightarrow> (Proposal \<times> string) outcome" where
  "createProposalFromCDS P sha2 rnd ts channelID msg creator propType args =
     bind (ccmsg_marshal P msg) (\<lambda>b.
     bind (if propType = ''deploy'' \<or> propType = ''upgrade''
           then (case msg of
                   CDSMsg (Some cds) \<Rightarrow>
                     Ok (Some \<lparr>cin_Args = [bytes_of_string propType, bytes_of_string channelID, b] @ args,
                               cin_IsInit = False\<rparr>)
                 | _ \<Rightarrow> Err (ErrNew ''invalid message for creating lifecycle chaincode proposal''))
           else if propType = ''install''
           then Ok (Some \<lparr>cin_Args = [bytes_of_string propType, b], cin_IsInit = False\<rparr>)
           else Ok None) (\<lambda>ccinp.
     CreateProposalFromCIS P sha2 rnd ts HeaderType_ENDORSER_TRANSACTION channelID
       (Some (lscc_spec ccinp)) creator))"

definition CreateInstallProposalFromCDS ::
    "pb \<Rightarrow> (bytes \<Rightarrow> bytes) \<Rightarrow> bytes ret \<Rightarrow> Timestamp ret \<Rightarrow> ccmsg \<Rightarrow> bytes \<Rightarrow> (Proposal \<times> string) outcome" where
  "CreateInstallProposalFromCDS P sha2 rnd ts ccpack creator =
     createProposalFromCDS P sha2 rnd ts '''' ccpack creator ''install'' []"

definition CreateDeployProposalFromCDS ::
    "pb \<Rightarrow> (bytes \<Rightarrow> bytes) \<Rightarrow> bytes ret \<Rightarrow> Timestamp ret \<Rightarrow> string \<Rightarrow> ChaincodeDeploymentSpec option
       \<Rightarrow> bytes \<Rightarrow> bytes \<Rightarrow> bytes \<Rightarrow> bytes \<Rightarrow> slice \<Rightarrow> (Proposal \<times> string) outcome" where
  "CreateDeployProposalFromCDS P sha2 rnd ts channelID cds creator policy escc vscc collectionConfig =
     (case collectionConfig of
        None \<Rightarrow> createProposalFromCDS P sha2 rnd ts channelID (CDSMsg cds) creator ''deploy''
                  [policy, escc, vscc]
      | Some cc \<Rightarrow> createProposalFromCDS P sha2 rnd ts channelID (CDSMsg cds) creator ''deploy''
                  [policy, escc, vscc, cc])"

definition CreateUpgradeProposalFromCDS ::
    "pb \<Rightarrow> (bytes \<Rightarrow> bytes) \<Rightarrow> bytes ret \<Rightarrow> Timestamp ret \<Rightarrow> string \<Rightarrow> ChaincodeDeploymentSpec option
       \<Rightarrow> bytes \<Rightarrow> bytes \<Rightarrow> bytes \<Rightarrow> bytes \<Rightarrow> slice \<Rightarrow> (Proposal \<times> string) outcome" where
  "CreateUpgradeProposalFromCDS P sha2 rnd ts channelID cds creator policy escc vscc collectionConfig =
     (case collectionConfig of
        None \<Rightarrow> createProposalFromCDS P sha2 rnd ts channelID (CDSMsg cds) creator ''upgrade''
                  [policy, escc, vscc]
      | Some cc \<Rightarrow> createProposalFromCDS P sha2 rnd ts channelID (CDSMsg cds) creator ''upgrade''
                  [policy, escc, vscc, cc])"

definition InvokedChaincodeName :: "pb \<Rightarrow> bytes \<Rightarrow> string outcome" where
  "InvokedChaincodeName P proposalBytes =
     bind (on_err ''could not unmarshal proposal'' (check (Unmarshal (pb_Proposal P) proposalBytes)))
       (\<lambda>proposal.
     bind (on_err ''could not unmarshal chaincode proposal payload''
             (check (Unmarshal (pb_ChaincodeProposalPayload P) (prop_Payload proposal)))) (\<lambda>proposalPayload.
     bind (on_err ''could not unmarshal chaincode invocation spec''
             (check (Unmarshal (pb_ChaincodeInvocationSpec P) (cpp_Input proposalPayload)))) (\<lambda>cis.
     case cis_ChaincodeSpec cis of
       None \<Rightarrow> Err (Errorf ''chaincode spec is nil'' [])
     | Some spec \<Rightarrow>
       (case cspec_ChaincodeId spec of
          None \<Rightarrow> Err (Errorf ''chaincode id is nil'' [])
        | Some ccid \<Rightarrow> Ok (ccid_Name ccid)))))"

section \<open>Proposal hashes and responses\<close>

definition GetBytesProposalResponsePayload ::
    "pb \<Rightarrow> bytes \<Rightarrow> Response option \<Rightarrow> bytes \<Rightarrow> bytes \<Rightarrow> ChaincodeID option \<Rightarrow> bytes outcome" where
  "GetBytesProposalResponsePayload P hash response result event ccid =
     bind (on_err ''error marshaling ChaincodeAction''
             (check (Marshal (pb_ChaincodeAction P)
                (Some \<lparr>ca_Results = result, ca_Events = event, ca_Response = response,
                       ca_ChaincodeId = ccid\<rparr>)))) (\<lambda>cActBytes.
     on_err ''error marshaling ProposalResponsePayload''
       (check (Marshal (pb_ProposalResponsePayload P)
          (Some \<lparr>prp_ProposalHash = hash, prp_Extension = Some cActBytes\<rparr>))))"

definition GetBytesProposalPayloadForTx :: "pb \<Rightarrow> ChaincodeProposalPayload option \<Rightarrow> bytes outcome" where
  "GetBytesProposalPayloadForTx P payload =
     (case payload of
        None \<Rightarrow> Err (ErrNew ''nil arguments'')
      | Some p \<Rightarrow> check (GetBytesChaincodeProposalPayload P
                    (Some \<lparr>cpp_Input = cpp_Input p, cpp_TransientMap = Map.empty\<rparr>)))"

definition GetProposalHash2 :: "(bytes \<Rightarrow> bytes) \<Rightarrow> Header option \<Rightarrow> slice \<Rightarrow> bytes outcome" where
  "GetProposalHash2 sha2 header ccPropPayl =
     (case header of
        None \<Rightarrow> Err (ErrNew ''nil arguments'')
      | Some h \<Rightarrow>
        (if hdr_ChannelHeader h = None \<or> hdr_SignatureHeader h = None \<or> ccPropPayl = None
         then Err (ErrNew ''nil arguments'')
         else Ok (sha2 (slice_bytes (hdr_ChannelHeader h) @ slice_bytes (hdr_SignatureHeader h)
                        @ slice_bytes ccPropPayl))))"

definition GetProposalHash1 :: "pb \<Rightarrow> (bytes \<Rightarrow> bytes) \<Rightarrow> Header option \<Rightarrow> slice \<Rightarrow> bytes outcome" where
  "GetProposalHash1 P sha2 header ccPropPayl =
     (case header of
        None \<Rightarrow> Err (ErrNew ''nil arguments'')
      | Some h \<Rightarrow>
        (if hdr_ChannelHeader h = None \<or> hdr_SignatureHeader h = None \<or> ccPropPayl = None
         then Err (ErrNew ''nil arguments'')
         else bind (check (UnmarshalChaincodeProposalPayload P (slice_bytes ccPropPayl))) (\<lambda>cpp.
              bind (GetBytesProposalPayloadForTx P (Some cpp)) (\<lambda>ppBytes.
              Ok (sha2 (slice_bytes (hdr_ChannelHeader h) @ slice_bytes (hdr_SignatureHeader h)
                        @ ppBytes))))))"

definition CreateProposalResponse ::
    "pb \<Rightarrow> (bytes \<Rightarrow> bytes) \<Rightarrow> bytes \<Rightarrow> slice \<Rightarrow> Response option \<Rightarrow> bytes \<Rightarrow> bytes \<Rightarrow> ChaincodeID option
       \<Rightarrow> Signer \<Rightarrow> ProposalResponse outcome" where
  "CreateProposalResponse P sha2 hdrbytes payl response results events ccid signingEndorser =
     bind (check (UnmarshalHeader P hdrbytes)) (\<lambda>hdr.
     bind (on_err ''error computing proposal hash'' (GetProposalHash1 P sha2 (Some hdr) payl))
       (\<lambda>pHashBytes.
     bind (GetBytesProposalResponsePayload P pHashBytes response results events ccid) (\<lambda>prpBytes.
     bind (on_err ''error serializing signing identity'' (check (sg_Serialize signingEndorser)))
       (\<lambda>endorser.
     bind (on_err ''could not sign the proposal response payload''
             (check (sg_Sign signingEndorser (prpBytes @ endorser)))) (\<lambda>signature.
     Ok \<lparr>pr_Version = 1,
         pr_Response = Some \<lparr>resp_Status = 200, resp_Message = ''OK'', resp_Payload = []\<rparr>,
         pr_Payload = Some prpBytes,
         pr_Endorsement = Some \<lparr>end_Endorser = endorser, end_Signature = signature\<rparr>\<rparr>)))))"

definition CreateProposalResponseFailure ::
    "pb \<Rightarrow> (bytes \<Rightarrow> bytes) \<Rightarrow> bytes \<Rightarrow> slice \<Rightarrow> Response option \<Rightarrow> bytes \<Rightarrow> bytes \<Rightarrow> string
       \<Rightarrow> ProposalResponse outcome" where
  "CreateProposalResponseFailure P sha2 hdrbytes payl response results events chaincodeName =
     bind (check (UnmarshalHeader P hdrbytes)) (\<lambda>hdr.
     bind (on_err ''error computing proposal hash'' (GetProposalHash1 P sha2 (Some hdr) payl))
       (\<lambda>pHashBytes.
     bind (GetBytesProposalResponsePayload P pHashBytes response results events
             (Some \<lparr>ccid_Path = '''', ccid_Name = chaincodeName, ccid_Version = ''''\<rparr>)) (\<lambda>prpBytes.
     Ok \<lparr>pr_Version = 0, pr_Response = response, pr_Payload = Some prpBytes, pr_Endorsement = None\<rparr>)))"

section \<open>Signing\<close>

definition GetSignedProposal :: "pb \<Rightarrow> Proposal option \<Rightarrow> Signer option \<Rightarrow> SignedProposal outcome" where
  "GetSignedProposal P prop signer =
     (case (prop, signer) of
        (Some p, Some sg) \<Rightarrow>
          bind (check (Marshal (pb_Proposal P) (Some p))) (\<lambda>propBytes.
          bind (check (sg_Sign sg propBytes)) (\<lambda>signature.
          Ok \<lparr>sp_ProposalBytes = propBytes, sp_Signature = signature\<rparr>))
      | _ \<Rightarrow> Err (ErrNew ''nil arguments''))"

definition MockSignedEndorserProposalOrPanic ::
    "pb \<Rightarrow> (bytes \<Rightarrow> bytes) \<Rightarrow> bytes ret \<Rightarrow> Timestamp ret \<Rightarrow> string \<Rightarrow> ChaincodeSpec option \<Rightarrow> bytes
       \<Rightarrow> bytes \<Rightarrow> (SignedProposal \<times> Proposal) outcome" where
  "MockSignedEndorserProposalOrPanic P sha2 rnd ts channelID cs creator signature =
     bind (or_panic (CreateChaincodeProposal P sha2 rnd ts HeaderType_ENDORSER_TRANSACTION channelID
             (Some \<lparr>cis_ChaincodeSpec = cs\<rparr>) creator)) (\<lambda>(prop, _).
     bind (or_panic (check (Marshal (pb_Proposal P) (Some prop)))) (\<lambda>propBytes.
     Ok (\<lparr>sp_ProposalBytes = propBytes, sp_Signature = signature\<rparr>, prop)))"

definition MockSignedEndorserProposal2OrPanic ::
    "pb \<Rightarrow> (bytes \<Rightarrow> bytes) \<Rightarrow> bytes ret \<Rightarrow> Timestamp ret \<Rightarrow> string \<Rightarrow> ChaincodeSpec option \<Rightarrow> Signer
       \<Rightarrow> (SignedProposal \<times> Proposal) outcome" where
  "MockSignedEndorserProposal2OrPanic P sha2 rnd ts channelID cs signer =
     bind (or_panic (check (sg_Serialize signer))) (\<lambda>serializedSigner.
     bind (or_panic (CreateChaincodeProposal P sha2 rnd ts HeaderType_ENDORSER_TRANSACTION channelID
             (Some \<lparr>cis_ChaincodeSpec = Some \<lparr>cspec_Type = ChaincodeSpec_UNDEFINED,
                      cspec_ChaincodeId = None, cspec_Input = None\<rparr>\<rparr>) serializedSigner)) (\<lambda>(prop, _).
     bind (or_panic (GetSignedProposal P (Some prop) (Some signer))) (\<lambda>sProp.
     Ok (sProp, prop))))"

definition CreateSignedEnvelopeWithTLSBinding ::
    "pb \<Rightarrow> 'm codec \<Rightarrow> int \<Rightarrow> int \<Rightarrow> string \<Rightarrow> Signer option \<Rightarrow> 'm option \<Rightarrow> int \<Rightarrow> 64 word \<Rightarrow> bytes
       \<Rightarrow> Envelope outcome" where
  "CreateSignedEnvelopeWithTLSBinding P c now txType channelID signer dataMsg msgVersion epoch tlsCertHash =
     (let payloadChannelHeader =
            (MakeChannelHeader now txType msgVersion channelID epoch)\<lparr>ch_TlsCertHash := tlsCertHash\<rparr> in
      bind (case signer of
              None \<Rightarrow> Ok \<lparr>sh_Creator = [], sh_Nonce = []\<rparr>
            | Some sg \<Rightarrow> check (sg_NewSignatureHeader sg)) (\<lambda>payloadSignatureHeader.
      bind (on_err ''error marshaling'' (check (Marshal c dataMsg))) (\<lambda>data.
      bind (MakePayloadHeader P (Some payloadChannelHeader) (Some payloadSignatureHeader)) (\<lambda>h.
      bind (MarshalOrPanic (pb_Payload P) (Some \<lparr>payl_Header = Some h, payl_Data = data\<rparr>)) (\<lambda>paylBytes.
      bind (case signer of None \<Rightarrow> Ok [] | Some sg \<Rightarrow> check (sg_Sign sg paylBytes)) (\<lambda>sig.
      Ok \<lparr>env_Payload = paylBytes, env_Signature = sig\<rparr>))))))"

definition CreateSignedEnvelope ::
    "pb \<Rightarrow> 'm codec \<Rightarrow> int \<Rightarrow> int \<Rightarrow> string \<Rightarrow> Signer option \<Rightarrow> 'm option \<Rightarrow> int \<Rightarrow> 64 word
       \<Rightarrow> Envelope outcome" where
  "CreateSignedEnvelope P c now txType channelID signer dataMsg msgVersion epoch =
     CreateSignedEnvelopeWithTLSBinding P c now txType channelID signer dataMsg msgVersion epoch []"

text \<open>The loop over the responses in \<open>CreateSignedTx\<close>: \<open>n\<close> counts them and \<open>a1\<close> is the payload of
  the first.\<close>

fun check_responses :: "nat \<Rightarrow> bytes \<Rightarrow> ProposalResponse option list \<Rightarrow> unit outcome" where
  "check_responses n a1 [] = Ok ()"
| "check_responses n a1 (p # ps) =
     bind (deref p) (\<lambda>r. bind (deref (pr_Response r)) (\<lambda>resp.
     if resp_Status resp < 200 \<or> resp_Status resp \<ge> 400
     then Err (Errorf ''proposal response was not successful, error code %d, msg %s''
                 [AInt (resp_Status resp), AStr (resp_Message resp)])
     else if n = 0 then check_responses (n + 1) (slice_bytes (pr_Payload r)) ps
     else if a1 \<noteq> slice_bytes (pr_Payload r)
     then Err (ErrNew ''ProposalResponsePayloads do not match'')
     else check_responses (n + 1) a1 ps))"

definition CreateSignedTx ::
    "pb \<Rightarrow> Proposal option \<Rightarrow> Signer \<Rightarrow> ProposalResponse option list \<Rightarrow> Envelope outcome" where
  "CreateSignedTx P proposal signer resps =
     (if resps = [] then Err (ErrNew ''at least one proposal response is required'')
      else
      bind (deref proposal) (\<lambda>prop.
      bind (check (UnmarshalHeader P (prop_Header prop))) (\<lambda>hdr.
      bind (check (UnmarshalChaincodeProposalPayload P (prop_Payload prop))) (\<lambda>pPayl.
      bind (check (sg_Serialize signer)) (\<lambda>signerBytes.
      bind (check (UnmarshalSignatureHeader P (slice_bytes (hdr_SignatureHeader hdr)))) (\<lambda>shdr.
      if signerBytes \<noteq> sh_Creator shdr
      then Err (ErrNew ''signer must be the same as the one referenced in the header'')
      else
      bind (check_responses 0 [] resps) (\<lambda>_.
      bind (map_outcome (\<lambda>p. bind (deref p) (\<lambda>r. Ok (pr_Endorsement r))) resps) (\<lambda>endorsements.
      bind (deref (hd resps)) (\<lambda>r0.
      bind (GetBytesProposalPayloadForTx P (Some pPayl)) (\<lambda>propPayloadBytes.
      bind (check (GetBytesChaincodeActionPayload P
              (Some \<lparr>cap_ChaincodeProposalPayload = Some propPayloadBytes,
                     cap_Action = Some \<lparr>cea_ProposalResponsePayload = pr_Payload r0,
                                        cea_Endorsements = endorsements\<rparr>\<rparr>))) (\<lambda>capBytes.
      bind (check (GetBytesTransaction P
              (Some \<lparr>tx_Actions = [Some \<lparr>ta_Header = slice_bytes (hdr_SignatureHeader hdr),
                                         ta_Payload = capBytes\<rparr>]\<rparr>))) (\<lambda>txBytes.
      bind (check (GetBytesPayload P (Some \<lparr>payl_Header = Some hdr, payl_Data = txBytes\<rparr>)))
        (\<lambda>paylBytes.
      bind (check (sg_Sign signer paylBytes)) (\<lambda>sig.
      Ok \<lparr>env_Payload = paylBytes, env_Signature = sig\<rparr>))))))))))))))"

section \<open>Reading transactions\<close>

text \<open>\<open>GetPayloads\<close> returns the action payload also when the innermost message is malformed.\<close>

definition GetPayloads ::
    "pb \<Rightarrow> TransactionAction option
       \<Rightarrow> (ChaincodeActionPayload option \<times> ChaincodeAction option) ret outcome" where
  "GetPayloads P txActions =
     bind (deref txActions) (\<lambda>ta.
     case UnmarshalChaincodeActionPayload P (ta_Payload ta) of
       (_, Some err) \<Rightarrow> Ok ((None, None), Some err)
     | (ccPayload, None) \<Rightarrow>
       (case cap_Action ccPayload of
          None \<Rightarrow> Ok ((None, None), Some (ErrNew ''no payload in ChaincodeActionPayload''))
        | Some action \<Rightarrow>
          (case cea_ProposalResponsePayload action of
             None \<Rightarrow> Ok ((None, None), Some (ErrNew ''no payload in ChaincodeActionPayload''))
           | Some prpBytes \<Rightarrow>
             (case UnmarshalProposalResponsePayload P prpBytes of
                (_, Some err) \<Rightarrow> Ok ((None, None), Some err)
              | (pRespPayload, None) \<Rightarrow>
                (case prp_Extension pRespPayload of
                   None \<Rightarrow> Ok ((None, None), Some (ErrNew ''response payload is missing extension''))
                 | Some ext \<Rightarrow>
                   (case UnmarshalChaincodeAction P ext of
                      (_, Some err) \<Rightarrow> Ok ((Some ccPayload, None), Some err)
                    | (respPayload, None) \<Rightarrow> Ok ((Some ccPayload, Some respPayload), None)))))))"

definition GetActionFromEnvelopeMsg :: "pb \<Rightarrow> Envelope option \<Rightarrow> ChaincodeAction option outcome" where
  "GetActionFromEnvelopeMsg P e =
     bind (deref e) (\<lambda>env.
     bind (check (UnmarshalPayload P (env_Payload env))) (\<lambda>payl.
     bind (check (UnmarshalTransaction P (payl_Data payl))) (\<lambda>tx.
     if length (tx_Actions tx) = 0 then Err (ErrNew ''at least one TransactionAction required'')
     else bind (go_index (tx_Actions tx) 0) (\<lambda>a.
          bind (GetPayloads P a) (\<lambda>((_, respPayload), err). check (respPayload, err))))))"

definition GetActionFromEnvelope :: "pb \<Rightarrow> bytes \<Rightarrow> ChaincodeAction option outcome" where
  "GetActionFromEnvelope P envBytes =
     bind (GetEnvelopeFromBlock P envBytes) (\<lambda>env. GetActionFromEnvelopeMsg P (Some env))"

definition GetOrComputeTxIDFromEnvelope :: "pb \<Rightarrow> (bytes \<Rightarrow> bytes) \<Rightarrow> bytes \<Rightarrow> string outcome" where
  "GetOrComputeTxIDFromEnvelope P sha2 txEnvelopBytes =
     bind (on_err ''error getting txID from envelope'' (check (UnmarshalEnvelope P txEnvelopBytes)))
       (\<lambda>txEnvelope.
     bind (on_err ''error getting txID from payload'' (check (UnmarshalPayload P (env_Payload txEnvelope))))
       (\<lambda>txPayload.
     case payl_Header txPayload of
       None \<Rightarrow> Err (ErrNew ''error getting txID from header: payload header is nil'')
     | Some h \<Rightarrow>
       bind (on_err ''error getting txID from channel header''
               (check (UnmarshalChannelHeader P (slice_bytes (hdr_ChannelHeader h))))) (\<lambda>chdr.
       if ch_TxId chdr \<noteq> '''' then Ok (ch_TxId chdr)
       else
       bind (on_err ''error getting nonce and creator for computing txID''
               (check (UnmarshalSignatureHeader P (slice_bytes (hdr_SignatureHeader h))))) (\<lambda>sighdr.
       Ok (ComputeTxID sha2 (sh_Nonce sighdr) (sh_Creator sighdr))))))"

end
