(* ===== verification/BlockUtil.thy ===== *)
theory BlockUtil
  imports OrderedCodec RwSet TxUtils
begin

text \<open>
  \<open>internal/utils/blockutil.go\<close>, \<open>internal/blockutil/block.go\<close>, \<open>internal/blockutil/block\<close> and
  \<open>internal/blockutil/config\<close>: block metadata, the hash of a block header, and the decoding of
  blocks into the nested structures of endorser transactions and of configurations.

  The messages \<open>common.Config\<close> and \<open>common.ConfigUpdate\<close> are not opened here and are the type
  variables \<open>'cfg\<close> and \<open>'cu\<close>; the codecs of the configuration messages are the record \<open>cfgpb\<close>.
  \<open>encoding/asn1\<close> is modelled as far as \<open>GetHash\<close> uses it: DER of an integer that is not
  negative, of octet strings and of a sequence.
\<close>

section \<open>Metadata\<close>

definition GetMetadataFromBlock :: "pb \<Rightarrow> Block option \<Rightarrow> int \<Rightarrow> Metadata outcome" where
  "GetMetadataFromBlock P block index =
     bind (deref block) (\<lambda>b.
     case blk_Metadata b of
       None \<Rightarrow> Err (ErrNew ''no metadata in block'')
     | Some m \<Rightarrow>
       (if int (length (bm_Metadata m)) \<le> index
        then Err (Errorf ''no metadata at index [%s]'' [AInt index])
        else if index < 0 then Panic IndexOutOfRange
        else bind (go_index (bm_Metadata m) (nat index)) (\<lambda>data.
             on_err ''error unmarshaling metadata at index [%s]''
               (check (Unmarshal (pb_Metadata P) data)))))"

definition GetLastConfigIndexFromBlock :: "pb \<Rightarrow> Block option \<Rightarrow> 64 word outcome" where
  "GetLastConfigIndexFromBlock P block =
     bind (on_err ''failed to retrieve metadata''
             (GetMetadataFromBlock P block BlockMetadataIndex_SIGNATURES)) (\<lambda>m.
     if length (md_Value m) = 0
     then bind (on_err ''failed to retrieve metadata''
                  (GetMetadataFromBlock P block BlockMetadataIndex_LAST_CONFIG)) (\<lambda>m'.
          bind (on_err ''error unmarshaling LastConfig''
                  (check (Unmarshal (pb_LastConfig P) (md_Value m')))) (\<lambda>lc.
          Ok (lc_Index lc)))
     else bind (on_err ''failed to unmarshal orderer block metadata''
                  (check (Unmarshal (pb_OrdererBlockMetadata P) (md_Value m)))) (\<lambda>obm.
          bind (deref (obm_LastConfig obm)) (\<lambda>lc. Ok (lc_Index lc))))"

section \<open>The hash of a block\<close>

record asn1Header =
  a1_Number :: "64 word"
  a1_PreviousHash :: bytes
  a1_DataHash :: bytes

text \<open>DER: an integer in as few bytes as keep its sign bit clear, a length in short or long form,
  and tag, length and contents.\<close>

definition asn1_int :: "64 word \<Rightarrow> bytes" where
  "asn1_int n = (let bs = sig_bytes n in
     if bs = [] then [0] else if unat (hd bs) \<ge> 128 then 0 # bs else bs)"

definition asn1_len :: "nat \<Rightarrow> bytes" where
  "asn1_len n = (if n < 128 then [word_of_nat n]
     else let ds = sig_bytes (word_of_nat n) in word_of_nat (128 + length ds) # ds)"

definition asn1_tlv :: "byte \<Rightarrow> bytes \<Rightarrow> bytes" where
  "asn1_tlv tag v = tag # asn1_len (length v) @ v"

definition asn1_Marshal :: "asn1Header \<Rightarrow> bytes" where
  "asn1_Marshal h = asn1_tlv 48 (asn1_tlv 2 (asn1_int (a1_Number h)) @
     asn1_tlv 4 (a1_PreviousHash h) @ asn1_tlv 4 (a1_DataHash h))"

definition GetHash :: "(bytes \<Rightarrow> bytes) \<Rightarrow> (bytes \<Rightarrow> bytes) \<Rightarrow> Block option \<Rightarrow> bytes outcome" where
  "GetHash sha2 sha3 p =
     bind (deref p) (\<lambda>b. bind (deref (blk_Header b)) (\<lambda>h.
     if unat (bh_Number h) > 2 ^ 63 - 1
     then Panic (PanicErr (Errorf ''Golang does not currently support encoding uint64 to asn1'' []))
     else Hash sha2 sha3 (asn1_Marshal \<lparr>a1_Number = bh_Number h, a1_PreviousHash = bh_PreviousHash h,
                                        a1_DataHash = bh_DataHash h\<rparr>) SHA2_256))"

definition GetHashOrPanic :: "(bytes \<Rightarrow> bytes) \<Rightarrow> (bytes \<Rightarrow> bytes) \<Rightarrow> Block option \<Rightarrow> bytes outcome" where
  "GetHashOrPanic sha2 sha3 b = or_panic (GetHash sha2 sha3 b)"

section \<open>Decoded endorser transactions\<close>

text \<open>The structures of package \<open>block\<close>; those that share the name of a protobuf message carry
  the suffix \<open>_b\<close>.\<close>

record SignatureHeader_b =
  shb_Creator :: "SerializedIdentity option"
  shb_Nonce :: bytes

record Endorsement_b =
  eb_Endorser :: "SerializedIdentity option"
  eb_Signature :: bytes

record ('kv, 'h) ChaincodeAction_b =
  cab_Response :: "Response option"
  cab_ChaincodeID :: "ChaincodeID option"
  cab_Events :: bytes
  cab_Results :: "('kv, 'h) TxRwSet option"

record ('kv, 'h) ProposalResponsePayload_b =
  prpb_Extension :: "('kv, 'h) ChaincodeAction_b"
  prpb_ProposalHash :: bytes

record ('kv, 'h) ChaincodeEndorserAction =
  ceab_Endorsements :: "Endorsement_b list"
  ceab_ProposalResponsePayload :: "('kv, 'h) ProposalResponsePayload_b option"

record ChaincodeProposalPayload_b =
  cppb_TransientMap :: "string \<rightharpoonup> bytes"
  cppb_Input :: "ChaincodeSpec option"

record ('kv, 'h) ChaincodeActionPayload_b =
  capb_Action :: "('kv, 'h) ChaincodeEndorserAction option"
  capb_ChaincodeProposalPayload :: "ChaincodeProposalPayload_b option"

record ('kv, 'h) TransactionAction_b =
  tab_Header :: "SignatureHeader_b option"
  tab_Payload :: "('kv, 'h) ChaincodeActionPayload_b"

record ('kv, 'h) Transaction_b =
  txb_Actions :: "('kv, 'h) TransactionAction_b option list"

record PayloadHeader =
  phb_ChannelHeader :: "ChannelHeader option"
  phb_SignatureHeader :: SignatureHeader_b

record ('kv, 'h) Payload_b =
  pb_Header_b :: "PayloadHeader option"
  pb_Transaction_b :: "('kv, 'h) Transaction_b"

record ('kv, 'h) Envelope_b =
  envb_Payload :: "('kv, 'h) Payload_b"
  envb_Signature :: bytes

record ('kv, 'h) Block_b =
  blkb_Header :: "BlockHeader option"
  blkb_Metadata :: "BlockMetadata option"
  blkb_Data :: "('kv, 'h) Envelope_b option list"

definition GetTxType :: "('kv, 'h) Envelope_b \<Rightarrow> string outcome" where
  "GetTxType env =
     bind (deref (pb_Header_b (envb_Payload env))) (\<lambda>h. bind (deref (phb_ChannelHeader h)) (\<lambda>ch.
     Ok (if ch_Type ch = 2 then ''CONFIG_UPDATE''
         else if ch_Type ch = 3 then ''ENDORSER_TRANSACTION''
         else if ch_Type ch = 4 then ''ORDERER_TRANSACTION''
         else ''UNKNOWN TRANSACTION TYPE'')))"

definition GetChannelID :: "('kv, 'h) Block_b \<Rightarrow> string outcome" where
  "GetChannelID b =
     bind (go_index (blkb_Data b) 0) (\<lambda>p. bind (deref p) (\<lambda>env.
     bind (deref (pb_Header_b (envb_Payload env))) (\<lambda>h. bind (deref (phb_ChannelHeader h)) (\<lambda>ch.
     Ok (ch_ChannelId ch)))))"

definition unmarshalSignatureHeader :: "pb \<Rightarrow> bytes \<Rightarrow> SignatureHeader_b outcome" where
  "unmarshalSignatureHeader P sigBytes =
     bind (on_err ''Payload UnmarshalSignatureHeader'' (check (UnmarshalSignatureHeader P sigBytes)))
       (\<lambda>sigHeader.
     bind (check (Unmarshal (pb_SerializedIdentity P) (sh_Creator sigHeader))) (\<lambda>i.
     Ok \<lparr>shb_Creator = Some i, shb_Nonce = sh_Nonce sigHeader\<rparr>))"

definition unmarshalEnvelopsPayloadHeader :: "pb \<Rightarrow> Header option \<Rightarrow> PayloadHeader outcome" where
  "unmarshalEnvelopsPayloadHeader P header =
     bind (deref header) (\<lambda>h.
     bind (on_err ''Payload UnmarshalChannelHeader''
             (check (UnmarshalChannelHeader P (slice_bytes (hdr_ChannelHeader h))))) (\<lambda>channelHeader.
     bind (on_err ''Payload UnmarshalSignatureHeader''
             (unmarshalSignatureHeader P (slice_bytes (hdr_SignatureHeader h)))) (\<lambda>sigHeader.
     Ok \<lparr>phb_ChannelHeader = Some channelHeader, phb_SignatureHeader = sigHeader\<rparr>)))"

text \<open>The error of \<open>UnmarshalChaincodeAction\<close> is dropped by the code, which goes on with the
  message as far as it was read.\<close>

definition unmarshalChaincodeAction ::
    "pb \<Rightarrow> ('kv, 'h) rwpb \<Rightarrow> bytes \<Rightarrow> ('kv, 'h) ChaincodeAction_b outcome" where
  "unmarshalChaincodeAction P R extension =
     (let cc = fst (UnmarshalChaincodeAction P extension) in
      bind (ProtoUnmarshal R (ca_Results cc)) (\<lambda>txRWSet.
      Ok \<lparr>cab_Response = ca_Response cc, cab_ChaincodeID = ca_ChaincodeId cc,
          cab_Events = ca_Events cc, cab_Results = Some txRWSet\<rparr>))"

definition unmarshalChaincodeEndorsedAction ::
    "pb \<Rightarrow> ('kv, 'h) rwpb \<Rightarrow> ChaincodeEndorsedAction option \<Rightarrow> ('kv, 'h) ChaincodeEndorserAction outcome" where
  "unmarshalChaincodeEndorsedAction P R p =
     bind (deref p) (\<lambda>payload.
     bind (map_outcome (\<lambda>q. bind (deref q) (\<lambda>e.
             bind (on_err ''unmarshal serialized identity''
                     (check (UnmarshalSerializedIdentity P (end_Endorser e)))) (\<lambda>i.
             Ok \<lparr>eb_Endorser = Some i, eb_Signature = end_Signature e\<rparr>))) (cea_Endorsements payload))
       (\<lambda>endorsements.
     bind (on_err ''UnmarshalProposalResponsePayload''
             (check (UnmarshalProposalResponsePayload P
                       (slice_bytes (cea_ProposalResponsePayload payload))))) (\<lambda>resp.
     bind (unmarshalChaincodeAction P R (slice_bytes (prp_Extension resp))) (\<lambda>chaincodeAction.
     Ok \<lparr>ceab_Endorsements = endorsements,
         ceab_ProposalResponsePayload = Some \<lparr>prpb_Extension = chaincodeAction,
                                              prpb_ProposalHash = prp_ProposalHash resp\<rparr>\<rparr>))))"

definition unmarshalChaincodeProposalPayload :: "pb \<Rightarrow> bytes \<Rightarrow> ChaincodeProposalPayload_b outcome" where
  "unmarshalChaincodeProposalPayload P proposalPayload =
     bind (on_err ''UnmarshalChaincodeProposalPayload''
             (check (UnmarshalChaincodeProposalPayload P proposalPayload))) (\<lambda>payload.
     bind (on_err ''UnmarshalChaincodeInvocationSpec''
             (check (UnmarshalChaincodeInvocationSpec P (cpp_Input payload)))) (\<lambda>input.
     Ok \<lparr>cppb_TransientMap = cpp_TransientMap payload, cppb_Input = cis_ChaincodeSpec input\<rparr>))"

definition unmarshalTransactionAction ::
    "pb \<Rightarrow> ('kv, 'h) rwpb \<Rightarrow> TransactionAction option \<Rightarrow> ('kv, 'h) TransactionAction_b option outcome" where
  "unmarshalTransactionAction P R p =
     bind (deref p) (\<lambda>action.
     bind (on_err ''TransactionAction unmarshalSignatureHeader''
             (unmarshalSignatureHeader P (ta_Header action))) (\<lambda>sigHeader.
     bind (on_err ''TransactionAction UnmarshalChaincodeActionPayload''
             (check (UnmarshalChaincodeActionPayload P (ta_Payload action)))) (\<lambda>payload.
     bind (unmarshalChaincodeEndorsedAction P R (cap_Action payload)) (\<lambda>endorserAction.
     bind (unmarshalChaincodeProposalPayload P (slice_bytes (cap_ChaincodeProposalPayload payload))) (\<lambda>propPayload.
     Ok (Some \<lparr>tab_Header = Some sigHeader,
               tab_Payload = \<lparr>capb_Action = Some endorserAction,
                              capb_ChaincodeProposalPayload = Some propPayload\<rparr>\<rparr>))))))"

definition block_UnmarshalEnvelope ::
    "pb \<Rightarrow> ('kv, 'h) rwpb \<Rightarrow> Envelope \<Rightarrow> ('kv, 'h) Envelope_b outcome" where
  "block_UnmarshalEnvelope P R env =
     bind (check (UnmarshalPayload P (env_Payload env))) (\<lambda>payload.
     bind (unmarshalEnvelopsPayloadHeader P (payl_Header payload)) (\<lambda>payloadHeader.
     bind (on_err ''Envelope UnmarshalTransaction''
             (check (UnmarshalTransaction P (payl_Data payload)))) (\<lambda>tx.
     bind (map_outcome (unmarshalTransactionAction P R) (tx_Actions tx)) (\<lambda>txActions.
     Ok \<lparr>envb_Payload = \<lparr>pb_Header_b = Some payloadHeader, pb_Transaction_b = \<lparr>txb_Actions = txActions\<rparr>\<rparr>,
         envb_Signature = env_Signature env\<rparr>))))"

definition blockutil_UnmarshalBlock ::
    "pb \<Rightarrow> ('kv, 'h) rwpb \<Rightarrow> Block option \<Rightarrow> ('kv, 'h) Block_b outcome" where
  "blockutil_UnmarshalBlock P R p =
     bind (deref p) (\<lambda>b. bind (deref (blk_Data b)) (\<lambda>d.
     bind (map_outcome (\<lambda>data.
             bind (on_err ''unmarshal envelope'' (check (UnmarshalEnvelope P data))) (\<lambda>env.
             bind (on_err ''unmarshal envelope'' (block_UnmarshalEnvelope P R env)) (\<lambda>envelope.
             Ok (Some envelope)))) (bd_Data d)) (\<lambda>envs.
     Ok \<lparr>blkb_Header = blk_Header b, blkb_Metadata = blk_Metadata b, blkb_Data = envs\<rparr>)))"

section \<open>Decoded configurations\<close>

text \<open>The structures of package \<open>config\<close>, with the suffix \<open>_c\<close>.\<close>

record SignatureHeader_c =
  shc_Creator :: "SerializedIdentity option"
  shc_Nonce :: bytes

record Header_c =
  hc_ChannelHeader :: "ChannelHeader option"
  hc_SignatureHeader :: SignatureHeader_c

record ConfigSignature_c =
  csc_SignatureHeader :: "SignatureHeader_c option"
  csc_Signature :: bytes

record 'cu ConfigUpdateEnvelope_c =
  cuc_ConfigUpdate :: "'cu option"
  cuc_Signatures :: "ConfigSignature_c option list"

record 'cu LastConfigPayload =
  lcp_Data :: "'cu ConfigUpdateEnvelope_c option"
  lcp_Header :: "Header_c option"

record 'cu LastUpdate =
  lu_Payload :: "'cu LastConfigPayload option"
  lu_Signature :: bytes

record ('cfg, 'cu) ConfigEnvelope_c =
  cec_Config :: "'cfg option"
  cec_LastUpdate :: "'cu LastUpdate option"

record ('cfg, 'cu) Payload_c =
  pc_Data :: "('cfg, 'cu) ConfigEnvelope_c option"
  pc_Header :: "Header_c option"

record ('cfg, 'cu) Envelope_c =
  ec_Payload :: "('cfg, 'cu) Payload_c option"
  ec_Signature :: bytes

record ('cfg, 'cu) Block_c =
  bc_Header :: "BlockHeader option"
  bc_Metadata :: "BlockMetadata option"
  bc_Data :: "('cfg, 'cu) Envelope_c option list"

text \<open>The message \<open>common.ConfigEnvelope\<close> and the codecs.\<close>

record 'cfg ConfigEnvelope =
  cfe_Config :: "'cfg option"
  cfe_LastUpdate :: "Envelope option"

record ('cfg, 'cu) cfgpb =
  cfg_ConfigEnvelope :: "'cfg ConfigEnvelope codec"
  cfg_ConfigUpdate :: "'cu codec"

definition config_unmarshalSignatureHeader :: "pb \<Rightarrow> bytes \<Rightarrow> SignatureHeader_c outcome" where
  "config_unmarshalSignatureHeader P data =
     bind (on_err ''Payload UnmarshalSignatureHeader'' (check (UnmarshalSignatureHeader P data)))
       (\<lambda>sigHeader.
     bind (check (Unmarshal (pb_SerializedIdentity P) (sh_Creator sigHeader))) (\<lambda>i.
     Ok \<lparr>shc_Creator = Some i, shc_Nonce = sh_Nonce sigHeader\<rparr>))"

definition config_unmarshalHeader :: "pb \<Rightarrow> Header option \<Rightarrow> Header_c outcome" where
  "config_unmarshalHeader P header =
     bind (deref header) (\<lambda>h.
     bind (on_err ''Payload UnmarshalChannelHeader''
             (check (UnmarshalChannelHeader P (slice_bytes (hdr_ChannelHeader h))))) (\<lambda>channelHeader.
     bind (on_err ''Payload UnmarshalSignatureHeader''
             (config_unmarshalSignatureHeader P (slice_bytes (hdr_SignatureHeader h)))) (\<lambda>sigHeader.
     Ok \<lparr>hc_ChannelHeader = Some channelHeader, hc_SignatureHeader = sigHeader\<rparr>)))"

definition unmarshalConfigUpdateEnvelope ::
    "pb \<Rightarrow> ('cfg, 'cu) cfgpb \<Rightarrow> bytes \<Rightarrow> 'cu ConfigUpdateEnvelope_c outcome" where
  "unmarshalConfigUpdateEnvelope P K data =
     bind (on_err ''unmarshal config update envelope'' (UnmarshalConfigUpdateEnvelope P data))
       (\<lambda>updateEnv.
     bind (on_err ''unmarshal config update''
             (check (Unmarshal (cfg_ConfigUpdate K) (cue_ConfigUpdate updateEnv)))) (\<lambda>configUpdate.
     bind (map_outcome (\<lambda>q. bind (deref q) (\<lambda>sig.
             bind (on_err ''unmarshal signature header''
                     (config_unmarshalSignatureHeader P (csig_SignatureHeader sig))) (\<lambda>sigHeader.
             Ok (Some \<lparr>csc_SignatureHeader = Some sigHeader, csc_Signature = csig_Signature sig\<rparr>))))
           (cue_Signatures updateEnv)) (\<lambda>signatures.
     Ok \<lparr>cuc_ConfigUpdate = Some configUpdate, cuc_Signatures = signatures\<rparr>)))"

definition unmarshalLastConfigPayload ::
    "pb \<Rightarrow> ('cfg, 'cu) cfgpb \<Rightarrow> Payload \<Rightarrow> 'cu LastConfigPayload outcome" where
  "unmarshalLastConfigPayload P K env =
     bind (on_err ''unmarshal config update'' (unmarshalConfigUpdateEnvelope P K (payl_Data env)))
       (\<lambda>updateConfig.
     bind (config_unmarshalHeader P (payl_Header env)) (\<lambda>header.
     Ok \<lparr>lcp_Data = Some updateConfig, lcp_Header = Some header\<rparr>))"

definition unmarshalLastUpdate :: "pb \<Rightarrow> ('cfg, 'cu) cfgpb \<Rightarrow> Envelope \<Rightarrow> 'cu LastUpdate outcome" where
  "unmarshalLastUpdate P K update =
     bind (on_err ''unmarshal payload'' (check (UnmarshalPayload P (env_Payload update)))) (\<lambda>payload.
     bind (on_err ''unmarshal last config payload'' (unmarshalLastConfigPayload P K payload))
       (\<lambda>lastConfigPayload.
     Ok \<lparr>lu_Payload = Some lastConfigPayload, lu_Signature = env_Signature update\<rparr>))"

definition unmarshalPayloadConfigEnvelope ::
    "pb \<Rightarrow> ('cfg, 'cu) cfgpb \<Rightarrow> bytes \<Rightarrow> ('cfg, 'cu) ConfigEnvelope_c outcome" where
  "unmarshalPayloadConfigEnvelope P K data =
     bind (on_err ''unmarshal config'' (check (Unmarshal (cfg_ConfigEnvelope K) data))) (\<lambda>env.
     bind (case cfe_LastUpdate env of
             None \<Rightarrow> Ok None
           | Some u \<Rightarrow> bind (unmarshalLastUpdate P K u) (\<lambda>lu. Ok (Some lu))) (\<lambda>lastUpdate.
     Ok \<lparr>cec_Config = cfe_Config env, cec_LastUpdate = lastUpdate\<rparr>))"

definition UnmarshalConfigPayload ::
    "pb \<Rightarrow> ('cfg, 'cu) cfgpb \<Rightarrow> bytes \<Rightarrow> ('cfg, 'cu) Payload_c outcome" where
  "UnmarshalConfigPayload P K data =
     bind (on_err ''unmarshal payload'' (check (UnmarshalPayload P data))) (\<lambda>envPayload.
     bind (unmarshalPayloadConfigEnvelope P K (payl_Data envPayload)) (\<lambda>configEnv.
     bind (config_unmarshalHeader P (payl_Header envPayload)) (\<lambda>header.
     Ok \<lparr>pc_Data = Some configEnv, pc_Header = Some header\<rparr>)))"

definition UnmarshalConfig ::
    "pb \<Rightarrow> ('cfg, 'cu) cfgpb \<Rightarrow> Block option \<Rightarrow> ('cfg, 'cu) Block_c outcome" where
  "UnmarshalConfig P K p =
     bind (deref p) (\<lambda>b. bind (deref (blk_Data b)) (\<lambda>d.
     bind (map_outcome (\<lambda>data.
             bind (on_err ''unmarshal envelope'' (check (UnmarshalEnvelope P data))) (\<lambda>env.
             bind (on_err ''unmarshal config payload'' (UnmarshalConfigPayload P K (env_Payload env)))
               (\<lambda>payload.
             Ok (Some \<lparr>ec_Payload = Some payload, ec_Signature = env_Signature env\<rparr>)))) (bd_Data d))
       (\<lambda>envs.
     Ok \<lparr>bc_Header = blk_Header b, bc_Metadata = blk_Metadata b, bc_Data = envs\<rparr>)))"

section \<open>The bytes of a block header determine it\<close>

lemma sig_bytes_inject: "sig_bytes m = sig_bytes n \<longleftrightarrow> m = n"
  by (metis be_val_sig_bytes word_unat_eq_iff)

definition len_tag :: "nat \<Rightarrow> nat" where
  "len_tag n = 128 + length (sig_bytes (word_of_nat n))"

lemma asn1_len_short: "n < 128 \<Longrightarrow> asn1_len n = [word_of_nat n]"
  by (simp add: asn1_len_def)

lemma asn1_len_long: "\<not> n < 128 \<Longrightarrow> asn1_len n = word_of_nat (len_tag n) # sig_bytes (word_of_nat n)"
  unfolding asn1_len_def len_tag_def Let_def by simp

lemma unat_len_tag: "unat (word_of_nat (len_tag n) :: byte) = len_tag n"
  using length_sig_bytes[of "word_of_nat n"] by (intro unat_byte_of_nat) (simp add: len_tag_def)

lemma unat_short_len: "n < 128 \<Longrightarrow> unat (word_of_nat n :: byte) = n"
  by (intro unat_byte_of_nat) simp

lemma asn1_len_small_iff: "unat (hd (asn1_len n)) < 128 \<longleftrightarrow> n < 128"
proof (cases "n < 128")
  case True
  then show ?thesis by (simp only: asn1_len_short list.sel unat_short_len)
next
  case False
  then show ?thesis unfolding asn1_len_long[OF False] list.sel unat_len_tag by (simp add: len_tag_def)
qed

lemma asn1_len_prefix:
  assumes "asn1_len m @ r = asn1_len n @ s" "m < 2 ^ 64" "n < 2 ^ 64"
  shows "m = n \<and> r = s"
proof -
  have ne: "asn1_len k \<noteq> []" for k
    by (cases "k < 128") (simp_all add: asn1_len_short asn1_len_long)
  then have h: "hd (asn1_len m) = hd (asn1_len n)"
    using arg_cong[OF assms(1), of hd] by (simp add: ne)
  then have b: "m < 128 \<longleftrightarrow> n < 128"
    using asn1_len_small_iff[of m] asn1_len_small_iff[of n] by simp
  show ?thesis
  proof (cases "m < 128")
    case True
    then have "(word_of_nat m :: byte) = word_of_nat n" "r = s"
      using assms(1) b by (simp_all only: asn1_len_short append.simps list.inject)
    then show ?thesis
      using True b unat_short_len by metis
  next
    case False
    with b have f: "\<not> n < 128" by simp
    have e: "(word_of_nat (len_tag m) :: byte) = word_of_nat (len_tag n)"
        "sig_bytes (word_of_nat m) @ r = sig_bytes (word_of_nat n) @ s"
      using assms(1) unfolding asn1_len_long[OF False] asn1_len_long[OF f] by simp_all
    then have "len_tag m = len_tag n" using unat_len_tag by metis
    with e(2) have "(word_of_nat m :: 64 word) = word_of_nat n" "r = s"
      by (simp_all add: sig_bytes_inject len_tag_def)
    then show ?thesis
      using assms(2,3) by (metis unat_uint64_of_nat)
  qed
qed

lemma asn1_tlv_prefix:
  assumes "asn1_tlv t v @ r = asn1_tlv t w @ s" "length v < 2 ^ 64" "length w < 2 ^ 64"
  shows "v = w \<and> r = s"
  using assms asn1_len_prefix[of "length v" "v @ r" "length w" "w @ s"] by (auto simp: asn1_tlv_def)

lemma asn1_int_inject: "asn1_int m = asn1_int n \<Longrightarrow> m = n"
proof -
  have "be_val (asn1_int k) = unat k" for k
    using be_val_sig_bytes[of k] by (cases "sig_bytes k = []") (auto simp: asn1_int_def Let_def)
  then show "asn1_int m = asn1_int n \<Longrightarrow> m = n" by (metis word_unat_eq_iff)
qed

lemma length_asn1_int: "length (asn1_int n) \<le> 9"
  using length_sig_bytes[of n] by (auto simp: asn1_int_def Let_def)

lemma length_asn1_tlv: "length (asn1_tlv t v) \<le> length v + 10"
  using length_sig_bytes[of "word_of_nat (length v)"]
  by (cases "length v < 128") (simp_all add: asn1_tlv_def asn1_len_short asn1_len_long)

lemma asn1_Marshal_inject:
  assumes "asn1_Marshal h = asn1_Marshal h'"
    and "length (a1_PreviousHash h) < 2 ^ 32" "length (a1_DataHash h) < 2 ^ 32"
    and "length (a1_PreviousHash h') < 2 ^ 32" "length (a1_DataHash h') < 2 ^ 32"
  shows "h = h'"
proof -
  define c where "c h = asn1_tlv 2 (asn1_int (a1_Number h)) @ asn1_tlv 4 (a1_PreviousHash h) @
    asn1_tlv 4 (a1_DataHash h)" for h :: asn1Header
  have "length (c h) < 2 ^ 64" if "length (a1_PreviousHash h) < 2 ^ 32" "length (a1_DataHash h) < 2 ^ 32" for h
    using that length_asn1_int[of "a1_Number h"] length_asn1_tlv[of 2 "asn1_int (a1_Number h)"]
      length_asn1_tlv[of 4 "a1_PreviousHash h"] length_asn1_tlv[of 4 "a1_DataHash h"]
    by (simp add: c_def)
  then have "c h = c h'"
    using asn1_tlv_prefix[of 48 "c h" "[]" "c h'" "[]"] assms by (simp add: asn1_Marshal_def c_def)
  moreover have "length (asn1_int n) < 2 ^ 64" for n
    using length_asn1_int[of n] by simp
  ultimately have i: "asn1_int (a1_Number h) = asn1_int (a1_Number h')"
      "asn1_tlv 4 (a1_PreviousHash h) @ asn1_tlv 4 (a1_DataHash h) =
       asn1_tlv 4 (a1_PreviousHash h') @ asn1_tlv 4 (a1_DataHash h')"
    unfolding c_def by (auto dest: asn1_tlv_prefix)
  have p: "a1_PreviousHash h = a1_PreviousHash h'"
      "asn1_tlv 4 (a1_DataHash h) = asn1_tlv 4 (a1_DataHash h')"
    using asn1_tlv_prefix[OF i(2)] assms by auto
  have d: "a1_DataHash h = a1_DataHash h'"
    using asn1_tlv_prefix[of 4 "a1_DataHash h" "[]" "a1_DataHash h'" "[]"] p(2) assms by simp
  show ?thesis
    using asn1_int_inject[OF i(1)] p(1) d by (intro asn1Header.equality) auto
qed

section \<open>Theorems\<close>

definition asn1_of :: "BlockHeader \<Rightarrow> asn1Header" where
  "asn1_of h = \<lparr>a1_Number = bh_Number h, a1_PreviousHash = bh_PreviousHash h, a1_DataHash = bh_DataHash h\<rparr>"

text \<open>C40. A block hash binds the header: two blocks with the same hash have the same number,
  previous hash and data hash, unless the encodings of these two headers are a collision of
  SHA-256. (The hashes in a header are shorter than \<open>2 ^ 32\<close> bytes.)\<close>

theorem block_hash_binds_header:
  assumes "GetHash sha2 sha3 (Some b) = Ok d" "GetHash sha2 sha3 (Some b') = Ok d"
    and "blk_Header b = Some h" "blk_Header b' = Some h'"
    and "list_all (\<lambda>x. length x < 2 ^ 32) [bh_PreviousHash h, bh_DataHash h, bh_PreviousHash h', bh_DataHash h']"
    and "asn1_Marshal (asn1_of h) \<noteq> asn1_Marshal (asn1_of h') \<Longrightarrow>
           sha2 (asn1_Marshal (asn1_of h)) \<noteq> sha2 (asn1_Marshal (asn1_of h'))"
  shows "(bh_Number h, bh_PreviousHash h, bh_DataHash h) = (bh_Number h', bh_PreviousHash h', bh_DataHash h')"
proof -
  have "sha2 (asn1_Marshal (asn1_of h)) = sha2 (asn1_Marshal (asn1_of h'))"
    using assms(1-4) by (auto simp: GetHash_def asn1_of_def split: if_splits)
  then have "asn1_Marshal (asn1_of h) = asn1_Marshal (asn1_of h')" using assms(6) by blast
  then have "asn1_of h = asn1_of h'"
    by (rule asn1_Marshal_inject) (use assms(5) in \<open>auto simp: asn1_of_def\<close>)
  then show ?thesis by (simp add: asn1_of_def)
qed

definition sample_block :: Block where
  "sample_block = \<lparr>blk_Header = Some \<lparr>bh_Number = 0, bh_PreviousHash = [1], bh_DataHash = [2]\<rparr>,
     blk_Data = None, blk_Metadata = None\<rparr>"

definition sample_block' :: Block where
  "sample_block' = sample_block\<lparr>blk_Metadata := Some \<lparr>bm_Metadata = [[7]]\<rparr>\<rparr>"

lemma block_hash_binds_header_witness:
  "GetHash (\<lambda>x. x) (\<lambda>x. x) (Some sample_block) = Ok [48, 9, 2, 1, 0, 4, 1, 1, 4, 1, 2] \<and>
   GetHash (\<lambda>x. x) (\<lambda>x. x) (Some sample_block') = Ok [48, 9, 2, 1, 0, 4, 1, 1, 4, 1, 2] \<and>
   ((0 :: 64 word, [1 :: byte], [2 :: byte]) = (0, [1], [2]))"
proof -
  have h: "GetHash (\<lambda>x. x) (\<lambda>x. x) (Some sample_block) = Ok [48, 9, 2, 1, 0, 4, 1, 1, 4, 1, 2]"
    by (simp add: GetHash_def sample_block_def asn1_Marshal_def asn1_tlv_def asn1_len_def asn1_int_def
        sig_bytes_zero)
  have h': "GetHash (\<lambda>x. x) (\<lambda>x. x) (Some sample_block') = Ok [48, 9, 2, 1, 0, 4, 1, 1, 4, 1, 2]"
    using h by (simp add: GetHash_def sample_block'_def sample_block_def)
  show ?thesis
    using h h' block_hash_binds_header[OF h h'] by (simp add: sample_block_def sample_block'_def)
qed

text \<open>\<open>GetLastConfigIndexFromBlock\<close> panics exactly on a nil block and on a signature metadata
  whose orderer metadata decodes without a last configuration: the missing nil test.\<close>

lemma last_config_index_panics_iff:
  "is_panic (GetLastConfigIndexFromBlock P block) \<longleftrightarrow>
     (case block of None \<Rightarrow> True
      | Some b \<Rightarrow> (\<exists>m obm. GetMetadataFromBlock P (Some b) BlockMetadataIndex_SIGNATURES = Ok m \<and>
                   md_Value m \<noteq> [] \<and>
                   Unmarshal (pb_OrdererBlockMetadata P) (md_Value m) = (obm, None) \<and>
                   obm_LastConfig obm = None))"
proof -
  have n: "\<not> is_panic (GetMetadataFromBlock P (Some b) i)" if "0 \<le> i" for b i
    using that by (auto simp: GetMetadataFromBlock_def go_index_def split: option.splits)
  show ?thesis
    using n by (auto simp: GetLastConfigIndexFromBlock_def GetMetadataFromBlock_def[of _ None]
        split: option.splits if_splits)
qed

end
