(* ===== verification/Ecdsa.thy ===== *)
theory Ecdsa
  imports BlockUtil
begin

text \<open>
  ECDSA keys and signatures, \<open>internal/cryptoutil/ecdsa.go\<close>, with \<open>SignerAlgo\<close> of \<open>helper.go\<close> and the
  base-64 strings and authorisation tokens of \<open>util.go\<close>.

  The scalar arithmetic of the low-S rule, DER and base 64 are written out. Curve arithmetic is the
  parameter \<open>ecdsa_lib\<close>: point encoding, public key encoding, SHA-256 and the signing function, whose
  random input is part of the function.
\<close>

section \<open>Curves and the low-S rule\<close>

datatype curve = P224 | P256 | P384 | P521 | OtherCurve nat

fun curve_N :: "curve \<Rightarrow> nat" where
  "curve_N P224 = 26959946667150639794667015087019625940457807714424391721682722368061"
| "curve_N P256 = 115792089210356248762697446949407573529996955224135760342422259061068512044369"
| "curve_N P384 = 39402006196394479212279040100143613805079739270465446667946905279627659399113263569398956308152294913554433653942643"
| "curve_N P521 = 6864797660130609714981900799081393217269435300143305409394463459185543183397655394245057746333217197532963996371363321113864768612440380340372808892707005449"
| "curve_N (OtherCurve n) = n"

definition curveHalfOrders :: "curve \<rightharpoonup> nat" where
  "curveHalfOrders c = (case c of OtherCurve _ \<Rightarrow> None | _ \<Rightarrow> Some (curve_N c div 2))"

record ecdsa_PublicKey =
  pub_Curve :: curve
  pub_X :: nat
  pub_Y :: nat

record ecdsa_PrivateKey =
  priv_PublicKey :: ecdsa_PublicKey
  priv_D :: nat

definition IsLowS :: "ecdsa_PublicKey \<Rightarrow> nat \<Rightarrow> bool outcome" where
  "IsLowS k s = (case curveHalfOrders (pub_Curve k) of
     None \<Rightarrow> Err (Errorf ''not support curve'' [])
   | Some halfOrder \<Rightarrow> Ok (s \<le> halfOrder))"

text \<open>\<open>big.Int\<close> subtraction: the difference may be negative, so it is taken in \<open>int\<close>.\<close>

definition ToLowS :: "ecdsa_PublicKey \<Rightarrow> nat \<Rightarrow> (int \<times> bool) outcome" where
  "ToLowS k s = bind (IsLowS k s) (\<lambda>lowS.
     if \<not> lowS then Ok (int (curve_N (pub_Curve k)) - int s, True) else Ok (int s, False))"

section \<open>Keys\<close>

datatype Key = ecdsaPrivateKey "ecdsa_PrivateKey option" | ecdsaPublicKey "ecdsa_PublicKey option"

datatype PublicKey = RSA_PublicKey nat | ECDSA_PublicKey ecdsa_PublicKey | Other_PublicKey

record ecdsa_lib =
  ec_Marshal :: "curve \<Rightarrow> nat \<Rightarrow> nat \<Rightarrow> bytes"
  ec_MarshalPKIX :: "ecdsa_PublicKey option \<Rightarrow> bytes ret"
  ec_ParsePKIX :: "bytes \<Rightarrow> PublicKey ret"
  ec_Sign :: "ecdsa_PrivateKey \<Rightarrow> bytes \<Rightarrow> (nat \<times> nat) ret"
  ec_GenerateKey :: "curve \<Rightarrow> ecdsa_PrivateKey ret"
  ec_sha256 :: "bytes \<Rightarrow> bytes"

definition Key_Bytes :: "ecdsa_lib \<Rightarrow> Key \<Rightarrow> bytes outcome" where
  "Key_Bytes L k = (case k of
     ecdsaPrivateKey _ \<Rightarrow> Err (ErrNew ''Not supported.'')
   | ecdsaPublicKey puk \<Rightarrow> check (ec_MarshalPKIX L puk))"

definition Key_SKI :: "ecdsa_lib \<Rightarrow> Key \<Rightarrow> slice" where
  "Key_SKI L k = (case k of
     ecdsaPrivateKey None \<Rightarrow> None
   | ecdsaPrivateKey (Some priv) \<Rightarrow> (let p = priv_PublicKey priv in
       Some (ec_sha256 L (ec_Marshal L (pub_Curve p) (pub_X p) (pub_Y p))))
   | ecdsaPublicKey None \<Rightarrow> None
   | ecdsaPublicKey (Some p) \<Rightarrow> Some (ec_sha256 L (ec_Marshal L (pub_Curve p) (pub_X p) (pub_Y p))))"

definition Key_Symmetric :: "Key \<Rightarrow> bool" where
  "Key_Symmetric k = False"

definition Key_Private :: "Key \<Rightarrow> bool" where
  "Key_Private k = (case k of ecdsaPrivateKey _ \<Rightarrow> True | ecdsaPublicKey _ \<Rightarrow> False)"

text \<open>The public key of a private one is the address of a field: a nil pointer panics.\<close>

definition Key_PublicKey :: "Key \<Rightarrow> Key outcome" where
  "Key_PublicKey k = (case k of
     ecdsaPrivateKey p \<Rightarrow> bind (deref p) (\<lambda>priv. Ok (ecdsaPublicKey (Some (priv_PublicKey priv))))
   | ecdsaPublicKey _ \<Rightarrow> Ok k)"

definition KeyGen :: "ecdsa_lib \<Rightarrow> curve \<Rightarrow> Key outcome" where
  "KeyGen L c = bind (check (ec_GenerateKey L c)) (\<lambda>prik. Ok (ecdsaPrivateKey (Some prik)))"

section \<open>Signing\<close>

text \<open>\<open>big.Int.Bytes\<close>, and DER of a non-negative integer that is not bounded by a word.\<close>

fun nat_bytes :: "nat \<Rightarrow> bytes" where
  "nat_bytes n = (if n = 0 then [] else nat_bytes (n div 256) @ [word_of_nat (n mod 256)])"

declare nat_bytes.simps [simp del]

definition asn1_nat :: "nat \<Rightarrow> bytes" where
  "asn1_nat n = (let bs = nat_bytes n in
     if bs = [] then [0] else if unat (hd bs) \<ge> 128 then 0 # bs else bs)"

definition asn1_signature :: "nat \<Rightarrow> nat \<Rightarrow> bytes" where
  "asn1_signature r s = asn1_tlv 48 (asn1_tlv 2 (asn1_nat r) @ asn1_tlv 2 (asn1_nat s))"

record ecdsaSigner =
  es_prik :: Key
  es_pk :: PublicKey

definition ecdsaSigner_Sign :: "ecdsa_lib \<Rightarrow> ecdsaSigner \<Rightarrow> bytes \<Rightarrow> bytes outcome" where
  "ecdsaSigner_Sign L signer digest =
     (case es_prik signer of
        ecdsaPublicKey _ \<Rightarrow> Err (Errorf ''not ecdsaPrivateKey'' [])
      | ecdsaPrivateKey p \<Rightarrow>
        bind (deref p) (\<lambda>priv.
        bind (check (ec_Sign L priv digest)) (\<lambda>(r, s).
        bind (ToLowS (priv_PublicKey priv) s) (\<lambda>(s', _).
        Ok (asn1_signature r (nat s'))))))"

definition newEcdsaSigner :: "ecdsa_lib \<Rightarrow> Key \<Rightarrow> ecdsaSigner outcome" where
  "newEcdsaSigner L key =
     (if \<not> Key_Private key then Err (Errorf ''key must be private key'' [])
      else
      bind (Key_PublicKey key) (\<lambda>puk.
      bind (Key_Bytes L puk) (\<lambda>pukBytes.
      bind (check (ec_ParsePKIX L pukBytes)) (\<lambda>pk.
      Ok \<lparr>es_prik = key, es_pk = pk\<rparr>))))"

definition NewECDSASigner :: "ecdsa_lib \<Rightarrow> Key \<Rightarrow> ecdsaSigner outcome" where
  "NewECDSASigner L key =
     (if \<not> Key_Private key then Err (Errorf ''key must be private key'' [])
      else
      bind (Key_PublicKey key) (\<lambda>puk.
      bind (Key_Bytes L puk) (\<lambda>pukBytes.
      bind (check (ec_ParsePKIX L pukBytes)) (\<lambda>pk.
      Ok \<lparr>es_prik = key, es_pk = pk\<rparr>))))"

datatype SignatureAlgorithm = SHA512WithRSA | SHA384WithRSA | SHA256WithRSA | SHA1WithRSA
  | ECDSAWithSHA512 | ECDSAWithSHA384 | ECDSAWithSHA256 | ECDSAWithSHA1 | UnknownSignatureAlgorithm

text \<open>An RSA key is its bit length.\<close>

definition SignerAlgo :: "PublicKey \<Rightarrow> SignatureAlgorithm" where
  "SignerAlgo p = (case p of
     RSA_PublicKey bitLength \<Rightarrow>
       (if bitLength \<ge> 4096 then SHA512WithRSA
        else if bitLength \<ge> 3072 then SHA384WithRSA
        else if bitLength \<ge> 2048 then SHA256WithRSA
        else SHA1WithRSA)
   | ECDSA_PublicKey pub \<Rightarrow>
       (case pub_Curve pub of P521 \<Rightarrow> ECDSAWithSHA512 | P384 \<Rightarrow> ECDSAWithSHA384 | P256 \<Rightarrow> ECDSAWithSHA256
        | _ \<Rightarrow> ECDSAWithSHA1)
   | Other_PublicKey \<Rightarrow> UnknownSignatureAlgorithm)"

section \<open>Base 64\<close>

text \<open>\<open>base64.StdEncoding\<close>: four characters for three bytes, padded with \<open>=\<close>. The decoder skips line
  breaks, does not look at the unused bits of a padded group, and refuses everything else; the
  bytes it returns beside an error are not modelled.\<close>

definition b64_alphabet :: string where
  "b64_alphabet = ''ABCDEFGHIJKLMNOPQRSTUVWXYZabcdefghijklmnopqrstuvwxyz0123456789+/''"

abbreviation b64_char :: "nat \<Rightarrow> char" where "b64_char i \<equiv> b64_alphabet ! i"

definition b64_val :: "char \<Rightarrow> nat option" where "b64_val c = index_of b64_alphabet c"

fun B64Encode :: "bytes \<Rightarrow> string" where
  "B64Encode [] = []"
| "B64Encode [a] = [b64_char (unat a div 4), b64_char (unat a mod 4 * 16), CHR ''='', CHR ''='']"
| "B64Encode [a, b] = [b64_char (unat a div 4), b64_char (unat a mod 4 * 16 + unat b div 16),
     b64_char (unat b mod 16 * 4), CHR ''='']"
| "B64Encode (a # b # c # rest) = [b64_char (unat a div 4), b64_char (unat a mod 4 * 16 + unat b div 16),
     b64_char (unat b mod 16 * 4 + unat c div 64), b64_char (unat c mod 64)] @ B64Encode rest"

definition corrupt :: gerror where "corrupt = ErrExt ''illegal base64 data''"

fun b64_groups :: "string \<Rightarrow> bytes outcome" where
  "b64_groups [] = Ok []"
| "b64_groups (c1 # c2 # c3 # c4 # rest) =
     (case (b64_val c1, b64_val c2, b64_val c3, b64_val c4) of
        (Some i1, Some i2, Some i3, Some i4) \<Rightarrow>
          bind (b64_groups rest) (\<lambda>bs. Ok (word_of_nat (i1 * 4 + i2 div 16) # word_of_nat (i2 mod 16 * 16 + i3 div 4)
            # word_of_nat (i3 mod 4 * 64 + i4) # bs))
      | (Some i1, Some i2, Some i3, None) \<Rightarrow>
          (if c4 = CHR ''='' \<and> rest = []
           then Ok [word_of_nat (i1 * 4 + i2 div 16), word_of_nat (i2 mod 16 * 16 + i3 div 4)] else Err corrupt)
      | (Some i1, Some i2, None, None) \<Rightarrow>
          (if c3 = CHR ''='' \<and> c4 = CHR ''='' \<and> rest = [] then Ok [word_of_nat (i1 * 4 + i2 div 16)] else Err corrupt)
      | _ \<Rightarrow> Err corrupt)"
| "b64_groups _ = Err corrupt"

definition B64Decode :: "string \<Rightarrow> bytes outcome" where
  "B64Decode str = b64_groups (filter (\<lambda>c. c \<noteq> CHR 0x0A \<and> c \<noteq> CHR 0x0D) str)"

section \<open>Tokens\<close>

definition genecdsaToken :: "ecdsa_lib \<Rightarrow> string \<Rightarrow> string \<Rightarrow> Key \<Rightarrow> string outcome" where
  "genecdsaToken L b64cert payload key =
     bind (NewECDSASigner L key) (\<lambda>signer.
     let digest = ec_sha256 L (bytes_of_string payload) in
     bind (ecdsaSigner_Sign L signer digest) (\<lambda>sig.
     Ok (b64cert @ ''.'' @ B64Encode sig)))"

definition token_payload :: "bytes \<Rightarrow> string \<Rightarrow> string \<Rightarrow> bytes \<Rightarrow> string" where
  "token_payload cert method uri body =
     method @ ''.'' @ B64Encode (bytes_of_string uri) @ ''.'' @ B64Encode body @ ''.'' @ B64Encode cert"

definition GenECDSAToken :: "ecdsa_lib \<Rightarrow> bytes \<Rightarrow> Key \<Rightarrow> string \<Rightarrow> string \<Rightarrow> bytes \<Rightarrow> string outcome" where
  "GenECDSAToken L cert key method uri body =
     genecdsaToken L (B64Encode cert) (token_payload cert method uri body) key"

section \<open>Base 64 reads back\<close>

lemma b64_index: "i < 64 \<Longrightarrow> b64_val (b64_char i) = Some i"
proof -
  have "list_all (\<lambda>i. b64_val (b64_char i) = Some i) [0..<64]" by code_simp
  then show "i < 64 \<Longrightarrow> b64_val (b64_char i) = Some i" by (simp add: list_all_iff)
qed

lemma b64_pad: "b64_val (CHR ''='') = None"
  by code_simp

lemma b64_plain: "i < 64 \<Longrightarrow> b64_char i \<noteq> CHR ''.'' \<and> b64_char i \<noteq> CHR 0x0A \<and> b64_char i \<noteq> CHR 0x0D"
proof -
  have "list_all (\<lambda>i. b64_char i \<noteq> CHR ''.'' \<and> b64_char i \<noteq> CHR 0x0A \<and> b64_char i \<noteq> CHR 0x0D) [0..<64]" by code_simp
  then show "i < 64 \<Longrightarrow> b64_char i \<noteq> CHR ''.'' \<and> b64_char i \<noteq> CHR 0x0A \<and> b64_char i \<noteq> CHR 0x0D"
    by (simp add: list_all_iff)
qed

text \<open>The indices of a group, and what the decoder makes of them.\<close>

lemma digit_pack: "q < k \<Longrightarrow> (m * k + q) div k = m" "q < k \<Longrightarrow> (m * k + q) mod k = q" for k m q :: nat
  by simp_all

lemma byte_parts:
  "unat (a :: byte) div 4 < 64" "unat a div 16 < 16" "unat a div 64 < 4"
  using unat_byte_less[of a] by (simp_all add: less_mult_imp_div_less)

lemma b64_bounds:
  "unat (a :: byte) div 4 < 64" "unat a mod 4 * 16 < 64" "unat a mod 4 * 16 + unat (b :: byte) div 16 < 64"
  "unat b mod 16 * 4 < 64" "unat b mod 16 * 4 + unat (c :: byte) div 64 < 64" "unat c mod 64 < 64"
  using byte_parts(1)[of a] byte_parts(2)[of b] byte_parts(3)[of c] mod_less_divisor[of 4 "unat a"]
    mod_less_divisor[of 16 "unat b"] mod_less_divisor[of 64 "unat c"]
  by linarith+

lemma b64_bytes:
  fixes a b c :: byte
  shows "unat a div 4 * 4 + unat a mod 4 * 16 div 16 = unat a"
    and "unat a div 4 * 4 + (unat a mod 4 * 16 + unat b div 16) div 16 = unat a"
    and "(unat a mod 4 * 16 + unat b div 16) mod 16 * 16 + unat b mod 16 * 4 div 4 = unat b"
    and "(unat a mod 4 * 16 + unat b div 16) mod 16 * 16 + (unat b mod 16 * 4 + unat c div 64) div 4 = unat b"
    and "(unat b mod 16 * 4 + unat c div 64) mod 4 * 64 + unat c mod 64 = unat c"
  by (simp_all only: digit_pack[OF byte_parts(2)] digit_pack[OF byte_parts(3)] div_mult_mod_eq
      nonzero_mult_div_cancel_right[of "16 :: nat"] nonzero_mult_div_cancel_right[of "4 :: nat"] num.distinct
      zero_neq_numeral[symmetric] not_False_eq_True simp_thms)

lemma b64_groups_encode: "b64_groups (B64Encode bs) = Ok bs"
proof (induction bs rule: B64Encode.induct)
  case (2 a)
  then show ?case using b64_bytes(1)[where a=a] by (simp add: b64_index b64_bounds b64_pad)
next
  case (3 a b)
  then show ?case using b64_bytes(2)[where a=a and b=b] b64_bytes(3)[where a=a and b=b] by (simp add: b64_index b64_bounds b64_pad)
next
  case (4 a b c rest)
  then show ?case using b64_bytes(2)[where a=a and b=b] b64_bytes(4)[where a=a and b=b and c=c] b64_bytes(5)[where b=b and c=c] by (simp add: b64_index b64_bounds)
qed simp

lemma b64_encode_plain: "c \<in> set (B64Encode bs) \<Longrightarrow> c \<noteq> CHR ''.'' \<and> c \<noteq> CHR 0x0A \<and> c \<noteq> CHR 0x0D"
  by (induction bs rule: B64Encode.induct) (auto simp: b64_plain b64_bounds)

lemma b64_decode_encode: "B64Decode (B64Encode bs) = Ok bs"
proof -
  have "filter (\<lambda>c. c \<noteq> CHR 0x0A \<and> c \<noteq> CHR 0x0D) (B64Encode bs) = B64Encode bs"
    using b64_encode_plain by (auto simp: filter_id_conv)
  then show ?thesis by (simp add: B64Decode_def b64_groups_encode)
qed

lemma b64_inject [simp]: "B64Encode a = B64Encode b \<longleftrightarrow> a = b"
  using b64_groups_encode by (metis outcome.inject(1))

text \<open>Strings without a full stop are separated by one.\<close>

lemma dot_split:
  assumes "CHR ''.'' \<notin> set a" "CHR ''.'' \<notin> set b" "a @ ''.'' @ r = b @ ''.'' @ s"
  shows "a = b \<and> r = s"
  using assms
proof (induction a arbitrary: b)
  case Nil then show ?case by (cases b) auto
next
  case (Cons x a) then show ?case by (cases b) auto
qed

lemma dot_split_right:
  assumes "CHR ''.'' \<notin> set a" "CHR ''.'' \<notin> set b" "r @ ''.'' @ a = s @ ''.'' @ b"
  shows "a = b \<and> r = s"
proof -
  have "rev a @ ''.'' @ rev r = rev b @ ''.'' @ rev s"
    using arg_cong[OF assms(3), of rev] by simp
  from dot_split[OF _ _ this] assms(1,2) show ?thesis by simp
qed

lemma b64_no_dot: "CHR ''.'' \<notin> set (B64Encode bs)"
  using b64_encode_plain by blast

lemma bytes_of_string_inject [simp]: "bytes_of_string s = bytes_of_string t \<longleftrightarrow> s = t"
proof -
  have "inj (\<lambda>c. word_of_nat (of_char c) :: byte)"
  proof (rule injI)
    fix c d :: char
    assume "(word_of_nat (of_char c) :: byte) = word_of_nat (of_char d)"
    then have "unat (word_of_nat (of_char c) :: byte) = unat (word_of_nat (of_char d) :: byte)" by simp
    then have "(of_char c :: nat) = of_char d"
      using of_char_mod_256[of c, where 'a=nat] of_char_mod_256[of d, where 'a=nat]
      by (simp add: unat_of_nat)
    then show "c = d" by simp
  qed
  then show ?thesis unfolding bytes_of_string_def by (simp add: inj_map_eq_map)
qed

lemma token_payload_inject:
  assumes "token_payload cert method uri body = token_payload cert' method' uri' body'"
  shows "cert = cert' \<and> method = method' \<and> uri = uri' \<and> body = body'"
proof -
  have 1: "B64Encode cert = B64Encode cert' \<and> (method @ ''.'' @ B64Encode (bytes_of_string uri)) @ ''.'' @ B64Encode body
      = (method' @ ''.'' @ B64Encode (bytes_of_string uri')) @ ''.'' @ B64Encode body'"
    using assms by (intro dot_split_right[OF b64_no_dot b64_no_dot]) (simp add: token_payload_def)
  then have 2: "B64Encode body = B64Encode body' \<and> method @ ''.'' @ B64Encode (bytes_of_string uri)
      = method' @ ''.'' @ B64Encode (bytes_of_string uri')"
    by (intro dot_split_right[OF b64_no_dot b64_no_dot]) simp
  then have "B64Encode (bytes_of_string uri) = B64Encode (bytes_of_string uri') \<and> method = method'"
    by (intro dot_split_right[OF b64_no_dot b64_no_dot]) simp
  with 1 2 show ?thesis by simp
qed

section \<open>Low S\<close>

lemma curve_N_odd: "curveHalfOrders c = Some h \<Longrightarrow> odd (curve_N c) \<and> h = curve_N c div 2"
  by (cases c) (simp_all add: curveHalfOrders_def)

lemma ToLowS_ok:
  assumes "curveHalfOrders (pub_Curve k) = Some h" "0 < s" "s < curve_N (pub_Curve k)"
  shows "ToLowS k s = (if s \<le> curve_N (pub_Curve k) div 2 then Ok (int s, False)
                       else Ok (int (curve_N (pub_Curve k) - s), True))"
  using assms curve_N_odd[OF assms(1)] by (auto simp: ToLowS_def IsLowS_def of_nat_diff)

text \<open>Of \<open>s\<close> and \<open>N - s\<close>, the two values that a verifier accepts for a signature, \<open>ToLowS\<close> gives
  one and the same: the one that is low.\<close>

lemma low_s_canonical:
  assumes "curveHalfOrders (pub_Curve k) = Some h" "0 < s" "s < curve_N (pub_Curve k)"
  shows "\<exists>s' f f'. ToLowS k s = Ok (int s', f) \<and> ToLowS k (curve_N (pub_Curve k) - s) = Ok (int s', f') \<and>
           (s' = s \<or> s' = curve_N (pub_Curve k) - s) \<and> 0 < s' \<and> IsLowS k s' = Ok True"
proof -
  let ?N = "curve_N (pub_Curve k)"
  have o: "odd ?N" "h = ?N div 2" using curve_N_odd[OF assms(1)] by simp_all
  have c: "s \<le> ?N div 2 \<longleftrightarrow> \<not> ?N - s \<le> ?N div 2"
    using o(1) assms(3) by (auto elim!: oddE)
  have n: "0 < ?N - s" "?N - s < ?N" "?N - (?N - s) = s" using assms by auto
  note t = ToLowS_ok[OF assms] ToLowS_ok[OF assms(1) n(1,2)]
  show ?thesis
  proof (cases "s \<le> ?N div 2")
    case True
    then show ?thesis using t c n(3) o(2) assms by (intro exI[of _ s]) (auto simp: IsLowS_def)
  next
    case False
    then show ?thesis using t c n o(2) assms(1)
      by (intro exI[of _ "?N - s"]) (auto simp: IsLowS_def simp del: of_nat_diff)
  qed
qed

section \<open>Theorems\<close>

text \<open>What ECDSA promises of a curve of order \<open>N\<close>: a signature that is made verifies, its second
  component is in range, and the negated component verifies as well.\<close>

definition ecdsa_laws :: "ecdsa_lib \<Rightarrow> (ecdsa_PublicKey \<Rightarrow> bytes \<Rightarrow> nat \<Rightarrow> nat \<Rightarrow> bool) \<Rightarrow> bool" where
  "ecdsa_laws L verify \<longleftrightarrow>
     (\<forall>priv d r s. ec_Sign L priv d = ((r, s), None) \<longrightarrow>
        verify (priv_PublicKey priv) d r s \<and> 0 < s \<and> s < curve_N (pub_Curve (priv_PublicKey priv))) \<and>
     (\<forall>pub d r s. verify pub d r s \<longrightarrow> verify pub d r (curve_N (pub_Curve pub) - s))"

lemma low_signature:
  assumes "ecdsa_laws L verify" "ec_Sign L priv d = ((r, s), None)" "ToLowS (priv_PublicKey priv) s = Ok (s', f)"
  shows "verify (priv_PublicKey priv) d r (nat s') \<and> IsLowS (priv_PublicKey priv) (nat s') = Ok True \<and> 0 < nat s'"
proof -
  let ?k = "priv_PublicKey priv"
  from assms(3) obtain h where h: "curveHalfOrders (pub_Curve ?k) = Some h"
    by (auto simp: ToLowS_def IsLowS_def split: option.splits)
  from assms(1,2) have v: "verify ?k d r s" "0 < s" "s < curve_N (pub_Curve ?k)"
      "verify ?k d r (curve_N (pub_Curve ?k) - s)"
    unfolding ecdsa_laws_def by blast+
  from low_s_canonical[OF h v(2,3)] obtain t where t: "s' = int t" "t = s \<or> t = curve_N (pub_Curve ?k) - s" "0 < t"
      "IsLowS ?k t = Ok True"
    using assms(3) by auto
  then show ?thesis using v by auto
qed

text \<open>C25. What a private key signs is the DER encoding of a signature that verifies under its public
  key and whose second component is low, which a peer demands: of the two signatures that verify,
  the one that is not low is never sent.\<close>

theorem signature_verifies_and_is_low:
  assumes "ecdsa_laws L verify" "ecdsaSigner_Sign L signer digest = Ok sig"
  shows "\<exists>priv r s. es_prik signer = ecdsaPrivateKey (Some priv) \<and> sig = asn1_signature r s \<and>
           verify (priv_PublicKey priv) digest r s \<and> IsLowS (priv_PublicKey priv) s = Ok True \<and> 0 < s"
proof -
  from assms(2) obtain priv r s s' f where e: "es_prik signer = ecdsaPrivateKey (Some priv)"
    "ec_Sign L priv digest = ((r, s), None)" "ToLowS (priv_PublicKey priv) s = Ok (s', f)"
    "sig = asn1_signature r (nat s')"
    by (fastforce simp: ecdsaSigner_Sign_def split: Key.splits option.splits)
  with low_signature[OF assms(1) e(2,3)] show ?thesis by blast
qed

text \<open>A key on P-256 whose signatures are all \<open>(3, N - 1)\<close>.\<close>

definition p256_priv :: ecdsa_PrivateKey where
  "p256_priv = \<lparr>priv_PublicKey = \<lparr>pub_Curve = P256, pub_X = 5, pub_Y = 6\<rparr>, priv_D = 7\<rparr>"

definition fixed_lib :: ecdsa_lib where
  "fixed_lib = \<lparr>ec_Marshal = (\<lambda>c x y. [4]), ec_MarshalPKIX = (\<lambda>p. ([1], None)),
     ec_ParsePKIX = (\<lambda>b. (ECDSA_PublicKey (priv_PublicKey p256_priv), None)),
     ec_Sign = (\<lambda>priv d. ((3, curve_N (pub_Curve (priv_PublicKey priv)) - 1),
                   if curve_N (pub_Curve (priv_PublicKey priv)) > 1 then None else Some (ErrExt ''zero parameter''))),
     ec_GenerateKey = (\<lambda>c. (p256_priv, None)), ec_sha256 = (\<lambda>b. b)\<rparr>"

definition fixed_verify :: "ecdsa_PublicKey \<Rightarrow> bytes \<Rightarrow> nat \<Rightarrow> nat \<Rightarrow> bool" where
  "fixed_verify pub d r s \<longleftrightarrow> curve_N (pub_Curve pub) > 1 \<and> (s = 1 \<or> s = curve_N (pub_Curve pub) - 1)"

lemma fixed_laws: "ecdsa_laws fixed_lib fixed_verify"
  by (auto simp: ecdsa_laws_def fixed_lib_def fixed_verify_def split: if_splits)

lemma fixed_sign:
  "ecdsaSigner_Sign fixed_lib \<lparr>es_prik = ecdsaPrivateKey (Some p256_priv), es_pk = pk\<rparr> d
     = Ok (asn1_signature 3 1)"
  by (simp add: ecdsaSigner_Sign_def fixed_lib_def p256_priv_def ToLowS_def IsLowS_def curveHalfOrders_def)

lemma signature_verifies_and_is_low_witness:
  "\<exists>r s. asn1_signature 3 1 = asn1_signature r s \<and> fixed_verify (priv_PublicKey p256_priv) [0] r s \<and>
     IsLowS (priv_PublicKey p256_priv) s = Ok True"
  using signature_verifies_and_is_low[OF fixed_laws fixed_sign[of Other_PublicKey "[0]"]] by auto

text \<open>C26. A token for the CA binds the certificate and the request: it splits in one way into the
  certificate and a signature, the signature is over the hash of one payload, and only this
  certificate, method, URI and body have that payload, whatever full stops they contain.\<close>

theorem token_binds_request:
  assumes "GenECDSAToken L cert key method uri body = Ok token"
  shows "\<exists>sig signer payload. NewECDSASigner L key = Ok signer \<and>
           ecdsaSigner_Sign L signer (ec_sha256 L (bytes_of_string payload)) = Ok sig \<and>
           (\<forall>c s. token = B64Encode c @ ''.'' @ B64Encode s \<longleftrightarrow> c = cert \<and> s = sig) \<and>
           (\<forall>c m u b. payload = token_payload c m u b \<longleftrightarrow> c = cert \<and> m = method \<and> u = uri \<and> b = body)"
proof -
  let ?p = "token_payload cert method uri body"
  from assms obtain signer sig where s: "NewECDSASigner L key = Ok signer"
      "ecdsaSigner_Sign L signer (ec_sha256 L (bytes_of_string ?p)) = Ok sig"
      "token = B64Encode cert @ ''.'' @ B64Encode sig"
    by (auto simp: GenECDSAToken_def genecdsaToken_def Let_def)
  have t: "c' = cert \<and> s' = sig" if "token = B64Encode c' @ ''.'' @ B64Encode s'" for c' s'
    using dot_split[OF b64_no_dot[of c'] b64_no_dot[of cert], of "B64Encode s'" "B64Encode sig"] s(3) that by simp
  have "\<forall>c s. token = B64Encode c @ ''.'' @ B64Encode s \<longleftrightarrow> c = cert \<and> s = sig" using t s(3) by blast
  moreover have "\<forall>c m u b. ?p = token_payload c m u b \<longleftrightarrow> c = cert \<and> m = method \<and> u = uri \<and> b = body"
    using token_payload_inject by blast
  ultimately show ?thesis using s(1,2) by (intro exI[of _ sig] exI[of _ signer] exI[of _ ?p] conjI)
qed

lemma token_binds_request_witness:
  "\<exists>sig payload. (\<forall>c m u b. payload = token_payload c m u b \<longleftrightarrow> c = [1, 2] \<and> m = ''GET'' \<and> u = ''/a.b'' \<and> b = []) \<and>
     GenECDSAToken fixed_lib [1, 2] (ecdsaPrivateKey (Some p256_priv)) ''GET'' ''/a.b'' [] = Ok (''AQI=.'' @ B64Encode sig)"
proof -
  have g: "GenECDSAToken fixed_lib [1, 2] (ecdsaPrivateKey (Some p256_priv)) ''GET'' ''/a.b'' []
      = Ok (''AQI=.'' @ B64Encode (asn1_signature 3 1))"
  proof -
    have "B64Encode [1, 2] = ''AQI=''" by code_simp
    moreover have "NewECDSASigner fixed_lib (ecdsaPrivateKey (Some p256_priv))
        = Ok \<lparr>es_prik = ecdsaPrivateKey (Some p256_priv), es_pk = ECDSA_PublicKey (priv_PublicKey p256_priv)\<rparr>"
      by (simp add: NewECDSASigner_def Key_Private_def Key_PublicKey_def Key_Bytes_def fixed_lib_def)
    ultimately show ?thesis by (simp add: GenECDSAToken_def genecdsaToken_def fixed_sign)
  qed
  from token_binds_request[OF g] obtain payload where
    "\<forall>c m u b. payload = token_payload c m u b \<longleftrightarrow> c = [1, 2] \<and> m = ''GET'' \<and> u = ''/a.b'' \<and> b = []"
    by (elim exE conjE) (rule that; assumption)
  then show ?thesis by (intro exI[of _ "asn1_signature 3 1"] exI[of _ payload] conjI g)
qed

text \<open>The identifier of a private key is that of its public key.\<close>

lemma ski_of_public_key: "Key_PublicKey k = Ok p \<Longrightarrow> Key_SKI L p = Key_SKI L k"
  by (auto simp: Key_PublicKey_def Key_SKI_def deref_def Let_def split: Key.splits option.splits)

end
