(* ===== verification/TxFlow.thy ===== *)
theory TxFlow
  imports TxUtils
begin

text \<open>
  The path of a transaction through \<open>internal/utils\<close>: a proposal is created, endorsers answer with
  proposal responses, the client assembles and signs the transaction, and the envelope is read
  back. The lemmas invert the successful runs of the constructors; the theorems show what the
  next party reads, and which runs the constructors refuse.
\<close>

section \<open>Inversion of successful runs\<close>

lemma unmarshal_ok_iff:
  "UnmarshalHeader P b = (h, None) \<longleftrightarrow> Unmarshal (pb_Header P) b = (h, None)"
  "UnmarshalChannelHeader P b = (ch, None) \<longleftrightarrow> Unmarshal (pb_ChannelHeader P) b = (ch, None)"
  "UnmarshalSignatureHeader P b = (sh, None) \<longleftrightarrow> Unmarshal (pb_SignatureHeader P) b = (sh, None)"
  "UnmarshalPayload P b = (pl, None) \<longleftrightarrow> Unmarshal (pb_Payload P) b = (pl, None)"
  "UnmarshalEnvelope P b = (e, None) \<longleftrightarrow> Unmarshal (pb_Envelope P) b = (e, None)"
  "UnmarshalTransaction P b = (tx, None) \<longleftrightarrow> Unmarshal (pb_Transaction P) b = (tx, None)"
  "UnmarshalChaincodeActionPayload P b = (cap, None) \<longleftrightarrow> Unmarshal (pb_ChaincodeActionPayload P) b = (cap, None)"
  "UnmarshalProposalResponsePayload P b = (prp, None) \<longleftrightarrow> Unmarshal (pb_ProposalResponsePayload P) b = (prp, None)"
  "UnmarshalChaincodeAction P b = (ca, None) \<longleftrightarrow> Unmarshal (pb_ChaincodeAction P) b = (ca, None)"
  "UnmarshalChaincodeProposalPayload P b = (cpp, None) \<longleftrightarrow> Unmarshal (pb_ChaincodeProposalPayload P) b = (cpp, None)"
  by (auto simp: unmarshal_defs)

lemma get_bytes_ok_iff:
  "GetBytesChaincodeProposalPayload P cpp = (b, None) \<longleftrightarrow> Marshal (pb_ChaincodeProposalPayload P) cpp = (b, None)"
  "GetBytesChaincodeActionPayload P cap = (b, None) \<longleftrightarrow> Marshal (pb_ChaincodeActionPayload P) cap = (b, None)"
  "GetBytesTransaction P tx = (b, None) \<longleftrightarrow> Marshal (pb_Transaction P) tx = (b, None)"
  "GetBytesPayload P payl = (b, None) \<longleftrightarrow> Marshal (pb_Payload P) payl = (b, None)"
  by (auto simp: get_bytes_defs)

text \<open>A created proposal: its header carries the two marshalled headers, its payload the
  marshalled invocation and the transient map.\<close>

definition proposal_made ::
    "pb \<Rightarrow> string \<Rightarrow> int \<Rightarrow> string \<Rightarrow> ChaincodeInvocationSpec option \<Rightarrow> bytes \<Rightarrow> bytes
       \<Rightarrow> (string \<rightharpoonup> bytes) \<Rightarrow> Proposal \<Rightarrow> bool" where
  "proposal_made P txid typ channelID cis nonce creator tm prop \<longleftrightarrow>
     (\<exists>chB shB ch cisB.
        Marshal (pb_Header P) (Some \<lparr>hdr_ChannelHeader = Some chB, hdr_SignatureHeader = Some shB\<rparr>)
          = (prop_Header prop, None) \<and>
        Marshal (pb_ChannelHeader P) (Some ch) = (chB, None) \<and>
        ch_TxId ch = txid \<and> ch_Type ch = typ \<and> ch_ChannelId ch = channelID \<and>
        Marshal (pb_SignatureHeader P) (Some \<lparr>sh_Creator = creator, sh_Nonce = nonce\<rparr>) = (shB, None) \<and>
        Marshal (pb_ChaincodeInvocationSpec P) cis = (cisB, None) \<and>
        Marshal (pb_ChaincodeProposalPayload P) (Some \<lparr>cpp_Input = cisB, cpp_TransientMap = tm\<rparr>)
          = (prop_Payload prop, None))"

lemma create_proposal_made:
  assumes "CreateChaincodeProposalWithTxIDNonceAndTransient P ts txid typ channelID cis nonce creator tm
             = Ok (prop, t)"
  shows "t = txid \<and> proposal_made P txid typ channelID cis nonce creator tm prop"
  using assms
  by (auto simp: CreateChaincodeProposalWithTxIDNonceAndTransient_def proposal_made_def; fastforce)

lemma create_proposal_transient_made:
  assumes "CreateChaincodeProposalWithTransient P sha2 rnd ts typ channelID cis creator tm = Ok (prop, txid)"
  shows "\<exists>nonce. rnd = (nonce, None) \<and> txid = ComputeTxID sha2 nonce creator \<and>
           proposal_made P txid typ channelID cis nonce creator tm prop"
  using assms
  by (auto simp: CreateChaincodeProposalWithTransient_def getRandomNonce_def Let_def
      dest!: create_proposal_made)

lemma proposal_made_header:
  assumes "pb_laws P" "proposal_made P txid typ channelID cis nonce creator tm prop"
  shows "\<exists>h ch. Unmarshal (pb_Header P) (prop_Header prop) = (h, None) \<and>
           Unmarshal (pb_ChannelHeader P) (slice_bytes (hdr_ChannelHeader h)) = (ch, None) \<and>
           ch_TxId ch = txid \<and> ch_Type ch = typ \<and> ch_ChannelId ch = channelID \<and>
           Unmarshal (pb_SignatureHeader P) (slice_bytes (hdr_SignatureHeader h))
             = (\<lparr>sh_Creator = creator, sh_Nonce = nonce\<rparr>, None)"
  using assms by (fastforce simp: proposal_made_def dest: pb_laws_read[OF assms(1)])

subsection \<open>The responses of a transaction\<close>

text \<open>A response that \<open>CreateSignedTx\<close> accepts, with the payload that all of them share.\<close>

definition endorses :: "bytes \<Rightarrow> ProposalResponse option \<Rightarrow> bool" where
  "endorses a p \<longleftrightarrow> (case p of None \<Rightarrow> False | Some r \<Rightarrow>
     (case pr_Response r of None \<Rightarrow> False | Some resp \<Rightarrow>
        200 \<le> resp_Status resp \<and> resp_Status resp < 400 \<and> slice_bytes (pr_Payload r) = a))"

lemma endorses_iff:
  "endorses a p \<longleftrightarrow> (\<exists>r resp. p = Some r \<and> pr_Response r = Some resp \<and> 200 \<le> resp_Status resp \<and>
     resp_Status resp < 400 \<and> slice_bytes (pr_Payload r) = a)"
  by (auto simp: endorses_def split: option.splits)

lemma check_responses_tail:
  "0 < n \<Longrightarrow> check_responses n a ps = Ok () \<longleftrightarrow> (\<forall>p\<in>set ps. endorses a p)"
proof (induction ps arbitrary: n)
  case (Cons p ps)
  then show ?case
    by (cases p; cases "pr_Response (the p)") (auto simp: endorses_def not_less)
qed simp

lemma check_responses_ok:
  "check_responses 0 b ps = Ok () \<longleftrightarrow> ps = [] \<or> (\<exists>a. \<forall>p\<in>set ps. endorses a p)"
proof (cases ps)
  case (Cons p qs)
  then show ?thesis
    by (cases p; cases "pr_Response (the p)") (auto simp: check_responses_tail endorses_def not_less)
qed simp

definition endorsement_of :: "ProposalResponse option \<Rightarrow> Endorsement option" where
  "endorsement_of p = pr_Endorsement (the p)"

lemma endorsements_map:
  "None \<notin> set ps \<Longrightarrow> map_outcome (\<lambda>p. bind (deref p) (\<lambda>r. Ok (pr_Endorsement r))) ps
     = Ok (map endorsement_of ps)"
proof (induction ps)
  case (Cons p ps)
  then show ?case by (cases p) (auto simp: endorsement_of_def)
qed simp

text \<open>What a successful \<open>CreateSignedTx\<close> did.\<close>

definition tx_made ::
    "pb \<Rightarrow> Proposal \<Rightarrow> Signer \<Rightarrow> ProposalResponse option list \<Rightarrow> Envelope \<Rightarrow> Header \<Rightarrow> ChaincodeProposalPayload
       \<Rightarrow> bytes \<Rightarrow> bytes \<Rightarrow> bytes \<Rightarrow> bool" where
  "tx_made P prop sg resps env hdr cpp ppB capB txB \<longleftrightarrow>
     resps \<noteq> [] \<and>
     Unmarshal (pb_Header P) (prop_Header prop) = (hdr, None) \<and>
     Unmarshal (pb_ChaincodeProposalPayload P) (prop_Payload prop) = (cpp, None) \<and>
     (\<exists>shdr. Unmarshal (pb_SignatureHeader P) (slice_bytes (hdr_SignatureHeader hdr)) = (shdr, None) \<and>
             sg_Serialize sg = (sh_Creator shdr, None)) \<and>
     (\<exists>a. \<forall>p\<in>set resps. endorses a p) \<and>
     Marshal (pb_ChaincodeProposalPayload P)
       (Some \<lparr>cpp_Input = cpp_Input cpp, cpp_TransientMap = Map.empty\<rparr>) = (ppB, None) \<and>
     Marshal (pb_ChaincodeActionPayload P)
       (Some \<lparr>cap_ChaincodeProposalPayload = Some ppB,
              cap_Action = Some \<lparr>cea_ProposalResponsePayload = pr_Payload (the (hd resps)),
                                 cea_Endorsements = map endorsement_of resps\<rparr>\<rparr>) = (capB, None) \<and>
     Marshal (pb_Transaction P)
       (Some \<lparr>tx_Actions = [Some \<lparr>ta_Header = slice_bytes (hdr_SignatureHeader hdr),
                                  ta_Payload = capB\<rparr>]\<rparr>) = (txB, None) \<and>
     Marshal (pb_Payload P) (Some \<lparr>payl_Header = Some hdr, payl_Data = txB\<rparr>) = (env_Payload env, None) \<and>
     sg_Sign sg (env_Payload env) = (env_Signature env, None)"

lemma create_signed_tx_made:
  assumes "CreateSignedTx P (Some prop) sg resps = Ok env"
  shows "\<exists>hdr cpp ppB capB txB. tx_made P prop sg resps env hdr cpp ppB capB txB"
proof -
  have "resps \<noteq> []" "check_responses 0 [] resps = Ok ()"
    using assms by (auto simp: CreateSignedTx_def split: if_splits)
  then obtain a where a: "\<forall>p\<in>set resps. endorses a p" by (auto simp: check_responses_ok)
  then have n: "None \<notin> set resps" by (auto simp: endorses_def)
  show ?thesis
    using assms a \<open>resps \<noteq> []\<close>
    by (fastforce simp: CreateSignedTx_def tx_made_def unmarshal_ok_iff get_bytes_ok_iff
        GetBytesProposalPayloadForTx_def endorsements_map[OF n] split: if_splits)
qed

lemma tx_made_read:
  assumes "pb_laws P" "tx_made P prop sg resps env hdr cpp ppB capB txB"
    and "None \<notin> set (map endorsement_of resps)"
  shows "Unmarshal (pb_Payload P) (env_Payload env)
           = (\<lparr>payl_Header = Some (norm_header hdr), payl_Data = txB\<rparr>, None)"
    and "Unmarshal (pb_Transaction P) txB
           = (\<lparr>tx_Actions = [Some \<lparr>ta_Header = slice_bytes (hdr_SignatureHeader hdr), ta_Payload = capB\<rparr>]\<rparr>,
              None)"
    and "Unmarshal (pb_ChaincodeActionPayload P) capB
           = (\<lparr>cap_ChaincodeProposalPayload = norm_slice (Some ppB),
               cap_Action = Some \<lparr>cea_ProposalResponsePayload = norm_slice (pr_Payload (the (hd resps))),
                                  cea_Endorsements = map endorsement_of resps\<rparr>\<rparr>, None)"
    and "Unmarshal (pb_ChaincodeProposalPayload P) ppB
           = (\<lparr>cpp_Input = cpp_Input cpp, cpp_TransientMap = Map.empty\<rparr>, None)"
  using assms(2,3) pb_laws_read[OF assms(1)]
  by (auto simp: tx_made_def norm_payload_def norm_cap_def no_nil_cap_def)

section \<open>A concrete run\<close>

text \<open>Codecs that know the messages of one endorsed transaction and one install proposal, with
  identity for SHA-256 and signers that sign by a constant or by copying.\<close>

abbreviation sample_txid :: string where "sample_txid \<equiv> ComputeTxID (\<lambda>x. x) [1] [2]"

definition sample_ts :: Timestamp where "sample_ts = \<lparr>ts_Seconds = 0, ts_Nanos = 0\<rparr>"

definition sample_ccid :: ChaincodeID where
  "sample_ccid = \<lparr>ccid_Path = [], ccid_Name = ''mycc'', ccid_Version = []\<rparr>"

definition sample_cis :: ChaincodeInvocationSpec where
  "sample_cis = \<lparr>cis_ChaincodeSpec = Some \<lparr>cspec_Type = ChaincodeSpec_GOLANG,
     cspec_ChaincodeId = Some sample_ccid, cspec_Input = None\<rparr>\<rparr>"

definition sample_install :: ChaincodeInvocationSpec where
  "sample_install = lscc_spec (Some \<lparr>cin_Args = [bytes_of_string ''install'', []], cin_IsInit = False\<rparr>)"

definition sample_ch :: "bytes \<Rightarrow> ChannelHeader" where
  "sample_ch ext = \<lparr>ch_Type = HeaderType_ENDORSER_TRANSACTION, ch_Version = 0,
     ch_Timestamp = Some sample_ts, ch_ChannelId = [], ch_TxId = sample_txid, ch_Epoch = 0,
     ch_Extension = ext, ch_TlsCertHash = []\<rparr>"

definition sample_tm :: "string \<rightharpoonup> bytes" where "sample_tm = [''k'' \<mapsto> [7]]"

definition sample_action :: ChaincodeAction where
  "sample_action = \<lparr>ca_Results = [5], ca_Events = [], ca_Response = None, ca_ChaincodeId = None\<rparr>"

definition sample_response :: ProposalResponse where
  "sample_response = \<lparr>pr_Version = 1,
     pr_Response = Some \<lparr>resp_Status = 200, resp_Message = ''OK'', resp_Payload = []\<rparr>,
     pr_Payload = Some [0], pr_Endorsement = Some \<lparr>end_Endorser = [8], end_Signature = [0, 8]\<rparr>\<rparr>"

definition sample_client :: Signer where
  "sample_client = \<lparr>sg_Serialize = ([2], None), sg_Sign = (\<lambda>m. ([9], None)),
     sg_NewSignatureHeader = (\<lparr>sh_Creator = [2], sh_Nonce = [1]\<rparr>, None), sg_GetMSPId = ''Org1MSP''\<rparr>"

definition sample_endorser :: Signer where
  "sample_endorser = \<lparr>sg_Serialize = ([8], None), sg_Sign = (\<lambda>m. (m, None)),
     sg_NewSignatureHeader = (\<lparr>sh_Creator = [8], sh_Nonce = [1]\<rparr>, None), sg_GetMSPId = ''Org2MSP''\<rparr>"

definition sample_pb :: pb where
  "sample_pb =
     \<lparr>pb_Header = table_codec [\<lparr>hdr_ChannelHeader = Some [0], hdr_SignatureHeader = Some [0]\<rparr>,
                               \<lparr>hdr_ChannelHeader = Some [0, 0], hdr_SignatureHeader = Some [0]\<rparr>],
      pb_ChannelHeader = table_codec [sample_ch [0], sample_ch [0, 0]],
      pb_SignatureHeader = table_codec [\<lparr>sh_Creator = [2], sh_Nonce = [1]\<rparr>],
      pb_Payload = table_codec
        [\<lparr>payl_Header = Some \<lparr>hdr_ChannelHeader = Some [0], hdr_SignatureHeader = Some [0]\<rparr>,
          payl_Data = [0]\<rparr>],
      pb_Envelope = table_codec [\<lparr>env_Payload = [0], env_Signature = [9]\<rparr>],
      pb_Block = table_codec [], pb_Metadata = table_codec [], pb_LastConfig = table_codec [],
      pb_OrdererBlockMetadata = table_codec [], pb_ConfigUpdateEnvelope = table_codec [],
      pb_SerializedIdentity = table_codec [], pb_ChaincodeID = table_codec [],
      pb_ChaincodeInvocationSpec = table_codec [sample_cis, sample_install],
      pb_ChaincodeDeploymentSpec = table_codec [],
      pb_ChaincodeHeaderExtension = table_codec [\<lparr>che_ChaincodeId = Some sample_ccid\<rparr>,
        \<lparr>che_ChaincodeId = Some \<lparr>ccid_Path = [], ccid_Name = ''lscc'', ccid_Version = []\<rparr>\<rparr>],
      pb_ChaincodeProposalPayload = table_codec [\<lparr>cpp_Input = [0], cpp_TransientMap = sample_tm\<rparr>,
        \<lparr>cpp_Input = [0], cpp_TransientMap = Map.empty\<rparr>,
        \<lparr>cpp_Input = [0, 0], cpp_TransientMap = Map.empty\<rparr>],
      pb_Proposal = table_codec [\<lparr>prop_Header = [0, 0], prop_Payload = [0, 0, 0]\<rparr>],
      pb_Response = table_codec [], pb_ProposalResponse = table_codec [],
      pb_ProposalResponsePayload = table_codec
        [\<lparr>prp_ProposalHash = [0, 0, 0, 0], prp_Extension = Some [0]\<rparr>],
      pb_ChaincodeAction = table_codec [sample_action],
      pb_ChaincodeEvent = table_codec [],
      pb_ChaincodeActionPayload = table_codec
        [\<lparr>cap_ChaincodeProposalPayload = Some [0, 0],
          cap_Action = Some \<lparr>cea_ProposalResponsePayload = Some [0],
            cea_Endorsements = [Some \<lparr>end_Endorser = [8], end_Signature = [0, 8]\<rparr>]\<rparr>\<rparr>],
      pb_Transaction = table_codec [\<lparr>tx_Actions = [Some \<lparr>ta_Header = [0], ta_Payload = [0]\<rparr>]\<rparr>]\<rparr>"

lemmas sample_defs = sample_pb_def sample_ts_def sample_ccid_def sample_cis_def sample_install_def
  sample_ch_def sample_tm_def sample_action_def sample_response_def sample_client_def
  sample_endorser_def table_codec_simps lscc_spec_def

lemma sample_pb_laws: "pb_laws sample_pb"
  by (simp add: pb_laws_def sample_pb_def table_codec_norm norm_header_def norm_payload_def
      norm_prp_def norm_cap_def)

lemma sample_proposal:
  "CreateChaincodeProposalWithTransient sample_pb (\<lambda>x. x) ([1], None) (sample_ts, None)
     HeaderType_ENDORSER_TRANSACTION [] (Some sample_cis) [2] sample_tm
   = Ok (\<lparr>prop_Header = [0], prop_Payload = [0]\<rparr>, sample_txid)"
  by (simp add: CreateChaincodeProposalWithTransient_def getRandomNonce_def
      CreateChaincodeProposalWithTxIDNonceAndTransient_def MarshalOrPanic_def sample_defs)

lemma sample_endorse:
  "CreateProposalResponse sample_pb (\<lambda>x. x) [0] (Some [0]) None [5] [] None sample_endorser
   = Ok sample_response"
  by (simp add: CreateProposalResponse_def GetProposalHash1_def GetBytesProposalPayloadForTx_def
      GetBytesProposalResponsePayload_def unmarshal_defs get_bytes_defs sample_defs)

lemma sample_tx:
  "CreateSignedTx sample_pb (Some \<lparr>prop_Header = [0], prop_Payload = [0]\<rparr>) sample_client
     [Some sample_response] = Ok \<lparr>env_Payload = [0], env_Signature = [9]\<rparr>"
  by (simp add: CreateSignedTx_def GetBytesProposalPayloadForTx_def unmarshal_defs get_bytes_defs
      sample_defs)

lemma sample_no_nil: "None \<notin> set (map endorsement_of [Some sample_response])"
  by (simp add: endorsement_of_def sample_response_def)

lemma sample_envelope_bytes:
  "Marshal (pb_Envelope sample_pb) (Some \<lparr>env_Payload = [0], env_Signature = [9]\<rparr>) = ([0], None)"
  by (simp add: sample_defs)

section \<open>Theorems\<close>

text \<open>A created proposal identifies its creator and its transaction: the headers read back
  from it hold the creator, the nonce, the channel, the type and the returned transaction id, and
  that id passes \<open>CheckTxID\<close> against them.\<close>

lemma proposal_identifies_creator:
  assumes "pb_laws P"
    and "CreateChaincodeProposalWithTransient P sha2 rnd ts typ channelID cis creator tm = Ok (prop, txid)"
  shows "\<exists>h ch sh. UnmarshalHeader P (prop_Header prop) = (h, None) \<and>
           UnmarshalChannelHeader P (slice_bytes (hdr_ChannelHeader h)) = (ch, None) \<and>
           UnmarshalSignatureHeader P (slice_bytes (hdr_SignatureHeader h)) = (sh, None) \<and>
           sh_Creator sh = creator \<and> rnd = (sh_Nonce sh, None) \<and>
           ch_TxId ch = txid \<and> ch_ChannelId ch = channelID \<and> ch_Type ch = typ \<and>
           CheckTxID sha2 txid (sh_Nonce sh) (sh_Creator sh) = None"
proof -
  from create_proposal_transient_made[OF assms(2)] obtain nonce where
    n: "rnd = (nonce, None)" "txid = ComputeTxID sha2 nonce creator"
      "proposal_made P txid typ channelID cis nonce creator tm prop" by blast
  from proposal_made_header[OF assms(1) n(3)] n(1,2) show ?thesis
    by (fastforce simp: unmarshal_ok_iff CheckTxID_def)
qed

lemma proposal_identifies_creator_witness:
  "\<exists>h ch. UnmarshalHeader sample_pb [0] = (h, None) \<and>
     UnmarshalChannelHeader sample_pb (slice_bytes (hdr_ChannelHeader h)) = (ch, None) \<and>
     ch_TxId ch = sample_txid"
  using proposal_identifies_creator[OF sample_pb_laws sample_proposal] by auto

text \<open>The chaincode named by a lifecycle proposal is \<open>lscc\<close>: \<open>InvokedChaincodeName\<close> on the
  bytes of an install, deploy or upgrade proposal always finds it.\<close>

lemma lifecycle_proposal_invokes_lscc:
  assumes "pb_laws P"
    and "createProposalFromCDS P sha2 rnd ts channelID msg creator propType args = Ok (prop, txid)"
    and "Marshal (pb_Proposal P) (Some prop) = (b, None)"
  shows "InvokedChaincodeName P b = Ok ''lscc''"
proof -
  from assms(2) obtain i where
    "CreateChaincodeProposalWithTransient P sha2 rnd ts HeaderType_ENDORSER_TRANSACTION channelID
       (Some (lscc_spec i)) creator Map.empty = Ok (prop, txid)"
    by (auto simp: createProposalFromCDS_def CreateProposalFromCIS_def CreateChaincodeProposal_def)
  from create_proposal_transient_made[OF this] show ?thesis
    using pb_laws_read[OF assms(1)] assms(3)
    by (fastforce simp: proposal_made_def InvokedChaincodeName_def lscc_spec_def)
qed

lemma lifecycle_proposal_invokes_lscc_witness:
  "createProposalFromCDS sample_pb (\<lambda>x. x) ([1], None) (sample_ts, None) [] NilMsg [2] ''install'' []
     = Ok (\<lparr>prop_Header = [0, 0], prop_Payload = [0, 0, 0]\<rparr>, sample_txid) \<and>
   InvokedChaincodeName sample_pb [0] = Ok ''lscc''"
proof -
  have m: "Marshal (pb_Proposal sample_pb) (Some \<lparr>prop_Header = [0, 0], prop_Payload = [0, 0, 0]\<rparr>)
             = ([0], None)"
    by (simp add: sample_defs)
  have c: "createProposalFromCDS sample_pb (\<lambda>x. x) ([1], None) (sample_ts, None) [] NilMsg [2] ''install'' []
     = Ok (\<lparr>prop_Header = [0, 0], prop_Payload = [0, 0, 0]\<rparr>, sample_txid)"
    by (simp add: createProposalFromCDS_def CreateProposalFromCIS_def CreateChaincodeProposal_def
        CreateChaincodeProposalWithTransient_def getRandomNonce_def
        CreateChaincodeProposalWithTxIDNonceAndTransient_def MarshalOrPanic_def sample_defs)
  show ?thesis
    using c lifecycle_proposal_invokes_lscc[OF sample_pb_laws c m] by simp
qed

text \<open>C4. \<open>CreateSignedTx\<close> signs only what was endorsed and only for the creator: when it returns
  an envelope, there was a response, every response succeeded (status in 200..399), all of them
  carry the same payload, and the signer is the creator named in the proposal's header.\<close>

theorem signed_tx_was_endorsed:
  assumes "CreateSignedTx P (Some prop) sg resps = Ok env"
  shows "resps \<noteq> [] \<and> (\<exists>a. \<forall>p\<in>set resps. endorses a p) \<and>
         (\<exists>hdr shdr. UnmarshalHeader P (prop_Header prop) = (hdr, None) \<and>
            UnmarshalSignatureHeader P (slice_bytes (hdr_SignatureHeader hdr)) = (shdr, None) \<and>
            sg_Serialize sg = (sh_Creator shdr, None)) \<and>
         sg_Sign sg (env_Payload env) = (env_Signature env, None)"
  using create_signed_tx_made[OF assms] by (auto simp: tx_made_def unmarshal_ok_iff)

lemma signed_tx_was_endorsed_witness: "\<exists>a. endorses a (Some sample_response)"
  using signed_tx_was_endorsed[OF sample_tx] by auto

text \<open>C3. The signed transaction, read back level by level, carries the proposal's header, one
  action with the proposal's signature header, the first response's payload, the endorsements of
  all responses in their order, and the invocation without the transient map.\<close>

theorem signed_tx_reads_back:
  assumes "pb_laws P" "CreateSignedTx P (Some prop) sg resps = Ok env"
    and "None \<notin> set (map endorsement_of resps)"
  shows "\<exists>hdr cpp payl ta cap.
      UnmarshalHeader P (prop_Header prop) = (hdr, None) \<and>
      UnmarshalChaincodeProposalPayload P (prop_Payload prop) = (cpp, None) \<and>
      UnmarshalPayload P (env_Payload env) = (payl, None) \<and>
      payl_Header payl = Some (norm_header hdr) \<and>
      UnmarshalTransaction P (payl_Data payl) = (\<lparr>tx_Actions = [Some ta]\<rparr>, None) \<and>
      ta_Header ta = slice_bytes (hdr_SignatureHeader hdr) \<and>
      UnmarshalChaincodeActionPayload P (ta_Payload ta) = (cap, None) \<and>
      cap_Action cap = Some \<lparr>cea_ProposalResponsePayload = norm_slice (pr_Payload (the (hd resps))),
                             cea_Endorsements = map endorsement_of resps\<rparr> \<and>
      UnmarshalChaincodeProposalPayload P (slice_bytes (cap_ChaincodeProposalPayload cap))
        = (\<lparr>cpp_Input = cpp_Input cpp, cpp_TransientMap = Map.empty\<rparr>, None)"
proof -
  obtain hdr cpp ppB capB txB where m: "tx_made P prop sg resps env hdr cpp ppB capB txB"
    using create_signed_tx_made[OF assms(2)] by blast
  show ?thesis
    using m tx_made_read[OF assms(1) m assms(3)]
    by (fastforce simp: unmarshal_ok_iff tx_made_def)
qed

lemma signed_tx_reads_back_witness:
  "\<exists>payl. UnmarshalPayload sample_pb [0] = (payl, None) \<and>
     (\<exists>ta. UnmarshalTransaction sample_pb (payl_Data payl) = (\<lparr>tx_Actions = [Some ta]\<rparr>, None))"
  using signed_tx_reads_back[OF sample_pb_laws sample_tx sample_no_nil] by auto

text \<open>Transient data never reaches the transaction: two proposals with the same header whose
  payloads differ only in the transient map give the same result, errors included.\<close>

lemma signed_tx_ignores_transient:
  assumes "UnmarshalChaincodeProposalPayload P p = (\<lparr>cpp_Input = i, cpp_TransientMap = t\<rparr>, None)"
    and "UnmarshalChaincodeProposalPayload P p' = (\<lparr>cpp_Input = i, cpp_TransientMap = t'\<rparr>, None)"
  shows "CreateSignedTx P (Some \<lparr>prop_Header = h, prop_Payload = p\<rparr>) sg resps =
         CreateSignedTx P (Some \<lparr>prop_Header = h, prop_Payload = p'\<rparr>) sg resps"
  using assms by (simp add: CreateSignedTx_def GetBytesProposalPayloadForTx_def cong: if_cong)

lemma signed_tx_ignores_transient_witness:
  "CreateSignedTx sample_pb (Some \<lparr>prop_Header = [0], prop_Payload = [0, 0]\<rparr>) sample_client
     [Some sample_response] = Ok \<lparr>env_Payload = [0], env_Signature = [9]\<rparr>"
proof -
  have "UnmarshalChaincodeProposalPayload sample_pb [0, 0]
      = (\<lparr>cpp_Input = [0], cpp_TransientMap = Map.empty\<rparr>, None)"
    "UnmarshalChaincodeProposalPayload sample_pb [0]
      = (\<lparr>cpp_Input = [0], cpp_TransientMap = sample_tm\<rparr>, None)"
    by (simp_all add: unmarshal_defs sample_defs)
  from signed_tx_ignores_transient[OF this] sample_tx show ?thesis by simp
qed

text \<open>C7. Endorser and committer compute the same proposal hash: \<open>GetProposalHash2\<close> on the header
  and the payload that are found in the transaction is \<open>GetProposalHash1\<close> on the original proposal.
  The exception is exact: a part that is empty comes back from the transaction as a nil slice, which
  the committer's function refuses, although the endorser's has hashed it.\<close>

theorem proposal_hash_agrees:
  assumes "pb_laws P" "CreateSignedTx P (Some prop) sg resps = Ok env"
    and "None \<notin> set (map endorsement_of resps)"
    and "UnmarshalHeader P (prop_Header prop) = (hdr, None)"
    and "UnmarshalChaincodeProposalPayload P (prop_Payload prop) = (cpp, None)"
    and "UnmarshalPayload P (env_Payload env) = (payl, None)"
    and "UnmarshalTransaction P (payl_Data payl) = (\<lparr>tx_Actions = [Some ta]\<rparr>, None)"
    and "UnmarshalChaincodeActionPayload P (ta_Payload ta) = (cap, None)"
  shows "\<exists>ppB. GetBytesProposalPayloadForTx P (Some cpp) = Ok ppB \<and>
    (hdr_ChannelHeader hdr \<noteq> None \<and> hdr_SignatureHeader hdr \<noteq> None \<longrightarrow>
       GetProposalHash1 P sha2 (Some hdr) (Some (prop_Payload prop)) =
         Ok (sha2 (slice_bytes (hdr_ChannelHeader hdr) @ slice_bytes (hdr_SignatureHeader hdr) @ ppB))) \<and>
    GetProposalHash2 sha2 (payl_Header payl) (cap_ChaincodeProposalPayload cap) =
      (if slice_bytes (hdr_ChannelHeader hdr) = [] \<or> slice_bytes (hdr_SignatureHeader hdr) = [] \<or> ppB = []
       then Err (ErrNew ''nil arguments'')
       else GetProposalHash1 P sha2 (Some hdr) (Some (prop_Payload prop)))"
proof -
  obtain hdr' cpp' ppB capB txB where m: "tx_made P prop sg resps env hdr' cpp' ppB capB txB"
    using create_signed_tx_made[OF assms(2)] by blast
  have e: "hdr' = hdr" "cpp' = cpp" using m assms(4,5) by (auto simp: tx_made_def unmarshal_ok_iff)
  have r: "payl_Header payl = Some (norm_header hdr)" "cap_ChaincodeProposalPayload cap = norm_slice (Some ppB)"
    using tx_made_read[OF assms(1) m assms(3)] assms(6-8) by (auto simp: unmarshal_ok_iff e)
  have b: "GetBytesProposalPayloadForTx P (Some cpp) = Ok ppB"
    using m by (auto simp: tx_made_def GetBytesProposalPayloadForTx_def get_bytes_ok_iff e)
  have h1: "GetProposalHash1 P sha2 (Some hdr) (Some (prop_Payload prop)) =
      Ok (sha2 (slice_bytes (hdr_ChannelHeader hdr) @ slice_bytes (hdr_SignatureHeader hdr) @ ppB))"
    if "hdr_ChannelHeader hdr \<noteq> None" "hdr_SignatureHeader hdr \<noteq> None"
    using that assms(5) b by (simp add: GetProposalHash1_def)
  have n: "norm_slice s = None \<longleftrightarrow> slice_bytes s = []" for s by (cases s rule: norm_slice.cases) auto
  have "GetProposalHash2 sha2 (Some (norm_header hdr)) (norm_slice (Some ppB)) =
      (if slice_bytes (hdr_ChannelHeader hdr) = [] \<or> slice_bytes (hdr_SignatureHeader hdr) = [] \<or> ppB = []
       then Err (ErrNew ''nil arguments'')
       else GetProposalHash1 P sha2 (Some hdr) (Some (prop_Payload prop)))"
  proof (cases "hdr_ChannelHeader hdr = None \<or> hdr_SignatureHeader hdr = None")
    case False
    then show ?thesis using h1 by (simp add: GetProposalHash2_def norm_header_def n)
  qed (auto simp: GetProposalHash2_def norm_header_def)
  then show ?thesis using b h1 r by auto
qed

lemma proposal_hash_agrees_witness:
  "GetProposalHash2 (\<lambda>x. x) (Some \<lparr>hdr_ChannelHeader = Some [0], hdr_SignatureHeader = Some [0]\<rparr>)
     (Some [0, 0]) =
   GetProposalHash1 sample_pb (\<lambda>x. x)
     (Some \<lparr>hdr_ChannelHeader = Some [0], hdr_SignatureHeader = Some [0]\<rparr>) (Some [0])"
proof -
  define hdr where "hdr = \<lparr>hdr_ChannelHeader = Some [0 :: byte], hdr_SignatureHeader = Some [0 :: byte]\<rparr>"
  define cap where "cap = \<lparr>cap_ChaincodeProposalPayload = Some [0 :: byte, 0],
    cap_Action = Some \<lparr>cea_ProposalResponsePayload = Some [0 :: byte],
      cea_Endorsements = [Some \<lparr>end_Endorser = [8], end_Signature = [0, 8]\<rparr>]\<rparr>\<rparr>"
  have "GetBytesProposalPayloadForTx sample_pb (Some \<lparr>cpp_Input = [0], cpp_TransientMap = sample_tm\<rparr>) = Ok [0, 0]"
    by (simp add: GetBytesProposalPayloadForTx_def GetBytesChaincodeProposalPayload_def sample_defs)
  then have "GetProposalHash2 (\<lambda>x. x) (Some hdr) (cap_ChaincodeProposalPayload cap) =
        GetProposalHash1 sample_pb (\<lambda>x. x) (Some hdr) (Some [0])"
    using proposal_hash_agrees[OF sample_pb_laws sample_tx sample_no_nil,
        of hdr "\<lparr>cpp_Input = [0], cpp_TransientMap = sample_tm\<rparr>" "\<lparr>payl_Header = Some hdr, payl_Data = [0]\<rparr>"
          "\<lparr>ta_Header = [0], ta_Payload = [0]\<rparr>" cap "\<lambda>x. x"]
    by (simp add: hdr_def cap_def unmarshal_defs sample_defs)
  then show ?thesis by (simp add: hdr_def cap_def)
qed

text \<open>C8. The transaction id survives the whole path: reading the id from the envelope assembled
  for a created proposal gives the id the proposal was created with.\<close>

theorem txid_end_to_end:
  assumes "pb_laws P"
    and "CreateChaincodeProposalWithTransient P sha2 rnd ts typ channelID cis creator tm = Ok (prop, txid)"
    and "CreateSignedTx P (Some prop) sg resps = Ok env"
    and "None \<notin> set (map endorsement_of resps)"
    and "Marshal (pb_Envelope P) (Some env) = (b, None)"
  shows "GetOrComputeTxIDFromEnvelope P sha2 b = Ok txid"
proof -
  obtain nonce where n: "txid = ComputeTxID sha2 nonce creator"
      "proposal_made P txid typ channelID cis nonce creator tm prop"
    using create_proposal_transient_made[OF assms(2)] by blast
  obtain hdr cpp ppB capB txB where m: "tx_made P prop sg resps env hdr cpp ppB capB txB"
    using create_signed_tx_made[OF assms(3)] by blast
  obtain ch where h: "Unmarshal (pb_ChannelHeader P) (slice_bytes (hdr_ChannelHeader hdr)) = (ch, None)"
      "ch_TxId ch = txid" "Unmarshal (pb_SignatureHeader P) (slice_bytes (hdr_SignatureHeader hdr))
             = (\<lparr>sh_Creator = creator, sh_Nonce = nonce\<rparr>, None)"
    using proposal_made_header[OF assms(1) n(2)] m by (auto simp: tx_made_def)
  have "Unmarshal (pb_Envelope P) b = (env, None)"
    using assms(1,5) by (rule pb_laws_read)
  then show ?thesis
    using h n(1) tx_made_read(1)[OF assms(1) m assms(4)]
    by (auto simp: GetOrComputeTxIDFromEnvelope_def unmarshal_defs)
qed

lemma txid_end_to_end_witness:
  "GetOrComputeTxIDFromEnvelope sample_pb (\<lambda>x. x) [0] = Ok sample_txid"
  by (rule txid_end_to_end[OF sample_pb_laws sample_proposal sample_tx sample_no_nil sample_envelope_bytes])

text \<open>C9. The endorsed action survives the whole path: the action read from the envelope is the
  one the endorsers put into the responses that \<open>CreateProposalResponse\<close> built.\<close>

theorem endorsed_action_end_to_end:
  assumes "pb_laws P"
    and "CreateProposalResponse P sha2 hdrB payl response results events ccid endorser = Ok r"
    and "CreateSignedTx P (Some prop) sg (Some r # map Some rs) = Ok env"
    and "None \<notin> set (map endorsement_of (Some r # map Some rs))"
    and "slice_bytes (pr_Payload r) \<noteq> []"
    and "Marshal (pb_ChaincodeAction P) (Some \<lparr>ca_Results = results, ca_Events = events,
           ca_Response = response, ca_ChaincodeId = ccid\<rparr>) \<noteq> ([], None)"
    and "Marshal (pb_Envelope P) (Some env) = (b, None)"
  shows "GetActionFromEnvelope P b = Ok (Some \<lparr>ca_Results = results, ca_Events = events,
           ca_Response = response, ca_ChaincodeId = ccid\<rparr>)"
proof -
  obtain hdr cpp ppB capB txB where m: "tx_made P prop sg (Some r # map Some rs) env hdr cpp ppB capB txB"
    using create_signed_tx_made[OF assms(3)] by blast
  obtain hash cab prpB where r: "pr_Payload r = Some prpB"
    "Marshal (pb_ChaincodeAction P) (Some \<lparr>ca_Results = results, ca_Events = events,
       ca_Response = response, ca_ChaincodeId = ccid\<rparr>) = (cab, None)"
    "Marshal (pb_ProposalResponsePayload P)
       (Some \<lparr>prp_ProposalHash = hash, prp_Extension = Some cab\<rparr>) = (prpB, None)"
    using assms(2) by (auto simp: CreateProposalResponse_def GetBytesProposalResponsePayload_def)
  have n: "norm_slice (Some prpB) = Some prpB" "norm_slice (Some cab) = Some cab"
    using assms(5,6) r(1,2) by (cases prpB; cases cab; simp)+
  have e: "Unmarshal (pb_Envelope P) b = (env, None)"
    using assms(1,7) by (rule pb_laws_read)
  have p: "Unmarshal (pb_ProposalResponsePayload P) prpB =
      (\<lparr>prp_ProposalHash = hash, prp_Extension = Some cab\<rparr>, None)"
    using pb_laws_read(11)[OF assms(1) r(3)] n by (simp add: norm_prp_def)
  have a: "Unmarshal (pb_ChaincodeAction P) cab = (\<lparr>ca_Results = results, ca_Events = events,
       ca_Response = response, ca_ChaincodeId = ccid\<rparr>, None)"
    using assms(1) r(2) by (rule pb_laws_read)
  show ?thesis
    using tx_made_read[OF assms(1) m assms(4)] e p a n r(1)
    by (simp add: GetActionFromEnvelope_def GetActionFromEnvelopeMsg_def GetEnvelopeFromBlock_def
        GetPayloads_def unmarshal_defs go_index_def)
qed

lemma endorsed_action_end_to_end_witness:
  "GetActionFromEnvelope sample_pb [0] = Ok (Some sample_action)"
proof -
  have "slice_bytes (pr_Payload sample_response) \<noteq> []"
    "Marshal (pb_ChaincodeAction sample_pb) (Some \<lparr>ca_Results = [5], ca_Events = [],
       ca_Response = None, ca_ChaincodeId = None\<rparr>) \<noteq> ([], None)"
    by (simp_all add: sample_defs)
  from endorsed_action_end_to_end[OF sample_pb_laws sample_endorse, where rs = "[]", simplified,
      OF sample_tx _ this sample_envelope_bytes] sample_no_nil
  show ?thesis by (simp add: sample_action_def)
qed

lemma signed_envelope_read_ok:
  assumes "pb_laws P" "codec_laws ok c" "ok m"
    and "CreateSignedEnvelopeWithTLSBinding P c now typ channelID signer (Some m) v epoch tls = Ok env"
  shows "\<exists>ch. UnmarshalEnvelopeOfType P c (Some env) typ m0 = Ok (Some ch, m, None) \<and>
           ch_ChannelId ch = channelID \<and> ch_Epoch ch = epoch \<and> ch_TlsCertHash ch = tls \<and> ch_Type ch = typ"
    and "t \<noteq> typ \<Longrightarrow> \<exists>e. UnmarshalEnvelopeOfType P c (Some env) t m0 = Ok (None, m0, Some e)"
proof -
  obtain d chB shB where e:
    "Marshal c (Some m) = (d, None)"
    "Marshal (pb_ChannelHeader P) (Some ((MakeChannelHeader now typ v channelID epoch)
       \<lparr>ch_TlsCertHash := tls\<rparr>)) = (chB, None)"
    "Marshal (pb_Payload P) (Some \<lparr>payl_Header = Some \<lparr>hdr_ChannelHeader = Some chB,
       hdr_SignatureHeader = Some shB\<rparr>, payl_Data = d\<rparr>) = (env_Payload env, None)"
    using assms(4) by (auto simp: CreateSignedEnvelopeWithTLSBinding_def MakePayloadHeader_def Let_def)
  note r = codec_roundtrip[OF assms(2) e(1) assms(3)] pb_laws_read(2)[OF assms(1) e(2)] pb_laws_read(4)[OF assms(1) e(3)]
  show "\<exists>ch. UnmarshalEnvelopeOfType P c (Some env) typ m0 = Ok (Some ch, m, None) \<and>
      ch_ChannelId ch = channelID \<and> ch_Epoch ch = epoch \<and> ch_TlsCertHash ch = tls \<and> ch_Type ch = typ"
    using r by (simp add: UnmarshalEnvelopeOfType_def unmarshal_defs MakeChannelHeader_def)
  show "\<exists>e. UnmarshalEnvelopeOfType P c (Some env) t m0 = Ok (None, m0, Some e)" if "t \<noteq> typ"
    using r that by (simp add: UnmarshalEnvelopeOfType_def unmarshal_defs MakeChannelHeader_def)
qed

lemma signed_envelope_read:
  assumes "pb_laws P" "codec_laws any c"
    and "CreateSignedEnvelopeWithTLSBinding P c now typ channelID signer (Some m) v epoch tls = Ok env"
  shows "\<exists>ch. UnmarshalEnvelopeOfType P c (Some env) typ m0 = Ok (Some ch, m, None) \<and>
           ch_ChannelId ch = channelID \<and> ch_Epoch ch = epoch \<and> ch_TlsCertHash ch = tls \<and> ch_Type ch = typ"
    and "t \<noteq> typ \<Longrightarrow> \<exists>e. UnmarshalEnvelopeOfType P c (Some env) t m0 = Ok (None, m0, Some e)"
  using signed_envelope_read_ok[where ok=any, OF assms(1,2) TrueI assms(3)] by blast+

text \<open>C17. A signed envelope is read back under its own type only: \<open>UnmarshalEnvelopeOfType\<close>
  returns the message and a header with the channel and the TLS binding when asked for the type
  the envelope was made with, and for any other type it reports an error and leaves the message
  it was given untouched.\<close>

theorem signed_envelope_of_type:
  assumes "pb_laws P" "codec_laws any c"
    and "CreateSignedEnvelopeWithTLSBinding P c now typ channelID signer (Some m) v epoch tls = Ok env"
  shows "case UnmarshalEnvelopeOfType P c (Some env) t m0 of
           Ok (ch, msg, err) \<Rightarrow>
             (if t = typ
              then err = None \<and> msg = m \<and> (\<exists>ch'. ch = Some ch' \<and> ch_ChannelId ch' = channelID \<and>
                     ch_Epoch ch' = epoch \<and> ch_TlsCertHash ch' = tls)
              else err \<noteq> None \<and> msg = m0 \<and> ch = None)
         | _ \<Rightarrow> False"
  using signed_envelope_read(1)[OF assms, of m0] signed_envelope_read(2)[OF assms, of t m0]
  by (cases "t = typ") auto

definition sample_env_pb :: pb where
  "sample_env_pb = sample_pb
     \<lparr>pb_ChannelHeader := table_codec
        [(MakeChannelHeader 0 HeaderType_CONFIG_UPDATE 0 ''ch'' 0)\<lparr>ch_TlsCertHash := [4]\<rparr>],
      pb_SignatureHeader := table_codec [\<lparr>sh_Creator = [], sh_Nonce = []\<rparr>]\<rparr>"

lemma signed_envelope_of_type_witness:
  "CreateSignedEnvelopeWithTLSBinding sample_env_pb (table_codec [7 :: nat]) 0 HeaderType_CONFIG_UPDATE
     ''ch'' None (Some 7) 0 0 [4] = Ok \<lparr>env_Payload = [0], env_Signature = []\<rparr> \<and>
   (\<exists>ch. UnmarshalEnvelopeOfType sample_env_pb (table_codec [7 :: nat])
     (Some \<lparr>env_Payload = [0], env_Signature = []\<rparr>) HeaderType_CONFIG_UPDATE 0 = Ok (Some ch, 7, None))"
proof -
  have l: "pb_laws sample_env_pb"
    using sample_pb_laws by (simp add: pb_laws_def sample_env_pb_def)
  have c: "CreateSignedEnvelopeWithTLSBinding sample_env_pb (table_codec [7 :: nat]) 0
      HeaderType_CONFIG_UPDATE ''ch'' None (Some 7) 0 0 [4] = Ok \<lparr>env_Payload = [0], env_Signature = []\<rparr>"
    by (simp add: CreateSignedEnvelopeWithTLSBinding_def MakePayloadHeader_def MarshalOrPanic_def
        sample_env_pb_def sample_defs)
  have t: "codec_laws any (table_codec [7 :: nat])" by simp
  show ?thesis
    using c signed_envelope_of_type[OF l t c, of HeaderType_CONFIG_UPDATE 0]
    by (auto split: outcome.splits)
qed

text \<open>Extracting an envelope from a block never indexes out of range: for every index,
  negative ones included, it succeeds exactly on the envelopes that are there and can be read,
  and every other case is an error.\<close>

lemma extract_envelope_total:
  "case ExtractEnvelope P (Some b) i of
     Ok e \<Rightarrow> \<exists>d. blk_Data b = Some d \<and> 0 \<le> i \<and> nat i < length (bd_Data d) \<and>
                 Unmarshal (pb_Envelope P) (bd_Data d ! nat i) = (e, None)
   | Err _ \<Rightarrow> (case blk_Data b of None \<Rightarrow> True
               | Some d \<Rightarrow> (if 0 \<le> i \<and> i < int (length (bd_Data d))
                            then is_err (check (Unmarshal (pb_Envelope P) (bd_Data d ! nat i)))
                            else True))
   | Panic _ \<Rightarrow> False"
proof (cases "blk_Data b")
  case (Some d)
  show ?thesis
  proof (cases "i < 0 \<or> int (length (bd_Data d)) \<le> i")
    case False
    obtain e err where u: "Unmarshal (pb_Envelope P) (bd_Data d ! nat i) = (e, err)"
      by (cases "Unmarshal (pb_Envelope P) (bd_Data d ! nat i)")
    with False Some show ?thesis
      by (cases err) (auto simp: ExtractEnvelope_def GetEnvelopeFromBlock_def go_index_def)
  qed (use Some in \<open>auto simp: ExtractEnvelope_def\<close>)
qed (simp add: ExtractEnvelope_def)

end
