(* ===== verification/ChannelConfig.thy ===== *)
theory ChannelConfig
  imports BlockUtil TxFlow
begin

text \<open>
  Channel configurations: \<open>internal/channel/config.go\<close>, the construction of channels and of
  configuration updates in \<open>internal/channel/channel.go\<close>, and \<open>getBlockConfig\<close> of \<open>util.go\<close>.

  \<open>fabric-config/configtx\<close> is not part of the repository. The values that the code fills in are
  records; the operations are the fields of the parameter \<open>configtx_lib\<close>. A \<open>ConfigTx\<close> is a value
  of the type \<open>'x\<close>, on which the application group and the consortiums are views; an operation that
  changes it returns the changed value. \<open>group_laws\<close> is what its documentation promises of the
  organisations of a group, and \<open>update_laws\<close> what it promises of the update it computes.
\<close>

section \<open>The values of configtx\<close>

text \<open>The keys and the types of policies are constants of configtx.\<close>

datatype PolicyKey = ReadersPolicyKey | WritersPolicyKey | AdminsPolicyKey | EndorsementPolicyKey
  | LifecycleEndorsementPolicyKey | BlockValidationPolicyKey

datatype PolicyType = ImplicitMetaPolicyType | SignaturePolicyType

record Policy =
  pol_Type :: PolicyType
  pol_Rule :: string

type_synonym policies = "PolicyKey \<rightharpoonup> Policy"

text \<open>An \<open>x509.Certificate\<close> is its DER bytes.\<close>

type_synonym Certificate = bytes

record OUIdentifier =
  oui_Certificate :: "Certificate option"
  oui_OrganizationalUnitIdentifier :: string

record NodeOUs =
  nou_Enable :: bool
  nou_Client :: OUIdentifier
  nou_Peer :: OUIdentifier
  nou_Admin :: OUIdentifier
  nou_Orderer :: OUIdentifier

record MSP =
  msp_Name :: string
  msp_RootCerts :: "Certificate option list"
  msp_TLSRootCerts :: "Certificate option list"
  msp_Admins :: "Certificate option list"
  msp_SignatureHashFamily :: string
  msp_IdentityIdentifierHashFunction :: string
  msp_NodeOUs :: NodeOUs

record Address =
  addr_Host :: string
  addr_Port :: int

record cx_Organization =
  co_Name :: string
  co_Policies :: policies
  co_MSP :: MSP
  co_AnchorPeers :: "Address list"
  co_OrdererEndpoints :: "string list"

record cx_Application =
  capp_Organizations :: "cx_Organization list"
  capp_Capabilities :: "string list"
  capp_Policies :: policies

record BatchSize =
  bs_MaxMessageCount :: "32 word"
  bs_AbsoluteMaxBytes :: "32 word"
  bs_PreferredMaxBytes :: "32 word"

record cx_Orderer =
  cord_OrdererType :: string
  cord_BatchTimeout :: int
  cord_Capabilities :: "string list"
  cord_BatchSize :: BatchSize
  cord_Policies :: policies
  cord_Organizations :: "cx_Organization list"
  cord_State :: string

record cx_Consortium =
  ccon_Name :: string
  ccon_Organizations :: "cx_Organization list"

record cx_Channel =
  cch_Consortium :: string
  cch_Application :: cx_Application
  cch_Orderer :: cx_Orderer
  cch_Consortiums :: "cx_Consortium list"
  cch_Capabilities :: "string list"
  cch_Policies :: policies

text \<open>The zero values of the structs that a channel contains.\<close>

definition zero_Application :: cx_Application where
  "zero_Application = \<lparr>capp_Organizations = [], capp_Capabilities = [], capp_Policies = Map.empty\<rparr>"

definition zero_Orderer :: cx_Orderer where
  "zero_Orderer = \<lparr>cord_OrdererType = [], cord_BatchTimeout = 0, cord_Capabilities = [],
     cord_BatchSize = \<lparr>bs_MaxMessageCount = 0, bs_AbsoluteMaxBytes = 0, bs_PreferredMaxBytes = 0\<rparr>,
     cord_Policies = Map.empty, cord_Organizations = [], cord_State = []\<rparr>"

section \<open>config.go\<close>

abbreviation Organization_PEER :: int where "Organization_PEER \<equiv> 0"
abbreviation Organization_ORDERER :: int where "Organization_ORDERER \<equiv> 1"

record AnchorPeer =
  ap_Host :: string
  ap_Port :: int

record Consenter =
  con_Host :: string
  con_Port :: int
  con_ServerTLSCert :: Certificate
  con_ClientTLSCert :: Certificate

record Organization =
  org_Type :: int
  org_ID :: string
  org_Name :: string
  org_RootCA :: "Certificate option"
  org_TLSRootCA :: "Certificate option"
  org_AdminCA :: "Certificate option"
  org_AnchorPeers :: "AnchorPeer list"
  org_OrdererConsenters :: "Consenter list"

text \<open>\<open>GetBatchSize\<close> reads one field of \<open>ChannelConfig\<close>; its other fields are not read anywhere.\<close>

record ChannelConfig =
  chc_BatchSize :: BatchSize

definition GetBatchSize :: "ChannelConfig \<Rightarrow> BatchSize" where
  "GetBatchSize c =
     (let b0 = chc_BatchSize c;
          b1 = (if bs_AbsoluteMaxBytes b0 = 0 then b0\<lparr>bs_AbsoluteMaxBytes := 10 * 1024 * 1024\<rparr> else b0);
          b2 = (if bs_MaxMessageCount b1 = 0 then b1\<lparr>bs_MaxMessageCount := 500\<rparr> else b1) in
      if bs_PreferredMaxBytes b2 = 0 then b2\<lparr>bs_PreferredMaxBytes := 2 * 1024 * 1024\<rparr> else b2)"

text \<open>\<open>fmt.Sprintf\<close> of a principal, of a rule over principals, and of a decimal number.\<close>

definition principal_str :: "string \<Rightarrow> string \<Rightarrow> string" where
  "principal_str mspid role = CHR 0x27 # mspid @ ''.'' @ role @ [CHR 0x27]"

fun join_comma :: "string list \<Rightarrow> string" where
  "join_comma [] = []"
| "join_comma [s] = s"
| "join_comma (s # ss) = s @ '', '' @ join_comma ss"

definition or_rule :: "string \<Rightarrow> string list \<Rightarrow> string" where
  "or_rule mspid roles = ''OR('' @ join_comma (map (principal_str mspid) roles) @ '')''"

fun decimal_nat :: "nat \<Rightarrow> string" where
  "decimal_nat n = (if n < 10 then [char_of (48 + n)]
                    else decimal_nat (n div 10) @ [char_of (48 + n mod 10)])"

definition decimal :: "int \<Rightarrow> string" where
  "decimal i = (if i < 0 then ''-'' @ decimal_nat (nat (- i)) else decimal_nat (nat i))"

definition implicit_meta :: "string \<Rightarrow> Policy" where
  "implicit_meta rule = \<lparr>pol_Type = ImplicitMetaPolicyType, pol_Rule = rule\<rparr>"

definition signature_or :: "string \<Rightarrow> string list \<Rightarrow> Policy" where
  "signature_or mspid roles = \<lparr>pol_Type = SignaturePolicyType, pol_Rule = or_rule mspid roles\<rparr>"

definition standardApplicationChannelPoliciesV2 :: policies where
  "standardApplicationChannelPoliciesV2 = [
     ReadersPolicyKey \<mapsto> implicit_meta ''ANY Readers'',
     WritersPolicyKey \<mapsto> implicit_meta ''ANY Writers'',
     AdminsPolicyKey \<mapsto> implicit_meta ''MAJORITY Admins'',
     EndorsementPolicyKey \<mapsto> implicit_meta ''MAJORITY Endorsement'',
     LifecycleEndorsementPolicyKey \<mapsto> implicit_meta ''MAJORITY Endorsement'']"

definition getPeerOrgStandardRWPolicies :: "string \<Rightarrow> policies" where
  "getPeerOrgStandardRWPolicies mspId = [
     ReadersPolicyKey \<mapsto> signature_or mspId [''admin'', ''peer'', ''client''],
     WritersPolicyKey \<mapsto> signature_or mspId [''admin'', ''client''],
     AdminsPolicyKey \<mapsto> signature_or mspId [''admin''],
     EndorsementPolicyKey \<mapsto> signature_or mspId [''peer'']]"

definition getOrdererOrgStandardRWPolicy :: "string \<Rightarrow> policies" where
  "getOrdererOrgStandardRWPolicy mspid = [
     ReadersPolicyKey \<mapsto> signature_or mspid [''member''],
     WritersPolicyKey \<mapsto> signature_or mspid [''member''],
     AdminsPolicyKey \<mapsto> signature_or mspid [''admin'']]"

definition createMSP :: "string \<Rightarrow> Certificate option \<Rightarrow> Certificate option \<Rightarrow> Certificate option \<Rightarrow> MSP" where
  "createMSP mspID rootCA tlsRootCA adminCA =
     (let ou = \<lambda>unit. \<lparr>oui_Certificate = rootCA, oui_OrganizationalUnitIdentifier = unit\<rparr>;
          msp = \<lparr>msp_Name = mspID, msp_RootCerts = [rootCA], msp_TLSRootCerts = [tlsRootCA], msp_Admins = [],
                 msp_SignatureHashFamily = ''SHA2'', msp_IdentityIdentifierHashFunction = ''SHA256'',
                 msp_NodeOUs = \<lparr>nou_Enable = True, nou_Client = ou ''client'', nou_Peer = ou ''peer'',
                                nou_Admin = ou ''admin'', nou_Orderer = ou ''orderer''\<rparr>\<rparr> in
      if adminCA \<noteq> None then msp\<lparr>msp_Admins := [adminCA]\<rparr> else msp)"

definition CreateOrganization :: "Organization \<Rightarrow> cx_Organization outcome" where
  "CreateOrganization u =
     bind (if org_Type u = Organization_PEER then Ok (getOrdererOrgStandardRWPolicy (org_ID u))
           else if org_Type u = Organization_ORDERER then Ok (getPeerOrgStandardRWPolicies (org_ID u))
           else Err (Errorf ''organization type is required'' [])) (\<lambda>policies.
     Ok \<lparr>co_Name = org_Name u, co_Policies = policies,
         co_MSP = createMSP (org_ID u) (org_RootCA u) (org_TLSRootCA u) None,
         co_AnchorPeers = map (\<lambda>ap. \<lparr>addr_Host = ap_Host ap, addr_Port = ap_Port ap\<rparr>) (org_AnchorPeers u),
         co_OrdererEndpoints = map (\<lambda>c. con_Host c @ '':'' @ decimal (con_Port c)) (org_OrdererConsenters u)\<rparr>)"

section \<open>configtx as the code uses it\<close>

text \<open>\<open>cx_app_\<close> are the methods of the application group, whose pointer is nil when
  \<open>cx_Application\<close> is false, and \<open>cx_cons_\<close> those of the consortium of a name. \<open>Organization\<close> answers
  whether the pointer it returns is not nil. Calling a method on a nil pointer may panic.\<close>

record ('cfg, 'x) configtx_lib =
  cx_New :: "'cfg option \<Rightarrow> 'x"
  cx_Application :: "'x \<Rightarrow> bool"
  cx_app_Organization :: "'x \<Rightarrow> string \<Rightarrow> bool outcome"
  cx_app_SetOrganization :: "'x \<Rightarrow> cx_Organization \<Rightarrow> 'x outcome"
  cx_app_RemoveOrganization :: "'x \<Rightarrow> string \<Rightarrow> 'x outcome"
  cx_Consortium :: "'x \<Rightarrow> string \<Rightarrow> bool"
  cx_cons_Organization :: "'x \<Rightarrow> string \<Rightarrow> string \<Rightarrow> bool outcome"
  cx_cons_SetOrganization :: "'x \<Rightarrow> string \<Rightarrow> cx_Organization \<Rightarrow> 'x outcome"
  cx_cons_RemoveOrganization :: "'x \<Rightarrow> string \<Rightarrow> string \<Rightarrow> 'x outcome"
  cx_ComputeMarshaledUpdate :: "'x \<Rightarrow> string \<Rightarrow> bytes ret"
  cx_NewMarshaledCreateChannelTx :: "cx_Channel \<Rightarrow> string \<Rightarrow> bytes ret"
  cx_NewSystemChannelGenesisBlock :: "cx_Channel \<Rightarrow> string \<Rightarrow> Block option ret"
  cx_NewEnvelope :: "bytes \<Rightarrow> ConfigSignature list \<Rightarrow> Envelope option ret"

section \<open>Channels\<close>

text \<open>The implementations of \<open>ChannelEnvelope\<close>; \<open>UpdateEnvelope\<close> is the fourth.\<close>

record UpdateEnvelope =
  ue_signatures :: "string \<rightharpoonup> ConfigSignature"
  ue_update :: bytes
  ue_channelID :: string

datatype ChannelEnvelope =
    CE_File string string
  | CE_App cx_Channel string
  | CE_Bytes bytes string
  | CE_Update UpdateEnvelope

definition NewChannelFromFile :: "string \<Rightarrow> string \<Rightarrow> ChannelEnvelope" where
  "NewChannelFromFile channelID channelTxFile = CE_File channelTxFile channelID"

definition NewApplicationChannel :: "cx_Channel \<Rightarrow> string \<Rightarrow> ChannelEnvelope outcome" where
  "NewApplicationChannel channel channelID = Ok (CE_App channel channelID)"

definition NewChannelFromBytes :: "string \<Rightarrow> bytes \<Rightarrow> ChannelEnvelope" where
  "NewChannelFromBytes channelID data = CE_Bytes data channelID"

fun ChannelEnvelope_ChannelID :: "ChannelEnvelope \<Rightarrow> string" where
  "ChannelEnvelope_ChannelID (CE_File f channelID) = channelID"
| "ChannelEnvelope_ChannelID (CE_App channel channelID) = channelID"
| "ChannelEnvelope_ChannelID (CE_Bytes data channelID) = channelID"
| "ChannelEnvelope_ChannelID (CE_Update c) = ue_channelID c"

text \<open>\<open>CreateEnvelope\<close>. The signatures of an update are read by ranging over the map: \<open>keys\<close> is the
  order of its keys in that iteration, which Go leaves open. \<open>readFile\<close> is \<open>ioutil.ReadFile\<close>.\<close>

definition map_order :: "(string \<rightharpoonup> 'v) \<Rightarrow> string list \<Rightarrow> bool" where
  "map_order m keys \<longleftrightarrow> distinct keys \<and> set keys = dom m"

fun CreateEnvelope ::
    "pb \<Rightarrow> ('cfg, 'x) configtx_lib \<Rightarrow> (string \<Rightarrow> bytes ret) \<Rightarrow> string list \<Rightarrow> ChannelEnvelope
       \<Rightarrow> Envelope option outcome" where
  "CreateEnvelope P X readFile keys (CE_File channelTxFile channelID) =
     bind (check (readFile channelTxFile)) (\<lambda>cftx.
     bind (check (UnmarshalEnvelope P cftx)) (\<lambda>env. Ok (Some env)))"
| "CreateEnvelope P X readFile keys (CE_App appChannel channelID) =
     bind (check (cx_NewMarshaledCreateChannelTx X appChannel channelID)) (\<lambda>configCreate.
     check (cx_NewEnvelope X configCreate []))"
| "CreateEnvelope P X readFile keys (CE_Bytes data channelID) =
     bind (check (UnmarshalEnvelope P data)) (\<lambda>env. Ok (Some env))"
| "CreateEnvelope P X readFile keys (CE_Update c) =
     check (cx_NewEnvelope X (ue_update c) (List.map_filter (ue_signatures c) keys))"

definition FABRIC_VERSION_2_0 :: string where "FABRIC_VERSION_2_0 = ''V2_0''"

definition CreateApplicationChannel :: "string \<Rightarrow> string \<Rightarrow> Organization list \<Rightarrow> ChannelEnvelope outcome" where
  "CreateApplicationChannel channelID consortiumName orgs =
     bind (map_outcome CreateOrganization orgs) (\<lambda>channelOrgs.
     let app = \<lparr>capp_Organizations = channelOrgs, capp_Capabilities = [FABRIC_VERSION_2_0],
                capp_Policies = standardApplicationChannelPoliciesV2\<rparr>;
         appChannel = \<lparr>cch_Consortium = consortiumName, cch_Application = app, cch_Orderer = zero_Orderer,
                       cch_Consortiums = [], cch_Capabilities = [], cch_Policies = Map.empty\<rparr> in
     NewApplicationChannel appChannel channelID)"

text \<open>\<open>time.Duration\<close> counts nanoseconds. \<open>ordererOrg\<close> is a parameter that the body does not use.\<close>

definition genesis_policies :: policies where
  "genesis_policies = [ReadersPolicyKey \<mapsto> implicit_meta ''ANY Readers'',
     WritersPolicyKey \<mapsto> implicit_meta ''ANY Writers'', AdminsPolicyKey \<mapsto> implicit_meta ''MAJORITY Admins'']"

definition CreateSystemGenesisBlock ::
    "('cfg, 'x) configtx_lib \<Rightarrow> Organization \<Rightarrow> Organization list \<Rightarrow> string \<Rightarrow> string \<Rightarrow> Block option outcome" where
  "CreateSystemGenesisBlock X ordererOrg peerOrgs consortiumName sysChannelID =
     (let orderer = \<lparr>cord_OrdererType = ''etcdraft'', cord_BatchTimeout = 2 * 1000000000,
            cord_Capabilities = [''V2_0''],
            cord_BatchSize = \<lparr>bs_MaxMessageCount = 10, bs_AbsoluteMaxBytes = 99 * 1024 * 1024,
                              bs_PreferredMaxBytes = 512 * 1024\<rparr>,
            cord_Policies = genesis_policies(BlockValidationPolicyKey \<mapsto> implicit_meta ''ANY Writers''),
            cord_Organizations = [], cord_State = ''STATE_NORMAL''\<rparr> in
      bind (map_outcome CreateOrganization peerOrgs) (\<lambda>orgs.
      let consortium = \<lparr>ccon_Name = consortiumName, ccon_Organizations = orgs\<rparr>;
          channelOrg = \<lparr>cch_Consortium = [], cch_Application = zero_Application, cch_Orderer = orderer,
                        cch_Consortiums = [consortium], cch_Capabilities = [''V2_0''],
                        cch_Policies = genesis_policies\<rparr> in
      check (cx_NewSystemChannelGenesisBlock X channelOrg sysChannelID)))"

section \<open>Configuration updates\<close>

definition getBlockConfig ::
    "pb \<Rightarrow> ('cfg, 'cu) cfgpb \<Rightarrow> Block option \<Rightarrow> 'cfg option outcome" where
  "getBlockConfig P K lastConfigBlock =
     bind (UnmarshalConfig P K lastConfigBlock) (\<lambda>configBlock.
     bind (go_index (bc_Data configBlock) 0) (\<lambda>d. bind (deref d) (\<lambda>env.
     bind (deref (ec_Payload env)) (\<lambda>payload. bind (deref (pc_Data payload)) (\<lambda>configEnv.
     Ok (cec_Config configEnv))))))"

definition new_update :: "bytes \<Rightarrow> string \<Rightarrow> UpdateEnvelope" where
  "new_update update channelID = \<lparr>ue_signatures = Map.empty, ue_update = update, ue_channelID = channelID\<rparr>"

definition ChannelAddOrg ::
    "pb \<Rightarrow> ('cfg, 'cu) cfgpb \<Rightarrow> ('cfg, 'x) configtx_lib \<Rightarrow> Block option \<Rightarrow> Organization \<Rightarrow> string
       \<Rightarrow> UpdateEnvelope outcome" where
  "ChannelAddOrg P K X lastConfigBlock newOrg channelID =
     bind (getBlockConfig P K lastConfigBlock) (\<lambda>config.
     let configTx = cx_New X config in
     bind (cx_app_Organization X configTx (org_Name newOrg)) (\<lambda>org.
     if org then Err (Errorf ''organization %s exist in channel %s'' [AStr (org_Name newOrg), AStr channelID])
     else
     bind (CreateOrganization newOrg) (\<lambda>newOrgConfig.
     bind (cx_app_SetOrganization X configTx newOrgConfig) (\<lambda>configTx'.
     bind (check (cx_ComputeMarshaledUpdate X configTx' channelID)) (\<lambda>update.
     Ok (new_update update channelID))))))"

definition ChannelRemoveOrg ::
    "pb \<Rightarrow> ('cfg, 'cu) cfgpb \<Rightarrow> ('cfg, 'x) configtx_lib \<Rightarrow> Block option \<Rightarrow> string \<Rightarrow> string
       \<Rightarrow> UpdateEnvelope outcome" where
  "ChannelRemoveOrg P K X lastConfigBlock orgName channelID =
     bind (getBlockConfig P K lastConfigBlock) (\<lambda>config.
     let configTx = cx_New X config in
     if \<not> cx_Application X configTx then Err (Errorf ''empty application'' [])
     else
     bind (cx_app_Organization X configTx orgName) (\<lambda>org.
     if \<not> org then Err (Errorf ''organization %s not exist in channel %s'' [AStr orgName, AStr channelID])
     else
     bind (cx_app_RemoveOrganization X configTx orgName) (\<lambda>configTx'.
     bind (check (cx_ComputeMarshaledUpdate X configTx' channelID)) (\<lambda>update.
     Ok (new_update update channelID)))))"

definition ConsortiumAddOrg ::
    "pb \<Rightarrow> ('cfg, 'cu) cfgpb \<Rightarrow> ('cfg, 'x) configtx_lib \<Rightarrow> Block option \<Rightarrow> Organization \<Rightarrow> string \<Rightarrow> string
       \<Rightarrow> UpdateEnvelope outcome" where
  "ConsortiumAddOrg P K X lastConfigBlock newOrg consortiumName channelID =
     bind (getBlockConfig P K lastConfigBlock) (\<lambda>config.
     let configTx = cx_New X config in
     bind (CreateOrganization newOrg) (\<lambda>newOrgConfig.
     if \<not> cx_Consortium X configTx consortiumName
     then Err (Errorf ''not found consortiumName '%s' in config'' [AStr consortiumName])
     else
     bind (cx_cons_Organization X configTx consortiumName (org_Name newOrg)) (\<lambda>org.
     if org then Err (Errorf ''organization %s exist in consortiumName %s''
                        [AStr (org_Name newOrg), AStr consortiumName])
     else
     bind (cx_cons_SetOrganization X configTx consortiumName newOrgConfig) (\<lambda>configTx'.
     bind (check (cx_ComputeMarshaledUpdate X configTx' channelID)) (\<lambda>update.
     Ok (new_update update channelID))))))"

definition ConsortiumRemoveOrg ::
    "pb \<Rightarrow> ('cfg, 'cu) cfgpb \<Rightarrow> ('cfg, 'x) configtx_lib \<Rightarrow> Block option \<Rightarrow> string \<Rightarrow> string \<Rightarrow> string
       \<Rightarrow> UpdateEnvelope outcome" where
  "ConsortiumRemoveOrg P K X lastConfigBlock orgName consortium channelID =
     bind (getBlockConfig P K lastConfigBlock) (\<lambda>config.
     let configTx = cx_New X config in
     if \<not> cx_Consortium X configTx consortium
     then Err (Errorf ''not found consortium %s'' [AStr consortium])
     else
     bind (cx_cons_Organization X configTx consortium orgName) (\<lambda>org.
     if \<not> org then Err (Errorf ''not found org %s exist in consortium organizations'' [AStr orgName])
     else
     bind (cx_cons_RemoveOrganization X configTx consortium orgName) (\<lambda>configTx'.
     bind (check (cx_ComputeMarshaledUpdate X configTx' channelID)) (\<lambda>update.
     Ok (new_update update channelID)))))"

section \<open>What configtx promises\<close>

text \<open>Of the organisations of a group: one that was set is there, one that was removed is not, and the
  others stay as they were.\<close>

definition group_laws ::
    "('x \<Rightarrow> string \<Rightarrow> bool outcome) \<Rightarrow> ('x \<Rightarrow> cx_Organization \<Rightarrow> 'x outcome) \<Rightarrow> ('x \<Rightarrow> string \<Rightarrow> 'x outcome) \<Rightarrow> bool" where
  "group_laws get put remove \<longleftrightarrow>
     (\<forall>x org y. put x org = Ok y \<longrightarrow>
        get y (co_Name org) = Ok True \<and> (\<forall>n. n \<noteq> co_Name org \<longrightarrow> get y n = get x n)) \<and>
     (\<forall>x n y. remove x n = Ok y \<longrightarrow> get y n = Ok False \<and> (\<forall>n'. n' \<noteq> n \<longrightarrow> get y n' = get x n'))"

definition app_laws :: "('cfg, 'x) configtx_lib \<Rightarrow> bool" where
  "app_laws X \<longleftrightarrow> group_laws (cx_app_Organization X) (cx_app_SetOrganization X) (cx_app_RemoveOrganization X)"

definition consortium_laws :: "('cfg, 'x) configtx_lib \<Rightarrow> string \<Rightarrow> bool" where
  "consortium_laws X c \<longleftrightarrow> group_laws (\<lambda>x. cx_cons_Organization X x c) (\<lambda>x. cx_cons_SetOrganization X x c)
     (\<lambda>x. cx_cons_RemoveOrganization X x c)"

lemma group_laws_set:
  "group_laws get put remove \<Longrightarrow> put x org = Ok y \<Longrightarrow>
     get y (co_Name org) = Ok True \<and> (\<forall>n. n \<noteq> co_Name org \<longrightarrow> get y n = get x n)"
  by (simp add: group_laws_def)

lemma group_laws_remove:
  "group_laws get put remove \<Longrightarrow> remove x n = Ok y \<Longrightarrow>
     get y n = Ok False \<and> (\<forall>n'. n' \<noteq> n \<longrightarrow> get y n' = get x n')"
  by (simp add: group_laws_def)

text \<open>Removing what was added leaves every organisation as it was, when it was not there before.\<close>

lemma group_add_remove:
  assumes "group_laws get put remove" "get x (co_Name org) = Ok False" "put x org = Ok y" "remove y (co_Name org) = Ok z"
  shows "get z n = get x n"
  using group_laws_set[OF assms(1,3)] group_laws_remove[OF assms(1,4)] assms(2)
  by (cases "n = co_Name org") simp_all

text \<open>A \<open>ConfigTx\<close> keeps the configuration it was made from beside the one its operations change, and
  \<open>ComputeMarshaledUpdate\<close> is the difference of the two. \<open>derived\<close> are the values that operations on
  the application group make out of a new one. \<open>commit\<close> is what the ordering service makes of a
  configuration and an update of it: committed to the configuration it was computed from, the update
  gives the organisations of the changed one.\<close>

inductive derived :: "('cfg, 'x) configtx_lib \<Rightarrow> 'cfg option \<Rightarrow> 'x \<Rightarrow> bool" for X cfg where
  New: "derived X cfg (cx_New X cfg)"
| Set: "derived X cfg x \<Longrightarrow> cx_app_SetOrganization X x org = Ok y \<Longrightarrow> derived X cfg y"
| Remove: "derived X cfg x \<Longrightarrow> cx_app_RemoveOrganization X x n = Ok y \<Longrightarrow> derived X cfg y"

definition update_laws :: "('cfg, 'x) configtx_lib \<Rightarrow> ('cfg option \<Rightarrow> bytes \<Rightarrow> 'cfg option) \<Rightarrow> bool" where
  "update_laws X commit \<longleftrightarrow> (\<forall>cfg x ch u. derived X cfg x \<and> cx_ComputeMarshaledUpdate X x ch = (u, None) \<longrightarrow>
     cx_app_Organization X (cx_New X (commit cfg u)) = cx_app_Organization X x)"

lemma update_laws_commit:
  "update_laws X commit \<Longrightarrow> derived X cfg x \<Longrightarrow> cx_ComputeMarshaledUpdate X x ch = (u, None) \<Longrightarrow>
     cx_app_Organization X (cx_New X (commit cfg u)) = cx_app_Organization X x"
  by (simp add: update_laws_def)

section \<open>Organisations and their updates\<close>

lemma CreateOrganization_ok:
  "CreateOrganization u = Ok c \<Longrightarrow>
     co_Name c = org_Name u \<and> (EndorsementPolicyKey \<in> dom (co_Policies c) \<longleftrightarrow> org_Type u = Organization_ORDERER)"
  by (auto simp: CreateOrganization_def getPeerOrgStandardRWPolicies_def getOrdererOrgStandardRWPolicy_def
      split: if_splits)

lemma ChannelAddOrg_ok:
  "ChannelAddOrg P K X blk newOrg ch = Ok upd \<Longrightarrow> getBlockConfig P K blk = Ok cfg \<Longrightarrow>
     cx_app_Organization X (cx_New X cfg) (org_Name newOrg) = Ok False \<and>
     (\<exists>c x u. CreateOrganization newOrg = Ok c \<and> cx_app_SetOrganization X (cx_New X cfg) c = Ok x \<and>
        cx_ComputeMarshaledUpdate X x ch = (u, None) \<and> upd = new_update u ch)"
  by (auto simp: ChannelAddOrg_def Let_def split: if_splits)

lemma ChannelRemoveOrg_ok:
  "ChannelRemoveOrg P K X blk name ch = Ok upd \<Longrightarrow> getBlockConfig P K blk = Ok cfg \<Longrightarrow>
     \<exists>x u. cx_app_RemoveOrganization X (cx_New X cfg) name = Ok x \<and>
        cx_ComputeMarshaledUpdate X x ch = (u, None) \<and> upd = new_update u ch"
  by (auto simp: ChannelRemoveOrg_def Let_def split: if_splits)

lemma ConsortiumAddOrg_ok:
  "ConsortiumAddOrg P K X blk newOrg con ch = Ok upd \<Longrightarrow> getBlockConfig P K blk = Ok cfg \<Longrightarrow>
     cx_cons_Organization X (cx_New X cfg) con (org_Name newOrg) = Ok False \<and>
     (\<exists>c x u. CreateOrganization newOrg = Ok c \<and> cx_cons_SetOrganization X (cx_New X cfg) con c = Ok x \<and>
        cx_ComputeMarshaledUpdate X x ch = (u, None) \<and> upd = new_update u ch)"
  by (auto simp: ConsortiumAddOrg_def Let_def split: if_splits)

lemma ConsortiumRemoveOrg_ok:
  "ConsortiumRemoveOrg P K X blk name con ch = Ok upd \<Longrightarrow> getBlockConfig P K blk = Ok cfg \<Longrightarrow>
     \<exists>x u. cx_cons_RemoveOrganization X (cx_New X cfg) con name = Ok x \<and>
        cx_ComputeMarshaledUpdate X x ch = (u, None) \<and> upd = new_update u ch"
  by (auto simp: ConsortiumRemoveOrg_def Let_def split: if_splits)

section \<open>Theorems\<close>

text \<open>C21. The policies of the two kinds of organisations are exchanged: in every application channel
  the organisations with an endorsement policy are exactly those of the orderer type, while the
  channel asks for a majority of endorsement policies to endorse and to commit a chaincode
  definition. A channel of peer organisations alone has none.\<close>

theorem endorsement_policy_swapped:
  assumes "CreateApplicationChannel channelID consortium orgs = Ok ce"
  shows "\<exists>ch. ce = CE_App ch channelID \<and>
           list_all2 (\<lambda>u c. co_Name c = org_Name u \<and>
               (EndorsementPolicyKey \<in> dom (co_Policies c) \<longleftrightarrow> org_Type u = Organization_ORDERER))
             orgs (capp_Organizations (cch_Application ch)) \<and>
           capp_Policies (cch_Application ch) EndorsementPolicyKey = Some (implicit_meta ''MAJORITY Endorsement'') \<and>
           capp_Policies (cch_Application ch) LifecycleEndorsementPolicyKey
             = Some (implicit_meta ''MAJORITY Endorsement'')"
proof -
  have l: "map_outcome CreateOrganization us = Ok cs \<Longrightarrow> list_all2 (\<lambda>u c. co_Name c = org_Name u \<and>
      (EndorsementPolicyKey \<in> dom (co_Policies c) \<longleftrightarrow> org_Type u = Organization_ORDERER)) us cs" for us cs
    by (induction us arbitrary: cs) (auto dest: CreateOrganization_ok)
  from assms obtain cs where cs: "map_outcome CreateOrganization orgs = Ok cs"
    and ce: "ce = CE_App \<lparr>cch_Consortium = consortium, cch_Application = \<lparr>capp_Organizations = cs,
      capp_Capabilities = [FABRIC_VERSION_2_0], capp_Policies = standardApplicationChannelPoliciesV2\<rparr>,
      cch_Orderer = zero_Orderer, cch_Consortiums = [], cch_Capabilities = [], cch_Policies = Map.empty\<rparr> channelID"
    by (auto simp: CreateApplicationChannel_def NewApplicationChannel_def Let_def)
  show ?thesis
    using l[OF cs] by (auto simp: ce standardApplicationChannelPoliciesV2_def)
qed

definition peer_org :: "string \<Rightarrow> Organization" where
  "peer_org name = \<lparr>org_Type = Organization_PEER, org_ID = name @ ''MSP'', org_Name = name, org_RootCA = None,
     org_TLSRootCA = None, org_AdminCA = None, org_AnchorPeers = [], org_OrdererConsenters = []\<rparr>"

lemma endorsement_policy_swapped_witness:
  "\<exists>ch. CreateApplicationChannel ''ch'' ''con'' [peer_org ''Org1'', peer_org ''Org2''] = Ok (CE_App ch ''ch'') \<and>
     length (capp_Organizations (cch_Application ch)) = 2 \<and>
     list_all (\<lambda>c. EndorsementPolicyKey \<notin> dom (co_Policies c)) (capp_Organizations (cch_Application ch))"
proof -
  obtain ce where ce: "CreateApplicationChannel ''ch'' ''con'' [peer_org ''Org1'', peer_org ''Org2''] = Ok ce"
    by (simp add: CreateApplicationChannel_def CreateOrganization_def peer_org_def NewApplicationChannel_def Let_def)
  from endorsement_policy_swapped[OF ce] ce show ?thesis
    by (auto simp: list_all2_Cons1 peer_org_def)
qed

text \<open>C20. Adding an organisation to a channel and removing it again, each update committed to the
  configuration it was computed from: after the first the channel has the new organisation beside
  those it had, and adding it once more is refused; after the second the organisations are those of
  the beginning, and removing it once more is refused.\<close>

theorem add_then_remove_org:
  assumes "app_laws X" "update_laws X commit"
    and "getBlockConfig P K blk = Ok cfg" "ChannelAddOrg P K X blk newOrg ch = Ok upd"
    and "getBlockConfig P K blk' = Ok cfg'" "cfg' = commit cfg (ue_update upd)"
    and "ChannelRemoveOrg P K X blk' (org_Name newOrg) ch' = Ok upd'"
    and "getBlockConfig P K blk'' = Ok cfg''" "cfg'' = commit cfg' (ue_update upd')"
  shows "cx_app_Organization X (cx_New X cfg') = (cx_app_Organization X (cx_New X cfg))(org_Name newOrg := Ok True) \<and>
         ChannelAddOrg P K X blk' newOrg ch'
           = Err (Errorf ''organization %s exist in channel %s'' [AStr (org_Name newOrg), AStr ch']) \<and>
         cx_app_Organization X (cx_New X cfg'') = cx_app_Organization X (cx_New X cfg) \<and>
         ChannelRemoveOrg P K X blk'' (org_Name newOrg) ch'
           = (if cx_Application X (cx_New X cfg'')
              then Err (Errorf ''organization %s not exist in channel %s'' [AStr (org_Name newOrg), AStr ch'])
              else Err (Errorf ''empty application'' []))"
proof -
  note g = assms(1)[unfolded app_laws_def]
  from ChannelAddOrg_ok[OF assms(4,3)] obtain c x u where
    a: "cx_app_Organization X (cx_New X cfg) (org_Name newOrg) = Ok False" "CreateOrganization newOrg = Ok c"
      "cx_app_SetOrganization X (cx_New X cfg) c = Ok x" "cx_ComputeMarshaledUpdate X x ch = (u, None)"
      "ue_update upd = u" by (auto simp: new_update_def)
  have n: "co_Name c = org_Name newOrg" using CreateOrganization_ok[OF a(2)] by simp
  have v: "cx_app_Organization X (cx_New X cfg') = cx_app_Organization X x"
    using update_laws_commit[OF assms(2) derived.Set[OF derived.New a(3)] a(4)] by (simp add: assms(6) a(5))
  then have added: "cx_app_Organization X (cx_New X cfg')
      = (cx_app_Organization X (cx_New X cfg))(org_Name newOrg := Ok True)"
    using group_laws_set[OF g a(3)] by (auto simp: n fun_eq_iff)
  from ChannelRemoveOrg_ok[OF assms(7,5)] obtain y w where
    r: "cx_app_RemoveOrganization X (cx_New X cfg') (org_Name newOrg) = Ok y"
      "cx_ComputeMarshaledUpdate X y ch' = (w, None)" "ue_update upd' = w" by (auto simp: new_update_def)
  have "cx_app_Organization X (cx_New X cfg'') = cx_app_Organization X y"
    using update_laws_commit[OF assms(2) derived.Remove[OF derived.New r(1)] r(2)] by (simp add: assms(9) r(3))
  then have removed: "cx_app_Organization X (cx_New X cfg'') = cx_app_Organization X (cx_New X cfg)"
    using group_laws_remove[OF g r(1)] a(1) by (metis (no_types, lifting) ext added fun_upd_apply)
  show ?thesis using added removed assms(5,8) a(1) by (simp add: ChannelAddOrg_def ChannelRemoveOrg_def Let_def)
qed

text \<open>A configuration that is the list of its application organisations. A \<open>ConfigTx\<close> is the list it was
  made from and the changed one; an update is the names to add and those to remove, in bytes.\<close>

fun name_bytes :: "string \<Rightarrow> bytes" where
  "name_bytes [] = [0]"
| "name_bytes (c # cs) = 1 # word_of_nat (of_char c) # name_bytes cs"

fun read_name :: "bytes \<Rightarrow> string \<times> bytes" where
  "read_name (b # c # bs) = (if b = 1 then (let (cs, rest) = read_name bs in (char_of (unat c) # cs, rest)) else ([], c # bs))"
| "read_name bs = ([], [])"

fun change_bytes :: "(bool \<times> string) list \<Rightarrow> bytes" where
  "change_bytes [] = []"
| "change_bytes ((add, n) # cs) = (if add then 1 else 0) # name_bytes n @ change_bytes cs"

function commit_names :: "string list \<Rightarrow> bytes \<Rightarrow> string list" where
  "commit_names ns [] = ns"
| "commit_names ns (b # bs) =
     (let (n, rest) = read_name bs in commit_names (if b = 1 then List.insert n ns else removeAll n ns) rest)"
  by pat_completeness auto

lemma read_name_length: "read_name bs = (n, rest) \<Longrightarrow> length rest \<le> length bs"
  by (induction bs arbitrary: n rest rule: read_name.induct) (fastforce split: prod.splits if_splits)+

termination commit_names
  by (relation "measure (\<lambda>(ns, bs). length bs)") (auto simp: less_Suc_eq_le dest: read_name_length sym)

lemma read_name_bytes [simp]: "read_name (name_bytes n @ bs) = (n, bs)"
proof (induction n)
  case Nil
  show ?case by (cases bs) simp_all
next
  case (Cons c n)
  have "char_of (unat (word_of_nat (of_char c) :: byte)) = c"
    by (simp add: unat_of_nat take_bit_nat_def)
  with Cons show ?case by simp
qed

lemmas read_name_last [simp] = read_name_bytes[where bs = "[]", simplified]

lemma commit_changes [simp]:
  "set (commit_names ns (change_bytes cs)) = foldl (\<lambda>s (add, n). if add then Set.insert n s else s - {n}) (set ns) cs"
  by (induction cs arbitrary: ns) auto

definition changes :: "string list \<Rightarrow> string list \<Rightarrow> (bool \<times> string) list" where
  "changes old new = map (Pair True) (filter (\<lambda>n. \<not> List.member old n) new)
     @ map (Pair False) (filter (\<lambda>n. \<not> List.member new n) old)"

lemma commit_names_changes: "set (commit_names old (change_bytes (changes old new))) = set new"
proof -
  have i: "foldl (\<lambda>s (add, n). if add then Set.insert n s else s - {n}) S (map (Pair True) ns) = S \<union> set ns" for S ns
    by (induction ns arbitrary: S) auto
  have r: "foldl (\<lambda>s (add, n). if add then Set.insert n s else s - {n}) S (map (Pair False) ns) = S - set ns" for S ns
    by (induction ns arbitrary: S) auto
  show ?thesis by (auto simp: changes_def i r)
qed

definition names_configtx :: "(string list, string list \<times> string list) configtx_lib" where
  "names_configtx = \<lparr>cx_New = (\<lambda>c. case c of None \<Rightarrow> ([], []) | Some ns \<Rightarrow> (ns, ns)), cx_Application = (\<lambda>_. True),
     cx_app_Organization = (\<lambda>x n. Ok (List.member (snd x) n)),
     cx_app_SetOrganization = (\<lambda>x org. Ok (fst x, List.insert (co_Name org) (snd x))),
     cx_app_RemoveOrganization = (\<lambda>x n. Ok (fst x, removeAll n (snd x))),
     cx_Consortium = (\<lambda>_ _. False), cx_cons_Organization = (\<lambda>_ _ _. Panic NilDeref),
     cx_cons_SetOrganization = (\<lambda>_ _ _. Panic NilDeref), cx_cons_RemoveOrganization = (\<lambda>_ _ _. Panic NilDeref),
     cx_ComputeMarshaledUpdate = (\<lambda>(old, new) ch. let cs = changes old new in
       if cs = [] then ([], Some (ErrExt ''no differences detected'')) else (change_bytes cs, None)),
     cx_NewMarshaledCreateChannelTx = (\<lambda>_ _. ([], None)), cx_NewSystemChannelGenesisBlock = (\<lambda>_ _. (None, None)),
     cx_NewEnvelope = (\<lambda>u sigs. (Some \<lparr>env_Payload = u, env_Signature = []\<rparr>, None))\<rparr>"

definition names_commit :: "string list option \<Rightarrow> bytes \<Rightarrow> string list option" where
  "names_commit cfg u = Some (commit_names (case cfg of None \<Rightarrow> [] | Some ns \<Rightarrow> ns) u)"

lemma names_configtx_laws: "app_laws names_configtx" "update_laws names_configtx names_commit"
proof -
  show "app_laws names_configtx" by (simp add: app_laws_def group_laws_def names_configtx_def)
  have d: "fst x = (case cfg of None \<Rightarrow> [] | Some ns \<Rightarrow> ns)" if "derived names_configtx cfg x" for cfg x
    using that by induction (auto simp: names_configtx_def split: option.splits)
  have u: "u = change_bytes (changes (fst x) (snd x))" if "cx_ComputeMarshaledUpdate names_configtx x ch = (u, None)" for x ch u
    using that by (cases x) (auto simp: names_configtx_def Let_def split: if_splits)
  have v: "cx_app_Organization names_configtx (cx_New names_configtx (Some ns)) n = Ok (n \<in> set ns)"
    "cx_app_Organization names_configtx x n = Ok (n \<in> set (snd x))" for ns x n
    by (simp_all add: names_configtx_def)
  have "cx_app_Organization names_configtx (cx_New names_configtx (names_commit cfg u)) n
      = cx_app_Organization names_configtx x n"
    if "derived names_configtx cfg x" "cx_ComputeMarshaledUpdate names_configtx x ch = (u, None)" for cfg x ch u n
    unfolding names_commit_def d[OF that(1), symmetric] u[OF that(2)] v(2)[of x] v(1) commit_names_changes ..
  then show "update_laws names_configtx names_commit" by (auto simp: update_laws_def)
qed

definition cc_pb :: pb where
  "cc_pb = sample_pb\<lparr>
     pb_Envelope := table_codec [\<lparr>env_Payload = [0], env_Signature = []\<rparr>, \<lparr>env_Payload = [0, 0], env_Signature = []\<rparr>],
     pb_Payload := table_codec (map (\<lambda>d. \<lparr>payl_Header = Some \<lparr>hdr_ChannelHeader = Some [0], hdr_SignatureHeader = Some [0]\<rparr>,
       payl_Data = d\<rparr>) [[0], [0, 0]]),
     pb_SignatureHeader := table_codec [\<lparr>sh_Creator = [0], sh_Nonce = []\<rparr>],
     pb_SerializedIdentity := table_codec [\<lparr>sid_Mspid = ''Org1MSP'', sid_IdBytes = []\<rparr>]\<rparr>"

definition cc_cfgpb :: "(string list, unit) cfgpb" where
  "cc_cfgpb = \<lparr>cfg_ConfigEnvelope = table_codec [\<lparr>cfe_Config = Some [''Org1''], cfe_LastUpdate = None\<rparr>,
     \<lparr>cfe_Config = Some [''Org2'', ''Org1''], cfe_LastUpdate = None\<rparr>], cfg_ConfigUpdate = table_codec [()]\<rparr>"

definition cc_block :: "bytes \<Rightarrow> Block" where
  "cc_block d = \<lparr>blk_Header = None, blk_Data = Some \<lparr>bd_Data = [d]\<rparr>, blk_Metadata = None\<rparr>"

lemma cc_configs:
  "getBlockConfig cc_pb cc_cfgpb (Some (cc_block [0])) = Ok (Some [''Org1''])"
  "getBlockConfig cc_pb cc_cfgpb (Some (cc_block [0, 0])) = Ok (Some [''Org2'', ''Org1''])"
  by (simp_all add: getBlockConfig_def UnmarshalConfig_def UnmarshalConfigPayload_def unmarshalPayloadConfigEnvelope_def
      config_unmarshalHeader_def config_unmarshalSignatureHeader_def UnmarshalEnvelope_def UnmarshalPayload_def
      UnmarshalChannelHeader_def UnmarshalSignatureHeader_def cc_block_def cc_pb_def cc_cfgpb_def table_codec_simps
      sample_pb_def go_index_def)

lemma add_then_remove_org_witness:
  "ChannelAddOrg cc_pb cc_cfgpb names_configtx (Some (cc_block [0, 0])) (peer_org ''Org2'') ''ch''
     = Err (Errorf ''organization %s exist in channel %s'' [AStr ''Org2'', AStr ''ch'']) \<and>
   ChannelRemoveOrg cc_pb cc_cfgpb names_configtx (Some (cc_block [0])) ''Org2'' ''ch''
     = Err (Errorf ''organization %s not exist in channel %s'' [AStr ''Org2'', AStr ''ch''])"
proof -
  obtain c where c: "CreateOrganization (peer_org ''Org2'') = Ok c" "co_Name c = ''Org2''"
    by (simp add: CreateOrganization_def peer_org_def)
  have name: "org_Name (peer_org ''Org2'') = ''Org2''" by (simp add: peer_org_def)
  have a: "ChannelAddOrg cc_pb cc_cfgpb names_configtx (Some (cc_block [0])) (peer_org ''Org2'') ''ch''
      = Ok (new_update (change_bytes [(True, ''Org2'')]) ''ch'')"
    using c by (simp add: ChannelAddOrg_def cc_configs names_configtx_def changes_def name Let_def)
  have r: "ChannelRemoveOrg cc_pb cc_cfgpb names_configtx (Some (cc_block [0, 0])) (org_Name (peer_org ''Org2'')) ''ch''
      = Ok (new_update (change_bytes [(False, ''Org2'')]) ''ch'')"
    by (simp add: ChannelRemoveOrg_def cc_configs names_configtx_def changes_def name Let_def)
  have d: "Some [''Org2'', ''Org1''] = names_commit (Some [''Org1'']) (ue_update (new_update (change_bytes [(True, ''Org2'')]) ''ch''))"
    "Some [''Org1''] = names_commit (Some [''Org2'', ''Org1'']) (ue_update (new_update (change_bytes [(False, ''Org2'')]) ''ch''))"
    by (simp_all add: names_commit_def new_update_def del: name_bytes.simps)
  from add_then_remove_org[OF names_configtx_laws cc_configs(1) a cc_configs(2) d(1) r cc_configs(1) d(2)]
  show ?thesis by (simp add: name names_configtx_def)
qed

end
