(* ===== verification/DeliverGroup.thy ===== *)
theory DeliverGroup
  imports OrderedCodec TxUtils
begin

text \<open>
  \<open>internal/client/delivegroup/client.go\<close>: a group of deliver clients that are connected and then
  awaited concurrently, one goroutine per client, with a shared error and a wait group.

  \<open>Connect\<close> and \<open>Wait\<close> have the same shape and differ in the body of the goroutine and in what the
  caller makes of the shared error, so the step relation \<open>gstep\<close> has both as parameters. A step is
  one goroutine receiving an event, setting the shared error under the mutex, or leaving the wait
  group, or the caller leaving its \<open>select\<close>, by the closed channel or by the context. The events
  are what the peers answer: any, in any order. A panic in a goroutine ends the program.
\<close>

section \<open>Groups of goroutines\<close>

text \<open>What one pass of a goroutine's body decides: go on, return (after \<open>setError\<close> if there is an
  error), or panic.\<close>

datatype verdict = Continue | Done "gerror option" | Panics panic

text \<open>Where a goroutine is: in its body, about to set the error, about to leave the wait group, or
  gone. The event that ended the body is kept.\<close>

datatype 'ev gphase = Running | Setting 'ev gerror | Leaving 'ev "gerror option"
  | Exited 'ev "gerror option"

datatype main_state = Selecting | Returned "gerror option" | Crashed panic

record ('c, 'ev) group =
  g_clients :: "('c \<times> 'ev gphase) list"
  g_Error :: "gerror option"
  g_wg :: int
  g_main :: main_state

definition setError :: "gerror \<Rightarrow> ('c, 'ev) group \<Rightarrow> ('c, 'ev) group" where
  "setError err g = g\<lparr>g_Error := Some err\<rparr>"

definition set_client :: "nat \<Rightarrow> 'c \<times> 'ev gphase \<Rightarrow> ('c, 'ev) group \<Rightarrow> ('c, 'ev) group" where
  "set_client i cp g = g\<lparr>g_clients := (g_clients g)[i := cp]\<rparr>"

definition start_group :: "'c list \<Rightarrow> gerror option \<Rightarrow> ('c, 'ev) group" where
  "start_group cs err = \<lparr>g_clients = map (\<lambda>c. (c, Running)) cs, g_Error = err,
     g_wg = int (length cs), g_main = Selecting\<rparr>"

inductive gstep ::
    "('c \<Rightarrow> 'ev \<Rightarrow> 'c \<times> verdict) \<Rightarrow> (gerror option \<Rightarrow> gerror option) \<Rightarrow> gerror
       \<Rightarrow> ('c, 'ev) group \<Rightarrow> ('c, 'ev) group \<Rightarrow> bool"
  for body ready_ret timeout_err where
  g_continue: "i < length (g_clients g) \<Longrightarrow> g_clients g ! i = (c, Running) \<Longrightarrow>
    body c ev = (c', Continue) \<Longrightarrow>
    gstep body ready_ret timeout_err g (set_client i (c', Running) g)"
| g_done: "i < length (g_clients g) \<Longrightarrow> g_clients g ! i = (c, Running) \<Longrightarrow>
    body c ev = (c', Done None) \<Longrightarrow>
    gstep body ready_ret timeout_err g (set_client i (c', Leaving ev None) g)"
| g_fail: "i < length (g_clients g) \<Longrightarrow> g_clients g ! i = (c, Running) \<Longrightarrow>
    body c ev = (c', Done (Some err)) \<Longrightarrow>
    gstep body ready_ret timeout_err g (set_client i (c', Setting ev err) g)"
| g_set: "i < length (g_clients g) \<Longrightarrow> g_clients g ! i = (c, Setting ev err) \<Longrightarrow>
    gstep body ready_ret timeout_err g (set_client i (c, Leaving ev (Some err)) (setError err g))"
| g_leave: "i < length (g_clients g) \<Longrightarrow> g_clients g ! i = (c, Leaving ev r) \<Longrightarrow>
    gstep body ready_ret timeout_err g (set_client i (c, Exited ev r) (g\<lparr>g_wg := g_wg g - 1\<rparr>))"
| g_panic: "i < length (g_clients g) \<Longrightarrow> g_clients g ! i = (c, Running) \<Longrightarrow>
    body c ev = (c', Panics p) \<Longrightarrow>
    gstep body ready_ret timeout_err g (g\<lparr>g_main := Crashed p\<rparr>)"
| g_ready: "g_main g = Selecting \<Longrightarrow> g_wg g = 0 \<Longrightarrow>
    gstep body ready_ret timeout_err g (g\<lparr>g_main := Returned (ready_ret (g_Error g))\<rparr>)"
| g_timeout: "g_main g = Selecting \<Longrightarrow>
    gstep body ready_ret timeout_err g (g\<lparr>g_main := Returned (Some timeout_err)\<rparr>)"

definition greach ::
    "('c \<Rightarrow> 'ev \<Rightarrow> 'c \<times> verdict) \<Rightarrow> (gerror option \<Rightarrow> gerror option) \<Rightarrow> gerror
       \<Rightarrow> ('c, 'ev) group \<Rightarrow> ('c, 'ev) group \<Rightarrow> bool" where
  "greach body ready_ret timeout_err = (gstep body ready_ret timeout_err)\<^sup>*\<^sup>*"

section \<open>The deliver group\<close>

text \<open>A client: its address, and whether \<open>Connection\<close> has been set. The connections themselves are
  gRPC streams, which appear as the events.\<close>

record DeliverClient =
  dc_Address :: string
  dc_Connection :: bool

record DeliverGroup =
  dg_Clients :: "DeliverClient list"
  dg_Certificate :: "bytes list"
  dg_ChannelID :: string
  dg_TxID :: string
  dg_Signer :: "Signer option"
  dg_Error :: "gerror option"

text \<open>\<open>NewDeliverGroup\<close> is given \<open>n\<close> deliver clients and reads the address at each index.\<close>

definition NewDeliverGroup ::
    "nat \<Rightarrow> string list \<Rightarrow> Signer option \<Rightarrow> bytes list \<Rightarrow> string \<Rightarrow> string \<Rightarrow> DeliverGroup outcome" where
  "NewDeliverGroup n peerAddresses signer certificate channelID txid =
     bind (map_outcome (\<lambda>i. bind (go_index peerAddresses i) (\<lambda>a.
             Ok \<lparr>dc_Address = a, dc_Connection = False\<rparr>)) [0..<n]) (\<lambda>clients.
     Ok \<lparr>dg_Clients = clients, dg_Certificate = certificate, dg_ChannelID = channelID,
         dg_TxID = txid, dg_Signer = signer, dg_Error = None\<rparr>)"

text \<open>The seek request: from the newest block to the greatest block number.\<close>

datatype SeekPosition = SeekNewest | SeekOldest | SeekSpecified "64 word"
datatype SeekBehavior = BLOCK_UNTIL_READY | FAIL_IF_NOT_READY

record SeekInfo =
  si_Start :: SeekPosition
  si_Stop :: SeekPosition
  si_Behavior :: SeekBehavior

text \<open>The result is a pointer: nil when the envelope cannot be made.\<close>

definition createDeliverEnvelope ::
    "pb \<Rightarrow> (bytes \<Rightarrow> bytes) \<Rightarrow> (bytes \<Rightarrow> bytes) \<Rightarrow> SeekInfo codec \<Rightarrow> int \<Rightarrow> string \<Rightarrow> bytes list
       \<Rightarrow> Signer option \<Rightarrow> Envelope option outcome" where
  "createDeliverEnvelope P sha2 sha3 S now channelID certificate signer =
     bind (if length certificate > 0
           then bind (go_index certificate 0) (\<lambda>c. ComputeSHA256 sha2 sha3 c) else Ok []) (\<lambda>tlsCertHash.
     let seekInfo = \<lparr>si_Start = SeekNewest, si_Stop = SeekSpecified (- 1),
                     si_Behavior = BLOCK_UNTIL_READY\<rparr> in
     case CreateSignedEnvelopeWithTLSBinding P S now HeaderType_DELIVER_SEEK_INFO channelID signer
            (Some seekInfo) 0 0 tlsCertHash of
       Ok env \<Rightarrow> Ok (Some env)
     | Err _ \<Rightarrow> Ok None
     | Panic p \<Rightarrow> Panic p)"

subsection \<open>Connecting\<close>

text \<open>What a peer answers to a connection attempt: the error of \<open>DeliverFiltered\<close> and, on a stream,
  the error of sending a given envelope.\<close>

record connect_event =
  ev_open :: "gerror option"
  ev_send :: "Envelope option \<Rightarrow> gerror option"

definition ClientConnect ::
    "Envelope option outcome \<Rightarrow> DeliverClient \<Rightarrow> connect_event \<Rightarrow> DeliverClient \<times> verdict" where
  "ClientConnect envelope dc ev =
     (case ev_open ev of
        Some err \<Rightarrow> (dc, Done (Some (WithMsg ''error connecting to deliver filtered at %s'' err)))
      | None \<Rightarrow>
        (let dc' = dc\<lparr>dc_Connection := True\<rparr> in
         case envelope of
           Panic p \<Rightarrow> (dc', Panics p)
         | Err e \<Rightarrow> (dc', Done (Some e))
         | Ok env \<Rightarrow>
           (case ev_send ev env of
              Some err \<Rightarrow> (dc', Done (Some (WithMsg ''error sending deliver seek info envelope to %s'' err)))
            | None \<Rightarrow> (dc', Done None))))"

definition connect_ready :: "gerror option \<Rightarrow> gerror option" where
  "connect_ready err = errors_Wrap err ''failed to connect to deliver on all peers''"

definition connect_timeout :: gerror where
  "connect_timeout = ErrNew ''timed out waiting for connection to deliver on all peers''"

definition Connect_start :: "DeliverGroup \<Rightarrow> (DeliverClient, connect_event) group" where
  "Connect_start dg = start_group (dg_Clients dg) (dg_Error dg)"

definition Connect_run ::
    "Envelope option outcome \<Rightarrow> DeliverGroup \<Rightarrow> (DeliverClient, connect_event) group \<Rightarrow> bool" where
  "Connect_run envelope dg g =
     greach (ClientConnect envelope) connect_ready connect_timeout (Connect_start dg) g"

subsection \<open>Waiting\<close>

abbreviation TxValidationCode_VALID :: int where "TxValidationCode_VALID \<equiv> 0"

record FilteredTransaction =
  ft_Txid :: string
  ft_TxValidationCode :: int

text \<open>A deliver response: its filtered block (perhaps nil), a status, or any other type; and the
  result of \<open>Recv\<close>.\<close>

datatype DeliverResponse = DR_FilteredBlock "FilteredTransaction option list option" | DR_Status int
  | DR_Other string

datatype recv = Received DeliverResponse | RecvErr gerror

fun scan_transactions :: "string \<Rightarrow> FilteredTransaction option list \<Rightarrow> verdict" where
  "scan_transactions txid [] = Continue"
| "scan_transactions txid (None # txs) = Panics NilDeref"
| "scan_transactions txid (Some tx # txs) =
     (if ft_Txid tx = txid
      then (if ft_TxValidationCode tx \<noteq> TxValidationCode_VALID
            then Done (Some (Errorf ''transaction invalidated with status (%s)''
                               [AInt (ft_TxValidationCode tx)]))
            else Done None)
      else scan_transactions txid txs)"

definition ClientWait :: "string \<Rightarrow> DeliverClient \<Rightarrow> recv \<Rightarrow> DeliverClient \<times> verdict" where
  "ClientWait txid dc ev =
     (if \<not> dc_Connection dc then (dc, Panics NilDeref)
      else
      (case ev of
         RecvErr err \<Rightarrow> (dc, Done (Some (WithMsg ''error receiving from deliver filtered at %s'' err)))
       | Received (DR_FilteredBlock None) \<Rightarrow> (dc, Panics NilDeref)
       | Received (DR_FilteredBlock (Some txs)) \<Rightarrow> (dc, scan_transactions txid txs)
       | Received (DR_Status st) \<Rightarrow>
           (dc, Done (Some (Errorf ''deliver completed with status (%s) before txid received'' [AInt st])))
       | Received (DR_Other t) \<Rightarrow>
           (dc, Done (Some (Errorf ''received unexpected response type (%T) from %s''
                              [AStr t, AStr (dc_Address dc)])))))"

definition wait_timeout :: gerror where
  "wait_timeout = ErrNew ''timed out waiting for txid on all peers''"

text \<open>\<open>Wait\<close> on an empty group returns at once, whatever the shared error.\<close>

definition Wait_start :: "DeliverGroup \<Rightarrow> (DeliverClient, recv) group" where
  "Wait_start dg =
     (if length (dg_Clients dg) = 0
      then \<lparr>g_clients = [], g_Error = dg_Error dg, g_wg = 0, g_main = Returned None\<rparr>
      else start_group (dg_Clients dg) (dg_Error dg))"

definition Wait_run :: "DeliverGroup \<Rightarrow> (DeliverClient, recv) group \<Rightarrow> bool" where
  "Wait_run dg g = greach (ClientWait (dg_TxID dg)) (\<lambda>err. err) wait_timeout (Wait_start dg) g"

section \<open>What a group guarantees\<close>

fun exited :: "'ev gphase \<Rightarrow> bool" where
  "exited (Exited _ _) = True"
| "exited _ = False"

fun failed_with :: "gerror \<Rightarrow> 'c \<times> 'ev gphase \<Rightarrow> bool" where
  "failed_with e (c, Leaving ev (Some e')) = (e = e')"
| "failed_with e (c, Exited ev (Some e')) = (e = e')"
| "failed_with e _ = False"

fun steps_left :: "'ev gphase \<Rightarrow> nat" where
  "steps_left Running = 3"
| "steps_left (Setting _ _) = 2"
| "steps_left (Leaving _ _) = 1"
| "steps_left (Exited _ _) = 0"

lemma sum_list_smaller:
  fixes f :: "'a \<Rightarrow> nat"
  shows "i < length xs \<Longrightarrow> f y < f (xs ! i) \<Longrightarrow> sum_list (map f (xs[i := y])) < sum_list (map f xs)"
proof (induction xs arbitrary: i)
  case (Cons x xs)
  then show ?case by (cases i) auto
qed simp

lemma filter_length_update:
  "i < length xs \<Longrightarrow> int (length (filter Q (xs[i := y]))) =
     int (length (filter Q xs)) - of_bool (Q (xs ! i)) + of_bool (Q y)"
proof (induction xs arbitrary: i)
  case (Cons x xs)
  then show ?case by (cases i) auto
qed simp

text \<open>
  The contract of a group: \<open>good c ev\<close> holds of a client whose body returned without an error on
  the event \<open>ev\<close>, and the caller returns nil only when the shared error is nil.
\<close>

locale goroutine_group =
  fixes body :: "'c \<Rightarrow> 'ev \<Rightarrow> 'c \<times> verdict"
    and ready_ret :: "gerror option \<Rightarrow> gerror option"
    and timeout_err :: gerror
    and good :: "'c \<Rightarrow> 'ev \<Rightarrow> bool"
  assumes body_good: "body c ev = (c', Done None) \<Longrightarrow> good c' ev"
    and ready_nil: "ready_ret err = None \<longleftrightarrow> err = None"
begin

fun client_inv :: "gerror option \<Rightarrow> 'c \<times> 'ev gphase \<Rightarrow> bool" where
  "client_inv err (c, Leaving ev None) = good c ev"
| "client_inv err (c, Exited ev None) = good c ev"
| "client_inv err (c, Leaving ev (Some _)) = (err \<noteq> None)"
| "client_inv err (c, Exited ev (Some _)) = (err \<noteq> None)"
| "client_inv err _ = True"

definition inv :: "('c, 'ev) group \<Rightarrow> bool" where
  "inv g \<longleftrightarrow>
     g_wg g = int (length (filter (\<lambda>cp. \<not> exited (snd cp)) (g_clients g))) \<and>
     (\<forall>cp\<in>set (g_clients g). client_inv (g_Error g) cp) \<and>
     (\<forall>e. g_Error g = Some e \<longrightarrow> (\<exists>cp\<in>set (g_clients g). failed_with e cp)) \<and>
     (g_main g = Returned None \<longrightarrow> g_wg g = 0 \<and> g_Error g = None) \<and>
     (\<forall>e. g_main g = Returned (Some e) \<longrightarrow> e = timeout_err \<or>
        (\<exists>e' cp. cp \<in> set (g_clients g) \<and> failed_with e' cp \<and> ready_ret (Some e') = Some e))"

lemma all_exited: "inv g \<Longrightarrow> g_wg g = 0 \<Longrightarrow> cp \<in> set (g_clients g) \<Longrightarrow> exited (snd cp)"
  by (auto simp: inv_def filter_empty_conv)

lemma client_inv_err: "client_inv err cp \<Longrightarrow> client_inv (Some e) cp"
  by (induction err cp rule: client_inv.induct) auto

lemma update_keeps:
  assumes "i < length xs" "\<forall>cp\<in>set xs. Q cp" "Q y"
  shows "\<forall>cp\<in>set (xs[i := y]). Q cp"
  using assms set_update_subset_insert[of xs i y] by auto

lemma update_keeps_failed:
  assumes "i < length xs" "cp \<in> set xs" "failed_with e cp" "failed_with e (xs ! i) \<longrightarrow> failed_with e y"
  shows "\<exists>cp\<in>set (xs[i := y]). failed_with e cp"
proof (cases "cp = xs ! i")
  case True
  then show ?thesis using assms set_update_memI[of i xs y] by auto
next
  case False
  then obtain j where "j < length xs" "xs ! j = cp" "j \<noteq> i"
    using assms(2) by (auto simp: in_set_conv_nth)
  then have "xs[i := y] ! j = cp" by simp
  then show ?thesis using assms(3) \<open>j < length xs\<close> nth_mem[of j "xs[i := y]"] by auto
qed

text \<open>Replacing one client keeps the invariant as long as the counter follows, the new phase is
  consistent with the error, and no failure is forgotten.\<close>

lemma inv_set_client:
  assumes "inv g" "i < length (g_clients g)" "\<not> exited (snd (g_clients g ! i))"
    and "client_inv (g_Error g) y" "\<And>e. failed_with e (g_clients g ! i) \<Longrightarrow> failed_with e y"
  shows "inv (set_client i y (g\<lparr>g_wg := g_wg g - of_bool (exited (snd y))\<rparr>))"
proof -
  have m: "g_main g \<noteq> Returned None"
    using assms(1-3) all_exited[OF assms(1) _ nth_mem[OF assms(2)]] by (auto simp: inv_def)
  have f: "\<exists>cp\<in>set ((g_clients g)[i := y]). failed_with e cp"
    if "\<exists>cp\<in>set (g_clients g). failed_with e cp" for e
    using that update_keeps_failed[OF assms(2)] assms(5) by blast
  have k: "\<forall>cp\<in>set ((g_clients g)[i := y]). client_inv (g_Error g) cp"
    using assms(1,4) by (intro update_keeps[OF assms(2)]) (auto simp: inv_def)
  have w: "g_wg g - of_bool (exited (snd y)) =
      int (length (filter (\<lambda>cp. \<not> exited (snd cp)) ((g_clients g)[i := y])))"
    using assms(1,3) filter_length_update[OF assms(2), of "\<lambda>cp. \<not> exited (snd cp)" y]
    by (simp add: inv_def)
  have e: "\<forall>e. g_main g = Returned (Some e) \<longrightarrow> e = timeout_err \<or>
      (\<exists>e' cp. cp \<in> set ((g_clients g)[i := y]) \<and> failed_with e' cp \<and> ready_ret (Some e') = Some e)"
    using assms(1) f unfolding inv_def by metis
  show ?thesis
    using assms(1) m f k w e by (simp add: inv_def set_client_def)
qed

lemma inv_set_error:
  assumes "inv g" "i < length (g_clients g)" "g_clients g ! i = (c, Setting ev err)"
  shows "inv (set_client i (c, Leaving ev (Some err)) (setError err g))"
proof -
  define y where "y = (c, Leaving ev (Some err))"
  have m: "g_main g \<noteq> Returned None"
    using assms all_exited[OF assms(1) _ nth_mem[OF assms(2)]] by (auto simp: inv_def)
  have f: "\<exists>cp\<in>set ((g_clients g)[i := y]). failed_with e cp"
    if "\<exists>cp\<in>set (g_clients g). failed_with e cp" for e
    using that update_keeps_failed[OF assms(2)] assms(3) by fastforce
  have n: "\<exists>cp\<in>set ((g_clients g)[i := y]). failed_with err cp"
    using set_update_memI[OF assms(2), of y] by (intro bexI) (auto simp: y_def)
  have k: "\<forall>cp\<in>set ((g_clients g)[i := y]). client_inv (Some err) cp"
    using assms(1) by (intro update_keeps[OF assms(2)]) (auto simp: inv_def y_def intro: client_inv_err)
  have w: "g_wg g = int (length (filter (\<lambda>cp. \<not> exited (snd cp)) ((g_clients g)[i := y])))"
    using assms(1,3) filter_length_update[OF assms(2), of "\<lambda>cp. \<not> exited (snd cp)" y]
    by (simp add: inv_def y_def)
  have e: "\<forall>e. g_main g = Returned (Some e) \<longrightarrow> e = timeout_err \<or>
      (\<exists>e' cp. cp \<in> set ((g_clients g)[i := y]) \<and> failed_with e' cp \<and> ready_ret (Some e') = Some e)"
    using assms(1) f unfolding inv_def by metis
  have "inv (set_client i y (setError err g))"
    using m n k w e by (simp add: inv_def set_client_def setError_def)
  then show ?thesis by (simp add: y_def)
qed

lemma inv_step:
  assumes "gstep body ready_ret timeout_err g g'" "inv g"
  shows "inv g'"
  using assms
proof (cases rule: gstep.cases)
  case (g_continue i c ev c')
  then show ?thesis using inv_set_client[OF assms(2), of i "(c', Running)"] by simp
next
  case (g_done i c ev c')
  then show ?thesis using inv_set_client[OF assms(2), of i "(c', Leaving ev None)"] body_good by simp
next
  case (g_fail i c ev c' err)
  then show ?thesis using inv_set_client[OF assms(2), of i "(c', Setting ev err)"] by simp
next
  case (g_set i c ev err)
  then show ?thesis using inv_set_error[OF assms(2)] by simp
next
  case (g_leave i c ev r)
  have "client_inv (g_Error g) (c, Leaving ev r)"
    using assms(2) g_leave nth_mem[of i "g_clients g"] by (auto simp: inv_def)
  then show ?thesis
    using g_leave inv_set_client[OF assms(2), of i "(c, Exited ev r)"] by (cases r) auto
next
  case g_ready
  then show ?thesis using assms(2) ready_nil[of None] ready_nil[of "g_Error g"] by (cases "g_Error g") (auto simp: inv_def)
qed (use assms(2) in \<open>auto simp: inv_def\<close>)

lemma inv_reach:
  assumes "greach body ready_ret timeout_err (start_group cs None) g"
  shows "inv g"
proof -
  have "inv (start_group cs None :: ('c, 'ev) group)"
    by (auto simp: inv_def start_group_def filter_id_conv)
  with assms show ?thesis
    unfolding greach_def by (induction rule: rtranclp_induct) (auto intro: inv_step)
qed

text \<open>The steps a client has left, and that they lead out of the group.\<close>

definition undecided :: "('c, 'ev) group \<Rightarrow> 'c \<Rightarrow> bool" where
  "undecided g c \<longleftrightarrow> (c, Running) \<in> set (g_clients g)"

lemma step_out:
  assumes "i < length (g_clients g)" "\<not> exited (snd (g_clients g ! i))"
    and "\<And>c. undecided g c \<Longrightarrow> \<exists>ev c' r. body c ev = (c', Done r)"
  shows "\<exists>g' cp. gstep body ready_ret timeout_err g g' \<and> g_clients g' = (g_clients g)[i := cp] \<and>
    steps_left (snd cp) < steps_left (snd (g_clients g ! i)) \<and> snd cp \<noteq> Running \<and> g_main g' = g_main g"
proof -
  obtain c ph where i: "g_clients g ! i = (c, ph)" by fastforce
  show ?thesis
  proof (cases ph)
    case Running
    then have "undecided g c" using i assms(1) by (metis undecided_def nth_mem)
    then obtain ev c' r where b: "body c ev = (c', Done r)" using assms(3) by blast
    show ?thesis
    proof (cases r)
      case None
      then show ?thesis using g_done[OF assms(1), of c body ev c'] b i Running
        by (fastforce simp: set_client_def)
    next
      case (Some e)
      then show ?thesis using g_fail[OF assms(1), of c body ev c' e] b i Running
        by (fastforce simp: set_client_def)
    qed
  next
    case (Setting ev e)
    then show ?thesis using g_set[OF assms(1)] i by (fastforce simp: set_client_def setError_def)
  next
    case (Leaving ev r)
    then show ?thesis using g_leave[OF assms(1)] i by (fastforce simp: set_client_def)
  qed (use assms(2) i in simp)
qed

lemma completes:
  assumes "greach body ready_ret timeout_err (start_group cs None) g" "g_main g = Selecting"
    and "\<And>c. undecided g c \<Longrightarrow> \<exists>ev c' r. body c ev = (c', Done r)"
  shows "\<exists>g'. greach body ready_ret timeout_err g g' \<and> g_wg g' = 0 \<and>
    g_main g' = Returned (ready_ret (g_Error g')) \<and> list_all (\<lambda>cp. exited (snd cp)) (g_clients g')"
  using assms
proof (induction "sum_list (map (\<lambda>cp. steps_left (snd cp)) (g_clients g))" arbitrary: g rule: less_induct)
  case less
  show ?case
  proof (cases "list_all (\<lambda>cp. exited (snd cp)) (g_clients g)")
    case True
    have "g_wg g = 0"
      using inv_reach[OF less.prems(1)] True by (auto simp: inv_def list_all_iff filter_empty_conv)
    then have "gstep body ready_ret timeout_err g (g\<lparr>g_main := Returned (ready_ret (g_Error g))\<rparr>)"
      using less.prems(2) by (intro g_ready)
    then have "greach body ready_ret timeout_err g (g\<lparr>g_main := Returned (ready_ret (g_Error g))\<rparr>)"
      by (simp add: greach_def)
    then show ?thesis using True \<open>g_wg g = 0\<close>
      by (intro exI[of _ "g\<lparr>g_main := Returned (ready_ret (g_Error g))\<rparr>"]) simp
  next
    case False
    then obtain i where i: "i < length (g_clients g)" "\<not> exited (snd (g_clients g ! i))"
      by (auto simp: list_all_length)
    obtain g' cp where g': "gstep body ready_ret timeout_err g g'" "g_clients g' = (g_clients g)[i := cp]"
      "steps_left (snd cp) < steps_left (snd (g_clients g ! i))" "snd cp \<noteq> Running" "g_main g' = g_main g"
      using step_out[OF i less.prems(3)] by blast
    have "sum_list (map (\<lambda>cp. steps_left (snd cp)) (g_clients g')) < sum_list (map (\<lambda>cp. steps_left (snd cp)) (g_clients g))"
      using sum_list_smaller[OF i(1), of "\<lambda>cp. steps_left (snd cp)" cp] g'(2,3) by simp
    moreover have "greach body ready_ret timeout_err (start_group cs None) g'"
      using less.prems(1) g'(1) unfolding greach_def by (rule rtranclp.rtrancl_into_rtrancl)
    moreover have "\<exists>ev c' r. body c ev = (c', Done r)" if "undecided g' c" for c
    proof (rule less.prems(3))
      show "undecided g c" using that g'(2,4) set_update_subset_insert[of "g_clients g" i cp]
        by (auto simp: undecided_def)
    qed
    ultimately obtain g'' where g'': "greach body ready_ret timeout_err g' g''" "g_wg g'' = 0"
      "g_main g'' = Returned (ready_ret (g_Error g''))" "list_all (\<lambda>cp. exited (snd cp)) (g_clients g'')"
      using less.hyps less.prems(2) g'(5) by metis
    then have "greach body ready_ret timeout_err g g''"
      using g'(1) unfolding greach_def by (simp add: converse_rtranclp_into_rtranclp)
    then show ?thesis using g'' by blast
  qed
qed

lemma returned_nil:
  assumes "greach body ready_ret timeout_err (start_group cs None) g" "g_main g = Returned None"
    and "cp \<in> set (g_clients g)"
  shows "\<exists>ev. snd cp = Exited ev None \<and> good (fst cp) ev"
proof -
  have i: "inv g" by (rule inv_reach[OF assms(1)])
  then have "exited (snd cp)" "client_inv None cp"
    using assms(2,3) all_exited[OF i _ assms(3)] by (auto simp: inv_def)
  then show ?thesis
    by (cases cp; cases "snd cp"; cases "case snd cp of Exited _ r \<Rightarrow> r | _ \<Rightarrow> None") auto
qed

lemma returned_nil_error:
  assumes "greach body ready_ret timeout_err (start_group cs None) g" "g_main g = Returned None"
  shows "g_Error g = None"
  using inv_reach[OF assms(1)] assms(2) by (simp add: inv_def)

lemma returned_error:
  assumes "greach body ready_ret timeout_err (start_group cs None) g" "g_main g = Returned (Some e)"
  shows "e = timeout_err \<or>
    (\<exists>e' cp. cp \<in> set (g_clients g) \<and> failed_with e' cp \<and> ready_ret (Some e') = Some e)"
  using inv_reach[OF assms(1)] assms(2) by (auto simp: inv_def)

lemma clients_length:
  assumes "greach body ready_ret timeout_err (start_group cs err) g"
  shows "length (g_clients g) = length cs"
  using assms unfolding greach_def
  by (induction rule: rtranclp_induct)
     (auto simp: start_group_def set_client_def setError_def elim!: gstep.cases)

end

section \<open>The two phases of a deliver group\<close>

text \<open>The response that makes \<open>ClientWait\<close> return without an error: a filtered block in which the
  first transaction with the id is valid.\<close>

fun commits :: "string \<Rightarrow> recv \<Rightarrow> bool" where
  "commits txid (Received (DR_FilteredBlock (Some txs))) =
     (case find (\<lambda>t. case t of None \<Rightarrow> True | Some tx \<Rightarrow> ft_Txid tx = txid) txs of
        Some (Some tx) \<Rightarrow> ft_TxValidationCode tx = TxValidationCode_VALID
      | _ \<Rightarrow> False)"
| "commits txid _ = False"

lemma scan_transactions_done:
  "scan_transactions txid txs = Done None \<longleftrightarrow> commits txid (Received (DR_FilteredBlock (Some txs)))"
  by (induction txid txs rule: scan_transactions.induct) auto

lemma ClientWait_done:
  "ClientWait txid dc ev = (dc', Done None) \<longleftrightarrow> dc' = dc \<and> dc_Connection dc \<and> commits txid ev"
  by (cases ev)
     (auto simp: ClientWait_def scan_transactions_done simp del: commits.simps(1)
       split: recv.splits DeliverResponse.splits option.splits)

interpretation connecting: goroutine_group "ClientConnect envelope" connect_ready connect_timeout
    "\<lambda>dc ev. dc_Connection dc"
  for envelope
  by unfold_locales
     (auto simp: ClientConnect_def connect_ready_def Let_def split: option.splits outcome.splits)

interpretation waiting: goroutine_group "ClientWait txid" "\<lambda>err. err" wait_timeout
    "\<lambda>dc ev. commits txid ev"
  for txid
  by unfold_locales (auto simp: ClientWait_done)

text \<open>The group after \<open>Connect\<close>: its clients and its error are those of the run.\<close>

definition connected :: "DeliverGroup \<Rightarrow> (DeliverClient, connect_event) group \<Rightarrow> DeliverGroup" where
  "connected dg g = dg\<lparr>dg_Clients := map fst (g_clients g), dg_Error := g_Error g\<rparr>"

lemma connect_nil:
  assumes "Connect_run envelope dg g" "g_main g = Returned None" "dg_Error dg = None"
  shows "dg_Error (connected dg g) = None" "length (dg_Clients (connected dg g)) = length (dg_Clients dg)"
    "list_all dc_Connection (dg_Clients (connected dg g))"
proof -
  have r: "greach (ClientConnect envelope) connect_ready connect_timeout (start_group (dg_Clients dg) None) g"
    using assms(1,3) by (simp add: Connect_run_def Connect_start_def)
  show "dg_Error (connected dg g) = None"
    using connecting.returned_nil_error[OF r assms(2)] by (simp add: connected_def)
  show "length (dg_Clients (connected dg g)) = length (dg_Clients dg)"
    using connecting.clients_length[OF r] by (simp add: connected_def)
  show "list_all dc_Connection (dg_Clients (connected dg g))"
    using connecting.returned_nil[OF r assms(2)] by (fastforce simp: connected_def list_all_iff)
qed

lemma wait_nil:
  assumes "Wait_run dg g" "g_main g = Returned None" "dg_Error dg = None" "dg_Clients dg \<noteq> []"
  shows "length (g_clients g) = length (dg_Clients dg) \<and>
         (\<forall>cp\<in>set (g_clients g). \<exists>ev. snd cp = Exited ev None \<and> commits (dg_TxID dg) ev)"
  using assms waiting.returned_nil[of "dg_TxID dg" "dg_Clients dg" g]
    waiting.clients_length[of "dg_TxID dg" "dg_Clients dg" None g]
  by (auto simp: Wait_run_def Wait_start_def)

text \<open>A group of one client that is done without an error.\<close>

lemma single_client_run:
  fixes ev :: 'ev
  assumes "body c ev = (c', Done None)" "ready_ret None = None"
  shows "greach body ready_ret timeout_err (start_group [c] None)
           \<lparr>g_clients = [(c', Exited ev None)], g_Error = None, g_wg = 0, g_main = Returned None\<rparr>"
proof -
  define g where "g p n m = \<lparr>g_clients = [(c', p)], g_Error = None, g_wg = n, g_main = m\<rparr>"
    for p :: "'ev gphase" and n m
  have "gstep body ready_ret timeout_err (start_group [c] None) (g (Leaving ev None) 1 Selecting)"
    using g_done[where g = "start_group [c] None" and i = 0, of c body ev c'] assms(1)
    by (simp add: start_group_def set_client_def g_def)
  moreover have "gstep body ready_ret timeout_err (g (Leaving ev None) 1 Selecting) (g (Exited ev None) 0 Selecting)"
    using g_leave[where g = "g (Leaving ev None) 1 Selecting" and i = 0, of c' ev None]
    by (simp add: set_client_def g_def)
  moreover have "gstep body ready_ret timeout_err (g (Exited ev None) 0 Selecting) (g (Exited ev None) 0 (Returned None))"
    using g_ready[where g = "g (Exited ev None) 0 Selecting" and ready_ret = ready_ret] assms(2) by (simp add: g_def)
  ultimately show ?thesis
    unfolding greach_def g_def by (simp add: converse_rtranclp_into_rtranclp)
qed

section \<open>Theorems\<close>

text \<open>When \<open>Wait\<close> returns nil, every client has received a filtered block in which the
  transaction is there and valid: no interleaving, no failure and no timeout of any client is
  mistaken for a commit.\<close>

lemma wait_nil_means_committed:
  assumes "Wait_run dg g" "g_main g = Returned None" "dg_Error dg = None" "dg_Clients dg \<noteq> []"
  shows "length (g_clients g) = length (dg_Clients dg) \<and>
         (\<forall>cp\<in>set (g_clients g). \<exists>ev. snd cp = Exited ev None \<and> commits (dg_TxID dg) ev)"
  using assms by (rule wait_nil)

definition sample_dg :: "gerror option \<Rightarrow> DeliverGroup" where
  "sample_dg err = \<lparr>dg_Clients = [\<lparr>dc_Address = ''p0'', dc_Connection = True\<rparr>,
                                  \<lparr>dc_Address = ''p1'', dc_Connection = True\<rparr>],
     dg_Certificate = [], dg_ChannelID = ''ch'', dg_TxID = ''tx'', dg_Signer = None, dg_Error = err\<rparr>"

definition sample_commit :: recv where
  "sample_commit = Received (DR_FilteredBlock (Some [Some \<lparr>ft_Txid = ''tx'', ft_TxValidationCode = 0\<rparr>]))"

definition sample_group ::
    "recv gphase \<Rightarrow> recv gphase \<Rightarrow> gerror option \<Rightarrow> int \<Rightarrow> main_state \<Rightarrow> (DeliverClient, recv) group" where
  "sample_group p0 p1 err wg main =
     \<lparr>g_clients = [(\<lparr>dc_Address = ''p0'', dc_Connection = True\<rparr>, p0),
                   (\<lparr>dc_Address = ''p1'', dc_Connection = True\<rparr>, p1)],
      g_Error = err, g_wg = wg, g_main = main\<rparr>"

abbreviation sample_step ::
    "(DeliverClient, recv) group \<Rightarrow> (DeliverClient, recv) group \<Rightarrow> bool" where
  "sample_step \<equiv> gstep (ClientWait ''tx'') (\<lambda>err. err) wait_timeout"

lemma sample_start: "Wait_start (sample_dg err) = sample_group Running Running err 2 Selecting"
  by (simp add: Wait_start_def sample_dg_def start_group_def sample_group_def)

lemma sample_commit_steps:
  "sample_step (sample_group Running p1 err n m) (sample_group (Leaving sample_commit None) p1 err n m)"
  "sample_step (sample_group p0 Running err n m) (sample_group p0 (Leaving sample_commit None) err n m)"
  using g_done[of 0 "sample_group Running p1 err n m" _ "ClientWait ''tx''" sample_commit]
    g_done[of 1 "sample_group p0 Running err n m" _ "ClientWait ''tx''" sample_commit]
  by (simp_all add: sample_group_def sample_commit_def set_client_def ClientWait_done)

lemma sample_leave_steps:
  "sample_step (sample_group (Leaving ev r) p1 err n m) (sample_group (Exited ev r) p1 err (n - 1) m)"
  "sample_step (sample_group p0 (Leaving ev r) err n m) (sample_group p0 (Exited ev r) err (n - 1) m)"
  using g_leave[of 0 "sample_group (Leaving ev r) p1 err n m"]
    g_leave[of 1 "sample_group p0 (Leaving ev r) err n m"]
  by (simp_all add: sample_group_def set_client_def)

lemma sample_fail_steps:
  "sample_step (sample_group Running p1 err n m)
     (sample_group (Setting (RecvErr e) (WithMsg ''error receiving from deliver filtered at %s'' e)) p1 err n m)"
  "sample_step (sample_group p0 Running err n m)
     (sample_group p0 (Setting (RecvErr e) (WithMsg ''error receiving from deliver filtered at %s'' e)) err n m)"
  using g_fail[of 0 "sample_group Running p1 err n m" _ "ClientWait ''tx''" "RecvErr e"]
    g_fail[of 1 "sample_group p0 Running err n m" _ "ClientWait ''tx''" "RecvErr e"]
  by (simp_all add: sample_group_def set_client_def ClientWait_def)

lemma sample_set_steps:
  "sample_step (sample_group (Setting ev e) p1 err n m) (sample_group (Leaving ev (Some e)) p1 (Some e) n m)"
  "sample_step (sample_group p0 (Setting ev e) err n m) (sample_group p0 (Leaving ev (Some e)) (Some e) n m)"
  using g_set[of 0 "sample_group (Setting ev e) p1 err n m"]
    g_set[of 1 "sample_group p0 (Setting ev e) err n m"]
  by (simp_all add: sample_group_def set_client_def setError_def)

lemma sample_ready_step:
  "sample_step (sample_group p0 p1 err 0 Selecting) (sample_group p0 p1 err 0 (Returned err))"
  using g_ready[of "sample_group p0 p1 err 0 Selecting" "ClientWait ''tx''" "\<lambda>err. err" wait_timeout]
  by (simp add: sample_group_def)

lemma wait_nil_means_committed_witness:
  "\<exists>g. Wait_run (sample_dg None) g \<and> g_main g = Returned None \<and>
       list_all (\<lambda>cp. \<exists>ev. snd cp = Exited ev None \<and> commits ''tx'' ev) (g_clients g)"
proof -
  define g where "g = sample_group (Exited sample_commit None) (Exited sample_commit None) None 0 (Returned None)"
  have "sample_step\<^sup>*\<^sup>* (sample_group Running Running None 2 Selecting) g"
    unfolding g_def
    using sample_commit_steps(1)[of Running None 2 Selecting]
      sample_leave_steps(1)[of sample_commit None Running None 2 Selecting]
      sample_commit_steps(2)[of "Exited sample_commit None" None 1 Selecting]
      sample_leave_steps(2)[of "Exited sample_commit None" sample_commit None None 1 Selecting]
      sample_ready_step[of "Exited sample_commit None" "Exited sample_commit None" None]
    by (simp add: converse_rtranclp_into_rtranclp)
  then have r: "Wait_run (sample_dg None) g"
    by (simp add: Wait_run_def sample_start greach_def) (simp add: sample_dg_def)
  have m: "g_main g = Returned None" by (simp add: g_def sample_group_def)
  show ?thesis
    using wait_nil_means_committed[OF r m] r m by (auto simp: sample_dg_def list_all_iff)
qed

text \<open>A run in which the first client fails, then the second.\<close>

definition recv_failed :: "gerror \<Rightarrow> gerror" where
  "recv_failed e = WithMsg ''error receiving from deliver filtered at %s'' e"

definition sample_one_failed :: "gerror \<Rightarrow> (DeliverClient, recv) group" where
  "sample_one_failed e1 =
     sample_group (Leaving (RecvErr e1) (Some (recv_failed e1))) Running (Some (recv_failed e1)) 2 Selecting"

definition sample_both_failed :: "gerror \<Rightarrow> gerror \<Rightarrow> (DeliverClient, recv) group" where
  "sample_both_failed e1 e2 =
     sample_group (Exited (RecvErr e1) (Some (recv_failed e1))) (Exited (RecvErr e2) (Some (recv_failed e2)))
       (Some (recv_failed e2)) 0 (Returned (Some (recv_failed e2)))"

lemma sample_run_one: "Wait_run (sample_dg None) (sample_one_failed e1)"
proof -
  have "sample_step\<^sup>*\<^sup>* (sample_group Running Running None 2 Selecting) (sample_one_failed e1)"
    unfolding sample_one_failed_def
    using sample_fail_steps(1)[of Running None 2 Selecting e1]
      sample_set_steps(1)[of "RecvErr e1" "recv_failed e1" Running None 2 Selecting]
    by (simp add: converse_rtranclp_into_rtranclp recv_failed_def)
  then show ?thesis
    by (simp add: Wait_run_def sample_start greach_def) (simp add: sample_dg_def)
qed

lemma sample_run_both: "sample_step\<^sup>*\<^sup>* (sample_one_failed e1) (sample_both_failed e1 e2)"
  unfolding sample_one_failed_def sample_both_failed_def
  using sample_leave_steps(1)[of "RecvErr e1" "Some (recv_failed e1)" Running "Some (recv_failed e1)" 2 Selecting]
    sample_fail_steps(2)[of "Exited (RecvErr e1) (Some (recv_failed e1))" "Some (recv_failed e1)" 1 Selecting e2]
    sample_set_steps(2)[of "Exited (RecvErr e1) (Some (recv_failed e1))" "RecvErr e2" "recv_failed e2"
      "Some (recv_failed e1)" 1 Selecting]
    sample_leave_steps(2)[of "Exited (RecvErr e1) (Some (recv_failed e1))" "RecvErr e2"
      "Some (recv_failed e2)" "Some (recv_failed e2)" 1 Selecting]
    sample_ready_step[of "Exited (RecvErr e1) (Some (recv_failed e1))"
      "Exited (RecvErr e2) (Some (recv_failed e2))" "Some (recv_failed e2)"]
  by (simp add: converse_rtranclp_into_rtranclp recv_failed_def)

lemma wait_empty:
  assumes "Wait_run dg g" "dg_Clients dg = []"
  shows "g = Wait_start dg"
proof -
  have st: "\<not> gstep (ClientWait txid) (\<lambda>err. err) wait_timeout s t"
    if "g_clients s = []" "g_main s = Returned None" for s t :: "(DeliverClient, recv) group" and txid
    using that by (auto elim: gstep.cases)
  have "(gstep (ClientWait (dg_TxID dg)) (\<lambda>err. err) wait_timeout)\<^sup>*\<^sup>* (Wait_start dg) g"
    using assms(1) by (simp add: Wait_run_def greach_def)
  then show ?thesis
    by (cases rule: converse_rtranclpE) (use st assms(2) in \<open>auto simp: Wait_start_def\<close>)
qed

text \<open>C12. Every error of a group that started clean is accounted for: it is the timeout or the error
  of a client that failed.\<close>

theorem wait_error_is_accounted:
  assumes "Wait_run dg g" "g_main g = Returned (Some e)" "dg_Error dg = None"
  shows "e = wait_timeout \<or> (\<exists>cp\<in>set (g_clients g). failed_with e cp)"
proof (cases "dg_Clients dg = []")
  case True
  then show ?thesis using wait_empty[OF assms(1)] assms(2) by (simp add: Wait_start_def)
next
  case False
  with assms waiting.returned_error[of "dg_TxID dg" "dg_Clients dg" g e] show ?thesis
    by (auto simp: Wait_run_def Wait_start_def)
qed

lemma wait_error_is_accounted_witness:
  "\<exists>g. Wait_run (sample_dg None) g \<and> g_main g = Returned (Some (recv_failed (ErrExt ''EOF''))) \<and>
       (\<exists>cp\<in>set (g_clients g). failed_with (recv_failed (ErrExt ''EOF'')) cp)"
proof -
  define g where "g = sample_both_failed (ErrExt ''reset'') (ErrExt ''EOF'')"
  have r: "Wait_run (sample_dg None) g"
    using sample_run_one[of "ErrExt ''reset''"] sample_run_both[of "ErrExt ''reset''" "ErrExt ''EOF''"]
    by (simp add: Wait_run_def greach_def g_def) (simp add: sample_dg_def)
  have m: "g_main g = Returned (Some (recv_failed (ErrExt ''EOF'')))"
    by (simp add: g_def sample_both_failed_def sample_group_def)
  from wait_error_is_accounted[OF r m] show ?thesis
    using r m by (auto simp: sample_dg_def recv_failed_def wait_timeout_def)
qed

text \<open>The error of a group is the last one set, not the first: with two failing clients there
  is a run in which the first error is recorded and then replaced by the second, which is what
  \<open>Wait\<close> returns. (The comment on \<open>DeliverGroup\<close> says that only the first error will be set.)\<close>

lemma last_error_wins:
  "\<exists>g1 g2. Wait_run (sample_dg None) g1 \<and> g_Error g1 = Some (recv_failed e1) \<and>
     (gstep (ClientWait ''tx'') (\<lambda>err. err) wait_timeout)\<^sup>*\<^sup>* g1 g2 \<and>
     g_main g2 = Returned (Some (recv_failed e2))"
  using sample_run_one[of e1] sample_run_both[of e1 e2]
  by (intro exI[of _ "sample_one_failed e1"] exI[of _ "sample_both_failed e1 e2"])
     (simp add: sample_one_failed_def sample_both_failed_def sample_group_def)

lemma wait_same_clients:
  assumes "Wait_run dg g" shows "map fst (g_clients g) = dg_Clients dg"
  using assms unfolding Wait_run_def greach_def
proof (induction rule: rtranclp_induct)
  case base
  then show ?case by (auto simp: Wait_start_def start_group_def comp_def)
next
  case (step g h)
  have keep: "map fst (xs[i := (c, p)]) = map fst xs" if "i < length xs" "xs ! i = (c, p')" for xs i c p p'
    using that by (metis fst_conv list_update_id map_update nth_map)
  show ?case using step(2)
    by cases (use step(3) in \<open>auto simp: set_client_def setError_def keep ClientWait_def
      split: if_splits recv.splits DeliverResponse.splits option.splits\<close>)
qed

text \<open>C6. Waiting never deadlocks: from every state a wait can reach while it is selecting, whatever its
  clients have received so far, the group can still run until each client has left exactly once and
  \<open>Wait\<close> returns the shared error without its deadline passing.\<close>

theorem wait_can_complete:
  assumes "Wait_run dg g" "g_main g = Selecting" "dg_Error dg = None" "list_all dc_Connection (dg_Clients dg)"
  shows "\<exists>g'. Wait_run dg g' \<and> greach (ClientWait (dg_TxID dg)) (\<lambda>err. err) wait_timeout g g' \<and> g_wg g' = 0 \<and>
    g_main g' = Returned (g_Error g') \<and> list_all (\<lambda>cp. exited (snd cp)) (g_clients g')"
proof -
  have ne: "dg_Clients dg \<noteq> []" using assms(2) wait_empty[OF assms(1)] by (auto simp: Wait_start_def)
  have run: "greach (ClientWait (dg_TxID dg)) (\<lambda>err. err) wait_timeout (start_group (dg_Clients dg) None) g"
    using assms(1,3) ne by (simp add: Wait_run_def Wait_start_def)
  have can: "\<exists>ev c' r. ClientWait (dg_TxID dg) c ev = (c', Done r)" if "waiting.undecided g c" for c
  proof -
    have "c \<in> set (map fst (g_clients g))" using that by (force simp: waiting.undecided_def)
    then have "dc_Connection c" using assms(4) wait_same_clients[OF assms(1)] by (simp add: list_all_iff)
    then have "ClientWait (dg_TxID dg) c (RecvErr (ErrExt [])) =
        (c, Done (Some (WithMsg ''error receiving from deliver filtered at %s'' (ErrExt []))))"
      by (simp add: ClientWait_def)
    then show ?thesis by blast
  qed
  obtain g' where g': "greach (ClientWait (dg_TxID dg)) (\<lambda>err. err) wait_timeout g g'" "g_wg g' = 0"
    "g_main g' = Returned (g_Error g')" "list_all (\<lambda>cp. exited (snd cp)) (g_clients g')"
    using waiting.completes[OF run assms(2) can] by blast
  then have "Wait_run dg g'" using assms(1) unfolding Wait_run_def greach_def by (metis rtranclp_trans)
  then show ?thesis using g' by blast
qed

lemma wait_can_complete_witness:
  "\<exists>g'. Wait_run (sample_dg None) g' \<and> g_wg g' = 0 \<and> g_main g' = Returned (g_Error g')"
proof -
  have "Wait_run (sample_dg None) (Wait_start (sample_dg None))" by (simp add: Wait_run_def greach_def)
  then show ?thesis
    using wait_can_complete[of "sample_dg None" "Wait_start (sample_dg None)"]
    by (auto simp: sample_dg_def Wait_start_def start_group_def)
qed

end
