(* ===== verification/OrdererDeliver.thy ===== *)
theory OrdererDeliver
  imports DeliverGroup TxFlow BlockUtil
begin

text \<open>
  Fetching blocks from an orderer: the deliver service of \<open>internal/client/orderer/deliver.go\<close>, the
  deliver client of \<open>orderer.go\<close>, and \<open>FetchBlock\<close> and \<open>FetchConfig\<close> of \<open>internal/channel/list.go\<close>.

  A deliver stream is explicit state: the envelopes sent on it so far and the answers that are still
  to be received, in order. Every operation takes the stream and returns it.
\<close>

section \<open>The stream\<close>

datatype ABResponse = AB_Status int | AB_Block "Block option" | AB_Other string

record stream =
  st_sent :: "Envelope option list"
  st_inbox :: "ABResponse ret list"
  st_send_error :: "Envelope option \<Rightarrow> gerror option"

type_synonym 'a service = "stream \<Rightarrow> 'a outcome \<times> stream"

text \<open>A stream from which everything has been received answers with the end of the stream.\<close>

definition stream_Recv :: "ABResponse service" where
  "stream_Recv st =
     (case st_inbox st of
        [] \<Rightarrow> (Err (ErrExt ''EOF''), st)
      | r # rs \<Rightarrow> (check r, st\<lparr>st_inbox := rs\<rparr>))"

definition stream_Send :: "Envelope option \<Rightarrow> unit service" where
  "stream_Send env st =
     (case st_send_error st env of
        Some err \<Rightarrow> (Err err, st)
      | None \<Rightarrow> (Ok (), st\<lparr>st_sent := st_sent st @ [env]\<rparr>))"

definition sbind :: "'a service \<Rightarrow> ('a \<Rightarrow> 'b service) \<Rightarrow> 'b service" where
  "sbind m f st = (case m st of
     (Ok x, st') \<Rightarrow> f x st'
   | (Err e, st') \<Rightarrow> (Err e, st')
   | (Panic p, st') \<Rightarrow> (Panic p, st'))"

definition service_of :: "'a outcome \<Rightarrow> 'a service" where "service_of m st = (m, st)"

definition service_on_err :: "string \<Rightarrow> 'a service \<Rightarrow> 'a service" where
  "service_on_err msg m st = (let (r, st') = m st in (on_err msg r, st'))"

definition run_service :: "'a service \<Rightarrow> stream \<Rightarrow> ('a \<times> stream) outcome" where
  "run_service m st = (case m st of
     (Ok x, st') \<Rightarrow> Ok (x, st')
   | (Err e, st') \<Rightarrow> Err e
   | (Panic p, st') \<Rightarrow> Panic p)"

lemma run_service_ok [simp]: "run_service m st = Ok (x, st') \<longleftrightarrow> m st = (Ok x, st')"
  by (auto simp: run_service_def split: prod.splits outcome.splits)

lemma sbind_ok [simp]: "sbind m f st = (Ok y, st') \<longleftrightarrow> (\<exists>x st1. m st = (Ok x, st1) \<and> f x st1 = (Ok y, st'))"
  by (auto simp: sbind_def split: prod.splits outcome.splits)

lemma service_of_eq [simp]: "service_of m st = (r, st') \<longleftrightarrow> m = r \<and> st' = st"
  by (auto simp: service_of_def)

lemma service_on_err_ok [simp]: "service_on_err msg m st = (Ok y, st') \<longleftrightarrow> m st = (Ok y, st')"
  by (auto simp: service_on_err_def split: prod.splits)

lemma stream_Send_ok: "stream_Send env st = (Ok u, st') \<longleftrightarrow>
    st_send_error st env = None \<and> st' = st\<lparr>st_sent := st_sent st @ [env]\<rparr>"
  by (auto simp: stream_Send_def split: option.splits)

section \<open>The deliver service\<close>

text \<open>\<open>SeekInfo\<close> with the field \<open>ErrorResponse\<close>, which the deliver group leaves at its default.\<close>

record OrdererSeekInfo = SeekInfo +
  si_BestEffort :: bool

record DeliverService =
  svc_Signer :: "Signer option"
  svc_ChannelID :: string
  svc_TLSCertHash :: bytes
  svc_BestEffort :: bool

text \<open>Parameters: the codecs and the time of the channel header.\<close>

record deliver_lib =
  dl_pb :: pb
  dl_SeekInfo :: "OrdererSeekInfo codec"
  dl_now :: int

text \<open>The envelope is nil when it cannot be made.\<close>

definition seekHelper ::
    "deliver_lib \<Rightarrow> string \<Rightarrow> SeekPosition \<Rightarrow> bytes \<Rightarrow> Signer option \<Rightarrow> bool \<Rightarrow> Envelope option outcome" where
  "seekHelper L channelID position tlsCertHash signer bestEffort =
     (let seekInfo = \<lparr>si_Start = position, si_Stop = position, si_Behavior = BLOCK_UNTIL_READY,
                      si_BestEffort = bestEffort\<rparr> in
      case CreateSignedEnvelopeWithTLSBinding (dl_pb L) (dl_SeekInfo L) (dl_now L) HeaderType_DELIVER_SEEK_INFO
             channelID signer (Some seekInfo) 0 0 tlsCertHash of
        Ok env \<Rightarrow> Ok (Some env)
      | Err _ \<Rightarrow> Ok None
      | Panic p \<Rightarrow> Panic p)"

definition seek :: "deliver_lib \<Rightarrow> DeliverService \<Rightarrow> SeekPosition \<Rightarrow> unit service" where
  "seek L ds position =
     sbind (service_of (seekHelper L (svc_ChannelID ds) position (svc_TLSCertHash ds) (svc_Signer ds)
                          (svc_BestEffort ds))) stream_Send"

definition seekSpecified :: "deliver_lib \<Rightarrow> DeliverService \<Rightarrow> 64 word \<Rightarrow> unit service" where
  "seekSpecified L ds blockNum = seek L ds (SeekSpecified blockNum)"

definition seekOldest :: "deliver_lib \<Rightarrow> DeliverService \<Rightarrow> unit service" where
  "seekOldest L ds = seek L ds SeekOldest"

definition seekNewest :: "deliver_lib \<Rightarrow> DeliverService \<Rightarrow> unit service" where
  "seekNewest L ds = seek L ds SeekNewest"

text \<open>After a block, the message of success is received and dropped, whatever it is.\<close>

definition readBlock :: "Block option service" where
  "readBlock =
     sbind (service_on_err ''error receiving'' stream_Recv) (\<lambda>msg. case msg of
       AB_Status t \<Rightarrow> service_of (Err (Errorf ''can't read the block: %v'' [AInt t]))
     | AB_Block block \<Rightarrow> (\<lambda>st. (Ok block, snd (stream_Recv st)))
     | AB_Other t \<Rightarrow> service_of (Err (Errorf ''response error: unknown type %T'' [AStr t])))"

definition GetSpecifiedBlock :: "deliver_lib \<Rightarrow> DeliverService \<Rightarrow> 64 word \<Rightarrow> Block option service" where
  "GetSpecifiedBlock L ds num =
     sbind (service_on_err ''error getting specified block'' (seekSpecified L ds num)) (\<lambda>_. readBlock)"

definition GetOldestBlock :: "deliver_lib \<Rightarrow> DeliverService \<Rightarrow> Block option service" where
  "GetOldestBlock L ds =
     sbind (service_on_err ''error getting oldest block'' (seekOldest L ds)) (\<lambda>_. readBlock)"

definition GetNewestBlock :: "deliver_lib \<Rightarrow> DeliverService \<Rightarrow> Block option service" where
  "GetNewestBlock L ds =
     sbind (service_on_err ''error getting newest block'' (seekNewest L ds)) (\<lambda>_. readBlock)"

text \<open>An orderer client as far as delivering is concerned: the stream it opens, or the error, and its
  TLS certificates.\<close>

record orderer_client =
  oc_Deliver :: "stream ret"
  oc_Certificate :: "bytes list"

definition GetDeliverClient ::
    "(bytes \<Rightarrow> bytes) \<Rightarrow> (bytes \<Rightarrow> bytes) \<Rightarrow> orderer_client \<Rightarrow> Signer option \<Rightarrow> string \<Rightarrow> bool
       \<Rightarrow> (DeliverService \<times> stream) outcome" where
  "GetDeliverClient sha2 sha3 oc signer channelID bestEffort =
     bind (check (oc_Deliver oc)) (\<lambda>deliver.
     bind (if length (oc_Certificate oc) > 0
           then bind (go_index (oc_Certificate oc) 0) (\<lambda>c. ComputeSHA256 sha2 sha3 c) else Ok []) (\<lambda>tlsCertHash.
     Ok (\<lparr>svc_Signer = signer, svc_ChannelID = channelID, svc_TLSCertHash = tlsCertHash,
          svc_BestEffort = bestEffort\<rparr>, deliver)))"

section \<open>Fetching blocks of a channel\<close>

definition FetchBlock ::
    "deliver_lib \<Rightarrow> (bytes \<Rightarrow> bytes) \<Rightarrow> (bytes \<Rightarrow> bytes) \<Rightarrow> Signer option \<Rightarrow> orderer_client option \<Rightarrow> string
       \<Rightarrow> 64 word \<Rightarrow> (Block option \<times> stream) outcome" where
  "FetchBlock L sha2 sha3 signer oClient channelID blockNum =
     (case oClient of
        None \<Rightarrow> Err (Errorf ''nil orderer client'' [])
      | Some oc \<Rightarrow>
        bind (GetDeliverClient sha2 sha3 oc signer channelID True) (\<lambda>(deliverCli, st).
        run_service (GetSpecifiedBlock L deliverCli blockNum) st))"

definition FetchConfig ::
    "deliver_lib \<Rightarrow> (bytes \<Rightarrow> bytes) \<Rightarrow> (bytes \<Rightarrow> bytes) \<Rightarrow> Signer option \<Rightarrow> orderer_client option \<Rightarrow> string
       \<Rightarrow> (Block option \<times> stream) outcome" where
  "FetchConfig L sha2 sha3 signer ordererCli channelID =
     bind (deref ordererCli) (\<lambda>oc.
     bind (GetDeliverClient sha2 sha3 oc signer channelID True) (\<lambda>(deliverCli, st).
     run_service (sbind (GetNewestBlock L deliverCli) (\<lambda>newestBlock.
       sbind (service_of (GetLastConfigIndexFromBlock (dl_pb L) newestBlock)) (\<lambda>lastConfigIdx.
       GetSpecifiedBlock L deliverCli lastConfigIdx))) st))"

section \<open>What a request asks for\<close>

text \<open>An envelope that asks for one position of a channel, as the orderer reads it.\<close>

definition asks_for :: "deliver_lib \<Rightarrow> string \<Rightarrow> SeekPosition \<Rightarrow> Envelope \<Rightarrow> bool" where
  "asks_for L channelID position env \<longleftrightarrow>
     (\<forall>m0. \<exists>ch m. UnmarshalEnvelopeOfType (dl_pb L) (dl_SeekInfo L) (Some env) HeaderType_DELIVER_SEEK_INFO m0
        = Ok (Some ch, m, None) \<and> ch_ChannelId ch = channelID \<and>
        si_Start m = position \<and> si_Stop m = position \<and> si_Behavior m = BLOCK_UNTIL_READY)"

lemma seek_ok:
  assumes "pb_laws (dl_pb L)" "codec_laws any (dl_SeekInfo L)" "st_send_error st None \<noteq> None"
    and "seek L ds position st = (Ok u, st')"
  shows "\<exists>env. asks_for L (svc_ChannelID ds) position env \<and> st' = st\<lparr>st_sent := st_sent st @ [Some env]\<rparr>"
proof -
  from assms(4) obtain eo where o: "seekHelper L (svc_ChannelID ds) position (svc_TLSCertHash ds) (svc_Signer ds)
      (svc_BestEffort ds) = Ok eo" "st_send_error st eo = None" "st' = st\<lparr>st_sent := st_sent st @ [eo]\<rparr>"
    by (auto simp: seek_def stream_Send_ok)
  with assms(3) obtain env where env: "eo = Some env" by (cases eo) auto
  with o(1) have "CreateSignedEnvelopeWithTLSBinding (dl_pb L) (dl_SeekInfo L) (dl_now L) HeaderType_DELIVER_SEEK_INFO
      (svc_ChannelID ds) (svc_Signer ds)
      (Some \<lparr>si_Start = position, si_Stop = position, si_Behavior = BLOCK_UNTIL_READY,
             si_BestEffort = svc_BestEffort ds\<rparr>) 0 0 (svc_TLSCertHash ds) = Ok env"
    by (auto simp: seekHelper_def Let_def split: outcome.splits)
  then have "asks_for L (svc_ChannelID ds) position env"
    unfolding asks_for_def using signed_envelope_read(1)[OF assms(1,2)] by fastforce
  then show ?thesis using o(3) env by blast
qed

lemma readBlock_ok:
  "readBlock st = (Ok b, st') \<longleftrightarrow>
     (\<exists>rs. st_inbox st = (AB_Block b, None) # rs \<and> st' = st\<lparr>st_inbox := drop 1 rs\<rparr>)"
proof (cases "st_inbox st")
  case (Cons r rs)
  then show ?thesis
    by (cases rs; cases r; cases "fst r"; cases "snd r")
       (auto simp: readBlock_def sbind_def service_on_err_def stream_Recv_def service_of_def)
qed (simp add: readBlock_def sbind_def service_on_err_def stream_Recv_def)

lemma GetDeliverClient_ok:
  "GetDeliverClient sha2 sha3 oc signer channelID bestEffort = Ok (ds, st) \<Longrightarrow>
     svc_ChannelID ds = channelID \<and> oc_Deliver oc = (st, None)"
  by (auto simp: GetDeliverClient_def)

lemma GetSpecifiedBlock_ok:
  assumes "pb_laws (dl_pb L)" "codec_laws any (dl_SeekInfo L)" "st_send_error st None \<noteq> None"
    and "GetSpecifiedBlock L ds n st = (Ok b, st')"
  shows "\<exists>env rs. asks_for L (svc_ChannelID ds) (SeekSpecified n) env \<and> st_inbox st = (AB_Block b, None) # rs \<and>
           st' = st\<lparr>st_sent := st_sent st @ [Some env], st_inbox := drop 1 rs\<rparr>"
proof -
  from assms(4) obtain u st1 where s: "seek L ds (SeekSpecified n) st = (Ok u, st1)" "readBlock st1 = (Ok b, st')"
    by (auto simp: GetSpecifiedBlock_def seekSpecified_def)
  from seek_ok[OF assms(1-3) s(1)] s(2) show ?thesis unfolding readBlock_ok by fastforce
qed

lemma GetNewestBlock_ok:
  assumes "pb_laws (dl_pb L)" "codec_laws any (dl_SeekInfo L)" "st_send_error st None \<noteq> None"
    and "GetNewestBlock L ds st = (Ok b, st')"
  shows "\<exists>env rs. asks_for L (svc_ChannelID ds) SeekNewest env \<and> st_inbox st = (AB_Block b, None) # rs \<and>
           st' = st\<lparr>st_sent := st_sent st @ [Some env], st_inbox := drop 1 rs\<rparr>"
proof -
  from assms(4) obtain u st1 where s: "seek L ds SeekNewest st = (Ok u, st1)" "readBlock st1 = (Ok b, st')"
    by (auto simp: GetNewestBlock_def seekNewest_def)
  from seek_ok[OF assms(1-3) s(1)] s(2) show ?thesis unfolding readBlock_ok by fastforce
qed

text \<open>What the orderer promises of a fresh stream: it answers the \<open>i\<close>-th request with two messages,
  a block and a status. \<open>st_answers\<close> says that the answers waiting on the stream are of that form.\<close>

definition st_answers :: "stream \<Rightarrow> (Block option \<times> ABResponse ret) list \<Rightarrow> bool" where
  "st_answers st bs \<longleftrightarrow> st_inbox st = concat (map (\<lambda>(b, s). [(AB_Block b, None), s]) bs)"

section \<open>Theorems\<close>

text \<open>C22. \<open>FetchConfig\<close> asks for two blocks on one stream, the newest one and then the one that the
  newest names as the last configuration, and returns the answer to the second request: the status
  message between the two blocks is not mistaken for an answer. The comment on the function, in
  \<open>list.go\<close>, says that it fetches the genesis block of the channel, its first: once the configuration
  has been updated that is another block.\<close>

theorem fetch_config_follows_newest:
  assumes "pb_laws (dl_pb L)" "codec_laws any (dl_SeekInfo L)"
    and "oc_Deliver oc = (st, None)" "st_send_error st None \<noteq> None" "st_sent st = []"
    and "st_answers st [(newest, s1), (cfg, s2)]"
    and "FetchConfig L sha2 sha3 signer (Some oc) channelID = Ok (b, st')"
  shows "\<exists>i env1 env2. GetLastConfigIndexFromBlock (dl_pb L) newest = Ok i \<and> b = cfg \<and>
           st_sent st' = [Some env1, Some env2] \<and> asks_for L channelID SeekNewest env1 \<and>
           asks_for L channelID (SeekSpecified i) env2 \<and> st_inbox st' = []"
proof -
  from assms(3,7) obtain ds nb i st1 where
    d: "svc_ChannelID ds = channelID" "GetNewestBlock L ds st = (Ok nb, st1)"
      "GetLastConfigIndexFromBlock (dl_pb L) nb = Ok i" "GetSpecifiedBlock L ds i st1 = (Ok b, st')"
    by (fastforce simp: FetchConfig_def dest: GetDeliverClient_ok)
  from GetNewestBlock_ok[OF assms(1,2,4) d(2)] obtain env1 rs where
    n: "asks_for L (svc_ChannelID ds) SeekNewest env1" "st_inbox st = (AB_Block nb, None) # rs"
      "st1 = st\<lparr>st_sent := st_sent st @ [Some env1], st_inbox := drop 1 rs\<rparr>" by blast
  have "st_send_error st1 None \<noteq> None" using assms(4) n(3) by simp
  from GetSpecifiedBlock_ok[OF assms(1,2) this d(4)] obtain env2 rs2 where
    s: "asks_for L (svc_ChannelID ds) (SeekSpecified i) env2" "st_inbox st1 = (AB_Block b, None) # rs2"
      "st' = st1\<lparr>st_sent := st_sent st1 @ [Some env2], st_inbox := drop 1 rs2\<rparr>" by blast
  have "nb = newest" "rs = [s1, (AB_Block cfg, None), s2]" using n(2) assms(6) by (simp_all add: st_answers_def)
  then have "b = cfg" "rs2 = [s2]" using s(2) n(3) by simp_all
  then show ?thesis using d n s assms(5) \<open>nb = newest\<close>
    by (intro exI[of _ i] exI[of _ env1] exI[of _ env2]) simp
qed

text \<open>An orderer whose newest block, 9, names block 3 as the last configuration.\<close>

definition od_block :: "64 word \<Rightarrow> Block" where
  "od_block n = \<lparr>blk_Header = Some \<lparr>bh_Number = n, bh_PreviousHash = [], bh_DataHash = []\<rparr>, blk_Data = None,
     blk_Metadata = Some \<lparr>bm_Metadata = [[0]]\<rparr>\<rparr>"

definition od_seek :: "SeekPosition \<Rightarrow> OrdererSeekInfo" where
  "od_seek pos = \<lparr>si_Start = pos, si_Stop = pos, si_Behavior = BLOCK_UNTIL_READY, si_BestEffort = True\<rparr>"

definition od_payload :: "bytes \<Rightarrow> Payload" where
  "od_payload d = \<lparr>payl_Header = Some \<lparr>hdr_ChannelHeader = Some [0], hdr_SignatureHeader = Some [0]\<rparr>, payl_Data = d\<rparr>"

definition od_pb :: pb where
  "od_pb = sample_pb\<lparr>
     pb_ChannelHeader := table_codec [MakeChannelHeader 0 HeaderType_DELIVER_SEEK_INFO 0 ''ch'' 0],
     pb_SignatureHeader := table_codec [\<lparr>sh_Creator = [], sh_Nonce = []\<rparr>],
     pb_Payload := table_codec [od_payload [0], od_payload [0, 0]],
     pb_Metadata := table_codec [\<lparr>md_Value = [0]\<rparr>],
     pb_OrdererBlockMetadata := table_codec [\<lparr>obm_LastConfig = Some \<lparr>lc_Index = 3\<rparr>\<rparr>]\<rparr>"

definition od_lib :: deliver_lib where
  "od_lib = \<lparr>dl_pb = od_pb, dl_SeekInfo = table_codec [od_seek SeekNewest, od_seek (SeekSpecified 3)], dl_now = 0\<rparr>"

definition od_stream :: stream where
  "od_stream = \<lparr>st_sent = [],
     st_inbox = [(AB_Block (Some (od_block 9)), None), (AB_Status 200, None),
                 (AB_Block (Some (od_block 3)), None), (AB_Status 200, None)],
     st_send_error = (\<lambda>env. if env = None then Some (ErrExt ''nil'') else None)\<rparr>"

definition od_client :: orderer_client where
  "od_client = \<lparr>oc_Deliver = (od_stream, None), oc_Certificate = []\<rparr>"

lemma od_laws: "pb_laws (dl_pb od_lib)" "codec_laws any (dl_SeekInfo od_lib)"
proof -
  have "codec_norm any norm_payload (table_codec [od_payload [0], od_payload [0, 0]])"
    by (rule table_codec_norm) (simp add: od_payload_def norm_payload_def norm_header_def)
  then show "pb_laws (dl_pb od_lib)" "codec_laws any (dl_SeekInfo od_lib)"
    using sample_pb_laws by (simp_all add: od_lib_def pb_laws_def od_pb_def)
qed

lemma od_index: "GetLastConfigIndexFromBlock od_pb (Some (od_block n)) = Ok 3"
  by (simp add: GetLastConfigIndexFromBlock_def GetMetadataFromBlock_def od_block_def od_pb_def table_codec_simps
      go_index_def)

lemma od_seekHelper:
  "seekHelper od_lib ''ch'' SeekNewest [] None True = Ok (Some \<lparr>env_Payload = [0], env_Signature = []\<rparr>)"
  "seekHelper od_lib ''ch'' (SeekSpecified 3) [] None True = Ok (Some \<lparr>env_Payload = [0, 0], env_Signature = []\<rparr>)"
  by (simp_all add: seekHelper_def CreateSignedEnvelopeWithTLSBinding_def MakePayloadHeader_def MarshalOrPanic_def
      od_lib_def od_pb_def od_seek_def od_payload_def MakeChannelHeader_def table_codec_simps)

lemma od_fetch:
  "FetchConfig od_lib (\<lambda>x. x) (\<lambda>x. x) None (Some od_client) ''ch''
     = Ok (Some (od_block 3), od_stream\<lparr>st_sent := [Some \<lparr>env_Payload = [0], env_Signature = []\<rparr>,
             Some \<lparr>env_Payload = [0, 0], env_Signature = []\<rparr>], st_inbox := []\<rparr>)"
proof -
  have l: "dl_pb od_lib = od_pb" by (simp add: od_lib_def)
  show ?thesis
    by (simp add: FetchConfig_def GetDeliverClient_def od_client_def run_service_def sbind_def GetNewestBlock_def
        GetSpecifiedBlock_def service_on_err_def seekNewest_def seekSpecified_def seek_def service_of_def
        od_seekHelper stream_Send_def readBlock_def stream_Recv_def od_stream_def l od_index)
qed

lemma fetch_config_follows_newest_witness:
  "\<exists>env1 env2. GetLastConfigIndexFromBlock od_pb (Some (od_block 9)) = Ok 3 \<and>
     asks_for od_lib ''ch'' SeekNewest env1 \<and> asks_for od_lib ''ch'' (SeekSpecified 3) env2"
proof -
  have a: "st_answers od_stream [(Some (od_block 9), (AB_Status 200, None)), (Some (od_block 3), (AB_Status 200, None))]"
    by (simp add: st_answers_def od_stream_def)
  have c: "oc_Deliver od_client = (od_stream, None)" "st_send_error od_stream None \<noteq> None" "st_sent od_stream = []"
    by (simp_all add: od_client_def od_stream_def)
  have l: "dl_pb od_lib = od_pb" by (simp add: od_lib_def)
  from fetch_config_follows_newest[OF od_laws c a od_fetch] show ?thesis
    unfolding l od_index by auto
qed

text \<open>A block request that cannot be signed or marshalled is not an error of its own: a nil
  envelope is sent in its place, and only the transport can refuse it.\<close>

lemma unsigned_seek_sends_nil:
  assumes "CreateSignedEnvelopeWithTLSBinding (dl_pb L) (dl_SeekInfo L) (dl_now L) HeaderType_DELIVER_SEEK_INFO
      (svc_ChannelID ds) (svc_Signer ds)
      (Some \<lparr>si_Start = SeekSpecified n, si_Stop = SeekSpecified n, si_Behavior = BLOCK_UNTIL_READY,
             si_BestEffort = svc_BestEffort ds\<rparr>) 0 0 (svc_TLSCertHash ds) = Err e"
  shows "seekSpecified L ds n st = stream_Send None st"
  using assms by (simp add: seekSpecified_def seek_def seekHelper_def sbind_def service_of_def)

lemma unsigned_seek_sends_nil_witness:
  "seekSpecified od_lib \<lparr>svc_Signer = None, svc_ChannelID = ''ch'', svc_TLSCertHash = [], svc_BestEffort = True\<rparr> 7 od_stream
     = stream_Send None od_stream"
proof (rule unsigned_seek_sends_nil)
  show "CreateSignedEnvelopeWithTLSBinding (dl_pb od_lib) (dl_SeekInfo od_lib) (dl_now od_lib) HeaderType_DELIVER_SEEK_INFO
      (svc_ChannelID \<lparr>svc_Signer = None, svc_ChannelID = ''ch'', svc_TLSCertHash = [], svc_BestEffort = True\<rparr>)
      (svc_Signer \<lparr>svc_Signer = None, svc_ChannelID = ''ch'', svc_TLSCertHash = [], svc_BestEffort = True\<rparr>)
      (Some \<lparr>si_Start = SeekSpecified 7, si_Stop = SeekSpecified 7, si_Behavior = BLOCK_UNTIL_READY,
             si_BestEffort = svc_BestEffort \<lparr>svc_Signer = None, svc_ChannelID = ''ch'', svc_TLSCertHash = [],
               svc_BestEffort = True\<rparr>\<rparr>) 0 0
      (svc_TLSCertHash \<lparr>svc_Signer = None, svc_ChannelID = ''ch'', svc_TLSCertHash = [], svc_BestEffort = True\<rparr>)
    = Err (WithMsg ''error marshaling'' (ErrExt ''proto: cannot encode''))"
    by (simp add: CreateSignedEnvelopeWithTLSBinding_def od_lib_def od_seek_def table_codec_simps)
qed

end
