(* ===== verification/Submit.thy ===== *)
theory Submit
  imports DeliverGroup TxFlow "HOL-Library.Multiset"
begin

text \<open>
  Submitting a transaction: \<open>internal/chaincode/config.go\<close> and \<open>invoke.go\<close>, with
  \<open>GetSignedProposal\<close> of \<open>internal/cryptoutil/signer.go\<close> and the broadcast client of
  \<open>internal/client/orderer/orderer.go\<close>.

  An operation of this layer talks to peers and orderers, and the order of what it does matters.
  Its model is a \<open>run\<close>: the events it causes, in order, and its outcome. What the network answers
  is a parameter, the record \<open>network\<close>; how a deliver group ends is decided by the schedule of its
  goroutines (theory DeliverGroup) and is the parameter \<open>group_runs\<close>.
\<close>

section \<open>Runs\<close>

datatype event = EvEndorse nat SignedProposal | EvOpen | EvConnect | EvSend "Envelope option" | EvCloseSend | EvWait

type_synonym 'a run = "event list \<times> 'a outcome"

definition pure_run :: "'a outcome \<Rightarrow> 'a run" where "pure_run m = ([], m)"

definition emit :: "event \<Rightarrow> unit run" where "emit e = ([e], Ok ())"

definition rbind :: "'a run \<Rightarrow> ('a \<Rightarrow> 'b run) \<Rightarrow> 'b run" where
  "rbind m f = (case snd m of
     Ok x \<Rightarrow> (fst m @ fst (f x), snd (f x))
   | Err e \<Rightarrow> (fst m, Err e)
   | Panic p \<Rightarrow> (fst m, Panic p))"

text \<open>\<open>if err != nil { return errors.WithMessage(err, msg) }\<close> on what a step of a run returned.\<close>

definition run_error :: "gerror option \<Rightarrow> unit run" where
  "run_error err = (case err of None \<Rightarrow> pure_run (Ok ()) | Some e \<Rightarrow> pure_run (Err e))"

lemma rbind_ok [simp]:
  "rbind m f = (t, Ok y) \<longleftrightarrow> (\<exists>t1 x t2. m = (t1, Ok x) \<and> f x = (t2, Ok y) \<and> t = t1 @ t2)"
  by (cases m; cases "snd m"; cases "f (case snd m of Ok x \<Rightarrow> x)") (auto simp: rbind_def)

lemma pure_run_ok [simp]: "pure_run m = (t, r) \<longleftrightarrow> t = [] \<and> m = r"
  by (auto simp: pure_run_def)

lemma run_ok [simp]:
  "emit e = (t, r) \<longleftrightarrow> t = [e] \<and> r = Ok ()"
  "run_error err = (t, Ok u) \<longleftrightarrow> t = [] \<and> err = None"
  by (auto simp: emit_def run_error_def split: option.splits)

lemma pure_run_trace [simp]: "fst (pure_run m) = []" "snd (pure_run m) = m"
  by (simp_all add: pure_run_def)

lemma run_trace [simp]: "fst (emit e) = [e]" "fst (run_error err) = []" "snd (emit e) = Ok ()"
  by (simp_all add: emit_def run_error_def split: option.splits)

lemma fst_rbind: "fst (rbind m f) = fst m @ (case snd m of Ok x \<Rightarrow> fst (f x) | _ \<Rightarrow> [])"
  by (cases "snd m") (simp_all add: rbind_def)

lemma snd_rbind: "snd (rbind m f) = bind (snd m) (\<lambda>x. snd (f x))"
  by (cases "snd m") (simp_all add: rbind_def)

section \<open>The network\<close>

text \<open>What \<open>Recv\<close> on a broadcast stream answers.\<close>

record BroadcastResponse =
  br_Status :: int
  br_Info :: string

text \<open>An orderer: the error of opening a broadcast stream, and of the stream the error of sending an
  envelope and the answer received after it.\<close>

record orderer =
  ord_Broadcast :: "gerror option"
  ord_Send :: "Envelope option \<Rightarrow> gerror option"
  ord_Recv :: "BroadcastResponse option ret"

type_synonym endorser = "SignedProposal \<Rightarrow> ProposalResponse option ret"

record CommonFactory =
  cf_Committer :: "endorser option"
  cf_Endorsers :: "endorser list"
  cf_Delivers :: nat
  cf_PeerAddresses :: "string list"
  cf_OClient :: "orderer option"
  cf_TLSCert :: "bytes list"

text \<open>How \<open>Connect\<close> and \<open>Wait\<close> of a deliver group end: the error, and the group after connecting.\<close>

record group_runs =
  gr_Connect :: "DeliverGroup \<Rightarrow> gerror option \<times> DeliverGroup"
  gr_Wait :: "DeliverGroup \<Rightarrow> gerror option"

abbreviation Status_SUCCESS :: int where "Status_SUCCESS \<equiv> 200"

definition getAck :: "orderer \<Rightarrow> unit outcome" where
  "getAck bc =
     bind (check (ord_Recv bc)) (\<lambda>m. bind (deref m) (\<lambda>msg.
     if br_Status msg \<noteq> Status_SUCCESS
     then Err (Errorf ''got unexpected status: %v -- %s'' [AInt (br_Status msg), AStr (br_Info msg)])
     else Ok ()))"

definition broadcast_Send :: "orderer \<Rightarrow> Envelope option \<Rightarrow> unit run" where
  "broadcast_Send bc env =
     rbind (emit (EvSend env)) (\<lambda>_.
     case ord_Send bc env of
       Some err \<Rightarrow> pure_run (Err (WithMsg ''could not send'' err))
     | None \<Rightarrow> pure_run (getAck bc))"

definition GetBroadcastClient :: "orderer \<Rightarrow> orderer run" where
  "GetBroadcastClient oc =
     (case ord_Broadcast oc of
        Some err \<Rightarrow> pure_run (Err err)
      | None \<Rightarrow> rbind (emit EvOpen) (\<lambda>_. pure_run (Ok oc)))"

section \<open>Signing and assembling\<close>

definition cryptoutil_GetSignedProposal :: "pb \<Rightarrow> Proposal option \<Rightarrow> Signer \<Rightarrow> SignedProposal outcome" where
  "cryptoutil_GetSignedProposal P prop signer =
     bind (check (Marshal (pb_Proposal P) prop)) (\<lambda>propBytes.
     bind (check (sg_Sign signer propBytes)) (\<lambda>signature.
     Ok \<lparr>sp_ProposalBytes = propBytes, sp_Signature = signature\<rparr>))"

text \<open>The loop over the responses is the one of \<open>utils.CreateSignedTx\<close>, with two lines of output.\<close>

definition createSignedTx ::
    "pb \<Rightarrow> Proposal option \<Rightarrow> Signer \<Rightarrow> ProposalResponse option list \<Rightarrow> Envelope outcome" where
  "createSignedTx P proposal signer resps =
     (if resps = [] then Err (ErrNew ''at least one proposal response is required'')
      else
      bind (deref proposal) (\<lambda>prop.
      bind (on_err ''get header'' (check (UnmarshalHeader P (prop_Header prop)))) (\<lambda>hdr.
      bind (on_err ''get chaincode proposal payload''
              (check (UnmarshalChaincodeProposalPayload P (prop_Payload prop)))) (\<lambda>payload.
      bind (on_err ''get creator'' (check (sg_Serialize signer))) (\<lambda>signedBytes.
      bind (on_err ''get sign header''
              (check (UnmarshalSignatureHeader P (slice_bytes (hdr_SignatureHeader hdr))))) (\<lambda>shdr.
      if signedBytes \<noteq> sh_Creator shdr
      then Err (ErrNew ''signer must be the same as the one referenced in the header'')
      else
      bind (check_responses 0 [] resps) (\<lambda>_.
      bind (map_outcome (\<lambda>p. bind (deref p) (\<lambda>r. Ok (pr_Endorsement r))) resps) (\<lambda>endorsements.
      bind (deref (hd resps)) (\<lambda>r0.
      bind (GetBytesProposalPayloadForTx P (Some payload)) (\<lambda>propPayloadBytes.
      bind (check (GetBytesChaincodeActionPayload P
              (Some \<lparr>cap_ChaincodeProposalPayload = Some propPayloadBytes,
                     cap_Action = Some \<lparr>cea_ProposalResponsePayload = pr_Payload r0,
                                        cea_Endorsements = endorsements\<rparr>\<rparr>))) (\<lambda>capBytes.
      bind (check (GetBytesTransaction P
              (Some \<lparr>tx_Actions = [Some \<lparr>ta_Header = slice_bytes (hdr_SignatureHeader hdr),
                                         ta_Payload = capBytes\<rparr>]\<rparr>))) (\<lambda>txBytes.
      bind (check (GetBytesPayload P (Some \<lparr>payl_Header = Some hdr, payl_Data = txBytes\<rparr>)))
        (\<lambda>paylBytes.
      bind (check (sg_Sign signer paylBytes)) (\<lambda>sig.
      Ok \<lparr>env_Payload = paylBytes, env_Signature = sig\<rparr>))))))))))))))"

section \<open>Broadcasting\<close>

text \<open>Making a deliver group and connecting it, which \<open>deliver\<close> and \<open>broadcastProposalEnvelope\<close> do in
  the same way; \<open>deliver\<close> drops the group.\<close>

definition connect_group ::
    "group_runs \<Rightarrow> CommonFactory \<Rightarrow> Signer \<Rightarrow> string \<Rightarrow> string \<Rightarrow> DeliverGroup run" where
  "connect_group G cf signer channelID txID =
     rbind (pure_run (NewDeliverGroup (cf_Delivers cf) (cf_PeerAddresses cf) (Some signer)
                        (cf_TLSCert cf) channelID txID)) (\<lambda>dg.
     rbind (emit EvConnect) (\<lambda>_.
     rbind (run_error (errors_Wrap (fst (gr_Connect G dg)) ''fail to connect deliver group'')) (\<lambda>_.
     pure_run (Ok (snd (gr_Connect G dg))))))"

definition CommonFactory_deliver ::
    "group_runs \<Rightarrow> CommonFactory \<Rightarrow> Signer \<Rightarrow> string \<Rightarrow> string \<Rightarrow> unit run" where
  "CommonFactory_deliver G cf signer channelID txID =
     rbind (connect_group G cf signer channelID txID) (\<lambda>_. pure_run (Ok ()))"

definition send_and_wait :: "group_runs \<Rightarrow> orderer \<Rightarrow> Envelope option \<Rightarrow> DeliverGroup option \<Rightarrow> unit run" where
  "send_and_wait G broadcastClient env dg =
     (let (t, sent) = broadcast_Send broadcastClient env in
      case sent of
        Panic p \<Rightarrow> (t, Panic p)
      | Err e \<Rightarrow> (t @ [EvCloseSend], Err e)
      | Ok _ \<Rightarrow> rbind (t @ [EvCloseSend], Ok ()) (\<lambda>_.
          case dg of
            None \<Rightarrow> pure_run (Ok ())
          | Some g \<Rightarrow> rbind (emit EvWait) (\<lambda>_.
              run_error (errors_Wrap (gr_Wait G g) ''fail to wait for delivering''))))"

definition broadcastProposalEnvelope ::
    "pb \<Rightarrow> group_runs \<Rightarrow> Signer \<Rightarrow> Proposal option \<Rightarrow> CommonFactory \<Rightarrow> string \<Rightarrow> string \<Rightarrow> int
       \<Rightarrow> ProposalResponse option list \<Rightarrow> unit run" where
  "broadcastProposalEnvelope P G signer proposal cf channelID txID timeout responses =
     rbind (pure_run (createSignedTx P proposal signer responses)) (\<lambda>env.
     rbind (pure_run (deref (cf_OClient cf))) (\<lambda>oc.
     rbind (GetBroadcastClient oc) (\<lambda>broadcastClient.
     rbind (if timeout > 0
            then rbind (connect_group G cf signer channelID txID) (\<lambda>dg. pure_run (Ok (Some dg)))
            else pure_run (Ok None)) (\<lambda>dg.
     send_and_wait G broadcastClient (Some env) dg))))"

section \<open>Invoking and querying a chaincode\<close>

text \<open>\<open>time.Duration\<close> is an \<open>int\<close>. The transient field is JSON in a string.\<close>

record InvokeSpec =
  is_Name :: string
  is_Version :: string
  is_Lang :: string
  is_Args :: "bytes list"
  is_Path :: string
  is_Transient :: string
  is_IsInit :: bool
  is_Timeout :: int

text \<open>What a proposal draws from outside: the codecs, SHA-256, the random nonce, the time stamp and
  \<open>json.Unmarshal\<close> into a map.\<close>

record proposer =
  pp_pb :: pb
  pp_sha2 :: "bytes \<Rightarrow> bytes"
  pp_rnd :: "bytes ret"
  pp_ts :: "Timestamp ret"
  pp_json_map :: "string \<Rightarrow> (string \<rightharpoonup> bytes) ret"

text \<open>\<open>strings.ToUpper\<close> on ASCII, and \<open>ChaincodeSpec_Type_value\<close>, where a missing key reads 0.\<close>

definition to_upper :: "string \<Rightarrow> string" where
  "to_upper s = map (\<lambda>c. if (97::nat) \<le> of_char c \<and> of_char c \<le> (122::nat)
                          then char_of (of_char c - (32::nat)) else c) s"

definition ChaincodeSpec_Type_value :: "string \<Rightarrow> int" where
  "ChaincodeSpec_Type_value s =
     (if s = ''GOLANG'' then ChaincodeSpec_GOLANG
      else if s = ''NODE'' then ChaincodeSpec_NODE
      else if s = ''CAR'' then 3
      else if s = ''JAVA'' then ChaincodeSpec_JAVA
      else ChaincodeSpec_UNDEFINED)"

definition createInvocationProposal ::
    "proposer \<Rightarrow> Signer \<Rightarrow> InvokeSpec \<Rightarrow> string \<Rightarrow> (Proposal \<times> string) outcome" where
  "createInvocationProposal E signer spec channelID =
     (let chaincodeLang = to_upper (is_Lang spec);
          chaincodeSpec = \<lparr>cspec_Type = ChaincodeSpec_Type_value chaincodeLang,
            cspec_ChaincodeId = Some \<lparr>ccid_Path = is_Path spec, ccid_Name = is_Name spec,
                                      ccid_Version = is_Version spec\<rparr>,
            cspec_Input = Some \<lparr>cin_Args = is_Args spec, cin_IsInit = is_IsInit spec\<rparr>\<rparr>;
          invocation = \<lparr>cis_ChaincodeSpec = Some chaincodeSpec\<rparr> in
      bind (if is_Transient spec \<noteq> []
            then on_err ''error parsing transient string'' (check (pp_json_map E (is_Transient spec)))
            else Ok Map.empty) (\<lambda>tMap.
      bind (on_err ''fail to serialize'' (check (sg_Serialize signer))) (\<lambda>creator.
      CreateChaincodeProposalWithTxIDAndTransient (pp_pb E) (pp_sha2 E) (pp_rnd E) (pp_ts E)
        HeaderType_ENDORSER_TRANSACTION channelID (Some invocation) creator '''' tMap)))"

text \<open>
  \<open>processProposal\<close> starts one goroutine per endorser and reads the two channels after all have
  finished. \<open>arrival\<close> lists the endorsers in the order in which their goroutines write to their
  channel; the error that is returned is the first one written, and the responses are in the order
  written.
\<close>

definition processProposal ::
    "nat list \<Rightarrow> SignedProposal \<Rightarrow> CommonFactory \<Rightarrow> ProposalResponse option list run" where
  "processProposal arrival signedProp cf =
     (let answers = map (\<lambda>i. (cf_Endorsers cf ! i) signedProp) arrival;
          errorCh = List.map_filter snd answers;
          responsesCh = map fst (filter (\<lambda>a. snd a = None) answers) in
      (map (\<lambda>i. EvEndorse i signedProp) arrival,
       case errorCh of err # _ \<Rightarrow> Err err | [] \<Rightarrow> Ok responsesCh))"

text \<open>The schedules: every endorser's goroutine writes once.\<close>

definition arrivals :: "CommonFactory \<Rightarrow> nat list \<Rightarrow> bool" where
  "arrivals cf arrival \<longleftrightarrow> mset arrival = mset [0..<length (cf_Endorsers cf)]"

record TxResponse =
  tr_TxID :: string
  tr_Response :: "Response option"

text \<open>\<open>shim.ERRORTHRESHOLD\<close> of \<open>fabric-chaincode-go\<close>.\<close>

abbreviation ERRORTHRESHOLD :: int where "ERRORTHRESHOLD \<equiv> 400"

text \<open>The result is a pair, since an error of the broadcast is returned beside the response; an
  \<open>Err\<close> stands for a nil response beside the error. \<open>after_endorsement\<close> is what \<open>invokeOrQeury\<close> does
  with the responses.\<close>

definition after_endorsement ::
    "pb \<Rightarrow> group_runs \<Rightarrow> Signer \<Rightarrow> CommonFactory \<Rightarrow> int \<Rightarrow> string \<Rightarrow> bool \<Rightarrow> Proposal \<Rightarrow> string
       \<Rightarrow> ProposalResponse option list \<Rightarrow> TxResponse ret run" where
  "after_endorsement P G signer cf timeout channelID invoke propsal txID proposalResps =
     (if length proposalResps = 0
      then pure_run (Err (ErrNew ''no proposal responses received - this might indicate a bug''))
      else
      rbind (pure_run (deref (hd proposalResps))) (\<lambda>proposalResp.
      rbind (pure_run (deref (pr_Response proposalResp))) (\<lambda>resp.
      let response = \<lparr>tr_TxID = txID, tr_Response = Some resp\<rparr> in
      if resp_Status resp \<ge> ERRORTHRESHOLD then pure_run (Ok (response, None))
      else if invoke
      then (case broadcastProposalEnvelope P G signer (Some propsal) cf channelID txID timeout proposalResps of
              (t, Ok _) \<Rightarrow> (t, Ok (response, None))
            | (t, Err err) \<Rightarrow> (t, Ok (response, Some err))
            | (t, Panic p) \<Rightarrow> (t, Panic p))
      else pure_run (Ok (response, None)))))"

definition invokeOrQeury ::
    "proposer \<Rightarrow> group_runs \<Rightarrow> nat list \<Rightarrow> Signer \<Rightarrow> CommonFactory \<Rightarrow> InvokeSpec \<Rightarrow> string \<Rightarrow> bool
       \<Rightarrow> TxResponse ret run" where
  "invokeOrQeury E G arrival signer cf spec channelID invoke =
     rbind (pure_run (createInvocationProposal E signer spec channelID)) (\<lambda>(propsal, txID).
     rbind (pure_run (cryptoutil_GetSignedProposal (pp_pb E) (Some propsal) signer)) (\<lambda>signeProp.
     rbind (processProposal arrival signeProp cf) (\<lambda>proposalResps.
     after_endorsement (pp_pb E) G signer cf (is_Timeout spec) channelID invoke propsal txID proposalResps)))"

definition Invoke ::
    "proposer \<Rightarrow> group_runs \<Rightarrow> nat list \<Rightarrow> Signer \<Rightarrow> CommonFactory \<Rightarrow> InvokeSpec \<Rightarrow> string
       \<Rightarrow> TxResponse run" where
  "Invoke E G arrival signer cf spec channelID =
     rbind (invokeOrQeury E G arrival signer cf spec channelID True) (\<lambda>r. pure_run (check r))"

definition Query ::
    "proposer \<Rightarrow> group_runs \<Rightarrow> nat list \<Rightarrow> Signer \<Rightarrow> CommonFactory \<Rightarrow> InvokeSpec \<Rightarrow> string
       \<Rightarrow> TxResponse ret run" where
  "Query E G arrival signer cf spec channelID =
     invokeOrQeury E G arrival signer cf spec channelID False"

record ProcessProposalResult =
  ppr_txID :: string
  ppr_proposal :: Proposal
  ppr_Responses :: "ProposalResponse option list"

definition SendTransaction ::
    "proposer \<Rightarrow> nat list \<Rightarrow> Signer \<Rightarrow> CommonFactory \<Rightarrow> InvokeSpec \<Rightarrow> string \<Rightarrow> ProcessProposalResult run" where
  "SendTransaction E arrival signer cf spec channelID =
     rbind (pure_run (createInvocationProposal E signer spec channelID)) (\<lambda>(proposal, txID).
     rbind (pure_run (cryptoutil_GetSignedProposal (pp_pb E) (Some proposal) signer)) (\<lambda>signeProp.
     rbind (processProposal arrival signeProp cf) (\<lambda>proposalResps.
     pure_run (Ok \<lparr>ppr_txID = txID, ppr_proposal = proposal, ppr_Responses = proposalResps\<rparr>))))"

section \<open>The two assemblers of a transaction\<close>

text \<open>Two computations with the same results and the same panics, and perhaps different errors.\<close>

definition same_result :: "'a outcome \<Rightarrow> 'a outcome \<Rightarrow> bool" where
  "same_result m n \<longleftrightarrow> (\<forall>x. m = Ok x \<longleftrightarrow> n = Ok x) \<and> (\<forall>p. m = Panic p \<longleftrightarrow> n = Panic p)"

lemma same_result_refl [simp]: "same_result m m"
  by (simp add: same_result_def)

lemma same_result_on_err [simp]: "same_result (on_err msg m) m"
  by (simp add: same_result_def)

lemma same_result_bind:
  "same_result m n \<Longrightarrow> (\<And>x. same_result (f x) (g x)) \<Longrightarrow> same_result (bind m f) (bind n g)"
  by (cases m; cases n) (simp_all add: same_result_def, metis)

lemma createSignedTx_same: "same_result (createSignedTx P proposal sg resps) (CreateSignedTx P proposal sg resps)"
  unfolding createSignedTx_def CreateSignedTx_def by (simp add: same_result_bind)

lemma createSignedTx_ok: "createSignedTx P proposal sg resps = Ok env \<longleftrightarrow> CreateSignedTx P proposal sg resps = Ok env"
  using createSignedTx_same[of P proposal sg resps] by (simp add: same_result_def)

section \<open>What a run did\<close>

lemma broadcast_Send_ok:
  "broadcast_Send bc env = (t, Ok u) \<longleftrightarrow>
     t = [EvSend env] \<and> ord_Send bc env = None \<and>
     (\<exists>ack. ord_Recv bc = (Some ack, None) \<and> br_Status ack = Status_SUCCESS)"
  by (auto simp: broadcast_Send_def getAck_def pure_run_def split: option.splits if_splits)

lemma fst_broadcast_Send [simp]: "fst (broadcast_Send bc env) = [EvSend env]"
  by (simp add: broadcast_Send_def fst_rbind split: option.splits)

text \<open>The events of connecting: at most \<open>EvConnect\<close>, and exactly that when it succeeds.\<close>

lemma connect_group_ok:
  "connect_group G cf sg ch txid = (t, Ok dg') \<longleftrightarrow> t = [EvConnect] \<and>
     (\<exists>dg. NewDeliverGroup (cf_Delivers cf) (cf_PeerAddresses cf) (Some sg) (cf_TLSCert cf) ch txid = Ok dg \<and>
        fst (gr_Connect G dg) = None \<and> dg' = snd (gr_Connect G dg))"
  by (auto simp: connect_group_def)

lemma GetBroadcastClient_ok:
  "GetBroadcastClient oc = (t, Ok bc) \<longleftrightarrow> t = [EvOpen] \<and> bc = oc \<and> ord_Broadcast oc = None"
  by (auto simp: GetBroadcastClient_def split: option.splits)

lemma send_and_wait_ok:
  "send_and_wait G oc env dg = (t, Ok u) \<longleftrightarrow>
     t = [EvSend env, EvCloseSend] @ (if dg = None then [] else [EvWait]) \<and>
     ord_Send oc env = None \<and> (\<exists>ack. ord_Recv oc = (Some ack, None) \<and> br_Status ack = Status_SUCCESS) \<and>
     (\<forall>g. dg = Some g \<longrightarrow> gr_Wait G g = None)"
proof (cases "broadcast_Send oc env")
  case (Pair ts sent)
  then have "ts = [EvSend env]" using fst_broadcast_Send[of oc env] by simp
  moreover have "(\<exists>v. sent = Ok v) \<longleftrightarrow> ord_Send oc env = None \<and>
      (\<exists>ack. ord_Recv oc = (Some ack, None) \<and> br_Status ack = Status_SUCCESS)"
    using broadcast_Send_ok[of oc env ts] Pair \<open>ts = [EvSend env]\<close> by (cases sent) auto
  ultimately show ?thesis
    unfolding send_and_wait_def Pair by (cases sent; cases dg) auto
qed

lemma broadcast_ok:
  assumes "broadcastProposalEnvelope P G sg proposal cf ch txid timeout resps = (t, Ok u)"
  shows "\<exists>env oc ack. createSignedTx P proposal sg resps = Ok env \<and> cf_OClient cf = Some oc \<and>
     ord_Broadcast oc = None \<and> ord_Send oc (Some env) = None \<and>
     ord_Recv oc = (Some ack, None) \<and> br_Status ack = Status_SUCCESS \<and>
     t = [EvOpen] @ (if timeout > 0 then [EvConnect] else []) @ [EvSend (Some env), EvCloseSend]
           @ (if timeout > 0 then [EvWait] else []) \<and>
     (timeout > 0 \<longrightarrow> (\<exists>dg. NewDeliverGroup (cf_Delivers cf) (cf_PeerAddresses cf) (Some sg)
         (cf_TLSCert cf) ch txid = Ok dg \<and> fst (gr_Connect G dg) = None \<and>
         gr_Wait G (snd (gr_Connect G dg)) = None))"
  using assms
  by (cases "timeout > 0")
     (fastforce simp: broadcastProposalEnvelope_def GetBroadcastClient_ok send_and_wait_ok connect_group_ok)+

text \<open>Every trace of a broadcast: nothing, or an opened stream on which at most one envelope is sent,
  and which is closed right after.\<close>

lemma map_outcome_not_Err:
  "(\<And>x e. x \<in> set xs \<Longrightarrow> f x \<noteq> Err e) \<Longrightarrow> map_outcome f xs \<noteq> Err e"
  by (induction xs) (auto simp: bind_eq_Err)

lemma NewDeliverGroup_not_Err: "NewDeliverGroup n addrs sg cert ch txid \<noteq> Err e"
  by (auto simp: NewDeliverGroup_def bind_eq_Err go_index_def intro!: map_outcome_not_Err split: if_splits)

lemma getAck_ok: "getAck oc = Ok () \<longleftrightarrow> (\<exists>ack. ord_Recv oc = (Some ack, None) \<and> br_Status ack = Status_SUCCESS)"
  by (cases "ord_Recv oc") (auto simp: getAck_def deref_def check_def split: option.splits if_splits)

lemma connect_group_trace:
  "connect_group G cf sg ch txid = (t, r) \<Longrightarrow> t = (if is_panic r then [] else [EvConnect])"
proof -
  assume r: "connect_group G cf sg ch txid = (t, r)"
  consider dg where "NewDeliverGroup (cf_Delivers cf) (cf_PeerAddresses cf) (Some sg) (cf_TLSCert cf) ch txid = Ok dg"
    | p where "NewDeliverGroup (cf_Delivers cf) (cf_PeerAddresses cf) (Some sg) (cf_TLSCert cf) ch txid = Panic p"
    using NewDeliverGroup_not_Err
    by (cases "NewDeliverGroup (cf_Delivers cf) (cf_PeerAddresses cf) (Some sg) (cf_TLSCert cf) ch txid") auto
  then show ?thesis
  proof cases
    case 1
    then show ?thesis
      using r by (auto simp: connect_group_def rbind_def emit_def run_error_def pure_run_def errors_Wrap_def
          split: option.splits)
  next
    case 2
    then have "connect_group G cf sg ch txid = ([], Panic p)"
      by (simp add: connect_group_def rbind_def pure_run_def)
    then show ?thesis using r by simp
  qed
qed

lemma send_and_wait_trace:
  "send_and_wait G oc env dg = (t, r) \<Longrightarrow>
     (case r of Panic p \<Rightarrow> t = [EvSend env] 
      | _ \<Rightarrow> t = [EvSend env, EvCloseSend] \<or> (dg \<noteq> None \<and> t = [EvSend env, EvCloseSend, EvWait]))"
  using fst_broadcast_Send[of oc env]
  by (cases "broadcast_Send oc env"; cases "snd (broadcast_Send oc env)"; cases dg)
     (auto simp: send_and_wait_def rbind_def run_error_def emit_def pure_run_def errors_Wrap_def
       split: option.splits)

section \<open>Endorsements in any order\<close>

lemma map_filter_snd_nil: "List.map_filter snd as = [] \<longleftrightarrow> list_all (\<lambda>a. snd a = None) as"
  by (induction as) (auto simp: List.map_filter_def)

lemma processProposal_ok:
  "snd (processProposal arrival sp cf) = Ok resps \<longleftrightarrow>
     list_all (\<lambda>i. snd ((cf_Endorsers cf ! i) sp) = None) arrival \<and>
     resps = map (\<lambda>i. fst ((cf_Endorsers cf ! i) sp)) arrival"
proof -
  define as where "as = map (\<lambda>i. (cf_Endorsers cf ! i) sp) arrival"
  have "snd (processProposal arrival sp cf) =
      (case List.map_filter snd as of err # _ \<Rightarrow> Err err | [] \<Rightarrow> Ok (map fst (filter (\<lambda>a. snd a = None) as)))"
    by (simp only: processProposal_def as_def Let_def snd_conv)
  also have "\<dots> = Ok resps \<longleftrightarrow> list_all (\<lambda>a. snd a = None) as \<and> resps = map fst as"
  proof (cases "list_all (\<lambda>a. snd a = None) as")
    case True
    then have "filter (\<lambda>a. snd a = None) as = as" by (simp add: list_all_iff)
    with True show ?thesis using map_filter_snd_nil[of as] by auto
  next
    case False
    then show ?thesis using map_filter_snd_nil[of as] by (auto split: list.splits)
  qed
  finally show ?thesis by (simp add: as_def list_all_iff o_def)
qed

lemma processProposal_no_panic: "\<not> is_panic (snd (processProposal arrival sp cf))"
  by (simp add: processProposal_def Let_def split: list.splits)

lemma arrivals_set: "arrivals cf arrival \<Longrightarrow> set arrival = {..<length (cf_Endorsers cf)}"
  unfolding arrivals_def by (metis lessThan_atLeast0 set_mset_mset set_upt)

section \<open>Theorems\<close>

text \<open>The private copy of \<open>CreateSignedTx\<close> in package chaincode and the one in package utils
  produce the same envelopes and panic alike: they differ in the text of the errors only.\<close>

lemma create_signed_tx_copies_agree:
  "(createSignedTx P proposal sg resps = Ok env) = (CreateSignedTx P proposal sg resps = Ok env) \<and>
   (createSignedTx P proposal sg resps = Panic p) = (CreateSignedTx P proposal sg resps = Panic p)"
  using createSignedTx_same[of P proposal sg resps] by (simp add: same_result_def)

text \<open>Querying a chaincode never touches the orderer: the only events are proposals sent to the
  endorsers, whatever they answer.\<close>

lemma query_only_endorses:
  "list_all (\<lambda>e. case e of EvEndorse _ _ \<Rightarrow> True | _ \<Rightarrow> False)
     (fst (Query E G arrival sg cf spec ch))"
  by (auto simp: Query_def invokeOrQeury_def after_endorsement_def processProposal_def Let_def fst_rbind
      list_all_iff split: outcome.splits prod.splits list.splits)

lemma broadcast_shape:
  "case broadcastProposalEnvelope P G sg proposal cf ch txid timeout resps of
     (t, Ok u) \<Rightarrow> (\<exists>env oc. createSignedTx P proposal sg resps = Ok env \<and> cf_OClient cf = Some oc \<and>
         getAck oc = Ok () \<and>
         t = [EvOpen] @ (if timeout > 0 then [EvConnect] else []) @ [EvSend (Some env), EvCloseSend]
               @ (if timeout > 0 then [EvWait] else []))
   | (t, Err e) \<Rightarrow> t \<in> {[], [EvOpen, EvConnect]} \<or>
       (\<exists>env. createSignedTx P proposal sg resps = Ok env \<and>
          t \<in> {[EvOpen, EvSend (Some env), EvCloseSend], [EvOpen, EvConnect, EvSend (Some env), EvCloseSend],
               [EvOpen, EvConnect, EvSend (Some env), EvCloseSend, EvWait]})
   | (t, Panic q) \<Rightarrow> t \<in> {[], [EvOpen]} \<or>
       (\<exists>env. createSignedTx P proposal sg resps = Ok env \<and>
          t \<in> {[EvOpen, EvSend (Some env)], [EvOpen, EvConnect, EvSend (Some env)]})"
proof (cases "createSignedTx P proposal sg resps")
  case (Ok env)
  show ?thesis
  proof (cases "cf_OClient cf")
    case (Some oc)
    define conn where "conn = (if timeout > 0
      then rbind (connect_group G cf sg ch txid) (\<lambda>dg. pure_run (Ok (Some dg))) else pure_run (Ok None))"
    obtain t1 r1 where c: "conn = (t1, r1)" by (cases conn)
    have t1: "t1 = (if is_panic r1 then [] else if timeout > 0 then [EvConnect] else [])"
      "\<And>dg. r1 = Ok dg \<Longrightarrow> (dg = None) = (\<not> timeout > 0)"
      "\<not> timeout > 0 \<Longrightarrow> is_ok r1"
      using c connect_group_trace[of G cf sg ch txid]
      by (cases "connect_group G cf sg ch txid"; cases "snd (connect_group G cf sg ch txid)";
          auto simp: conn_def rbind_def pure_run_def split: if_splits)+
    have b: "broadcastProposalEnvelope P G sg proposal cf ch txid timeout resps =
        rbind (GetBroadcastClient oc) (\<lambda>bc. rbind conn (send_and_wait G bc (Some env)))"
      by (simp add: broadcastProposalEnvelope_def Ok Some conn_def rbind_def[of "pure_run _"])
    show ?thesis
    proof (cases "ord_Broadcast oc = None \<and> is_ok r1")
      case True
      then obtain dg where dg: "r1 = Ok dg" "ord_Broadcast oc = None" by (cases r1) auto
      obtain t2 r2 where s: "send_and_wait G oc (Some env) dg = (t2, r2)" by (cases "send_and_wait G oc (Some env) dg")
      have "broadcastProposalEnvelope P G sg proposal cf ch txid timeout resps = (EvOpen # t1 @ t2, r2)"
        by (simp add: b c dg s GetBroadcastClient_def rbind_def pure_run_def emit_def)
      then show ?thesis
        using send_and_wait_trace[OF s] send_and_wait_ok[of G oc "Some env" dg t2] s t1(1,2) dg Ok Some
        by (cases r2) (auto simp: getAck_def)
    next
      case False
      then show ?thesis
        using t1(1,3) by (cases "ord_Broadcast oc"; cases r1)
          (auto simp: b c GetBroadcastClient_def rbind_def pure_run_def emit_def)
    qed
  qed (simp add: broadcastProposalEnvelope_def Ok rbind_def pure_run_def)
qed (simp_all add: broadcastProposalEnvelope_def rbind_def pure_run_def)

text \<open>C10. A broadcast sends at most one envelope, and that is the assembled transaction; the stream
  is closed after it, also when the orderer refuses. Success means that the orderer acknowledged the
  envelope. With a timeout nothing is sent before the deliver group is connected: when connecting fails,
  its error is returned, the envelope is not sent and the stream stays open; when it succeeds, the
  envelope is sent, and the broadcast succeeds exactly when sending, the acknowledgement and the wait of
  the connected group do.\<close>

theorem broadcast_trace:
  "(case broadcastProposalEnvelope P G sg proposal cf ch txid timeout resps of
     (t, Ok u) \<Rightarrow> (\<exists>env oc. createSignedTx P proposal sg resps = Ok env \<and> cf_OClient cf = Some oc \<and>
         getAck oc = Ok () \<and>
         t = [EvOpen] @ (if timeout > 0 then [EvConnect] else []) @ [EvSend (Some env), EvCloseSend]
               @ (if timeout > 0 then [EvWait] else []))
   | (t, Err e) \<Rightarrow> t \<in> {[], [EvOpen, EvConnect]} \<or>
       (\<exists>env. createSignedTx P proposal sg resps = Ok env \<and>
          t \<in> {[EvOpen, EvSend (Some env), EvCloseSend], [EvOpen, EvConnect, EvSend (Some env), EvCloseSend],
               [EvOpen, EvConnect, EvSend (Some env), EvCloseSend, EvWait]})
   | (t, Panic q) \<Rightarrow> t \<in> {[], [EvOpen]} \<or>
       (\<exists>env. createSignedTx P proposal sg resps = Ok env \<and>
          t \<in> {[EvOpen, EvSend (Some env)], [EvOpen, EvConnect, EvSend (Some env)]})) \<and>
   (\<forall>env oc. timeout > 0 \<and> createSignedTx P proposal sg resps = Ok env \<and> cf_OClient cf = Some oc \<and>
        ord_Broadcast oc = None \<longrightarrow>
      (case NewDeliverGroup (cf_Delivers cf) (cf_PeerAddresses cf) (Some sg) (cf_TLSCert cf) ch txid of
         Err e \<Rightarrow> broadcastProposalEnvelope P G sg proposal cf ch txid timeout resps = ([EvOpen], Err e)
       | Panic q \<Rightarrow> broadcastProposalEnvelope P G sg proposal cf ch txid timeout resps = ([EvOpen], Panic q)
       | Ok dg \<Rightarrow> (case gr_Connect G dg of
           (Some e, g) \<Rightarrow> broadcastProposalEnvelope P G sg proposal cf ch txid timeout resps
             = ([EvOpen, EvConnect], Err (WithMsg ''fail to connect deliver group'' e))
         | (None, g) \<Rightarrow>
             EvSend (Some env) \<in> set (fst (broadcastProposalEnvelope P G sg proposal cf ch txid timeout resps)) \<and>
             (is_ok (snd (broadcastProposalEnvelope P G sg proposal cf ch txid timeout resps)) \<longleftrightarrow>
                ord_Send oc (Some env) = None \<and> getAck oc = Ok () \<and> gr_Wait G g = None))))"
proof (intro conjI allI impI, rule broadcast_shape)
  fix env oc
  assume *: "timeout > 0 \<and> createSignedTx P proposal sg resps = Ok env \<and> cf_OClient cf = Some oc \<and>
    ord_Broadcast oc = None"
  let ?new = "NewDeliverGroup (cf_Delivers cf) (cf_PeerAddresses cf) (Some sg) (cf_TLSCert cf) ch txid"
  have b: "broadcastProposalEnvelope P G sg proposal cf ch txid timeout resps =
      rbind (emit EvOpen) (\<lambda>_. rbind (connect_group G cf sg ch txid) (\<lambda>dg. send_and_wait G oc (Some env) (Some dg)))"
    using * by (cases "connect_group G cf sg ch txid"; cases "snd (connect_group G cf sg ch txid)")
      (auto simp: broadcastProposalEnvelope_def GetBroadcastClient_def rbind_def pure_run_def)
  have c: "connect_group G cf sg ch txid = (case ?new of
      Err e \<Rightarrow> ([], Err e) | Panic q \<Rightarrow> ([], Panic q)
    | Ok dg \<Rightarrow> ([EvConnect], case gr_Connect G dg of
        (Some e, g) \<Rightarrow> Err (WithMsg ''fail to connect deliver group'' e) | (None, g) \<Rightarrow> Ok g))"
    by (auto simp: connect_group_def rbind_def pure_run_def emit_def run_error_def errors_Wrap_def
        split: outcome.split prod.split option.split)
  have send: "EvSend (Some env) \<in> set (fst (send_and_wait G oc (Some env) (Some g)))" for g
    using send_and_wait_trace[of G oc "Some env" "Some g"]
    by (cases "send_and_wait G oc (Some env) (Some g)"; cases "snd (send_and_wait G oc (Some env) (Some g))") auto
  have ok: "is_ok (snd (send_and_wait G oc (Some env) (Some g))) \<longleftrightarrow>
      ord_Send oc (Some env) = None \<and> getAck oc = Ok () \<and> gr_Wait G g = None" for g
    using send_and_wait_ok[of G oc "Some env" "Some g"] getAck_ok[of oc]
    by (cases "send_and_wait G oc (Some env) (Some g)") (auto simp: is_ok_iff)
  show "case ?new of
       Err e \<Rightarrow> broadcastProposalEnvelope P G sg proposal cf ch txid timeout resps = ([EvOpen], Err e)
     | Panic q \<Rightarrow> broadcastProposalEnvelope P G sg proposal cf ch txid timeout resps = ([EvOpen], Panic q)
     | Ok dg \<Rightarrow> (case gr_Connect G dg of
         (Some e, g) \<Rightarrow> broadcastProposalEnvelope P G sg proposal cf ch txid timeout resps
           = ([EvOpen, EvConnect], Err (WithMsg ''fail to connect deliver group'' e))
       | (None, g) \<Rightarrow>
           EvSend (Some env) \<in> set (fst (broadcastProposalEnvelope P G sg proposal cf ch txid timeout resps)) \<and>
           (is_ok (snd (broadcastProposalEnvelope P G sg proposal cf ch txid timeout resps)) \<longleftrightarrow>
              ord_Send oc (Some env) = None \<and> getAck oc = Ok () \<and> gr_Wait G g = None))"
    using send ok by (auto simp: b c rbind_def emit_def split: outcome.split prod.split option.split)
qed

section \<open>A concrete run\<close>

text \<open>One endorser, one orderer and one deliver client, all of which answer well.\<close>

definition invoke_spec :: InvokeSpec where
  "invoke_spec = \<lparr>is_Name = ''mycc'', is_Version = [], is_Lang = ''GOLANG'', is_Args = [[1]], is_Path = [],
     is_Transient = [], is_IsInit = False, is_Timeout = 5\<rparr>"

definition invoke_cis :: ChaincodeInvocationSpec where
  "invoke_cis = \<lparr>cis_ChaincodeSpec = Some \<lparr>cspec_Type = ChaincodeSpec_GOLANG,
     cspec_ChaincodeId = Some sample_ccid, cspec_Input = Some \<lparr>cin_Args = [[1]], cin_IsInit = False\<rparr>\<rparr>\<rparr>"

definition invoke_pb :: pb where
  "invoke_pb = sample_pb\<lparr>pb_ChaincodeInvocationSpec := table_codec [invoke_cis],
     pb_Proposal := table_codec [\<lparr>prop_Header = [0], prop_Payload = [0, 0]\<rparr>]\<rparr>"

definition invoke_proposer :: proposer where
  "invoke_proposer = \<lparr>pp_pb = invoke_pb, pp_sha2 = (\<lambda>x. x), pp_rnd = ([1], None),
     pp_ts = (sample_ts, None), pp_json_map = (\<lambda>_. (Map.empty, None))\<rparr>"

definition failing_response :: ProposalResponse where
  "failing_response = \<lparr>pr_Version = 1,
     pr_Response = Some \<lparr>resp_Status = 500, resp_Message = ''no'', resp_Payload = []\<rparr>,
     pr_Payload = None, pr_Endorsement = None\<rparr>"

definition invoke_cf :: "endorser list \<Rightarrow> CommonFactory" where
  "invoke_cf es = \<lparr>cf_Committer = None, cf_Endorsers = es, cf_Delivers = 1, cf_PeerAddresses = [''p0''],
     cf_OClient = Some \<lparr>ord_Broadcast = None, ord_Send = (\<lambda>_. None),
       ord_Recv = (Some \<lparr>br_Status = 200, br_Info = []\<rparr>, None)\<rparr>, cf_TLSCert = []\<rparr>"

definition good_endorser :: endorser where
  "good_endorser = (\<lambda>sp. (Some sample_response, None))"

definition invoke_dg :: DeliverGroup where
  "invoke_dg = \<lparr>dg_Clients = [\<lparr>dc_Address = ''p0'', dc_Connection = False\<rparr>], dg_Certificate = [],
     dg_ChannelID = [], dg_TxID = sample_txid, dg_Signer = Some sample_client, dg_Error = None\<rparr>"

definition invoke_runs :: group_runs where
  "invoke_runs = \<lparr>gr_Connect = (\<lambda>dg. (None, dg\<lparr>dg_Clients := [\<lparr>dc_Address = ''p0'', dc_Connection = True\<rparr>]\<rparr>)),
     gr_Wait = (\<lambda>_. None)\<rparr>"

lemmas invoke_defs = invoke_spec_def invoke_cis_def invoke_pb_def invoke_proposer_def invoke_cf_def
  good_endorser_def invoke_dg_def invoke_runs_def failing_response_def

lemma invoke_proposal:
  "createInvocationProposal invoke_proposer sample_client invoke_spec []
     = Ok (\<lparr>prop_Header = [0], prop_Payload = [0, 0]\<rparr>, sample_txid)"
  by (simp add: createInvocationProposal_def CreateChaincodeProposalWithTxIDAndTransient_def
      getRandomNonce_def CreateChaincodeProposalWithTxIDNonceAndTransient_def MarshalOrPanic_def
      invoke_defs sample_defs to_upper_def ChaincodeSpec_Type_value_def Let_def)

lemma invoke_tx:
  "createSignedTx invoke_pb (Some \<lparr>prop_Header = [0], prop_Payload = [0, 0]\<rparr>) sample_client
     [Some sample_response] = Ok \<lparr>env_Payload = [0], env_Signature = [9]\<rparr>"
  by (simp add: createSignedTx_def GetBytesProposalPayloadForTx_def unmarshal_defs get_bytes_defs
      invoke_pb_def sample_defs)

definition mixed_cf :: CommonFactory where
  "mixed_cf = invoke_cf [good_endorser, \<lambda>_. (Some failing_response, None)]"

definition mixed_sp :: SignedProposal where
  "mixed_sp = \<lparr>sp_ProposalBytes = [0], sp_Signature = [9]\<rparr>"

lemma mixed_arrivals: "arrivals mixed_cf [1, 0]" "arrivals mixed_cf [0, 1]"
  by (simp_all add: arrivals_def mixed_cf_def invoke_cf_def numeral_2_eq_2)

definition unreachable_group :: group_runs where
  "unreachable_group = invoke_runs\<lparr>gr_Connect := (\<lambda>dg. (Some (ErrExt ''refused''), dg))\<rparr>"

lemma broadcast_trace_witness:
  "broadcastProposalEnvelope invoke_pb unreachable_group sample_client
      (Some \<lparr>prop_Header = [0], prop_Payload = [0, 0]\<rparr>) (invoke_cf [good_endorser]) [] sample_txid 5 [Some sample_response]
    = ([EvOpen, EvConnect], Err (WithMsg ''fail to connect deliver group'' (ErrExt ''refused'')))"
proof -
  have "NewDeliverGroup (cf_Delivers (invoke_cf [good_endorser])) (cf_PeerAddresses (invoke_cf [good_endorser]))
      (Some sample_client) (cf_TLSCert (invoke_cf [good_endorser])) [] sample_txid \<noteq> Panic q" for q
    by (simp add: NewDeliverGroup_def go_index_def invoke_cf_def)
  then obtain dg where "NewDeliverGroup (cf_Delivers (invoke_cf [good_endorser])) (cf_PeerAddresses (invoke_cf [good_endorser]))
      (Some sample_client) (cf_TLSCert (invoke_cf [good_endorser])) [] sample_txid = Ok dg"
    using NewDeliverGroup_not_Err by (metis outcome.exhaust)
  moreover have "gr_Connect unreachable_group dg = (Some (ErrExt ''refused''), dg)" by (simp add: unreachable_group_def)
  ultimately show ?thesis
    using conjunct2[OF broadcast_trace[where P = invoke_pb and G = unreachable_group and sg = sample_client and
      proposal = "Some \<lparr>prop_Header = [0], prop_Payload = [0, 0]\<rparr>" and cf = "invoke_cf [good_endorser]" and
      ch = "[]" and txid = sample_txid and timeout = 5 and resps = "[Some sample_response]"]]
      invoke_tx by (simp add: invoke_cf_def)
qed

section \<open>What a successful invocation means\<close>

lemma after_endorsement_ok:
  assumes "after_endorsement P G sg cf timeout ch True p txid resps = (t, Ok (resp, None))"
  shows "\<exists>r0 u. resps \<noteq> [] \<and> hd resps = Some r0 \<and> pr_Response r0 = Some u \<and>
     resp = \<lparr>tr_TxID = txid, tr_Response = Some u\<rparr> \<and>
     (if resp_Status u \<ge> ERRORTHRESHOLD then t = []
      else broadcastProposalEnvelope P G sg (Some p) cf ch txid timeout resps = (t, Ok ()))"
proof -
  obtain tb rb where b: "broadcastProposalEnvelope P G sg (Some p) cf ch txid timeout resps = (tb, rb)"
    by (cases "broadcastProposalEnvelope P G sg (Some p) cf ch txid timeout resps")
  show ?thesis
    using assms by (cases rb) (auto simp: after_endorsement_def b Let_def split: if_splits)
qed

lemma invoke_ok:
  assumes "Invoke E G arrival sg cf spec ch = (t, Ok resp)"
  shows "\<exists>p sp resps u tb. createInvocationProposal E sg spec ch = Ok (p, tr_TxID resp) \<and>
     snd (processProposal arrival sp cf) = Ok resps \<and> t = fst (processProposal arrival sp cf) @ tb \<and>
     tr_Response resp = Some u \<and>
     (if resp_Status u \<ge> ERRORTHRESHOLD then tb = []
      else broadcastProposalEnvelope (pp_pb E) G sg (Some p) cf ch (tr_TxID resp) (is_Timeout spec) resps
             = (tb, Ok ()))"
proof -
  from assms obtain p txid sp resps t1 t2 where
    p: "createInvocationProposal E sg spec ch = Ok (p, txid)" "processProposal arrival sp cf = (t1, Ok resps)"
      "after_endorsement (pp_pb E) G sg cf (is_Timeout spec) ch True p txid resps = (t2, Ok (resp, None))"
      "t = t1 @ t2"
    by (auto simp: Invoke_def invokeOrQeury_def)
  from after_endorsement_ok[OF p(3)] p show ?thesis
    by (intro exI[of _ p] exI[of _ sp] exI[of _ resps]) auto
qed

text \<open>C5. When \<open>Invoke\<close> with a timeout returns a response that is not an error response, the
  transaction has been committed on every peer of the deliver group: under any interleaving of the
  clients' goroutines that ends in this result, each of them received a filtered block in which the
  transaction of the response is valid.\<close>

theorem invoke_means_committed:
  assumes "Invoke E G arrival sg cf spec ch = (t, Ok resp)"
    and "tr_Response resp = Some u" "resp_Status u < ERRORTHRESHOLD"
    and "is_Timeout spec > 0" "cf_Delivers cf > 0"
    and "NewDeliverGroup (cf_Delivers cf) (cf_PeerAddresses cf) (Some sg) (cf_TLSCert cf) ch (tr_TxID resp) = Ok dg"
    and "Connect_run seek dg gc" "gr_Connect G dg = (c, connected dg gc)" "g_main gc = Returned c"
    and "Wait_run (connected dg gc) gw" "g_main gw = Returned (gr_Wait G (connected dg gc))"
  shows "length (g_clients gw) = cf_Delivers cf \<and>
         (\<forall>cp\<in>set (g_clients gw). \<exists>ev. snd cp = Exited ev None \<and> commits (tr_TxID resp) ev) \<and>
         (\<exists>env. EvSend (Some env) \<in> set t)"
proof -
  from invoke_ok[OF assms(1)] assms(2,3) obtain p sp resps tb where
    "t = fst (processProposal arrival sp cf) @ tb"
    "broadcastProposalEnvelope (pp_pb E) G sg (Some p) cf ch (tr_TxID resp) (is_Timeout spec) resps = (tb, Ok ())"
    by auto
  with broadcast_ok[of "pp_pb E" G sg "Some p" cf ch "tr_TxID resp" "is_Timeout spec" resps tb] assms(4,6,8)
  have s: "\<exists>env. EvSend (Some env) \<in> set t" "c = None" "gr_Wait G (connected dg gc) = None" by auto
  have dg: "dg_Error dg = None" "length (dg_Clients dg) = cf_Delivers cf" "dg_TxID dg = tr_TxID resp"
    using assms(6) by (auto simp: NewDeliverGroup_def dest: map_outcome_length)
  have m: "g_main gc = Returned None" using assms(9) s(2) by simp
  have c: "dg_Error (connected dg gc) = None" "length (dg_Clients (connected dg gc)) = cf_Delivers cf"
    "dg_TxID (connected dg gc) = tr_TxID resp"
    using connect_nil[OF assms(7) m dg(1)] dg(2,3) by (simp_all add: connected_def)
  have "g_main gw = Returned None" "dg_Clients (connected dg gc) \<noteq> []"
    using assms(5,11) s(3) c(2) by auto
  from wait_nil[OF assms(10) this(1) c(1) this(2)] show ?thesis using c(2,3) s(1) by simp
qed

definition invoke_client :: "bool \<Rightarrow> DeliverClient" where
  "invoke_client c = \<lparr>dc_Address = ''p0'', dc_Connection = c\<rparr>"

definition invoke_connected :: "(DeliverClient, connect_event) group" where
  "invoke_connected = \<lparr>g_clients = [(invoke_client True, Exited \<lparr>ev_open = None, ev_send = (\<lambda>_. None)\<rparr> None)],
     g_Error = None, g_wg = 0, g_main = Returned None\<rparr>"

definition invoke_block :: recv where
  "invoke_block = Received (DR_FilteredBlock (Some [Some \<lparr>ft_Txid = sample_txid, ft_TxValidationCode = 0\<rparr>]))"

definition invoke_waited :: "(DeliverClient, recv) group" where
  "invoke_waited = \<lparr>g_clients = [(invoke_client True, Exited invoke_block None)],
     g_Error = None, g_wg = 0, g_main = Returned None\<rparr>"

lemma invoke_connect_run: "Connect_run (Ok None) invoke_dg invoke_connected"
  using single_client_run[of "ClientConnect (Ok None)" "invoke_client False" "\<lparr>ev_open = None, ev_send = (\<lambda>_. None)\<rparr>"
      "invoke_client True" connect_ready connect_timeout]
  by (simp add: Connect_run_def Connect_start_def invoke_dg_def invoke_connected_def invoke_client_def
      ClientConnect_def connect_ready_def)

lemma invoke_wait_run: "Wait_run (connected invoke_dg invoke_connected) invoke_waited"
  using single_client_run[of "ClientWait sample_txid" "invoke_client True" invoke_block
      "invoke_client True" "\<lambda>err. err" wait_timeout]
  by (simp add: Wait_run_def Wait_start_def connected_def invoke_dg_def invoke_connected_def invoke_client_def
      invoke_waited_def invoke_block_def ClientWait_done)

lemma invoke_run:
  "Invoke invoke_proposer invoke_runs [0] sample_client (invoke_cf [good_endorser]) invoke_spec []
     = ([EvEndorse 0 mixed_sp, EvOpen, EvConnect, EvSend (Some \<lparr>env_Payload = [0], env_Signature = [9]\<rparr>),
         EvCloseSend, EvWait],
        Ok \<lparr>tr_TxID = sample_txid,
            tr_Response = Some \<lparr>resp_Status = 200, resp_Message = ''OK'', resp_Payload = []\<rparr>\<rparr>)"
proof -
  have sp: "cryptoutil_GetSignedProposal invoke_pb (Some \<lparr>prop_Header = [0], prop_Payload = [0, 0]\<rparr>) sample_client
      = Ok mixed_sp"
    by (simp add: cryptoutil_GetSignedProposal_def invoke_pb_def mixed_sp_def sample_client_def table_codec_simps)
  have pp: "processProposal [0] mixed_sp (invoke_cf [good_endorser]) = ([EvEndorse 0 mixed_sp], Ok [Some sample_response])"
    by (simp add: processProposal_def invoke_cf_def good_endorser_def List.map_filter_def)
  have r: "pr_Response sample_response = Some \<lparr>resp_Status = 200, resp_Message = ''OK'', resp_Payload = []\<rparr>"
    by (simp add: sample_response_def)
  have dg: "NewDeliverGroup 1 [''p0''] (Some sample_client) [] [] sample_txid = Ok invoke_dg"
    by (simp add: NewDeliverGroup_def invoke_dg_def go_index_def)
  have b: "broadcastProposalEnvelope invoke_pb invoke_runs sample_client
      (Some \<lparr>prop_Header = [0], prop_Payload = [0, 0]\<rparr>) (invoke_cf [good_endorser]) [] sample_txid 5 [Some sample_response]
    = ([EvOpen, EvConnect, EvSend (Some \<lparr>env_Payload = [0], env_Signature = [9]\<rparr>), EvCloseSend, EvWait], Ok ())"
    using dg by (simp add: broadcastProposalEnvelope_def invoke_tx send_and_wait_def connect_group_def
        GetBroadcastClient_def broadcast_Send_def getAck_def rbind_def emit_def pure_run_def run_error_def
        invoke_cf_def invoke_runs_def)
  have e: "pp_pb invoke_proposer = invoke_pb" "is_Timeout invoke_spec = 5"
    by (simp_all add: invoke_proposer_def invoke_spec_def)
  show ?thesis
    by (simp add: Invoke_def invokeOrQeury_def after_endorsement_def rbind_def pure_run_def
        invoke_proposal e sp pp r b)
qed

lemma invoke_means_committed_witness:
  "length (g_clients invoke_waited) = 1 \<and>
   list_all (\<lambda>cp. \<exists>ev. snd cp = Exited ev None \<and> commits sample_txid ev) (g_clients invoke_waited)"
  using invoke_means_committed[OF invoke_run _ _ _ _ _ invoke_connect_run _ _ invoke_wait_run, of _ None]
  by (simp add: invoke_spec_def invoke_cf_def NewDeliverGroup_def go_index_def invoke_dg_def invoke_runs_def
      connected_def invoke_connected_def invoke_client_def invoke_waited_def)

text \<open>Which endorser answers first decides whether a failed endorsement is an error of
  \<open>Invoke\<close>: with two endorsers of which one fails, the failing response is returned without an error
  when it comes first, and refused when it comes second. Nothing is sent to the orderer either way.\<close>

lemma first_answer_decides:
  assumes "createInvocationProposal E sg spec ch = Ok (p, txid)"
    and "cryptoutil_GetSignedProposal (pp_pb E) (Some p) sg = Ok sp"
    and "cf_Endorsers cf = [e0, e1]"
    and "e0 sp = (Some r0, None)" "pr_Response r0 = Some u0" "resp_Status u0 < ERRORTHRESHOLD"
    and "e1 sp = (Some r1, None)" "pr_Response r1 = Some u1" "resp_Status u1 \<ge> ERRORTHRESHOLD"
  shows "Invoke E G [1, 0] sg cf spec ch
           = ([EvEndorse 1 sp, EvEndorse 0 sp], Ok \<lparr>tr_TxID = txid, tr_Response = Some u1\<rparr>) \<and>
         fst (Invoke E G [0, 1] sg cf spec ch) = [EvEndorse 0 sp, EvEndorse 1 sp] \<and>
         \<not> is_ok (snd (Invoke E G [0, 1] sg cf spec ch))"
proof -
  have pp: "processProposal [1, 0] sp cf = ([EvEndorse 1 sp, EvEndorse 0 sp], Ok [Some r1, Some r0])"
    "processProposal [0, 1] sp cf = ([EvEndorse 0 sp, EvEndorse 1 sp], Ok [Some r0, Some r1])"
    using assms(3,4,7) by (simp_all add: processProposal_def List.map_filter_def)
  have "\<not> is_ok (createSignedTx (pp_pb E) (Some p) sg [Some r0, Some r1])"
  proof
    assume "is_ok (createSignedTx (pp_pb E) (Some p) sg [Some r0, Some r1])"
    then obtain env where "CreateSignedTx (pp_pb E) (Some p) sg [Some r0, Some r1] = Ok env"
      by (auto simp: is_ok_iff createSignedTx_ok)
    then show False
      using create_signed_tx_made assms(8,9) by (fastforce simp: tx_made_def endorses_def)
  qed
  then have b: "fst (broadcastProposalEnvelope (pp_pb E) G sg (Some p) cf ch txid n [Some r0, Some r1]) = []"
    "\<not> is_ok (snd (broadcastProposalEnvelope (pp_pb E) G sg (Some p) cf ch txid n [Some r0, Some r1]))" for n
    by (cases "createSignedTx (pp_pb E) (Some p) sg [Some r0, Some r1]";
        simp add: broadcastProposalEnvelope_def rbind_def pure_run_def)+
  obtain tb rb where tb: "broadcastProposalEnvelope (pp_pb E) G sg (Some p) cf ch txid (is_Timeout spec)
      [Some r0, Some r1] = (tb, rb)"
    by (cases "broadcastProposalEnvelope (pp_pb E) G sg (Some p) cf ch txid (is_Timeout spec) [Some r0, Some r1]")
  show ?thesis
    using assms(5,6,8,9) b[of "is_Timeout spec"]
    by (cases rb) (simp_all add: Invoke_def invokeOrQeury_def after_endorsement_def rbind_def pure_run_def
        assms(1,2) pp[unfolded One_nat_def] tb)
qed

lemma mixed_signed:
  "cryptoutil_GetSignedProposal (pp_pb invoke_proposer)
     (Some \<lparr>prop_Header = [0], prop_Payload = [0, 0]\<rparr>) sample_client = Ok mixed_sp"
  by (simp add: cryptoutil_GetSignedProposal_def invoke_proposer_def invoke_pb_def mixed_sp_def
      sample_client_def table_codec_simps)

lemma first_answer_decides_witness:
  "snd (Invoke invoke_proposer invoke_runs [1, 0] sample_client mixed_cf invoke_spec [])
     = Ok \<lparr>tr_TxID = sample_txid,
           tr_Response = Some \<lparr>resp_Status = 500, resp_Message = ''no'', resp_Payload = []\<rparr>\<rparr> \<and>
   \<not> is_ok (snd (Invoke invoke_proposer invoke_runs [0, 1] sample_client mixed_cf invoke_spec []))"
proof -
  have e: "cf_Endorsers mixed_cf = [good_endorser, \<lambda>_. (Some failing_response, None)]"
    by (simp add: mixed_cf_def invoke_cf_def)
  show ?thesis
    using first_answer_decides[OF invoke_proposal mixed_signed e, of sample_response
        "\<lparr>resp_Status = 200, resp_Message = ''OK'', resp_Payload = []\<rparr>" failing_response
        "\<lparr>resp_Status = 500, resp_Message = ''no'', resp_Payload = []\<rparr>" invoke_runs]
    by (simp add: good_endorser_def sample_response_def failing_response_def)
qed

section \<open>What is sent, whatever the order of the answers\<close>

lemma processProposal_trace [simp]: "fst (processProposal arrival sp cf) = map (\<lambda>i. EvEndorse i sp) arrival"
  by (simp add: processProposal_def Let_def)

lemma processProposal_first_error:
  assumes "i \<in> set arrival" "snd ((cf_Endorsers cf ! i) sp) \<noteq> None"
  shows "\<exists>j e. j \<in> set arrival \<and> snd ((cf_Endorsers cf ! j) sp) = Some e \<and> snd (processProposal arrival sp cf) = Err e"
proof -
  define as where "as = map (\<lambda>i. (cf_Endorsers cf ! i) sp) arrival"
  have "List.map_filter snd as \<noteq> []" using assms by (auto simp: map_filter_snd_nil list_all_iff as_def)
  then obtain e es where e: "List.map_filter snd as = e # es" by (cases "List.map_filter snd as") auto
  then have "e \<in> set (List.map_filter snd as)" by simp
  then obtain j where "j \<in> set arrival" "snd ((cf_Endorsers cf ! j) sp) = Some e"
    by (auto simp: List.map_filter_def as_def)
  moreover have "snd (processProposal arrival sp cf) = Err e"
    using e by (simp add: processProposal_def Let_def as_def)
  ultimately show ?thesis by blast
qed

abbreviation answer :: "CommonFactory \<Rightarrow> SignedProposal \<Rightarrow> nat \<Rightarrow> ProposalResponse option ret" where
  "answer cf sp i \<equiv> (cf_Endorsers cf ! i) sp"

definition unanimous :: "CommonFactory \<Rightarrow> SignedProposal \<Rightarrow> bytes \<Rightarrow> bool" where
  "unanimous cf sp a \<longleftrightarrow> list_all (\<lambda>e. snd (e sp) = None \<and> endorses a (fst (e sp))) (cf_Endorsers cf)"

lemma unanimous_arrivals:
  assumes "arrivals cf arrival"
  shows "unanimous cf sp a \<longleftrightarrow> (\<forall>i\<in>set arrival. snd (answer cf sp i) = None \<and> endorses a (fst (answer cf sp i)))"
  by (auto simp: unanimous_def list_all_length arrivals_set[OF assms])

lemma invoke_proposed:
  assumes "createInvocationProposal E sg spec ch = Ok (p, txid)"
    and "cryptoutil_GetSignedProposal (pp_pb E) (Some p) sg = Ok sp"
  shows "Invoke E G arrival sg cf spec ch = rbind (processProposal arrival sp cf) (\<lambda>resps.
    rbind (after_endorsement (pp_pb E) G sg cf (is_Timeout spec) ch True p txid resps) (\<lambda>r. pure_run (check r)))"
  using assms by (cases "processProposal arrival sp cf"; cases "snd (processProposal arrival sp cf)")
    (auto simp: Invoke_def invokeOrQeury_def rbind_def pure_run_def split: prod.split outcome.split)

lemma broadcast_sends:
  assumes "EvSend x \<in> set (fst (broadcastProposalEnvelope P G sg proposal cf ch txid timeout resps))"
  shows "\<exists>env. x = Some env \<and> createSignedTx P proposal sg resps = Ok env"
  using assms broadcast_shape[where P = P and G = G and sg = sg and proposal = proposal and cf = cf and ch = ch
      and txid = txid and timeout = timeout and resps = resps]
  by (cases "broadcastProposalEnvelope P G sg proposal cf ch txid timeout resps";
      cases "snd (broadcastProposalEnvelope P G sg proposal cf ch txid timeout resps)")
    (auto split: if_splits)

text \<open>C11. \<open>Invoke\<close> sends an envelope only when every endorser has answered, each with success and all
  with one payload, and the envelope is the transaction assembled from all the answers; this holds in
  every order of arrival. An endorser that cannot be reached makes every order fail with the error of
  such an endorser and nothing is sent. And when the endorsers agree, every order goes on to the
  broadcast, whose result decides.\<close>

theorem only_unanimous_endorsements_sent:
  assumes "arrivals cf arrival" "createInvocationProposal E sg spec ch = Ok (p, txid)"
    and "cryptoutil_GetSignedProposal (pp_pb E) (Some p) sg = Ok sp"
  shows "(EvSend x \<in> set (fst (Invoke E G arrival sg cf spec ch)) \<longrightarrow>
      (\<exists>a env. unanimous cf sp a \<and> x = Some env \<and>
         CreateSignedTx (pp_pb E) (Some p) sg (map (\<lambda>i. fst (answer cf sp i)) arrival) = Ok env)) \<and>
    (list_ex (\<lambda>e. snd (e sp) \<noteq> None) (cf_Endorsers cf) \<longrightarrow>
      (\<exists>i err. i < length (cf_Endorsers cf) \<and> snd (answer cf sp i) = Some err \<and>
         Invoke E G arrival sg cf spec ch = (map (\<lambda>i. EvEndorse i sp) arrival, Err err))) \<and>
    (unanimous cf sp a \<and> cf_Endorsers cf \<noteq> [] \<longrightarrow>
      (let b = broadcastProposalEnvelope (pp_pb E) G sg (Some p) cf ch txid (is_Timeout spec)
                 (map (\<lambda>i. fst (answer cf sp i)) arrival) in
       fst (Invoke E G arrival sg cf spec ch) = map (\<lambda>i. EvEndorse i sp) arrival @ fst b \<and>
       (is_ok (snd (Invoke E G arrival sg cf spec ch)) \<longleftrightarrow> is_ok (snd b))))"
proof (intro conjI impI)
  let ?resps = "map (\<lambda>i. fst (answer cf sp i)) arrival"
  note inv = invoke_proposed[OF assms(2,3), of G arrival cf]
  note un = unanimous_arrivals[OF assms(1)]
  have ok: "snd (processProposal arrival sp cf) = Ok r \<longleftrightarrow>
      (\<forall>i\<in>set arrival. snd (answer cf sp i) = None) \<and> r = ?resps" for r
    by (simp add: processProposal_ok list_all_iff)
  {
    assume "EvSend x \<in> set (fst (Invoke E G arrival sg cf spec ch))"
    then obtain r where r: "snd (processProposal arrival sp cf) = Ok r"
      "EvSend x \<in> set (fst (after_endorsement (pp_pb E) G sg cf (is_Timeout spec) ch True p txid r))"
      by (cases "snd (processProposal arrival sp cf)") (auto simp: inv fst_rbind split: outcome.splits)
    then have "EvSend x \<in> set (fst (broadcastProposalEnvelope (pp_pb E) G sg (Some p) cf ch txid (is_Timeout spec) r))"
      by (auto simp: after_endorsement_def fst_rbind Let_def split: if_splits outcome.splits prod.splits)
    then obtain env where env: "x = Some env" "CreateSignedTx (pp_pb E) (Some p) sg r = Ok env"
      using broadcast_sends createSignedTx_ok by blast
    then obtain a where "\<forall>q\<in>set r. endorses a q" using create_signed_tx_made by (fastforce simp: tx_made_def)
    then have "unanimous cf sp a" using r(1) un ok by auto
    then show "\<exists>a env. unanimous cf sp a \<and> x = Some env \<and>
        CreateSignedTx (pp_pb E) (Some p) sg ?resps = Ok env" using env r(1) ok by auto
  }
  {
    assume "list_ex (\<lambda>e. snd (e sp) \<noteq> None) (cf_Endorsers cf)"
    then obtain i where "i \<in> set arrival" "snd (answer cf sp i) \<noteq> None"
      by (auto simp: list_ex_length arrivals_set[OF assms(1)])
    from processProposal_first_error[OF this] obtain j e where j: "j \<in> set arrival" "snd (answer cf sp j) = Some e"
      "snd (processProposal arrival sp cf) = Err e" by blast
    then have "Invoke E G arrival sg cf spec ch = (map (\<lambda>i. EvEndorse i sp) arrival, Err e)"
      by (intro prod_eqI) (simp_all add: inv fst_rbind snd_rbind)
    then show "\<exists>i err. i < length (cf_Endorsers cf) \<and> snd (answer cf sp i) = Some err \<and>
        Invoke E G arrival sg cf spec ch = (map (\<lambda>i. EvEndorse i sp) arrival, Err err)"
      using j arrivals_set[OF assms(1)] by blast
  }
  {
    assume u: "unanimous cf sp a \<and> cf_Endorsers cf \<noteq> []"
    then have r: "snd (processProposal arrival sp cf) = Ok ?resps" using un ok by simp
    have "arrival \<noteq> []" 
      using conjunct2[OF u] arrivals_set[OF assms(1)] by (metis empty_set length_greater_0_conv lessThan_iff empty_iff)
    then obtain i js where i: "arrival = i # js" by (cases arrival) auto
    have "endorses a (fst (answer cf sp i))" using u un i by auto
    then have "endorses a (hd ?resps)" "?resps \<noteq> []" using i by simp_all
    then obtain r0 u0 where h: "hd ?resps = Some r0" "pr_Response r0 = Some u0" "resp_Status u0 < ERRORTHRESHOLD"
      by (auto simp: endorses_iff)
    let ?b = "broadcastProposalEnvelope (pp_pb E) G sg (Some p) cf ch txid (is_Timeout spec) ?resps"
    have "after_endorsement (pp_pb E) G sg cf (is_Timeout spec) ch True p txid ?resps =
        (case ?b of (t, Ok _) \<Rightarrow> (t, Ok (\<lparr>tr_TxID = txid, tr_Response = Some u0\<rparr>, None))
            | (t, Err err) \<Rightarrow> (t, Ok (\<lparr>tr_TxID = txid, tr_Response = Some u0\<rparr>, Some err))
            | (t, Panic p) \<Rightarrow> (t, Panic p))"
      using h \<open>?resps \<noteq> []\<close> by (simp add: after_endorsement_def rbind_def pure_run_def split: prod.split outcome.split)
    then show "let b = ?b in
       fst (Invoke E G arrival sg cf spec ch) = map (\<lambda>i. EvEndorse i sp) arrival @ fst b \<and>
       (is_ok (snd (Invoke E G arrival sg cf spec ch)) \<longleftrightarrow> is_ok (snd b))"
      by (cases ?b; cases "snd ?b") (auto simp: Let_def inv fst_rbind snd_rbind r)
  }
qed

lemma only_unanimous_endorsements_sent_witness:
  "(\<forall>x. EvSend x \<notin> set (fst (Invoke invoke_proposer invoke_runs [1, 0] sample_client mixed_cf invoke_spec []))) \<and>
   is_ok (snd (Invoke invoke_proposer invoke_runs [0] sample_client (invoke_cf [good_endorser]) invoke_spec []))
     = is_ok (snd (broadcastProposalEnvelope invoke_pb invoke_runs sample_client
         (Some \<lparr>prop_Header = [0], prop_Payload = [0, 0]\<rparr>) (invoke_cf [good_endorser]) [] sample_txid 5 [Some sample_response]))"
proof
  have "\<not> unanimous mixed_cf mixed_sp a" for a
    by (simp add: unanimous_def mixed_cf_def invoke_cf_def endorses_def failing_response_def)
  then show "\<forall>x. EvSend x \<notin> set (fst (Invoke invoke_proposer invoke_runs [1, 0] sample_client mixed_cf invoke_spec []))"
    using only_unanimous_endorsements_sent[OF mixed_arrivals(1) invoke_proposal mixed_signed] by blast
  have arr: "arrivals (invoke_cf [good_endorser]) [0]" by (simp add: arrivals_def invoke_cf_def)
  have all: "unanimous (invoke_cf [good_endorser]) mixed_sp [0] \<and> cf_Endorsers (invoke_cf [good_endorser]) \<noteq> []"
    by (simp add: unanimous_def invoke_cf_def good_endorser_def endorses_def sample_response_def)
  have e: "pp_pb invoke_proposer = invoke_pb" "is_Timeout invoke_spec = 5"
    "map (\<lambda>i. fst (answer (invoke_cf [good_endorser]) mixed_sp i)) [0] = [Some sample_response]"
    by (simp_all add: invoke_proposer_def invoke_spec_def invoke_cf_def good_endorser_def)
  show "is_ok (snd (Invoke invoke_proposer invoke_runs [0] sample_client (invoke_cf [good_endorser]) invoke_spec []))
     = is_ok (snd (broadcastProposalEnvelope invoke_pb invoke_runs sample_client
         (Some \<lparr>prop_Header = [0], prop_Payload = [0, 0]\<rparr>) (invoke_cf [good_endorser]) [] sample_txid 5 [Some sample_response]))"
    using only_unanimous_endorsements_sent[OF arr invoke_proposal mixed_signed, where G = invoke_runs,
      THEN conjunct2, THEN conjunct2, THEN mp, OF all] unfolding Let_def e by (rule conjunct2)
qed

end
