(* ===== verification/PolicyDSL.thy ===== *)
theory PolicyDSL
  imports Codec
begin

text \<open>
  \<open>internal/chaincode/policy/policydsl.go\<close> and \<open>internal/chaincode/policy.go\<close>: the language of
  signature policies, its three passes over an expression, and the collection configurations and
  application policies built from policy strings.

  The expression evaluator \<open>govaluate\<close> is a parameter \<open>gov\<close>: it is given the expression, the
  functions the expression may call and the parameters, and threads the context that the
  functions of the third pass update. \<open>gov_calls\<close> states what the code relies on: the evaluator
  touches the context and makes policies through those functions only. The text of an error,
  which the code matches with a regular expression, is the parameter \<open>err_text\<close>.
\<close>

section \<open>Policies, principals and values\<close>

datatype SignaturePolicy = SP_SignedBy int | SP_NOutOf int "SignaturePolicy list"

datatype MSPRoleType = MSPRole_MEMBER | MSPRole_ADMIN | MSPRole_CLIENT | MSPRole_PEER | MSPRole_ORDERER

record MSPRole =
  mr_MspIdentifier :: string
  mr_Role :: MSPRoleType

datatype Classification = MSPPrincipal_ROLE

record MSPPrincipal =
  mp_PrincipalClassification :: Classification
  mp_Principal :: bytes

record SignaturePolicyEnvelope =
  spe_Version :: int
  spe_Rule :: SignaturePolicy
  spe_Identities :: "MSPPrincipal list"

record policy_context =
  IDNum :: int
  principals :: "MSPPrincipal list"

text \<open>
  The values an expression handles. A floating-point number is represented by the integer that
  \<open>int(f)\<close> converts it to, the only thing the code does with it; \<open>GCtx\<close> is the pointer to the one
  context of an evaluation; \<open>GOther\<close> is any other value, with its Go type.
\<close>

datatype gval = GFloat64 int | GFloat32 int | GInt int | GStr string | GPolicy SignaturePolicy
  | GCtx | GOther string

fun type_name :: "gval \<Rightarrow> string" where
  "type_name (GFloat64 _) = ''float64''"
| "type_name (GFloat32 _) = ''float32''"
| "type_name (GInt _) = ''int''"
| "type_name (GStr _) = ''string''"
| "type_name (GPolicy _) = ''*common.SignaturePolicy''"
| "type_name GCtx = ''*policy.context''"
| "type_name (GOther t) = t"

section \<open>Principals\<close>

definition RoleAdmin :: string where "RoleAdmin = ''admin''"
definition RoleMember :: string where "RoleMember = ''member''"
definition RoleClient :: string where "RoleClient = ''client''"
definition RolePeer :: string where "RolePeer = ''peer''"
definition RoleOrderer :: string where "RoleOrderer = ''orderer''"

lemmas role_defs = RoleAdmin_def RoleMember_def RoleClient_def RolePeer_def RoleOrderer_def

text \<open>
  The regular expression \<open>^([[:alnum:].-]+)([.])(admin|member|client|peer|orderer)$\<close>. A role has
  no dot, so the second group is the last dot of the text; the result is the first and the third
  group.
\<close>

definition alnum :: "char \<Rightarrow> bool" where
  "alnum c \<longleftrightarrow> c \<in> set ''ABCDEFGHIJKLMNOPQRSTUVWXYZabcdefghijklmnopqrstuvwxyz0123456789''"

definition regex :: "string \<Rightarrow> (string \<times> string) option" where
  "regex t =
     (let role = rev (takeWhile (\<lambda>c. c \<noteq> CHR ''.'') (rev t));
          rest = rev (dropWhile (\<lambda>c. c \<noteq> CHR ''.'') (rev t));
          org = butlast rest
      in if rest \<noteq> [] \<and> org \<noteq> [] \<and> list_all (\<lambda>c. alnum c \<or> c = CHR ''.'' \<or> c = CHR ''-'') org \<and>
            role \<in> set [RoleAdmin, RoleMember, RoleClient, RolePeer, RoleOrderer]
         then Some (org, role) else None)"

section \<open>The first two passes\<close>

text \<open>\<open>strconv.Itoa\<close>\<close>

fun nat_digits :: "nat \<Rightarrow> string" where
  "nat_digits n = (if n < 10 then [char_of (48 + n)] else nat_digits (n div 10) @ [char_of (48 + n mod 10)])"

declare nat_digits.simps [simp del]

definition Itoa :: "int \<Rightarrow> string" where
  "Itoa i = (if i < 0 then CHR ''-'' # nat_digits (nat (- i)) else nat_digits (nat i))"

definition principal_text :: "string \<Rightarrow> string" where
  "principal_text t = (if regex t \<noteq> None then [CHR 0x27] @ t @ [CHR 0x27] else t)"

fun outof_args :: "gval list \<Rightarrow> string \<Rightarrow> string outcome" where
  "outof_args [] toret = Ok toret"
| "outof_args (GStr t # args) toret = outof_args args (toret @ '', '' @ principal_text t)"
| "outof_args (v # args) toret = Err (Errorf ''unexpected type %s'' [AStr (type_name v)])"

definition outof :: "gval list \<Rightarrow> gval outcome" where
  "outof args =
     (if length args < 2
      then Err (Errorf ''expected at least two arguments to NOutOf. Given %d'' [AInt (int (length args))])
      else
      bind (case hd args of
              GFloat64 n \<Rightarrow> Ok (''outof('' @ Itoa n)
            | GInt n \<Rightarrow> Ok (''outof('' @ Itoa n)
            | GStr n \<Rightarrow> Ok (''outof('' @ n)
            | v \<Rightarrow> Err (Errorf ''unexpected type %s'' [AStr (type_name v)])) (\<lambda>toret.
      bind (outof_args (tl args) toret) (\<lambda>r. Ok (GStr (r @ '')'')))))"

definition and_gate :: "gval list \<Rightarrow> gval outcome" where
  "and_gate args = outof (GInt (int (length args)) # args)"

definition or_gate :: "gval list \<Rightarrow> gval outcome" where
  "or_gate args = outof (GInt 1 # args)"

text \<open>A \<open>float32\<close> argument has an empty case of its own: only the separator is written.\<close>

fun firstPass_args :: "gval list \<Rightarrow> string \<Rightarrow> string outcome" where
  "firstPass_args [] toret = Ok toret"
| "firstPass_args (GStr t # args) toret = firstPass_args args (toret @ '', '' @ principal_text t)"
| "firstPass_args (GFloat32 _ # args) toret = firstPass_args args (toret @ '', '')"
| "firstPass_args (GFloat64 t # args) toret = firstPass_args args (toret @ '', '' @ Itoa t)"
| "firstPass_args (v # args) toret = Err (Errorf ''unexpected type %s'' [AStr (type_name v)])"

definition firstPass :: "gval list \<Rightarrow> gval outcome" where
  "firstPass args = bind (firstPass_args args ''outof(ID'') (\<lambda>r. Ok (GStr (r @ '')'')))"

section \<open>The third pass\<close>

definition SignedBy :: "int \<Rightarrow> SignaturePolicy" where
  "SignedBy index = SP_SignedBy index"

definition NOutOf :: "int \<Rightarrow> SignaturePolicy list \<Rightarrow> SignaturePolicy" where
  "NOutOf n policies = SP_NOutOf n policies"

definition And :: "SignaturePolicy \<Rightarrow> SignaturePolicy \<Rightarrow> SignaturePolicy" where
  "And lhs rhs = NOutOf 2 [lhs, rhs]"

definition Or :: "SignaturePolicy \<Rightarrow> SignaturePolicy \<Rightarrow> SignaturePolicy" where
  "Or lhs rhs = NOutOf 1 [lhs, rhs]"

definition newContext :: policy_context where
  "newContext = \<lparr>IDNum = 0, principals = []\<rparr>"

definition role_of :: "string \<Rightarrow> string \<Rightarrow> MSPRoleType outcome" where
  "role_of t role =
     (if role = RoleMember then Ok MSPRole_MEMBER
      else if role = RoleAdmin then Ok MSPRole_ADMIN
      else if role = RoleClient then Ok MSPRole_CLIENT
      else if role = RolePeer then Ok MSPRole_PEER
      else if role = RoleOrderer then Ok MSPRole_ORDERER
      else Err (Errorf ''error parsing role %s'' [AStr t]))"

text \<open>The loop over the principals: it updates the context as it goes, also when a later argument
  is an error.\<close>

fun secondPass_args ::
    "MSPRole codec \<Rightarrow> policy_context \<Rightarrow> SignaturePolicy list \<Rightarrow> gval list
       \<Rightarrow> policy_context \<times> SignaturePolicy list outcome" where
  "secondPass_args M ctx policies [] = (ctx, Ok policies)"
| "secondPass_args M ctx policies (GStr t # args) =
     (case regex t of
        None \<Rightarrow> (ctx, Err (Errorf ''error parsing principal %s'' [AStr t]))
      | Some (org, role) \<Rightarrow>
        (case role_of t role of
           Ok r \<Rightarrow>
             (case Marshal M (Some \<lparr>mr_MspIdentifier = org, mr_Role = r\<rparr>) of
                (_, Some err) \<Rightarrow> (ctx, Err (Errorf ''error marshalling msp role: %s'' [AErr err]))
              | (mspRole, None) \<Rightarrow>
                  secondPass_args M
                    \<lparr>IDNum = IDNum ctx + 1,
                     principals = principals ctx @
                       [\<lparr>mp_PrincipalClassification = MSPPrincipal_ROLE, mp_Principal = mspRole\<rparr>]\<rparr>
                    (policies @ [SignedBy (go_int32 (IDNum ctx))]) args)
         | Err e \<Rightarrow> (ctx, Err e)
         | Panic p \<Rightarrow> (ctx, Panic p)))"
| "secondPass_args M ctx policies (GPolicy p # args) = secondPass_args M ctx (policies @ [p]) args"
| "secondPass_args M ctx policies (v # args) =
     (ctx, Err (Errorf ''unrecognized type, expected a principal or a policy, got %s'' [AStr (type_name v)]))"

definition secondPass :: "MSPRole codec \<Rightarrow> policy_context \<Rightarrow> gval list \<Rightarrow> policy_context \<times> gval outcome" where
  "secondPass M ctx args =
     (if length args < 3
      then (ctx, Err (Errorf ''at least 3 arguments expected, got %d'' [AInt (int (length args))]))
      else if args ! 0 \<noteq> GCtx
      then (ctx, Err (Errorf ''unrecognized type, expected the context, got %s'' [AStr (type_name (args ! 0))]))
      else
      (case args ! 1 of
         GFloat64 t \<Rightarrow>
           (let n = int (length args) - 2 in
            if t < 0 \<or> t > n + 1
            then (ctx, Err (Errorf ''invalid t-out-of-n predicate, t %d, n %d'' [AInt t, AInt n]))
            else
            (case secondPass_args M ctx [] (drop 2 args) of
               (ctx', Ok policies) \<Rightarrow> (ctx', Ok (GPolicy (NOutOf (go_int32 t) policies)))
             | (ctx', Err e) \<Rightarrow> (ctx', Err e)
             | (ctx', Panic p) \<Rightarrow> (ctx', Panic p)))
       | v \<Rightarrow> (ctx, Err (Errorf ''unrecognized type, expected a number, got %s'' [AStr (type_name v)]))))"

section \<open>From a string to a policy\<close>

text \<open>What an evaluation can give: the expression does not parse, evaluating it fails, or a value.\<close>

datatype gov_result = GovNewErr gerror | GovEvalErr gerror | GovValue gval

type_synonym gfun = "policy_context \<Rightarrow> gval list \<Rightarrow> policy_context \<times> gval outcome"
type_synonym gov = "string \<Rightarrow> (string \<times> gfun) list \<Rightarrow> (string \<times> gval) list \<Rightarrow> policy_context
  \<Rightarrow> policy_context \<times> gov_result"

definition stateless :: "(gval list \<Rightarrow> gval outcome) \<Rightarrow> gfun" where
  "stateless f = (\<lambda>ctx args. (ctx, f args))"

text \<open>The regular expression \<open>^No parameter '([^']+)' found[.]$\<close>: its group, if it matches.\<close>

definition regexErr :: "string \<Rightarrow> string option" where
  "regexErr t =
     (let pre = ''No parameter '' @ [CHR 0x27]; suf = [CHR 0x27] @ '' found.'';
          tok = take (length t - length pre - length suf) (drop (length pre) t)
      in if t = pre @ tok @ suf \<and> tok \<noteq> [] \<and> CHR 0x27 \<notin> set tok then Some tok else None)"

definition eval_error :: "(gerror \<Rightarrow> string) \<Rightarrow> gerror \<Rightarrow> gerror" where
  "eval_error err_text err =
     (case regexErr (err_text err) of
        Some tok \<Rightarrow> Errorf ''unrecognized token '%s' in policy string'' [AStr tok]
      | None \<Rightarrow> err)"

definition gate_functions :: "(string \<times> gfun) list" where
  "gate_functions =
     [(''And'', stateless and_gate), (''and'', stateless and_gate), (''AND'', stateless and_gate),
      (''Or'', stateless or_gate), (''or'', stateless or_gate), (''OR'', stateless or_gate),
      (''OutOf'', stateless outof), (''outof'', stateless outof), (''OUTOF'', stateless outof)]"

definition invalid_policy_format :: string where
  "invalid_policy_format = ''invalid policy string '' @ [CHR 0x27] @ ''%s'' @ [CHR 0x27]"

text \<open>One evaluation that must give a string.\<close>

definition string_pass ::
    "gov \<Rightarrow> (gerror \<Rightarrow> string) \<Rightarrow> string \<Rightarrow> string \<Rightarrow> (string \<times> gfun) list \<Rightarrow> string outcome" where
  "string_pass gov err_text policy expr fns =
     (case snd (gov expr fns [] newContext) of
        GovNewErr err \<Rightarrow> Err err
      | GovEvalErr err \<Rightarrow> Err (eval_error err_text err)
      | GovValue (GStr s) \<Rightarrow> Ok s
      | GovValue _ \<Rightarrow> Err (Errorf invalid_policy_format [AStr policy]))"

definition FromString ::
    "gov \<Rightarrow> (gerror \<Rightarrow> string) \<Rightarrow> MSPRole codec \<Rightarrow> string \<Rightarrow> SignaturePolicyEnvelope outcome" where
  "FromString gov err_text M policy =
     bind (string_pass gov err_text policy policy gate_functions) (\<lambda>resStr.
     bind (string_pass gov err_text policy resStr [(''outof'', stateless firstPass)]) (\<lambda>resStr2.
     case gov resStr2 [(''outof'', secondPass M)] [(''ID'', GCtx)] newContext of
       (_, GovNewErr err) \<Rightarrow> Err err
     | (_, GovEvalErr err) \<Rightarrow> Err (eval_error err_text err)
     | (ctx, GovValue (GPolicy rule)) \<Rightarrow>
         Ok \<lparr>spe_Version = 0, spe_Rule = rule, spe_Identities = principals ctx\<rparr>
     | (_, GovValue _) \<Rightarrow> Err (Errorf invalid_policy_format [AStr policy])))"

section \<open>Application policies and collections\<close>

datatype ApplicationPolicy = AP_SignaturePolicy SignaturePolicyEnvelope
  | AP_ChannelConfigPolicyReference string

record endorsementPolicy =
  ep_ChannelConfigPolicy :: string
  ep_SignaturePolicy :: string

record collectionConfigJson =
  ccj_Name :: string
  ccj_Policy :: string
  ccj_RequiredPeerCount :: "int option"
  ccj_MaxPeerCount :: "int option"
  ccj_BlockToLive :: "64 word"
  ccj_MemberOnlyRead :: bool
  ccj_MemberOnlyWrite :: bool
  ccj_EndorsementPolicy :: "endorsementPolicy option"

record StaticCollectionConfig =
  scc_Name :: string
  scc_MemberOrgsPolicy :: SignaturePolicyEnvelope
  scc_RequiredPeerCount :: int
  scc_MaximumPeerCount :: int
  scc_BlockToLive :: "64 word"
  scc_MemberOnlyRead :: bool
  scc_MemberOnlyWrite :: bool
  scc_EndorsementPolicy :: "ApplicationPolicy option"

type_synonym CollectionConfigPackage = "StaticCollectionConfig list"

text \<open>The parameters of policy handling: the evaluator, error texts, the JSON decoder of a list of
  collections, and the codecs.\<close>

record policy_lib =
  pl_gov :: gov
  pl_err_text :: "gerror \<Rightarrow> string"
  pl_MSPRole :: "MSPRole codec"
  pl_json_collections :: "bytes \<Rightarrow> collectionConfigJson list ret"
  pl_CollectionConfigPackage :: "CollectionConfigPackage codec"

abbreviation policy_FromString :: "policy_lib \<Rightarrow> string \<Rightarrow> SignaturePolicyEnvelope outcome" where
  "policy_FromString L s \<equiv> FromString (pl_gov L) (pl_err_text L) (pl_MSPRole L) s"

definition getApplicationPolicy :: "policy_lib \<Rightarrow> string \<Rightarrow> string \<Rightarrow> ApplicationPolicy option outcome" where
  "getApplicationPolicy L signaturePolicy channelConfigPolicy =
     (if signaturePolicy = [] \<and> channelConfigPolicy = [] then Ok None
      else if signaturePolicy \<noteq> [] \<and> channelConfigPolicy \<noteq> []
      then Err (ErrNew ''cannot specify both \"--signature-policy\" and \"--channel-config-policy\"'')
      else if signaturePolicy \<noteq> []
      then (case policy_FromString L signaturePolicy of
              Ok p \<Rightarrow> Ok (Some (AP_SignaturePolicy p))
            | Err _ \<Rightarrow> Err (Errorf ''invalid signature policy: %s'' [AStr signaturePolicy])
            | Panic p \<Rightarrow> Panic p)
      else Ok (Some (AP_ChannelConfigPolicyReference channelConfigPolicy)))"

definition collection_from_json :: "policy_lib \<Rightarrow> collectionConfigJson \<Rightarrow> StaticCollectionConfig outcome" where
  "collection_from_json L item =
     bind (on_err ''invalid policy %s'' (policy_FromString L (ccj_Policy item))) (\<lambda>p.
     bind (case ccj_EndorsementPolicy item of
             None \<Rightarrow> Ok None
           | Some e \<Rightarrow> on_err ''invalid endorsement policy [%#v]''
               (getApplicationPolicy L (ep_SignaturePolicy e) (ep_ChannelConfigPolicy e))) (\<lambda>ep.
     Ok \<lparr>scc_Name = ccj_Name item, scc_MemberOrgsPolicy = p,
         scc_RequiredPeerCount = (case ccj_RequiredPeerCount item of None \<Rightarrow> 0 | Some c \<Rightarrow> c),
         scc_MaximumPeerCount = (case ccj_MaxPeerCount item of None \<Rightarrow> 1 | Some c \<Rightarrow> c),
         scc_BlockToLive = ccj_BlockToLive item, scc_MemberOnlyRead = ccj_MemberOnlyRead item,
         scc_MemberOnlyWrite = ccj_MemberOnlyWrite item, scc_EndorsementPolicy = ep\<rparr>))"

text \<open>The result of \<open>getCollectionConfigFromBytes\<close> keeps the package beside the error of
  marshalling it; both are nil on the earlier errors.\<close>

definition getCollectionConfigFromBytes ::
    "policy_lib \<Rightarrow> bytes \<Rightarrow> (CollectionConfigPackage option \<times> slice) ret outcome" where
  "getCollectionConfigFromBytes L cconfBytes =
     (case bind (on_err ''could not parse the collection configuration''
                   (check (pl_json_collections L cconfBytes))) (map_outcome (collection_from_json L)) of
        Err e \<Rightarrow> Ok ((None, None), Some e)
      | Panic p \<Rightarrow> Panic p
      | Ok ccp \<Rightarrow> (let (b, err) = Marshal (pl_CollectionConfigPackage L) (Some ccp)
                   in Ok ((Some ccp, Some b), err)))"

section \<open>Principals are split at their last dot\<close>

lemma role_no_dot: "role \<in> set [RoleAdmin, RoleMember, RoleClient, RolePeer, RoleOrderer] \<Longrightarrow> CHR ''.'' \<notin> set role"
  by (auto simp: role_defs)

lemma split_last_dot:
  assumes "CHR ''.'' \<notin> set role"
  shows "rev (takeWhile (\<lambda>c. c \<noteq> CHR ''.'') (rev (org @ [CHR ''.''] @ role))) = role"
    and "rev (dropWhile (\<lambda>c. c \<noteq> CHR ''.'') (rev (org @ [CHR ''.''] @ role))) = org @ [CHR ''.'']"
proof -
  have r: "takeWhile (\<lambda>c. c \<noteq> CHR ''.'') (rev role @ zs) = rev role @ takeWhile (\<lambda>c. c \<noteq> CHR ''.'') zs"
    "dropWhile (\<lambda>c. c \<noteq> CHR ''.'') (rev role @ zs) = dropWhile (\<lambda>c. c \<noteq> CHR ''.'') zs" for zs
    using assms by (auto intro!: takeWhile_append2 dropWhile_append2)
  show "rev (takeWhile (\<lambda>c. c \<noteq> CHR ''.'') (rev (org @ [CHR ''.''] @ role))) = role"
    and "rev (dropWhile (\<lambda>c. c \<noteq> CHR ''.'') (rev (org @ [CHR ''.''] @ role))) = org @ [CHR ''.'']"
    by (simp_all add: r)
qed

lemma regex_iff:
  "regex t = Some (org, role) \<longleftrightarrow>
     t = org @ [CHR ''.''] @ role \<and> org \<noteq> [] \<and>
     list_all (\<lambda>c. alnum c \<or> c = CHR ''.'' \<or> c = CHR ''-'') org \<and>
     role \<in> set [RoleAdmin, RoleMember, RoleClient, RolePeer, RoleOrderer]" (is "?l \<longleftrightarrow> ?r")
proof
  assume ?r
  then show ?l
    using split_last_dot[OF role_no_dot, of role org] by (auto simp: regex_def Let_def)
next
  assume l: ?l
  define d where "d = dropWhile (\<lambda>c. c \<noteq> CHR ''.'') (rev t)"
  define w where "w = takeWhile (\<lambda>c. c \<noteq> CHR ''.'') (rev t)"
  have t: "t = rev d @ rev w"
    unfolding d_def w_def by (metis rev_append rev_rev_ident takeWhile_dropWhile_id)
  have "d \<noteq> []" "org = butlast (rev d)" "role = rev w"
    using l by (auto simp: regex_def Let_def d_def w_def split: if_splits)
  moreover have "rev d = butlast (rev d) @ [CHR ''.'']"
    using \<open>d \<noteq> []\<close> hd_dropWhile[of "\<lambda>c. c \<noteq> CHR ''.''" "rev t"]
    by (metis append_butlast_last_id d_def last_rev rev_is_Nil_conv)
  ultimately show ?r
    using l t by (auto simp: regex_def Let_def split: if_splits)
qed

lemma role_of_regex: "regex t = Some (org, role) \<Longrightarrow> \<exists>r. role_of t role = Ok r"
  by (auto simp: regex_iff role_of_def)

section \<open>What a policy means\<close>

text \<open>The reading of a signature policy that Fabric gives it: the signers \<open>s\<close> decide \<open>SignedBy\<close>, and
  \<open>NOutOf n\<close> needs \<open>n\<close> of its rules.\<close>

fun sp_sat :: "(int \<Rightarrow> bool) \<Rightarrow> SignaturePolicy \<Rightarrow> bool" where
  "sp_sat s (SP_SignedBy i) = s i"
| "sp_sat s (SP_NOutOf n rules) = (n \<le> int (length (filter id (map (sp_sat s) rules))))"

text \<open>A policy over \<open>k\<close> identities: every index and every threshold is the \<open>int32\<close> of a number in
  range.\<close>

fun wf_policy :: "int \<Rightarrow> SignaturePolicy \<Rightarrow> bool" where
  "wf_policy k (SP_SignedBy i) = (\<exists>j\<in>{0..<k}. i = go_int32 j)"
| "wf_policy k (SP_NOutOf n rules) =
     ((\<exists>t\<in>{0..int (length rules) + 1}. n = go_int32 t) \<and> (\<forall>r\<in>set rules. wf_policy k r))"

fun policy_indices :: "SignaturePolicy \<Rightarrow> int list" where
  "policy_indices (SP_SignedBy i) = [i]"
| "policy_indices (SP_NOutOf n rules) = concat (map policy_indices rules)"

lemma wf_policy_mono: "wf_policy k p \<Longrightarrow> k \<le> l \<Longrightarrow> wf_policy l p"
  by (induction k p rule: wf_policy.induct) fastforce+

lemma wf_policy_indices:
  "wf_policy k p \<Longrightarrow> k \<le> 2 ^ 31 \<Longrightarrow> i \<in> set (policy_indices p) \<Longrightarrow> 0 \<le> i \<and> i < k"
  by (induction k p rule: wf_policy.induct) (auto simp: go_int32_id)

definition ctx_ok :: "policy_context \<Rightarrow> bool" where
  "ctx_ok ctx \<longleftrightarrow> IDNum ctx = int (length (principals ctx))"

fun val_ok :: "policy_context \<Rightarrow> gval \<Rightarrow> bool" where
  "val_ok ctx (GPolicy p) = wf_policy (IDNum ctx) p"
| "val_ok ctx _ = True"

lemma val_ok_mono: "val_ok c v \<Longrightarrow> IDNum c \<le> IDNum d \<Longrightarrow> val_ok d v"
  by (cases v) (auto intro: wf_policy_mono)

lemma secondPass_args_inv:
  assumes "secondPass_args M ctx policies args = (ctx', r)" "ctx_ok ctx"
    and "\<forall>p\<in>set policies. wf_policy (IDNum ctx) p" "\<forall>v\<in>set args. val_ok ctx v"
  shows "ctx_ok ctx' \<and> IDNum ctx \<le> IDNum ctx' \<and>
    (\<forall>ps. r = Ok ps \<longrightarrow> (\<forall>p\<in>set ps. wf_policy (IDNum ctx') p) \<and> length ps = length policies + length args)"
  using assms
proof (induction M ctx policies args arbitrary: ctx' r rule: secondPass_args.induct)
  case (2 M ctx policies t args)
  show ?case
  proof (cases "regex t")
    case (Some q)
    obtain org role where q: "q = (org, role)" by (cases q)
    then obtain ro where ro: "role_of t role = Ok ro" using role_of_regex Some by blast
    obtain b e where m: "Marshal M (Some \<lparr>mr_MspIdentifier = org, mr_Role = ro\<rparr>) = (b, e)"
      by (cases "Marshal M (Some \<lparr>mr_MspIdentifier = org, mr_Role = ro\<rparr>)")
    show ?thesis
    proof (cases e)
      case None
      define c where "c = \<lparr>IDNum = IDNum ctx + 1, principals = principals ctx @
        [\<lparr>mp_PrincipalClassification = MSPPrincipal_ROLE, mp_Principal = b\<rparr>]\<rparr>"
      have c: "ctx_ok c" "IDNum ctx \<le> IDNum c" using "2.prems"(2) by (auto simp: c_def ctx_ok_def)
      have "0 \<le> IDNum ctx" using "2.prems"(2) by (simp add: ctx_ok_def)
      then have "wf_policy (IDNum c) (SignedBy (go_int32 (IDNum ctx)))"
        by (auto simp: c_def SignedBy_def)
      then have "\<forall>p\<in>set (policies @ [SignedBy (go_int32 (IDNum ctx))]). wf_policy (IDNum c) p"
        "\<forall>v\<in>set args. val_ok c v"
        using "2.prems"(3,4) c(2) by (auto intro: wf_policy_mono val_ok_mono)
      moreover have "secondPass_args M c (policies @ [SignedBy (go_int32 (IDNum ctx))]) args = (ctx', r)"
        using "2.prems"(1) Some q ro m None by (simp add: c_def)
      ultimately show ?thesis
        using "2.IH"[OF Some q[symmetric] ro m[symmetric] None] c
        by (auto simp: c_def)
    qed (use "2.prems" Some q ro m in auto)
  qed (use "2.prems" in auto)
qed auto

lemma secondPass_inv:
  assumes "secondPass M ctx args = (ctx', Ok v)" "ctx_ok ctx" "\<forall>a\<in>set args. val_ok ctx a"
  shows "ctx_ok ctx' \<and> IDNum ctx \<le> IDNum ctx' \<and> val_ok ctx' v"
proof -
  obtain t ps where s: "secondPass_args M ctx [] (drop 2 args) = (ctx', Ok ps)"
    "v = GPolicy (NOutOf (go_int32 t) ps)" "3 \<le> length args" "0 \<le> t" "t \<le> int (length args) - 1"
    using assms(1)
    by (auto simp: secondPass_def Let_def not_less split: if_splits gval.splits prod.splits outcome.splits)
  have "\<forall>a\<in>set (drop 2 args). val_ok ctx a"
    using assms(3) by (auto dest: in_set_dropD)
  from secondPass_args_inv[OF s(1) assms(2) _ this] s show ?thesis
    by (auto simp: NOutOf_def)
qed

lemma secondPass_args_length:
  "secondPass_args M ctx policies args = (ctx', Ok ps) \<Longrightarrow> length ps = length policies + length args"
  by (induction M ctx policies args rule: secondPass_args.induct)
     (auto split: option.splits prod.splits outcome.splits)

lemma filter_all_iff: "length (filter Q xs) = length xs \<longleftrightarrow> (\<forall>x\<in>set xs. Q x)"
proof (induction xs)
  case (Cons x xs)
  have "length (filter Q xs) \<noteq> Suc (length xs)" using length_filter_le[of Q xs] by linarith
  with Cons show ?case by (cases "Q x") auto
qed simp

section \<open>What an evaluator may do\<close>

text \<open>
  The states an evaluation goes through: a context and the values computed so far. Literals
  appear, and functions are applied to values that are there. An evaluator is admissible if what
  it returns is one of the values of such a run and the context is the one the run ends in.
\<close>

fun is_literal :: "gval \<Rightarrow> bool" where
  "is_literal (GFloat64 _) = True"
| "is_literal (GStr _) = True"
| "is_literal (GOther _) = True"
| "is_literal _ = False"

inductive gov_run ::
    "(string \<times> gfun) list \<Rightarrow> (string \<times> gval) list \<Rightarrow> policy_context \<Rightarrow> policy_context \<Rightarrow> gval list \<Rightarrow> bool"
  for fns params ctx0 where
  run_start: "gov_run fns params ctx0 ctx0 (map snd params)"
| run_literal: "gov_run fns params ctx0 ctx vs \<Longrightarrow> is_literal v \<Longrightarrow> gov_run fns params ctx0 ctx (v # vs)"
| run_call: "gov_run fns params ctx0 ctx vs \<Longrightarrow> (name, f) \<in> set fns \<Longrightarrow> set args \<subseteq> set vs \<Longrightarrow>
    f ctx args = (ctx', Ok v) \<Longrightarrow> gov_run fns params ctx0 ctx' (v # vs)"

definition gov_calls :: "gov \<Rightarrow> bool" where
  "gov_calls gov \<longleftrightarrow> (\<forall>expr fns params ctx ctx' v. gov expr fns params ctx = (ctx', GovValue v) \<longrightarrow>
     (\<exists>vs. gov_run fns params ctx ctx' vs \<and> v \<in> set vs))"

lemma third_pass_run:
  assumes "gov_run [(''outof'', secondPass M)] [(''ID'', GCtx)] newContext ctx vs"
  shows "ctx_ok ctx \<and> (\<forall>v\<in>set vs. val_ok ctx v)"
  using assms
proof (induction rule: gov_run.induct)
  case (run_literal ctx vs v)
  then show ?case by (cases v) auto
next
  case (run_call ctx vs name f args ctx' v)
  then have "secondPass M ctx args = (ctx', Ok v)" "\<forall>a\<in>set args. val_ok ctx a" by auto
  from secondPass_inv[OF this(1) _ this(2)] run_call.IH show ?case
    by (auto intro: val_ok_mono)
qed (simp add: ctx_ok_def newContext_def)

lemma FromString_Ok:
  assumes "FromString gov err_text M s = Ok p"
  shows "\<exists>expr ctx rule. gov expr [(''outof'', secondPass M)] [(''ID'', GCtx)] newContext
           = (ctx, GovValue (GPolicy rule)) \<and>
         p = \<lparr>spe_Version = 0, spe_Rule = rule, spe_Identities = principals ctx\<rparr>"
proof -
  obtain r where "(case gov r [(''outof'', secondPass M)] [(''ID'', GCtx)] newContext of
       (_, GovNewErr err) \<Rightarrow> Err err
     | (_, GovEvalErr err) \<Rightarrow> Err (eval_error err_text err)
     | (ctx, GovValue (GPolicy rule)) \<Rightarrow>
         Ok \<lparr>spe_Version = 0, spe_Rule = rule, spe_Identities = principals ctx\<rparr>
     | (_, GovValue _) \<Rightarrow> Err (Errorf invalid_policy_format [AStr s])) = Ok p"
    using assms by (auto simp: FromString_def)
  then show ?thesis
    by (cases "gov r [(''outof'', secondPass M)] [(''ID'', GCtx)] newContext")
       (auto split: gov_result.splits gval.splits)
qed

section \<open>Theorems\<close>

text \<open>C14. Every policy that \<open>FromString\<close> returns is well formed: each \<open>SignedBy\<close> index is an index
  of the identities of the envelope, and each threshold lies between zero and one more than the
  number of rules.\<close>

theorem from_string_well_formed:
  assumes "gov_calls (pl_gov L)" "policy_FromString L s = Ok p"
    and "length (spe_Identities p) \<le> 2 ^ 31"
  shows "wf_policy (int (length (spe_Identities p))) (spe_Rule p) \<and>
         (\<forall>i\<in>set (policy_indices (spe_Rule p)). 0 \<le> i \<and> i < int (length (spe_Identities p)))"
proof -
  obtain expr ctx rule where g:
    "pl_gov L expr [(''outof'', secondPass (pl_MSPRole L))] [(''ID'', GCtx)] newContext
       = (ctx, GovValue (GPolicy rule))"
    "p = \<lparr>spe_Version = 0, spe_Rule = rule, spe_Identities = principals ctx\<rparr>"
    using FromString_Ok[OF assms(2)] by blast
  then obtain vs where "gov_run [(''outof'', secondPass (pl_MSPRole L))] [(''ID'', GCtx)] newContext ctx vs"
    "GPolicy rule \<in> set vs"
    using assms(1) unfolding gov_calls_def by blast
  then have "ctx_ok ctx" "wf_policy (IDNum ctx) rule"
    using third_pass_run by fastforce+
  then have w: "wf_policy (int (length (principals ctx))) rule" by (simp add: ctx_ok_def)
  have "int (length (principals ctx)) \<le> 2 ^ 31" using assms(3) g(2) by simp
  with wf_policy_indices[OF w] w g(2) show ?thesis by auto
qed

text \<open>An admissible evaluator for one expression: it gives the literals of the first two passes and
  in the third calls \<open>outof\<close> with one principal.\<close>

definition sample_gov :: gov where
  "sample_gov expr fns params ctx =
     (case (fns, params) of
        ([(n, f)], [(x, v)]) \<Rightarrow>
          (case f ctx [v, GFloat64 1, GStr ''Org1MSP.member''] of
             (ctx', Ok r) \<Rightarrow> (ctx', GovValue r)
           | (ctx', Err e) \<Rightarrow> (ctx', GovEvalErr e)
           | (ctx', Panic q) \<Rightarrow> (ctx', GovEvalErr (ErrExt ''panic'')))
      | _ \<Rightarrow> (ctx, GovValue (GStr expr)))"

definition sample_policy_lib :: policy_lib where
  "sample_policy_lib =
     \<lparr>pl_gov = sample_gov, pl_err_text = (\<lambda>_. []),
      pl_MSPRole = table_codec [\<lparr>mr_MspIdentifier = ''Org1MSP'', mr_Role = MSPRole_MEMBER\<rparr>],
      pl_json_collections = (\<lambda>_. ([], None)), pl_CollectionConfigPackage = table_codec [[]]\<rparr>"

definition sample_policy :: SignaturePolicyEnvelope where
  "sample_policy =
     \<lparr>spe_Version = 0, spe_Rule = SP_NOutOf 1 [SP_SignedBy 0],
      spe_Identities = [\<lparr>mp_PrincipalClassification = MSPPrincipal_ROLE, mp_Principal = [0]\<rparr>]\<rparr>"

lemma regex_Org1MSP_member: "regex ''Org1MSP.member'' = Some (''Org1MSP'', RoleMember)"
  by (simp add: regex_iff alnum_def role_defs)

lemma go_int32_small: "go_int32 0 = 0" "go_int32 1 = 1" "go_int32 2 = 2"
  by (simp_all add: go_int32_id)

lemma sample_gov_calls: "gov_calls sample_gov"
proof -
  have "\<exists>vs. gov_run fns params ctx ctx' vs \<and> v \<in> set vs"
    if g: "sample_gov expr fns params ctx = (ctx', GovValue v)" for expr fns params ctx ctx' v
  proof (cases "\<exists>n f x w. fns = [(n, f)] \<and> params = [(x, w)]")
    case True
    then obtain n f x w where c: "fns = [(n, f)]" "params = [(x, w)]" by blast
    then have f: "f ctx [w, GFloat64 1, GStr ''Org1MSP.member''] = (ctx', Ok v)"
      using g by (auto simp: sample_gov_def split: prod.splits outcome.splits)
    have "gov_run fns params ctx ctx (GStr ''Org1MSP.member'' # GFloat64 1 # map snd params)"
      by (intro run_literal run_start) simp_all
    then have "gov_run fns params ctx ctx [GStr ''Org1MSP.member'', GFloat64 1, w]"
      using c by simp
    then have "gov_run fns params ctx ctx' (v # [GStr ''Org1MSP.member'', GFloat64 1, w])"
      by (rule run_call[where name = n and f = f
            and args = "[w, GFloat64 1, GStr ''Org1MSP.member'']"]) (use c f in auto)
    then show ?thesis by fastforce
  next
    case False
    then have "ctx' = ctx" "v = GStr expr"
      using g by (auto simp: sample_gov_def split: list.splits)
    then show ?thesis
      using run_literal[OF run_start, of "GStr expr"] by fastforce
  qed
  then show ?thesis unfolding gov_calls_def by blast
qed

lemma sample_FromString: "policy_FromString sample_policy_lib ''x'' = Ok sample_policy"
  by (simp add: FromString_def string_pass_def sample_policy_lib_def sample_gov_def gate_functions_def
      secondPass_def regex_Org1MSP_member role_of_def table_codec_simps newContext_def NOutOf_def
      SignedBy_def go_int32_small sample_policy_def)

lemma from_string_well_formed_witness:
  "policy_FromString sample_policy_lib ''x'' = Ok sample_policy \<and>
   list_all (\<lambda>i. 0 \<le> i \<and> i < 1) (policy_indices (spe_Rule sample_policy))"
proof -
  have "gov_calls (pl_gov sample_policy_lib)" "length (spe_Identities sample_policy) \<le> 2 ^ 31"
    using sample_gov_calls by (simp_all add: sample_policy_lib_def sample_policy_def)
  from from_string_well_formed[OF this(1) sample_FromString this(2)] sample_FromString show ?thesis
    by (simp add: sample_policy_def)
qed

text \<open>The gate that the third pass builds is the threshold its second argument asks for, over
  one rule per remaining argument: with \<open>t = 0\<close> it is always satisfied, with \<open>t = n\<close> it needs all
  rules, and the value \<open>t = n + 1\<close>, which the code lets through, gives a policy that no set of
  signers satisfies.\<close>

lemma threshold_gate:
  assumes "secondPass M ctx (GCtx # GFloat64 t # args) = (ctx', Ok v)"
    and "int (length args) + 1 < 2 ^ 31"
  shows "\<exists>rules. v = GPolicy (SP_NOutOf t rules) \<and> length rules = length args \<and>
           0 \<le> t \<and> t \<le> int (length args) + 1 \<and>
           (if t = 0 then sp_sat s (SP_NOutOf t rules) else True) \<and>
           (if t = int (length args) then sp_sat s (SP_NOutOf t rules) = (\<forall>r\<in>set rules. sp_sat s r) else True) \<and>
           (if t = int (length args) + 1 then \<not> sp_sat s (SP_NOutOf t rules) else True)"
proof -
  obtain rules where r: "secondPass_args M ctx [] args = (ctx', Ok rules)"
    "v = GPolicy (SP_NOutOf (go_int32 t) rules)" "0 \<le> t" "t \<le> int (length args) + 1"
    using assms(1)
    by (auto simp: secondPass_def NOutOf_def Let_def not_less split: if_splits prod.splits outcome.splits)
  have l: "length rules = length args"
    using secondPass_args_length[OF r(1)] by simp
  have t: "go_int32 t = t" using r(3,4) assms(2) by (intro go_int32_id) auto
  define c where "c = length (filter (sp_sat s) rules)"
  have c: "c \<le> length args" "c = length args \<longleftrightarrow> (\<forall>r\<in>set rules. sp_sat s r)"
    using length_filter_le[of "sp_sat s" rules] filter_all_iff[of "sp_sat s" rules] l
    by (simp_all add: c_def)
  have sat: "sp_sat s (SP_NOutOf t rules) \<longleftrightarrow> t \<le> int c" by (simp add: c_def)
  have "v = GPolicy (SP_NOutOf t rules)" using r(2) t by simp
  moreover have "(if t = 0 then sp_sat s (SP_NOutOf t rules) else True) \<and>
      (if t = int (length args) then sp_sat s (SP_NOutOf t rules) = (\<forall>r\<in>set rules. sp_sat s r) else True) \<and>
      (if t = int (length args) + 1 then \<not> sp_sat s (SP_NOutOf t rules) else True)"
    unfolding sat c(2)[symmetric] using c(1) by auto
  ultimately show ?thesis using r(3,4) l by blast
qed

lemma threshold_gate_witness:
  "\<exists>p. secondPass (pl_MSPRole sample_policy_lib) newContext [GCtx, GFloat64 2, GStr ''Org1MSP.member'']
     = (\<lparr>IDNum = 1, principals = spe_Identities sample_policy\<rparr>, Ok (GPolicy p)) \<and> \<not> sp_sat (\<lambda>_. True) p"
proof -
  have e: "secondPass (pl_MSPRole sample_policy_lib) newContext [GCtx, GFloat64 2, GStr ''Org1MSP.member'']
     = (\<lparr>IDNum = 1, principals = spe_Identities sample_policy\<rparr>,
        Ok (GPolicy (SP_NOutOf 2 [SP_SignedBy 0])))"
    by (simp add: secondPass_def regex_Org1MSP_member role_of_def table_codec_simps newContext_def
        NOutOf_def SignedBy_def go_int32_small sample_policy_def sample_policy_lib_def)
  from threshold_gate[OF e, where s = "\<lambda>_. True"] e show ?thesis by auto
qed

text \<open>The convenience gates mean what they say: \<open>And\<close> is conjunction and \<open>Or\<close> disjunction of
  the two policies, for every set of signers.\<close>

lemma and_or_gates:
  "sp_sat s (And l r) = (sp_sat s l \<and> sp_sat s r) \<and> sp_sat s (Or l r) = (sp_sat s l \<or> sp_sat s r)"
  by (simp add: And_def Or_def NOutOf_def)

text \<open>At most one of the two kinds of policy makes an application policy: both together are
  refused, neither gives none, and a lone channel policy is passed on as it is.\<close>

lemma application_policy_exclusive:
  "case getApplicationPolicy L sp ccp of
     Ok None \<Rightarrow> sp = [] \<and> ccp = []
   | Ok (Some (AP_SignaturePolicy p)) \<Rightarrow> ccp = [] \<and> policy_FromString L sp = Ok p
   | Ok (Some (AP_ChannelConfigPolicyReference r)) \<Rightarrow> sp = [] \<and> r = ccp \<and> ccp \<noteq> []
   | Err e \<Rightarrow> sp \<noteq> [] \<and> (if ccp = [] then is_err (policy_FromString L sp) else True)
   | Panic q \<Rightarrow> ccp = [] \<and> policy_FromString L sp = Panic q"
  by (auto simp: getApplicationPolicy_def split: outcome.splits)

end
