(* ===== verification/Lifecycle.thy ===== *)
theory Lifecycle
  imports Submit PolicyDSL
begin

text \<open>
  The lifecycle of a chaincode definition: \<open>request.go\<close>, \<open>option.go\<close>, \<open>approve.go\<close> and \<open>commit.go\<close>
  of \<open>internal/chaincode\<close>. An organisation approves a definition, then the definition is committed;
  both are invocations of the system chaincode \<open>_lifecycle\<close> whose argument is a marshalled message.
\<close>

section \<open>Requests and options\<close>

record ApproveChaincodeRequest =
  ar_PackageID :: string
  ar_Name :: string
  ar_TxID :: string
  ar_Version :: string
  ar_Sequence :: "64 word"
  ar_SignPolicy :: string
  ar_ChannelConfigPolicy :: string
  ar_EndorserPlugin :: string
  ar_ValidationPlugin :: string
  ar_ValidationParameterBytes :: bytes
  ar_CollectionConfig :: bytes
  ar_InitRequired :: bool
  ar_WaitForEvent :: bool
  ar_WaitForEventTimeout :: int

record CommitChaincodeRequest =
  cr_TxID :: string
  cr_Name :: string
  cr_Version :: string
  cr_Sequence :: "64 word"
  cr_SignPolicy :: string
  cr_ChannelConfigPolicy :: string
  cr_EndorsementPlugin :: string
  cr_ValidationPlugin :: string
  cr_ValidationParameter :: bytes
  cr_InitRequired :: bool
  cr_CollectionConfig :: bytes
  cr_WaitForEvent :: bool
  cr_WaitForEventTimeout :: int

record CheckCommitReadinessRequest =
  ccr_Sequence :: "64 word"
  ccr_Name :: string
  ccr_Version :: string
  ccr_EndorsementPlugin :: string
  ccr_ValidationPlugin :: string
  ccr_ValidationParameter :: bytes
  ccr_InitRequired :: bool
  ccr_ChannelID :: string

record LifecycleArgs =
  la_Name :: string
  la_Version :: string
  la_Sequence :: "64 word"
  la_EndorsementPlugin :: string
  la_ValidationPlugin :: string
  la_ValidationParameter :: bytes
  la_InitRequired :: bool

text \<open>\<open>QueryCommittedChaincodeRequest\<close> embeds \<open>LifecycleArgs\<close> and has nothing else.\<close>

type_synonym QueryCommittedChaincodeRequest = LifecycleArgs

text \<open>The \<open>interface{}\<close> an option is given: one of the request pointers, or something else. Each
  option is a type switch that sets one field and returns the same object.\<close>

datatype request = ReqApprove ApproveChaincodeRequest | ReqCommit CommitChaincodeRequest
  | ReqReadiness CheckCommitReadinessRequest | ReqQueryCommitted QueryCommittedChaincodeRequest

type_synonym Option = "request \<Rightarrow> request"

definition WithEndorsePlugin :: "string \<Rightarrow> Option" where
  "WithEndorsePlugin plugin obj = (case obj of
     ReqApprove v \<Rightarrow> ReqApprove (v\<lparr>ar_EndorserPlugin := plugin\<rparr>)
   | ReqCommit v \<Rightarrow> ReqCommit (v\<lparr>cr_EndorsementPlugin := plugin\<rparr>)
   | _ \<Rightarrow> obj)"

definition WithValidatePlugin :: "string \<Rightarrow> Option" where
  "WithValidatePlugin plugin obj = (case obj of
     ReqApprove v \<Rightarrow> ReqApprove (v\<lparr>ar_ValidationPlugin := plugin\<rparr>)
   | ReqCommit v \<Rightarrow> ReqCommit (v\<lparr>cr_ValidationPlugin := plugin\<rparr>)
   | _ \<Rightarrow> obj)"

definition WithSignPolicy :: "string \<Rightarrow> Option" where
  "WithSignPolicy policy obj = (case obj of
     ReqApprove v \<Rightarrow> ReqApprove (v\<lparr>ar_SignPolicy := policy\<rparr>)
   | ReqCommit v \<Rightarrow> ReqCommit (v\<lparr>cr_SignPolicy := policy\<rparr>)
   | _ \<Rightarrow> obj)"

definition WithChannelPolicy :: "string \<Rightarrow> Option" where
  "WithChannelPolicy policy obj = (case obj of
     ReqApprove v \<Rightarrow> ReqApprove (v\<lparr>ar_ChannelConfigPolicy := policy\<rparr>)
   | ReqCommit v \<Rightarrow> ReqCommit (v\<lparr>cr_ChannelConfigPolicy := policy\<rparr>)
   | _ \<Rightarrow> obj)"

definition WithCollectionConfig :: "bytes \<Rightarrow> Option" where
  "WithCollectionConfig config obj = (case obj of
     ReqApprove v \<Rightarrow> ReqApprove (v\<lparr>ar_CollectionConfig := config\<rparr>)
   | ReqCommit v \<Rightarrow> ReqCommit (v\<lparr>cr_CollectionConfig := config\<rparr>)
   | _ \<Rightarrow> obj)"

definition WithSequence :: "64 word \<Rightarrow> Option" where
  "WithSequence seqNum obj = (case obj of
     ReqApprove v \<Rightarrow> ReqApprove (v\<lparr>ar_Sequence := seqNum\<rparr>)
   | ReqCommit v \<Rightarrow> ReqCommit (v\<lparr>cr_Sequence := seqNum\<rparr>)
   | ReqReadiness v \<Rightarrow> ReqReadiness (v\<lparr>ccr_Sequence := seqNum\<rparr>)
   | _ \<Rightarrow> obj)"

definition WithTimeout :: "int \<Rightarrow> Option" where
  "WithTimeout timeout obj = (case obj of
     ReqApprove v \<Rightarrow> ReqApprove (v\<lparr>ar_WaitForEventTimeout := timeout\<rparr>)
   | ReqCommit v \<Rightarrow> ReqCommit (v\<lparr>cr_WaitForEventTimeout := timeout\<rparr>)
   | _ \<Rightarrow> obj)"

definition WithInitRequired :: Option where
  "WithInitRequired obj = (case obj of
     ReqApprove v \<Rightarrow> ReqApprove (v\<lparr>ar_InitRequired := True\<rparr>)
   | ReqCommit v \<Rightarrow> ReqCommit (v\<lparr>cr_InitRequired := True\<rparr>)
   | ReqReadiness v \<Rightarrow> ReqReadiness (v\<lparr>ccr_InitRequired := True\<rparr>)
   | _ \<Rightarrow> obj)"

definition WithName :: "string \<Rightarrow> Option" where
  "WithName name obj = (case obj of
     ReqQueryCommitted v \<Rightarrow> ReqQueryCommitted (v\<lparr>la_Name := name\<rparr>)
   | _ \<Rightarrow> obj)"

text \<open>\<open>int64\<close> sequences are words.\<close>

section \<open>The messages of the lifecycle chaincode\<close>

datatype ChaincodeSource = SourceLocalPackage string | SourceUnavailable

record ApproveArgs =
  aa_Sequence :: "64 word"
  aa_Name :: string
  aa_Version :: string
  aa_EndorsementPlugin :: string
  aa_ValidationPlugin :: string
  aa_ValidationParameter :: bytes
  aa_Collections :: "CollectionConfigPackage option"
  aa_InitRequired :: bool
  aa_Source :: ChaincodeSource

record CommitArgs =
  ca_Sequence :: "64 word"
  ca_Name :: string
  ca_Version :: string
  ca_EndorsementPlugin :: string
  ca_ValidationPlugin :: string
  ca_ValidationParameter :: bytes
  ca_Collections :: "CollectionConfigPackage option"
  ca_InitRequired :: bool

record lifecycle_lib =
  ll_policy :: policy_lib
  ll_ApplicationPolicy :: "ApplicationPolicy codec"
  ll_ApproveArgs :: "ApproveArgs codec"
  ll_CommitArgs :: "CommitArgs codec"

definition LifeCycleName :: string where "LifeCycleName = ''_lifecycle''"
definition LSCC_InstallChaincode :: string where "LSCC_InstallChaincode = ''InstallChaincode''"
definition LSCC_ApproveFuncName :: string where "LSCC_ApproveFuncName = ''ApproveChaincodeDefinitionForMyOrg''"
definition LSCC_CommitFuncName :: string where "LSCC_CommitFuncName = ''CommitChaincodeDefinition''"
definition LSCC_CheckCommitReadinessFuncName :: string where "LSCC_CheckCommitReadinessFuncName = ''CheckCommitReadiness''"
definition LSCC_QueryInstalledChaincode :: string where "LSCC_QueryInstalledChaincode = ''QueryInstalledChaincodes''"
definition LSCC_QueryApprivedChaincode :: string where "LSCC_QueryApprivedChaincode = ''QueryApprovedChaincodeDefinition''"

text \<open>The invocation of \<open>_lifecycle\<close> that each function of the package writes out.\<close>

definition lifecycle_cis :: "string \<Rightarrow> bytes \<Rightarrow> ChaincodeInvocationSpec" where
  "lifecycle_cis func argsBytes =
     \<lparr>cis_ChaincodeSpec = Some
        \<lparr>cspec_Type = ChaincodeSpec_UNDEFINED,
         cspec_ChaincodeId = Some \<lparr>ccid_Path = [], ccid_Name = LifeCycleName, ccid_Version = []\<rparr>,
         cspec_Input = Some \<lparr>cin_Args = [bytes_of_string func, argsBytes], cin_IsInit = False\<rparr>\<rparr>\<rparr>"

section \<open>Approving\<close>

definition createPolicyBytes :: "lifecycle_lib \<Rightarrow> string \<Rightarrow> string \<Rightarrow> bytes outcome" where
  "createPolicyBytes L signaturePolicy channelConfigPolicy =
     (if signaturePolicy = [] \<and> channelConfigPolicy = [] then Ok []
      else if signaturePolicy \<noteq> [] \<and> channelConfigPolicy \<noteq> []
      then Err (ErrNew ''cannot specify both \"--signature-policy\" and \"--channel-config-policy\"'')
      else
      bind (if signaturePolicy \<noteq> []
            then (case policy_FromString (ll_policy L) signaturePolicy of
                    Ok signaturePolicyEnvelope \<Rightarrow> Ok (Some (AP_SignaturePolicy signaturePolicyEnvelope))
                  | Err _ \<Rightarrow> Err (Errorf ''invalid signature policy: %s'' [AStr signaturePolicy])
                  | Panic p \<Rightarrow> Panic p)
            else Ok None) (\<lambda>applicationPolicy.
      let applicationPolicy' = (if channelConfigPolicy \<noteq> []
            then Some (AP_ChannelConfigPolicyReference channelConfigPolicy) else applicationPolicy) in
      MarshalOrPanic (ll_ApplicationPolicy L) applicationPolicy'))"

text \<open>The collections of an approval: the error of \<open>getCollectionConfigFromBytes\<close> is stored in a
  variable that the next assignment overwrites, so only the package remains.\<close>

definition approve_collections :: "lifecycle_lib \<Rightarrow> bytes \<Rightarrow> CollectionConfigPackage option outcome" where
  "approve_collections L cconf =
     (if length cconf > 0
      then bind (getCollectionConfigFromBytes (ll_policy L) cconf) (\<lambda>r. Ok (fst (fst r)))
      else Ok None)"

text \<open>The request is a pointer and its \<open>WaitForEvent\<close> may be set: it is returned beside the result.\<close>

definition createApproveChaincodeProposal ::
    "proposer \<Rightarrow> lifecycle_lib \<Rightarrow> Signer \<Rightarrow> ApproveChaincodeRequest \<Rightarrow> string
       \<Rightarrow> ApproveChaincodeRequest \<times> (Proposal \<times> string) outcome" where
  "createApproveChaincodeProposal E L signer req channelID =
     (let ccsrc = (if ar_PackageID req \<noteq> [] then SourceLocalPackage (ar_PackageID req) else SourceUnavailable) in
      case bind (createPolicyBytes L (ar_SignPolicy req) (ar_ChannelConfigPolicy req)) (\<lambda>policyBytes.
           bind (approve_collections L (ar_CollectionConfig req)) (\<lambda>ccpkg.
           Ok \<lparr>aa_Sequence = ar_Sequence req, aa_Name = ar_Name req, aa_Version = ar_Version req,
               aa_EndorsementPlugin = ar_EndorserPlugin req, aa_ValidationPlugin = ar_ValidationPlugin req,
               aa_ValidationParameter = policyBytes, aa_Collections = ccpkg,
               aa_InitRequired = ar_InitRequired req, aa_Source = ccsrc\<rparr>)) of
        Err e \<Rightarrow> (req, Err e)
      | Panic p \<Rightarrow> (req, Panic p)
      | Ok args \<Rightarrow>
        (if ar_WaitForEventTimeout req > 0 then req\<lparr>ar_WaitForEvent := True\<rparr> else req,
         bind (check (Marshal (ll_ApproveArgs L) (Some args))) (\<lambda>argsBytes.
         bind (check (sg_Serialize signer)) (\<lambda>creator.
         CreateChaincodeProposalWithTxIDAndTransient (pp_pb E) (pp_sha2 E) (pp_rnd E) (pp_ts E)
           HeaderType_ENDORSER_TRANSACTION channelID (Some (lifecycle_cis LSCC_ApproveFuncName argsBytes))
           creator (ar_TxID req) Map.empty))))"

text \<open>An error of the broadcast is returned beside the response.\<close>

definition Approve ::
    "proposer \<Rightarrow> lifecycle_lib \<Rightarrow> group_runs \<Rightarrow> Signer \<Rightarrow> CommonFactory \<Rightarrow> ApproveChaincodeRequest \<Rightarrow> string
       \<Rightarrow> TxResponse ret run" where
  "Approve E L G signer cf req channelID =
     rbind (pure_run (snd (createApproveChaincodeProposal E L signer req channelID))) (\<lambda>(proposal, txID).
     rbind (pure_run (cryptoutil_GetSignedProposal (pp_pb E) (Some proposal) signer)) (\<lambda>signedProp.
     rbind (pure_run (deref (cf_Committer cf))) (\<lambda>committer.
     rbind (emit (EvEndorse 0 signedProp)) (\<lambda>_.
     rbind (pure_run (on_err ''fail to process proposal'' (check (committer signedProp)))) (\<lambda>resp.
     rbind (pure_run (deref resp)) (\<lambda>proposalResp.
     case pr_Response proposalResp of
       None \<Rightarrow> pure_run (Err (Errorf ''received proposal response with nil response'' []))
     | Some r \<Rightarrow>
       (if resp_Status r \<noteq> Status_SUCCESS
        then pure_run (Err (Errorf ''proposal failed with status: %d - %s''
                              [AInt (resp_Status r), AStr (resp_Message r)]))
        else
        let response = \<lparr>tr_TxID = txID, tr_Response = Some r\<rparr> in
        case broadcastProposalEnvelope (pp_pb E) G signer (Some proposal) cf channelID txID
               (ar_WaitForEventTimeout req) [resp] of
          (t, Ok _) \<Rightarrow> (t, Ok (response, None))
        | (t, Err err) \<Rightarrow> (t, Ok (response, Some err))
        | (t, Panic p) \<Rightarrow> (t, Panic p))))))))"

section \<open>Committing\<close>

definition createCommitProposal ::
    "proposer \<Rightarrow> lifecycle_lib \<Rightarrow> Signer \<Rightarrow> CommitChaincodeRequest \<Rightarrow> string \<Rightarrow> (Proposal \<times> string) outcome" where
  "createCommitProposal E L signer cr channelID =
     bind (createPolicyBytes L (cr_SignPolicy cr) (cr_ChannelConfigPolicy cr)) (\<lambda>policyBytes.
     bind (if length (cr_CollectionConfig cr) > 0
           then bind (getCollectionConfigFromBytes (ll_policy L) (cr_CollectionConfig cr)) (\<lambda>r.
                bind (check r) (\<lambda>v. Ok (fst v)))
           else Ok None) (\<lambda>ccpkg.
     bind (check (Marshal (ll_CommitArgs L)
             (Some \<lparr>ca_Sequence = cr_Sequence cr, ca_Name = cr_Name cr, ca_Version = cr_Version cr,
                    ca_EndorsementPlugin = cr_EndorsementPlugin cr, ca_ValidationPlugin = cr_ValidationPlugin cr,
                    ca_ValidationParameter = policyBytes, ca_Collections = ccpkg,
                    ca_InitRequired = cr_InitRequired cr\<rparr>))) (\<lambda>argsBytes.
     bind (on_err ''failed to serialize identity'' (check (sg_Serialize signer))) (\<lambda>creatorBytes.
     on_err ''failed to create ChaincodeInvocationSpec proposal''
       (CreateChaincodeProposalWithTxIDAndTransient (pp_pb E) (pp_sha2 E) (pp_rnd E) (pp_ts E)
          HeaderType_ENDORSER_TRANSACTION channelID (Some (lifecycle_cis LSCC_CommitFuncName argsBytes))
          creatorBytes (cr_TxID cr) Map.empty)))))"

text \<open>The loop of \<open>Commit\<close> over the endorsers, one after the other; \<open>i\<close> is the index of the next.\<close>

fun commit_loop :: "SignedProposal \<Rightarrow> nat \<Rightarrow> endorser list \<Rightarrow> ProposalResponse option list run" where
  "commit_loop signedProp i [] = pure_run (Ok [])"
| "commit_loop signedProp i (commit # rest) =
     rbind (emit (EvEndorse i signedProp)) (\<lambda>_.
     rbind (pure_run (on_err ''failed to endorse proposal'' (check (commit signedProp)))) (\<lambda>resp.
     rbind (pure_run (bind (deref resp) (\<lambda>r. deref (pr_Response r)))) (\<lambda>response.
     if resp_Status response \<noteq> Status_SUCCESS
     then pure_run (Err (Errorf ''proposal failed with status: %d - %s''
                           [AInt (resp_Status response), AStr (resp_Message response)]))
     else rbind (commit_loop signedProp (i + 1) rest) (\<lambda>responses. pure_run (Ok (resp # responses))))))"

definition Commit ::
    "proposer \<Rightarrow> lifecycle_lib \<Rightarrow> group_runs \<Rightarrow> Signer \<Rightarrow> CommonFactory \<Rightarrow> CommitChaincodeRequest \<Rightarrow> string
       \<Rightarrow> TxResponse run" where
  "Commit E L G signer cf req channelID =
     rbind (pure_run (createCommitProposal E L signer req channelID)) (\<lambda>(proposal, txID).
     rbind (pure_run (cryptoutil_GetSignedProposal (pp_pb E) (Some proposal) signer)) (\<lambda>signedProp.
     rbind (commit_loop signedProp 0 (cf_Endorsers cf)) (\<lambda>responses.
     rbind (broadcastProposalEnvelope (pp_pb E) G signer (Some proposal) cf channelID txID
              (cr_WaitForEventTimeout req) responses) (\<lambda>_.
     rbind (pure_run (bind (go_index responses 0) deref)) (\<lambda>r0.
     pure_run (Ok \<lparr>tr_TxID = txID, tr_Response = pr_Response r0\<rparr>))))))"

section \<open>What the operations do\<close>

lemma create_proposal_txid_made:
  assumes "CreateChaincodeProposalWithTxIDAndTransient P sha2 rnd ts typ ch cis creator tx tm = Ok (p, txid)"
  shows "\<exists>nonce. rnd = (nonce, None) \<and> txid = (if tx = [] then ComputeTxID sha2 nonce creator else tx) \<and>
           proposal_made P txid typ ch cis nonce creator tm p"
  using assms
  by (auto simp: CreateChaincodeProposalWithTxIDAndTransient_def getRandomNonce_def Let_def
      dest!: create_proposal_made)

text \<open>A proposal that carries an invocation of \<open>_lifecycle\<close> with a function and an argument message.\<close>

definition carries :: "pb \<Rightarrow> 'm codec \<Rightarrow> string \<Rightarrow> Proposal \<Rightarrow> 'm \<Rightarrow> bool" where
  "carries P c func p args \<longleftrightarrow>
     (\<exists>cpp b. UnmarshalChaincodeProposalPayload P (prop_Payload p) = (cpp, None) \<and>
        Unmarshal (pb_ChaincodeInvocationSpec P) (cpp_Input cpp) = (lifecycle_cis func b, None) \<and>
        Unmarshal c b = (args, None))"

lemma proposal_carries:
  assumes "pb_laws P" "codec_laws any c" "Marshal c (Some args) = (b, None)"
    and "CreateChaincodeProposalWithTxIDAndTransient P sha2 rnd ts typ ch (Some (lifecycle_cis func b)) creator tx tm
           = Ok (p, txid)"
  shows "carries P c func p args"
proof -
  from create_proposal_txid_made[OF assms(4)] obtain cisB where
    m: "Marshal (pb_ChaincodeInvocationSpec P) (Some (lifecycle_cis func b)) = (cisB, None)"
    "Marshal (pb_ChaincodeProposalPayload P) (Some \<lparr>cpp_Input = cisB, cpp_TransientMap = tm\<rparr>) = (prop_Payload p, None)"
    unfolding proposal_made_def by blast
  have "Unmarshal (pb_ChaincodeInvocationSpec P) cisB = (lifecycle_cis func b, None)"
    "UnmarshalChaincodeProposalPayload P (prop_Payload p) = (\<lparr>cpp_Input = cisB, cpp_TransientMap = tm\<rparr>, None)"
    unfolding unmarshal_ok_iff
    by (rule pb_laws_read(7)[OF assms(1) m(1)], rule pb_laws_read(9)[OF assms(1) m(2)])
  moreover have "Unmarshal c b = (args, None)" by (rule codec_roundtrip[OF assms(2,3)]) simp
  ultimately show ?thesis
    unfolding carries_def by (intro exI[of _ "\<lparr>cpp_Input = cisB, cpp_TransientMap = tm\<rparr>"] exI[of _ b]) simp
qed

text \<open>The requests of an approval and of a commit that name the same definition.\<close>

definition same_definition :: "ApproveChaincodeRequest \<Rightarrow> CommitChaincodeRequest \<Rightarrow> bool" where
  "same_definition ar cr \<longleftrightarrow>
     ar_Name ar = cr_Name cr \<and> ar_Version ar = cr_Version cr \<and> ar_Sequence ar = cr_Sequence cr \<and>
     ar_SignPolicy ar = cr_SignPolicy cr \<and> ar_ChannelConfigPolicy ar = cr_ChannelConfigPolicy cr \<and>
     ar_EndorserPlugin ar = cr_EndorsementPlugin cr \<and> ar_ValidationPlugin ar = cr_ValidationPlugin cr \<and>
     ar_CollectionConfig ar = cr_CollectionConfig cr \<and> ar_InitRequired ar = cr_InitRequired cr"

lemma approve_made:
  assumes "snd (createApproveChaincodeProposal E L sg req ch) = Ok (p, txid)"
  shows "\<exists>pol ccpkg b creator args. createPolicyBytes L (ar_SignPolicy req) (ar_ChannelConfigPolicy req) = Ok pol \<and>
     approve_collections L (ar_CollectionConfig req) = Ok ccpkg \<and>
     args = \<lparr>aa_Sequence = ar_Sequence req, aa_Name = ar_Name req, aa_Version = ar_Version req,
               aa_EndorsementPlugin = ar_EndorserPlugin req, aa_ValidationPlugin = ar_ValidationPlugin req,
               aa_ValidationParameter = pol, aa_Collections = ccpkg, aa_InitRequired = ar_InitRequired req,
               aa_Source = (if ar_PackageID req \<noteq> [] then SourceLocalPackage (ar_PackageID req)
                            else SourceUnavailable)\<rparr> \<and>
     Marshal (ll_ApproveArgs L) (Some args) = (b, None) \<and>
     CreateChaincodeProposalWithTxIDAndTransient (pp_pb E) (pp_sha2 E) (pp_rnd E) (pp_ts E)
       HeaderType_ENDORSER_TRANSACTION ch (Some (lifecycle_cis LSCC_ApproveFuncName b)) creator (ar_TxID req) Map.empty
       = Ok (p, txid)"
  using assms
  by (auto simp: createApproveChaincodeProposal_def Let_def split: outcome.splits)

lemma commit_made:
  assumes "createCommitProposal E L sg cr ch = Ok (p, txid)"
  shows "\<exists>pol ccpkg b creator args. createPolicyBytes L (cr_SignPolicy cr) (cr_ChannelConfigPolicy cr) = Ok pol \<and>
     approve_collections L (cr_CollectionConfig cr) = Ok ccpkg \<and>
     args = \<lparr>ca_Sequence = cr_Sequence cr, ca_Name = cr_Name cr, ca_Version = cr_Version cr,
             ca_EndorsementPlugin = cr_EndorsementPlugin cr, ca_ValidationPlugin = cr_ValidationPlugin cr,
             ca_ValidationParameter = pol, ca_Collections = ccpkg, ca_InitRequired = cr_InitRequired cr\<rparr> \<and>
     Marshal (ll_CommitArgs L) (Some args) = (b, None) \<and>
     CreateChaincodeProposalWithTxIDAndTransient (pp_pb E) (pp_sha2 E) (pp_rnd E) (pp_ts E)
       HeaderType_ENDORSER_TRANSACTION ch (Some (lifecycle_cis LSCC_CommitFuncName b)) creator (cr_TxID cr) Map.empty
       = Ok (p, txid)"
  using assms
  by (cases "cr_CollectionConfig cr = []")
     (simp add: createCommitProposal_def approve_collections_def, blast,
      simp add: createCommitProposal_def approve_collections_def, elim exE conjE, fastforce)

text \<open>An endorser that accepts a proposal, and the loop that asks one after the other.\<close>

definition accepts :: "SignedProposal \<Rightarrow> endorser \<Rightarrow> bool" where
  "accepts sp e \<longleftrightarrow> (case e sp of
     (Some r, None) \<Rightarrow> (case pr_Response r of Some u \<Rightarrow> resp_Status u = Status_SUCCESS | None \<Rightarrow> False)
   | _ \<Rightarrow> False)"

lemma commit_loop_step:
  "commit_loop sp i (e # es) =
     (if accepts sp e
      then (EvEndorse i sp # fst (commit_loop sp (i + 1) es),
            bind (snd (commit_loop sp (i + 1) es)) (\<lambda>rs. Ok (fst (e sp) # rs)))
      else ([EvEndorse i sp], snd (commit_loop sp i (e # es)))) \<and>
   (\<not> accepts sp e \<longrightarrow> \<not> is_ok (snd (commit_loop sp i (e # es))))"
  by (cases "e sp"; cases "fst (e sp)"; cases "snd (e sp)"; cases "pr_Response (the (fst (e sp)))")
     (auto simp: accepts_def rbind_def emit_def pure_run_def split: outcome.splits)

lemma commit_loop_trace:
  "commit_loop sp i es = (t, r) \<Longrightarrow>
     \<exists>n \<le> length es. t = map (\<lambda>k. EvEndorse k sp) [i..<i + n] \<and> list_all (accepts sp) (take (n - 1) es) \<and>
       (case r of Ok rs \<Rightarrow> n = length es \<and> list_all (accepts sp) es \<and> rs = map (\<lambda>e. fst (e sp)) es | _ \<Rightarrow> True)"
proof (induction es arbitrary: i t r)
  case Nil
  then show ?case by auto
next
  case (Cons e es)
  obtain t' r' where c: "commit_loop sp (i + 1) es = (t', r')" by (cases "commit_loop sp (i + 1) es")
  show ?case
  proof (cases "accepts sp e")
    case True
    from Cons.IH[OF c] obtain n where n: "n \<le> length es" "t' = map (\<lambda>k. EvEndorse k sp) [i + 1..<i + 1 + n]"
      "list_all (accepts sp) (take (n - 1) es)"
      "case r' of Ok rs \<Rightarrow> n = length es \<and> list_all (accepts sp) es \<and> rs = map (\<lambda>e. fst (e sp)) es | _ \<Rightarrow> True"
      by blast
    have "t = EvEndorse i sp # t'" "r = bind r' (\<lambda>rs. Ok (fst (e sp) # rs))"
      using commit_loop_step[of sp i e es] Cons.prems c True by auto
    moreover have "[i..<i + Suc n] = i # [i + 1..<i + 1 + n]" by (simp add: upt_conv_Cons)
    moreover have "list_all (accepts sp) (take n (e # es))" using True n(3) by (cases n) simp_all
    ultimately show ?thesis
      using n True by (intro exI[of _ "Suc n"]) (cases r'; auto)
  next
    case False
    then have "t = [EvEndorse i sp]" "\<not> is_ok r"
      using commit_loop_step[of sp i e es] Cons.prems by (metis fst_conv, metis snd_conv)
    then show ?thesis by (intro exI[of _ 1]) (cases r; simp)
  qed
qed

section \<open>A concrete pair of requests\<close>

definition lc_approve :: "bytes \<Rightarrow> ApproveChaincodeRequest" where
  "lc_approve cconf = \<lparr>ar_PackageID = ''p:1'', ar_Name = ''mycc'', ar_TxID = ''t1'', ar_Version = ''1'',
     ar_Sequence = 1, ar_SignPolicy = [], ar_ChannelConfigPolicy = ''A'', ar_EndorserPlugin = ''escc'',
     ar_ValidationPlugin = ''vscc'', ar_ValidationParameterBytes = [], ar_CollectionConfig = cconf,
     ar_InitRequired = True, ar_WaitForEvent = False, ar_WaitForEventTimeout = 5\<rparr>"

definition lc_commit :: "bytes \<Rightarrow> CommitChaincodeRequest" where
  "lc_commit cconf = \<lparr>cr_TxID = ''t2'', cr_Name = ''mycc'', cr_Version = ''1'', cr_Sequence = 1,
     cr_SignPolicy = [], cr_ChannelConfigPolicy = ''A'', cr_EndorsementPlugin = ''escc'',
     cr_ValidationPlugin = ''vscc'', cr_ValidationParameter = [], cr_InitRequired = True,
     cr_CollectionConfig = cconf, cr_WaitForEvent = False, cr_WaitForEventTimeout = 0\<rparr>"

definition lc_approve_args :: "CollectionConfigPackage option \<Rightarrow> ApproveArgs" where
  "lc_approve_args pkg = \<lparr>aa_Sequence = 1, aa_Name = ''mycc'', aa_Version = ''1'', aa_EndorsementPlugin = ''escc'',
     aa_ValidationPlugin = ''vscc'', aa_ValidationParameter = [0], aa_Collections = pkg,
     aa_InitRequired = True, aa_Source = SourceLocalPackage ''p:1''\<rparr>"

definition lc_commit_args :: CommitArgs where
  "lc_commit_args = \<lparr>ca_Sequence = 1, ca_Name = ''mycc'', ca_Version = ''1'', ca_EndorsementPlugin = ''escc'',
     ca_ValidationPlugin = ''vscc'', ca_ValidationParameter = [0], ca_Collections = Some [],
     ca_InitRequired = True\<rparr>"

text \<open>The JSON decoder refuses the contents \<open>[1]\<close> and reads everything else as no collections.\<close>

definition lc_lib :: lifecycle_lib where
  "lc_lib = \<lparr>ll_policy = sample_policy_lib\<lparr>pl_json_collections :=
       (\<lambda>b. if b = [1] then ([], Some (ErrExt ''json'')) else ([], None))\<rparr>,
     ll_ApplicationPolicy = table_codec [AP_ChannelConfigPolicyReference ''A''],
     ll_ApproveArgs = table_codec [lc_approve_args (Some []), lc_approve_args None],
     ll_CommitArgs = table_codec [lc_commit_args]\<rparr>"

definition lc_ch :: "string \<Rightarrow> bytes \<Rightarrow> ChannelHeader" where
  "lc_ch txid ext = \<lparr>ch_Type = HeaderType_ENDORSER_TRANSACTION, ch_Version = 0, ch_Timestamp = Some sample_ts,
     ch_ChannelId = [], ch_TxId = txid, ch_Epoch = 0, ch_Extension = ext, ch_TlsCertHash = []\<rparr>"

definition lc_pb :: pb where
  "lc_pb = sample_pb\<lparr>
     pb_ChaincodeHeaderExtension := table_codec [\<lparr>che_ChaincodeId =
       Some \<lparr>ccid_Path = [], ccid_Name = LifeCycleName, ccid_Version = []\<rparr>\<rparr>],
     pb_ChaincodeInvocationSpec := table_codec
       [lifecycle_cis LSCC_ApproveFuncName [0], lifecycle_cis LSCC_CommitFuncName [0],
        lifecycle_cis LSCC_ApproveFuncName [0, 0]],
     pb_ChaincodeProposalPayload := table_codec [\<lparr>cpp_Input = [0], cpp_TransientMap = Map.empty\<rparr>,
       \<lparr>cpp_Input = [0, 0], cpp_TransientMap = Map.empty\<rparr>, \<lparr>cpp_Input = [0, 0, 0], cpp_TransientMap = Map.empty\<rparr>],
     pb_ChannelHeader := table_codec [lc_ch ''t1'' [0], lc_ch ''t2'' [0]]\<rparr>"

definition lc_proposer :: proposer where
  "lc_proposer = \<lparr>pp_pb = lc_pb, pp_sha2 = (\<lambda>x. x), pp_rnd = ([1], None),
     pp_ts = (sample_ts, None), pp_json_map = (\<lambda>_. (Map.empty, None))\<rparr>"

lemma lc_pb_laws: "pb_laws lc_pb"
  using sample_pb_laws by (simp add: pb_laws_def lc_pb_def)

lemmas lc_defs = lc_approve_def lc_commit_def lc_approve_args_def lc_commit_args_def lc_lib_def lc_ch_def
  lc_pb_def lc_proposer_def

lemma lc_cis_distinct:
  "lifecycle_cis LSCC_ApproveFuncName b \<noteq> lifecycle_cis LSCC_CommitFuncName b'"
  "lifecycle_cis LSCC_CommitFuncName b \<noteq> lifecycle_cis LSCC_ApproveFuncName b'"
  "lifecycle_cis f b = lifecycle_cis f b' \<longleftrightarrow> b = b'"
proof -
  have "length (bytes_of_string LSCC_ApproveFuncName) \<noteq> length (bytes_of_string LSCC_CommitFuncName)"
    by (simp add: bytes_of_string_def LSCC_ApproveFuncName_def LSCC_CommitFuncName_def)
  then show "lifecycle_cis LSCC_ApproveFuncName b \<noteq> lifecycle_cis LSCC_CommitFuncName b'"
    "lifecycle_cis LSCC_CommitFuncName b \<noteq> lifecycle_cis LSCC_ApproveFuncName b'"
    by (auto simp: lifecycle_cis_def)
  show "lifecycle_cis f b = lifecycle_cis f b' \<longleftrightarrow> b = b'" by (auto simp: lifecycle_cis_def)
qed

lemma lc_create:
  "CreateChaincodeProposalWithTxIDAndTransient lc_pb (\<lambda>x. x) ([1], None) (sample_ts, None)
     HeaderType_ENDORSER_TRANSACTION [] (Some (lifecycle_cis LSCC_ApproveFuncName [0])) [2] ''t1'' Map.empty
   = Ok (\<lparr>prop_Header = [0], prop_Payload = [0]\<rparr>, ''t1'')"
  "CreateChaincodeProposalWithTxIDAndTransient lc_pb (\<lambda>x. x) ([1], None) (sample_ts, None)
     HeaderType_ENDORSER_TRANSACTION [] (Some (lifecycle_cis LSCC_CommitFuncName [0])) [2] ''t2'' Map.empty
   = Ok (\<lparr>prop_Header = [0, 0], prop_Payload = [0, 0]\<rparr>, ''t2'')"
proof -
  have s: "cis_ChaincodeSpec (lifecycle_cis f b) = Some \<lparr>cspec_Type = ChaincodeSpec_UNDEFINED,
      cspec_ChaincodeId = Some \<lparr>ccid_Path = [], ccid_Name = LifeCycleName, ccid_Version = []\<rparr>,
      cspec_Input = Some \<lparr>cin_Args = [bytes_of_string f, b], cin_IsInit = False\<rparr>\<rparr>" for f b
    by (simp add: lifecycle_cis_def)
  show "CreateChaincodeProposalWithTxIDAndTransient lc_pb (\<lambda>x. x) ([1], None) (sample_ts, None)
     HeaderType_ENDORSER_TRANSACTION [] (Some (lifecycle_cis LSCC_ApproveFuncName [0])) [2] ''t1'' Map.empty
   = Ok (\<lparr>prop_Header = [0], prop_Payload = [0]\<rparr>, ''t1'')"
    by (simp add: CreateChaincodeProposalWithTxIDAndTransient_def getRandomNonce_def
        CreateChaincodeProposalWithTxIDNonceAndTransient_def MarshalOrPanic_def s lc_cis_distinct lc_pb_def
        lc_ch_def table_codec_simps sample_pb_def)
  show "CreateChaincodeProposalWithTxIDAndTransient lc_pb (\<lambda>x. x) ([1], None) (sample_ts, None)
     HeaderType_ENDORSER_TRANSACTION [] (Some (lifecycle_cis LSCC_CommitFuncName [0])) [2] ''t2'' Map.empty
   = Ok (\<lparr>prop_Header = [0, 0], prop_Payload = [0, 0]\<rparr>, ''t2'')"
    by (simp add: CreateChaincodeProposalWithTxIDAndTransient_def getRandomNonce_def
        CreateChaincodeProposalWithTxIDNonceAndTransient_def MarshalOrPanic_def s lc_cis_distinct lc_pb_def
        lc_ch_def table_codec_simps sample_pb_def)
qed

lemma lc_policy: "createPolicyBytes lc_lib [] ''A'' = Ok [0]"
  by (simp add: createPolicyBytes_def MarshalOrPanic_def lc_lib_def table_codec_simps)

lemma lc_collections: "getCollectionConfigFromBytes (ll_policy lc_lib) [2] = Ok ((Some [], Some [0]), None)"
  "getCollectionConfigFromBytes (ll_policy lc_lib) [1]
     = Ok ((None, None), Some (WithMsg ''could not parse the collection configuration'' (ErrExt ''json'')))"
  by (simp_all add: getCollectionConfigFromBytes_def lc_lib_def sample_policy_lib_def table_codec_simps)

lemma lc_approve_proposal:
  "snd (createApproveChaincodeProposal lc_proposer lc_lib sample_client (lc_approve [2]) [])
     = Ok (\<lparr>prop_Header = [0], prop_Payload = [0]\<rparr>, ''t1'')"
proof -
  have "Marshal (ll_ApproveArgs lc_lib) (Some (lc_approve_args (Some []))) = ([0], None)"
    by (simp add: lc_lib_def table_codec_simps)
  then show ?thesis
    by (simp add: createApproveChaincodeProposal_def lc_policy approve_collections_def lc_collections lc_create
        lc_approve_def lc_approve_args_def lc_proposer_def sample_client_def)
qed

lemma lc_commit_proposal:
  "createCommitProposal lc_proposer lc_lib sample_client (lc_commit [2]) []
     = Ok (\<lparr>prop_Header = [0, 0], prop_Payload = [0, 0]\<rparr>, ''t2'')"
proof -
  have "Marshal (ll_CommitArgs lc_lib) (Some lc_commit_args) = ([0], None)"
    by (simp add: lc_lib_def table_codec_simps)
  then show ?thesis
    by (simp add: createCommitProposal_def lc_policy lc_collections lc_create
        lc_commit_def lc_commit_args_def lc_proposer_def sample_client_def)
qed

section \<open>Theorems\<close>

text \<open>C13. An approval and a commit of the same definition say the same to the lifecycle chaincode:
  when both proposals can be made, each decodes to an invocation of \<open>_lifecycle\<close> with its function,
  and the two argument messages agree on name, version, sequence, plugins, endorsement policy,
  collections and initialisation.\<close>

theorem approve_commit_same_definition:
  assumes "pb_laws (pp_pb E)" "codec_laws any (ll_ApproveArgs L)" "codec_laws any (ll_CommitArgs L)"
    and "snd (createApproveChaincodeProposal E L sg ar ch) = Ok (p, txid)"
    and "createCommitProposal E L sg' cr ch' = Ok (p', txid')"
    and "same_definition ar cr"
  shows "\<exists>aa ca. carries (pp_pb E) (ll_ApproveArgs L) LSCC_ApproveFuncName p aa \<and>
     carries (pp_pb E) (ll_CommitArgs L) LSCC_CommitFuncName p' ca \<and>
     aa_Name aa = cr_Name cr \<and> aa_Version aa = cr_Version cr \<and> aa_Sequence aa = cr_Sequence cr \<and>
     ca_Name ca = aa_Name aa \<and> ca_Version ca = aa_Version aa \<and> ca_Sequence ca = aa_Sequence aa \<and>
     ca_EndorsementPlugin ca = aa_EndorsementPlugin aa \<and> ca_ValidationPlugin ca = aa_ValidationPlugin aa \<and>
     ca_ValidationParameter ca = aa_ValidationParameter aa \<and> ca_Collections ca = aa_Collections aa \<and>
     ca_InitRequired ca = aa_InitRequired aa"
proof -
  from approve_made[OF assms(4)] obtain pol ccpkg b creator aa where a:
    "createPolicyBytes L (ar_SignPolicy ar) (ar_ChannelConfigPolicy ar) = Ok pol"
    "approve_collections L (ar_CollectionConfig ar) = Ok ccpkg"
    "aa = \<lparr>aa_Sequence = ar_Sequence ar, aa_Name = ar_Name ar, aa_Version = ar_Version ar,
           aa_EndorsementPlugin = ar_EndorserPlugin ar, aa_ValidationPlugin = ar_ValidationPlugin ar,
           aa_ValidationParameter = pol, aa_Collections = ccpkg, aa_InitRequired = ar_InitRequired ar,
           aa_Source = (if ar_PackageID ar \<noteq> [] then SourceLocalPackage (ar_PackageID ar) else SourceUnavailable)\<rparr>"
    "Marshal (ll_ApproveArgs L) (Some aa) = (b, None)"
    "CreateChaincodeProposalWithTxIDAndTransient (pp_pb E) (pp_sha2 E) (pp_rnd E) (pp_ts E)
       HeaderType_ENDORSER_TRANSACTION ch (Some (lifecycle_cis LSCC_ApproveFuncName b)) creator (ar_TxID ar) Map.empty
       = Ok (p, txid)" by blast
  from commit_made[OF assms(5)] obtain pol' ccpkg' b' creator' ca where c:
    "createPolicyBytes L (cr_SignPolicy cr) (cr_ChannelConfigPolicy cr) = Ok pol'"
    "approve_collections L (cr_CollectionConfig cr) = Ok ccpkg'"
    "ca = \<lparr>ca_Sequence = cr_Sequence cr, ca_Name = cr_Name cr, ca_Version = cr_Version cr,
           ca_EndorsementPlugin = cr_EndorsementPlugin cr, ca_ValidationPlugin = cr_ValidationPlugin cr,
           ca_ValidationParameter = pol', ca_Collections = ccpkg', ca_InitRequired = cr_InitRequired cr\<rparr>"
    "Marshal (ll_CommitArgs L) (Some ca) = (b', None)"
    "CreateChaincodeProposalWithTxIDAndTransient (pp_pb E) (pp_sha2 E) (pp_rnd E) (pp_ts E)
       HeaderType_ENDORSER_TRANSACTION ch' (Some (lifecycle_cis LSCC_CommitFuncName b')) creator' (cr_TxID cr) Map.empty
       = Ok (p', txid')" by blast
  have "carries (pp_pb E) (ll_ApproveArgs L) LSCC_ApproveFuncName p aa"
    "carries (pp_pb E) (ll_CommitArgs L) LSCC_CommitFuncName p' ca"
    using proposal_carries[OF assms(1,2) a(4,5)] proposal_carries[OF assms(1,3) c(4,5)] by simp_all
  moreover have "pol' = pol" "ccpkg' = ccpkg"
    using a(1,2) c(1,2) assms(6) by (simp_all add: same_definition_def)
  ultimately show ?thesis
    using a(3) c(3) assms(6) by (intro exI[of _ aa] exI[of _ ca]) (simp add: same_definition_def)
qed

lemma approve_commit_same_definition_witness:
  "\<exists>aa ca. carries lc_pb (ll_ApproveArgs lc_lib) LSCC_ApproveFuncName \<lparr>prop_Header = [0], prop_Payload = [0]\<rparr> aa \<and>
     carries lc_pb (ll_CommitArgs lc_lib) LSCC_CommitFuncName \<lparr>prop_Header = [0, 0], prop_Payload = [0, 0]\<rparr> ca \<and>
     aa_Name aa = ''mycc'' \<and> ca_Name ca = aa_Name aa \<and> ca_Collections ca = aa_Collections aa"
proof -
  have h: "pb_laws (pp_pb lc_proposer)" "codec_laws any (ll_ApproveArgs lc_lib)" "codec_laws any (ll_CommitArgs lc_lib)"
    "same_definition (lc_approve [2]) (lc_commit [2])"
    using lc_pb_laws by (simp_all add: lc_proposer_def lc_lib_def same_definition_def lc_approve_def lc_commit_def)
  show ?thesis
    using approve_commit_same_definition[OF h(1-3) lc_approve_proposal lc_commit_proposal h(4)]
    by (auto simp: lc_proposer_def lc_commit_def)
qed

text \<open>An approval does not notice a collection configuration that cannot be read: it proposes the
  definition without collections, where a commit of the same request is refused with the error.\<close>

lemma approve_ignores_bad_collections:
  assumes "getCollectionConfigFromBytes (ll_policy L) cconf = Ok ((None, None), Some e)" "cconf \<noteq> []"
    and "createPolicyBytes L (cr_SignPolicy cr) (cr_ChannelConfigPolicy cr) = Ok pol"
  shows "snd (createApproveChaincodeProposal E L sg (ar\<lparr>ar_CollectionConfig := cconf\<rparr>) ch)
           = snd (createApproveChaincodeProposal E L sg (ar\<lparr>ar_CollectionConfig := []\<rparr>) ch) \<and>
         createCommitProposal E L sg' (cr\<lparr>cr_CollectionConfig := cconf\<rparr>) ch' = Err e"
proof -
  have "approve_collections L cconf = Ok None" "approve_collections L [] = Ok None"
    using assms(1) by (simp_all add: approve_collections_def)
  then have "snd (createApproveChaincodeProposal E L sg (ar\<lparr>ar_CollectionConfig := cconf\<rparr>) ch)
      = snd (createApproveChaincodeProposal E L sg (ar\<lparr>ar_CollectionConfig := []\<rparr>) ch)"
    by (cases "createPolicyBytes L (ar_SignPolicy ar) (ar_ChannelConfigPolicy ar)")
       (simp_all add: createApproveChaincodeProposal_def)
  moreover have "createCommitProposal E L sg' (cr\<lparr>cr_CollectionConfig := cconf\<rparr>) ch' = Err e"
    using assms by (simp add: createCommitProposal_def)
  ultimately show ?thesis ..
qed

lemma approve_ignores_bad_collections_witness:
  "createCommitProposal lc_proposer lc_lib sample_client ((lc_commit [2])\<lparr>cr_CollectionConfig := [1]\<rparr>) []
     = Err (WithMsg ''could not parse the collection configuration'' (ErrExt ''json''))"
  using approve_ignores_bad_collections[OF lc_collections(2), of "lc_commit [2]" "[0]" lc_proposer sample_client
      "lc_approve [2]" "[]" sample_client "[]"] lc_policy
  by (simp add: lc_commit_def)

text \<open>\<open>Commit\<close> asks the endorsers one after the other in their order, stops at the first that
  fails, and turns to the orderer only when every one of them accepted the proposal.\<close>

lemma commit_asks_in_order:
  "\<exists>n sp tb. fst (Commit E L G sg cf req ch) = map (\<lambda>i. EvEndorse i sp) [0..<n] @ tb \<and>
     n \<le> length (cf_Endorsers cf) \<and>
     list_all (accepts sp) (take (n - 1) (cf_Endorsers cf)) \<and>
     (if tb = [] then True else n = length (cf_Endorsers cf) \<and> list_all (accepts sp) (cf_Endorsers cf))"
proof -
  have nil: ?thesis if "fst (Commit E L G sg cf req ch) = []" using that by (intro exI[of _ 0]) simp
  show ?thesis
  proof (cases "bind (createCommitProposal E L sg req ch) (\<lambda>(p, txid).
      bind (cryptoutil_GetSignedProposal (pp_pb E) (Some p) sg) (\<lambda>sp. Ok (p, txid, sp)))")
    case (Ok x)
    then obtain p txid sp where c: "createCommitProposal E L sg req ch = Ok (p, txid)"
      "cryptoutil_GetSignedProposal (pp_pb E) (Some p) sg = Ok sp" by auto
    obtain t r where l: "commit_loop sp 0 (cf_Endorsers cf) = (t, r)" by (cases "commit_loop sp 0 (cf_Endorsers cf)")
    obtain tb where tb: "fst (Commit E L G sg cf req ch) = t @ tb" "tb \<noteq> [] \<longrightarrow> is_ok r"
      by (cases r) (simp_all add: Commit_def c l fst_rbind snd_rbind)
    from commit_loop_trace[OF l] obtain n where n: "n \<le> length (cf_Endorsers cf)"
      "t = map (\<lambda>k. EvEndorse k sp) [0..<n]" "list_all (accepts sp) (take (n - 1) (cf_Endorsers cf))"
      "case r of Ok rs \<Rightarrow> n = length (cf_Endorsers cf) \<and> list_all (accepts sp) (cf_Endorsers cf) \<and>
         rs = map (\<lambda>e. fst (e sp)) (cf_Endorsers cf) | _ \<Rightarrow> True"
      by auto
    from n(4) tb(2) have "tb \<noteq> [] \<Longrightarrow> n = length (cf_Endorsers cf) \<and> list_all (accepts sp) (cf_Endorsers cf)"
      by (cases r) simp_all
    with n(1-3) tb(1) show ?thesis
      by (intro exI[of _ n] exI[of _ sp] exI[of _ tb]) simp
  next
    case (Err e)
    then show ?thesis by (intro nil) (auto simp: Commit_def fst_rbind bind_eq_Err split: outcome.splits)
  next
    case (Panic q)
    then show ?thesis by (intro nil) (auto simp: Commit_def fst_rbind bind_eq_Panic split: outcome.splits)
  qed
qed

end
