(* ===== verification/CcPackage.thy ===== *)
theory CcPackage
  imports TxFlow
begin

text \<open>
  \<open>internal/ccplatform\<close>: chaincode packages (\<open>cds.go\<close>, \<open>scds.go\<close>, \<open>provider.go\<close>) and the platform
  registry (\<open>platform.go\<close>).

  A package is initialised from a buffer, which computes its fingerprints, and is validated
  against the chaincode data that the initialisation returned. The methods take the package and
  return it after the call. Parameters: \<open>sha2\<close>; the codecs of the three messages in \<open>cclib\<close>, with
  the decoding of a string into code points and the Unicode table of printable ones.
\<close>

section \<open>Data\<close>

record CDSData =
  cdd_CodeHash :: bytes
  cdd_MetaDataHash :: bytes

record SignedCDSData =
  sdd_CodeHash :: bytes
  sdd_MetaDataHash :: bytes
  sdd_SignatureHash :: bytes

record SignedChaincodeDeploymentSpec =
  scds_ChaincodeDeploymentSpec :: slice
  scds_InstantiationPolicy :: slice
  scds_OwnerEndorsements :: "Endorsement option list"

record ChaincodeData =
  cd_Name :: string
  cd_Version :: string
  cd_Escc :: string
  cd_Vscc :: string
  cd_Policy :: bytes
  cd_Data :: bytes
  cd_Id :: bytes
  cd_InstantiationPolicy :: slice

record CDSPackage =
  cp_buf :: slice
  cp_depSpec :: "ChaincodeDeploymentSpec option"
  cp_data :: "CDSData option"
  cp_datab :: slice
  cp_id :: slice

record SignedCDSPackage =
  sp_buf :: slice
  sp_depSpec :: "ChaincodeDeploymentSpec option"
  sp_sDepSpec :: "SignedChaincodeDeploymentSpec option"
  sp_env :: "Envelope option"
  sp_data :: "SignedCDSData option"
  sp_datab :: slice
  sp_id :: slice

record cclib =
  cl_CDSData :: "CDSData codec"
  cl_SignedCDSData :: "SignedCDSData codec"
  cl_SignedChaincodeDeploymentSpec :: "SignedChaincodeDeploymentSpec codec"
  cl_runes :: "string \<Rightarrow> nat list"
  cl_IsPrint :: "nat \<Rightarrow> bool"

abbreviation HeaderType_CHAINCODE_PACKAGE :: int where "HeaderType_CHAINCODE_PACKAGE \<equiv> 6"

section \<open>Chaincode data\<close>

definition CCName :: "ChaincodeData \<Rightarrow> string" where "CCName cd = cd_Name cd"

definition ccdata_Hash :: "ChaincodeData \<Rightarrow> bytes" where "ccdata_Hash cd = cd_Id cd"

definition CCVersion :: "ChaincodeData \<Rightarrow> string" where "CCVersion cd = cd_Version cd"

definition Validation :: "ChaincodeData \<Rightarrow> string \<times> bytes" where
  "Validation cd = (cd_Vscc cd, cd_Policy cd)"

definition Endorsement_of :: "ChaincodeData \<Rightarrow> string" where "Endorsement_of cd = cd_Escc cd"

text \<open>\<open>strings.IndexFunc\<close> finds no code point that is not printable.\<close>

definition isPrintable :: "cclib \<Rightarrow> string \<Rightarrow> bool" where
  "isPrintable C name = list_all (cl_IsPrint C) (cl_runes C name)"

section \<open>Raw packages\<close>

definition cds_Equals :: "CDSData \<Rightarrow> CDSData option \<Rightarrow> bool" where
  "cds_Equals data other = (case other of None \<Rightarrow> False
     | Some x \<Rightarrow> cdd_CodeHash data = cdd_CodeHash x \<and> cdd_MetaDataHash data = cdd_MetaDataHash x)"

definition cds_reset :: CDSPackage where
  "cds_reset = \<lparr>cp_buf = None, cp_depSpec = None, cp_data = None, cp_datab = None, cp_id = None\<rparr>"

definition cds_GetId :: "CDSPackage \<Rightarrow> bytes outcome" where
  "cds_GetId p = (case cp_id p of None \<Rightarrow> Panic (PanicMsg ''GetId called on uninitialized package'')
     | Some i \<Rightarrow> Ok i)"

definition cds_GetDepSpec :: "CDSPackage \<Rightarrow> ChaincodeDeploymentSpec outcome" where
  "cds_GetDepSpec p = (case cp_depSpec p of
       None \<Rightarrow> Panic (PanicMsg ''GetDepSpec called on uninitialized package'') | Some s \<Rightarrow> Ok s)"

definition cds_GetDepSpecBytes :: "CDSPackage \<Rightarrow> bytes outcome" where
  "cds_GetDepSpecBytes p = (case cp_buf p of
       None \<Rightarrow> Panic (PanicMsg ''GetDepSpecBytes called on uninitialized package'') | Some b \<Rightarrow> Ok b)"

definition cds_GetPackageObject :: "CDSPackage \<Rightarrow> ChaincodeDeploymentSpec option" where
  "cds_GetPackageObject p = cp_depSpec p"

text \<open>\<open>cds.ChaincodeSpec.ChaincodeId\<close>, read through two pointers.\<close>

definition chaincode_id :: "ChaincodeDeploymentSpec \<Rightarrow> ChaincodeID outcome" where
  "chaincode_id cds = bind (deref (cds_ChaincodeSpec cds)) (\<lambda>s. deref (cspec_ChaincodeId s))"

definition cds_GetChaincodeData :: "CDSPackage \<Rightarrow> ChaincodeData outcome" where
  "cds_GetChaincodeData p =
     (case (cp_depSpec p, cp_datab p, cp_id p) of
        (Some s, Some d, Some i) \<Rightarrow>
          bind (chaincode_id s) (\<lambda>cc.
          Ok \<lparr>cd_Name = ccid_Name cc, cd_Version = ccid_Version cc, cd_Escc = '''', cd_Vscc = '''',
              cd_Policy = [], cd_Data = d, cd_Id = i, cd_InstantiationPolicy = None\<rparr>)
      | _ \<Rightarrow> Panic (PanicMsg ''GetChaincodeData called on uninitialized package''))"

definition cds_getCDSData ::
    "pb \<Rightarrow> cclib \<Rightarrow> (bytes \<Rightarrow> bytes) \<Rightarrow> ChaincodeDeploymentSpec option \<Rightarrow> (bytes \<times> bytes \<times> CDSData) outcome" where
  "cds_getCDSData P C sha2 p =
     (case p of None \<Rightarrow> Panic (PanicMsg ''nil cds'')
      | Some cds \<Rightarrow>
        bind (check (Marshal (pb_ChaincodeDeploymentSpec P) (Some cds))) (\<lambda>_.
        bind (chaincode_id cds) (\<lambda>cc.
        let cdsdata = \<lparr>cdd_CodeHash = sha2 (cds_CodePackage cds),
                       cdd_MetaDataHash = sha2 (bytes_of_string (ccid_Name cc) @ bytes_of_string (ccid_Version cc))\<rparr> in
        bind (check (Marshal (cl_CDSData C) (Some cdsdata))) (\<lambda>b.
        Ok (b, sha2 (cdd_CodeHash cdsdata @ cdd_MetaDataHash cdsdata), cdsdata)))))"

definition cds_ValidateCC :: "cclib \<Rightarrow> CDSPackage \<Rightarrow> ChaincodeData \<Rightarrow> unit outcome" where
  "cds_ValidateCC C p ccdata =
     (case cp_depSpec p of None \<Rightarrow> Err (Errorf ''uninitialized package'' [])
      | Some s \<Rightarrow>
        (case cp_data p of None \<Rightarrow> Err (Errorf ''nil data'' [])
         | Some data \<Rightarrow>
           if \<not> isPrintable C (cd_Name ccdata)
           then Err (Errorf ''invalid chaincode name: %q'' [AStr (cd_Name ccdata)])
           else
           bind (chaincode_id s) (\<lambda>cc.
           if cd_Name ccdata \<noteq> ccid_Name cc \<or> cd_Version ccdata \<noteq> ccid_Version cc
           then Err (Errorf ''invalid chaincode data %v (%v)'' [AStr (cd_Name ccdata), AStr (ccid_Name cc)])
           else
           bind (check (Unmarshal (cl_CDSData C) (cd_Data ccdata))) (\<lambda>otherdata.
           if \<not> cds_Equals data (Some otherdata) then Err (Errorf ''data mismatch'' []) else Ok ()))))"

definition cds_InitFromBuffer ::
    "pb \<Rightarrow> cclib \<Rightarrow> (bytes \<Rightarrow> bytes) \<Rightarrow> slice \<Rightarrow> CDSPackage \<times> ChaincodeData outcome" where
  "cds_InitFromBuffer P C sha2 buf =
     (case Unmarshal (pb_ChaincodeDeploymentSpec P) (slice_bytes buf) of
        (_, Some _) \<Rightarrow> (cds_reset, Err (Errorf ''failed to unmarshal deployment spec from bytes'' []))
      | (depSpec, None) \<Rightarrow>
        (case cds_getCDSData P C sha2 (Some depSpec) of
           Err e \<Rightarrow> (cds_reset, Err e)
         | Panic q \<Rightarrow> (cds_reset, Panic q)
         | Ok (databytes, i, data) \<Rightarrow>
           (let p = \<lparr>cp_buf = buf, cp_depSpec = Some depSpec, cp_data = Some data,
                     cp_datab = Some databytes, cp_id = Some i\<rparr>
            in (p, cds_GetChaincodeData p))))"

section \<open>Signed packages\<close>

definition scds_Equals :: "SignedCDSData \<Rightarrow> SignedCDSData option \<Rightarrow> bool" where
  "scds_Equals data other = (case other of None \<Rightarrow> False
     | Some x \<Rightarrow> sdd_CodeHash data = sdd_CodeHash x \<and> sdd_MetaDataHash data = sdd_MetaDataHash x \<and>
                 sdd_SignatureHash data = sdd_SignatureHash x)"

definition scds_reset :: SignedCDSPackage where
  "scds_reset = \<lparr>sp_buf = None, sp_depSpec = None, sp_sDepSpec = None, sp_env = None, sp_data = None,
     sp_datab = None, sp_id = None\<rparr>"

definition scds_GetId :: "SignedCDSPackage \<Rightarrow> bytes outcome" where
  "scds_GetId p = (case sp_id p of None \<Rightarrow> Panic (PanicMsg ''GetId called on uninitialized package'')
     | Some i \<Rightarrow> Ok i)"

definition scds_GetDepSpec :: "SignedCDSPackage \<Rightarrow> ChaincodeDeploymentSpec outcome" where
  "scds_GetDepSpec p = (case sp_depSpec p of
       None \<Rightarrow> Panic (PanicMsg ''GetDepSpec called on uninitialized package'') | Some s \<Rightarrow> Ok s)"

definition GetInstantiationPolicy :: "SignedCDSPackage \<Rightarrow> slice outcome" where
  "GetInstantiationPolicy p = (case sp_sDepSpec p of
       None \<Rightarrow> Panic (PanicMsg ''GetInstantiationPolicy called on uninitialized package'')
     | Some s \<Rightarrow> Ok (scds_InstantiationPolicy s))"

definition scds_GetDepSpecBytes :: "SignedCDSPackage \<Rightarrow> bytes outcome" where
  "scds_GetDepSpecBytes p = (case sp_sDepSpec p of
       None \<Rightarrow> Panic (PanicMsg ''GetDepSpecBytes called on uninitialized package'')
     | Some s \<Rightarrow> (case scds_ChaincodeDeploymentSpec s of
         None \<Rightarrow> Panic (PanicMsg ''GetDepSpecBytes called on uninitialized package'') | Some b \<Rightarrow> Ok b))"

definition scds_GetPackageObject :: "SignedCDSPackage \<Rightarrow> Envelope option" where
  "scds_GetPackageObject p = sp_env p"

definition scds_GetChaincodeData :: "SignedCDSPackage \<Rightarrow> ChaincodeData outcome" where
  "scds_GetChaincodeData p =
     (case (sp_depSpec p, sp_datab p, sp_id p) of
        (Some s, Some d, Some i) \<Rightarrow>
          (let instPolicy = (case sp_sDepSpec p of None \<Rightarrow> None | Some sd \<Rightarrow> scds_InstantiationPolicy sd) in
           bind (chaincode_id s) (\<lambda>cc.
           Ok \<lparr>cd_Name = ccid_Name cc, cd_Version = ccid_Version cc, cd_Escc = '''', cd_Vscc = '''',
               cd_Policy = [], cd_Data = d, cd_Id = i, cd_InstantiationPolicy = instPolicy\<rparr>))
      | _ \<Rightarrow> Panic (PanicMsg ''GetChaincodeData called on uninitialized package''))"

definition scds_getCDSData ::
    "pb \<Rightarrow> cclib \<Rightarrow> (bytes \<Rightarrow> bytes) \<Rightarrow> SignedChaincodeDeploymentSpec option
       \<Rightarrow> (bytes \<times> bytes \<times> SignedCDSData) outcome" where
  "scds_getCDSData P C sha2 p =
     (case p of None \<Rightarrow> Panic (PanicMsg ''nil cds'')
      | Some scds \<Rightarrow>
        bind (check (Unmarshal (pb_ChaincodeDeploymentSpec P) (slice_bytes (scds_ChaincodeDeploymentSpec scds))))
          (\<lambda>cds.
        bind (chaincode_id cds) (\<lambda>cc.
        case scds_InstantiationPolicy scds of
          None \<Rightarrow> Err (Errorf ''instantiation policy cannot be nil for chaincode (%s:%s)''
                     [AStr (ccid_Name cc), AStr (ccid_Version cc)])
        | Some policy \<Rightarrow>
          bind (map_outcome (\<lambda>o'. bind (deref o') (\<lambda>e. Ok (end_Endorser e))) (scds_OwnerEndorsements scds))
            (\<lambda>endorsers.
          let scdsdata = \<lparr>sdd_CodeHash = sha2 (cds_CodePackage cds),
                sdd_MetaDataHash = sha2 (bytes_of_string (ccid_Name cc) @ bytes_of_string (ccid_Version cc)),
                sdd_SignatureHash = sha2 (policy @ concat endorsers)\<rparr> in
          bind (check (Marshal (cl_SignedCDSData C) (Some scdsdata))) (\<lambda>b.
          Ok (b, sha2 (sdd_CodeHash scdsdata @ sdd_MetaDataHash scdsdata @ sdd_SignatureHash scdsdata),
              scdsdata))))))"

text \<open>The data of a package is dereferenced by \<open>Equals\<close> only when it reads a field: a nil receiver
  panics there.\<close>

definition scds_ValidateCC :: "cclib \<Rightarrow> SignedCDSPackage \<Rightarrow> ChaincodeData \<Rightarrow> unit outcome" where
  "scds_ValidateCC C p ccdata =
     (case sp_sDepSpec p of None \<Rightarrow> Err (Errorf ''uninitialized package'' [])
      | Some sd \<Rightarrow>
        if scds_ChaincodeDeploymentSpec sd = None
        then Err (Errorf ''signed chaincode deployment spec cannot be nil in a package'' [])
        else
        (case sp_depSpec p of
           None \<Rightarrow> Err (Errorf ''chaincode deployment spec cannot be nil in a package'' [])
         | Some s \<Rightarrow>
           if \<not> isPrintable C (cd_Name ccdata)
           then Err (Errorf ''invalid chaincode name: %q'' [AStr (cd_Name ccdata)])
           else
           bind (chaincode_id s) (\<lambda>cc.
           if cd_Name ccdata \<noteq> ccid_Name cc \<or> cd_Version ccdata \<noteq> ccid_Version cc
           then Err (Errorf ''invalid chaincode data %v (%v)'' [AStr (cd_Name ccdata), AStr (ccid_Name cc)])
           else
           bind (check (Unmarshal (cl_SignedCDSData C) (cd_Data ccdata))) (\<lambda>otherdata.
           bind (deref (sp_data p)) (\<lambda>data.
           if \<not> scds_Equals data (Some otherdata) then Err (Errorf ''data mismatch'' []) else Ok ())))))"

definition ExtractSignedCCDepSpec ::
    "pb \<Rightarrow> cclib \<Rightarrow> Envelope option \<Rightarrow> (ChannelHeader \<times> SignedChaincodeDeploymentSpec) outcome" where
  "ExtractSignedCCDepSpec P C e =
     bind (deref e) (\<lambda>env.
     bind (check (Unmarshal (pb_Payload P) (env_Payload env))) (\<lambda>p.
     case payl_Header p of
       None \<Rightarrow> Err (ErrNew ''channel header cannot be nil'')
     | Some h \<Rightarrow>
       bind (check (Unmarshal (pb_ChannelHeader P) (slice_bytes (hdr_ChannelHeader h)))) (\<lambda>ch.
       bind (check (Unmarshal (cl_SignedChaincodeDeploymentSpec C) (payl_Data p))) (\<lambda>sp.
       Ok (ch, sp)))))"

definition scds_InitFromBuffer ::
    "pb \<Rightarrow> cclib \<Rightarrow> (bytes \<Rightarrow> bytes) \<Rightarrow> slice \<Rightarrow> SignedCDSPackage \<times> ChaincodeData outcome" where
  "scds_InitFromBuffer P C sha2 buf =
     (case bind (if snd (Unmarshal (pb_Envelope P) (slice_bytes buf)) \<noteq> None
                 then Err (Errorf ''failed to unmarshal envelope from bytes'' [])
                 else Ok (fst (Unmarshal (pb_Envelope P) (slice_bytes buf)))) (\<lambda>env.
            bind (ExtractSignedCCDepSpec P C (Some env)) (\<lambda>(cHdr, sDepSpec).
            if ch_Type cHdr \<noteq> HeaderType_CHAINCODE_PACKAGE
            then Err (Errorf ''invalid type of envelope for chaincode package'' [])
            else
            bind (if snd (Unmarshal (pb_ChaincodeDeploymentSpec P)
                            (slice_bytes (scds_ChaincodeDeploymentSpec sDepSpec))) \<noteq> None
                  then Err (Errorf ''error getting deployment spec'' [])
                  else Ok (fst (Unmarshal (pb_ChaincodeDeploymentSpec P)
                            (slice_bytes (scds_ChaincodeDeploymentSpec sDepSpec))))) (\<lambda>depSpec.
            bind (scds_getCDSData P C sha2 (Some sDepSpec)) (\<lambda>(databytes, i, data).
            Ok \<lparr>sp_buf = buf, sp_depSpec = Some depSpec, sp_sDepSpec = Some sDepSpec, sp_env = Some env,
                sp_data = Some data, sp_datab = Some databytes, sp_id = Some i\<rparr>)))) of
        Ok p \<Rightarrow> (p, scds_GetChaincodeData p)
      | Err e \<Rightarrow> (scds_reset, Err e)
      | Panic q \<Rightarrow> (scds_reset, Panic q))"

section \<open>Finding the kind of a package\<close>

datatype CCPackage = CCP_CDS CDSPackage | CCP_SignedCDS SignedCDSPackage

text \<open>One attempt: a package is kept if it initialises and validates, and dropped on an error.\<close>

fun attempt :: "'p \<times> ChaincodeData outcome \<Rightarrow> ('p \<Rightarrow> ChaincodeData \<Rightarrow> unit outcome) \<Rightarrow> 'p option outcome" where
  "attempt (p, Panic q) validate = Panic q"
| "attempt (p, Err e) validate = Ok None"
| "attempt (p, Ok ccdata) validate =
     (case validate p ccdata of Panic q \<Rightarrow> Panic q | Err e \<Rightarrow> Ok None | Ok _ \<Rightarrow> Ok (Some p))"

definition GetCCPackage :: "pb \<Rightarrow> cclib \<Rightarrow> (bytes \<Rightarrow> bytes) \<Rightarrow> slice \<Rightarrow> CCPackage outcome" where
  "GetCCPackage P C sha2 buf =
     bind (attempt (cds_InitFromBuffer P C sha2 buf) (cds_ValidateCC C)) (\<lambda>cds.
     bind (attempt (scds_InitFromBuffer P C sha2 buf) (scds_ValidateCC C)) (\<lambda>scds.
     case (cds, scds) of
       (Some _, Some s) \<Rightarrow> Ok (CCP_SignedCDS s)
     | (Some c, None) \<Rightarrow> Ok (CCP_CDS c)
     | (None, Some s) \<Rightarrow> Ok (CCP_SignedCDS s)
     | (None, None) \<Rightarrow> Err (ErrNew ''could not unmarshal chaincode package to CDS or SignedCDS'')))"

section \<open>The platform registry\<close>

text \<open>A platform is an interface: its name, its operations, and \<open>NormalizePath\<close> if it has it.\<close>

record Platform =
  plat_Name :: string
  plat_ValidateCodePackage :: "bytes \<Rightarrow> gerror option"
  plat_GetDeploymentPayload :: "string \<Rightarrow> bytes ret"
  plat_NormalizePath :: "(string \<Rightarrow> string ret) option"

record Registry =
  reg_Platforms :: "string \<rightharpoonup> Platform"

fun registry_loop :: "(string \<rightharpoonup> Platform) \<Rightarrow> Platform list \<Rightarrow> (string \<rightharpoonup> Platform) outcome" where
  "registry_loop m [] = Ok m"
| "registry_loop m (p # ps) =
     (case m (plat_Name p) of
        Some _ \<Rightarrow> Panic (PanicMsg (''Multiple platforms of the same name specified: '' @ plat_Name p))
      | None \<Rightarrow> registry_loop (m(plat_Name p \<mapsto> p)) ps)"

definition NewRegistry :: "Platform list \<Rightarrow> Registry outcome" where
  "NewRegistry platformTypes = bind (registry_loop Map.empty platformTypes) (\<lambda>m. Ok \<lparr>reg_Platforms = m\<rparr>)"

definition reg_GetDeploymentPayload :: "Registry \<Rightarrow> string \<Rightarrow> string \<Rightarrow> bytes outcome" where
  "reg_GetDeploymentPayload r ccType path =
     (case reg_Platforms r ccType of
        None \<Rightarrow> Err (Errorf ''Unknown chaincodeType: %s'' [AStr ccType])
      | Some p \<Rightarrow> check (plat_GetDeploymentPayload p path))"

definition reg_NormalizePath :: "Registry \<Rightarrow> string \<Rightarrow> string \<Rightarrow> string outcome" where
  "reg_NormalizePath r ccType path =
     (case reg_Platforms r ccType of
        None \<Rightarrow> Err (Errorf ''unknown chaincodeType: %s'' [AStr ccType])
      | Some p \<Rightarrow> (case plat_NormalizePath p of Some f \<Rightarrow> check (f path) | None \<Rightarrow> Ok path))"

section \<open>Initialised packages are valid\<close>

lemma cds_init_ok:
  assumes "cds_InitFromBuffer P C sha2 buf = (p, Ok d)"
  shows "\<exists>s data cc. cp_depSpec p = Some s \<and> cp_data p = Some data \<and> chaincode_id s = Ok cc \<and>
           Unmarshal (pb_ChaincodeDeploymentSpec P) (slice_bytes buf) = (s, None) \<and>
           Marshal (cl_CDSData C) (Some data) = (cd_Data d, None) \<and>
           cdd_CodeHash data = sha2 (cds_CodePackage s) \<and>
           cd_Name d = ccid_Name cc \<and> cd_Version d = ccid_Version cc \<and>
           cd_Id d = sha2 (cdd_CodeHash data @ cdd_MetaDataHash data) \<and> cp_id p = Some (cd_Id d)"
  using assms
  by (auto simp: cds_InitFromBuffer_def cds_getCDSData_def cds_GetChaincodeData_def Let_def bind_eq_Ok
      split: prod.splits option.splits outcome.splits)

lemma scds_init_ok:
  assumes "scds_InitFromBuffer P C sha2 buf = (p, Ok d)"
  shows "\<exists>s sd data cc. sp_depSpec p = Some s \<and> sp_sDepSpec p = Some sd \<and> sp_data p = Some data \<and>
           chaincode_id s = Ok cc \<and> Marshal (cl_SignedCDSData C) (Some data) = (cd_Data d, None) \<and>
           cd_Name d = ccid_Name cc \<and> cd_Version d = ccid_Version cc \<and>
           cd_InstantiationPolicy d = scds_InstantiationPolicy sd \<and>
           scds_InstantiationPolicy sd \<noteq> None"
  using assms
  by (auto simp: scds_InitFromBuffer_def scds_getCDSData_def scds_GetChaincodeData_def Let_def bind_eq_Ok
      split: prod.splits option.splits outcome.splits if_splits)

section \<open>Theorems\<close>

text \<open>C34. A package that initialises from a buffer validates against the chaincode data it
  returned: the only objection left is a name that is not printable, and for a signed package a
  deployment spec whose bytes are nil.\<close>

theorem initialised_package_validates:
  assumes "codec_laws any (cl_CDSData C)" "codec_laws any (cl_SignedCDSData C)"
    and "cds_InitFromBuffer P C sha2 buf = (p, Ok d)"
    and "scds_InitFromBuffer P C sha2 buf' = (sp, Ok sd)"
  shows "(cds_ValidateCC C p d = Ok ()) = isPrintable C (cd_Name d) \<and>
         (scds_ValidateCC C sp sd = Ok ()) =
           (isPrintable C (cd_Name sd) \<and> is_ok (scds_GetDepSpecBytes sp))"
proof
  obtain s data cc where r: "cp_depSpec p = Some s" "cp_data p = Some data" "chaincode_id s = Ok cc"
    "Marshal (cl_CDSData C) (Some data) = (cd_Data d, None)"
    "cd_Name d = ccid_Name cc" "cd_Version d = ccid_Version cc"
    using cds_init_ok[OF assms(3)] by blast
  then show "(cds_ValidateCC C p d = Ok ()) = isPrintable C (cd_Name d)"
    using codec_True_roundtrip[OF assms(1) r(4)] by (simp add: cds_ValidateCC_def cds_Equals_def)
  obtain s' sd' data' cc' where r': "sp_depSpec sp = Some s'" "sp_sDepSpec sp = Some sd'"
    "sp_data sp = Some data'" "chaincode_id s' = Ok cc'"
    "Marshal (cl_SignedCDSData C) (Some data') = (cd_Data sd, None)"
    "cd_Name sd = ccid_Name cc'" "cd_Version sd = ccid_Version cc'"
    using scds_init_ok[OF assms(4)] by blast
  then show "(scds_ValidateCC C sp sd = Ok ()) = (isPrintable C (cd_Name sd) \<and> is_ok (scds_GetDepSpecBytes sp))"
    using codec_True_roundtrip[OF assms(2) r'(5)]
    by (simp add: scds_ValidateCC_def scds_Equals_def scds_GetDepSpecBytes_def split: option.splits)
qed

text \<open>Concrete codecs for one package of each kind.\<close>

definition sample_cds :: ChaincodeDeploymentSpec where
  "sample_cds = \<lparr>cds_ChaincodeSpec = Some \<lparr>cspec_Type = 1,
     cspec_ChaincodeId = Some \<lparr>ccid_Path = [], ccid_Name = [CHR 0x63], ccid_Version = []\<rparr>,
     cspec_Input = None\<rparr>, cds_CodePackage = [9]\<rparr>"

definition sample_empty_cds :: ChaincodeDeploymentSpec where
  "sample_empty_cds = \<lparr>cds_ChaincodeSpec = None, cds_CodePackage = []\<rparr>"

definition sample_scds :: SignedChaincodeDeploymentSpec where
  "sample_scds = \<lparr>scds_ChaincodeDeploymentSpec = Some [0], scds_InstantiationPolicy = Some [1],
     scds_OwnerEndorsements = []\<rparr>"

definition sample_cclib :: cclib where
  "sample_cclib =
     \<lparr>cl_CDSData = table_codec [\<lparr>cdd_CodeHash = [9], cdd_MetaDataHash = bytes_of_string [CHR 0x63]\<rparr>],
      cl_SignedCDSData = table_codec [\<lparr>sdd_CodeHash = [9],
        sdd_MetaDataHash = bytes_of_string [CHR 0x63], sdd_SignatureHash = [1]\<rparr>],
      cl_SignedChaincodeDeploymentSpec = table_codec [sample_scds],
      cl_runes = map of_char, cl_IsPrint = (\<lambda>c. 32 \<le> c \<and> c < 127)\<rparr>"

definition sample_pkg_pb :: pb where
  "sample_pkg_pb = sample_pb
     \<lparr>pb_ChaincodeDeploymentSpec := table_codec [sample_cds, sample_empty_cds],
      pb_Envelope := table_codec [\<lparr>env_Payload = [0], env_Signature = []\<rparr>],
      pb_Payload := table_codec [\<lparr>payl_Header = Some \<lparr>hdr_ChannelHeader = Some [0],
        hdr_SignatureHeader = None\<rparr>, payl_Data = [0]\<rparr>],
      pb_ChannelHeader := table_codec [(sample_ch [])\<lparr>ch_Type := HeaderType_CHAINCODE_PACKAGE\<rparr>]\<rparr>"

lemmas sample_pkg_defs = sample_cds_def sample_empty_cds_def sample_scds_def sample_cclib_def
  sample_pkg_pb_def table_codec_simps sample_ch_def bytes_of_string_def

lemma initialised_package_validates_witness:
  "\<exists>p d sp sd. cds_InitFromBuffer sample_pkg_pb sample_cclib (\<lambda>x. x) (Some [0]) = (p, Ok d) \<and>
     cds_ValidateCC sample_cclib p d = Ok () \<and>
     scds_InitFromBuffer sample_pkg_pb sample_cclib (\<lambda>x. x) (Some [0]) = (sp, Ok sd) \<and>
     scds_ValidateCC sample_cclib sp sd = Ok ()"
proof -
  obtain p d where c: "cds_InitFromBuffer sample_pkg_pb sample_cclib (\<lambda>x. x) (Some [0]) = (p, Ok d)"
      "cd_Name d = [CHR 0x63]"
    by (simp add: cds_InitFromBuffer_def cds_getCDSData_def cds_GetChaincodeData_def chaincode_id_def
        sample_pkg_defs)
  obtain sp sd where s: "scds_InitFromBuffer sample_pkg_pb sample_cclib (\<lambda>x. x) (Some [0]) = (sp, Ok sd)"
      "cd_Name sd = [CHR 0x63]" "is_ok (scds_GetDepSpecBytes sp)"
    by (simp add: scds_InitFromBuffer_def scds_getCDSData_def scds_GetChaincodeData_def chaincode_id_def
        ExtractSignedCCDepSpec_def scds_GetDepSpecBytes_def sample_pkg_defs)
  have l: "codec_laws any (cl_CDSData sample_cclib)" "codec_laws any (cl_SignedCDSData sample_cclib)"
    by (simp_all add: sample_cclib_def)
  have pr: "isPrintable sample_cclib [CHR 0x63]"
    by (simp add: isPrintable_def sample_cclib_def)
  show ?thesis
    using initialised_package_validates[OF l c(1) s(1)] c s pr by auto
qed

text \<open>\<open>GetCCPackage\<close> panics instead of reporting an error when the buffer decodes to a
  deployment spec without a chaincode spec, as an empty buffer does.\<close>

lemma get_cc_package_panics:
  assumes "Unmarshal (pb_ChaincodeDeploymentSpec P) (slice_bytes buf) = (m, None)"
    and "cds_ChaincodeSpec m = None" "Marshal (pb_ChaincodeDeploymentSpec P) (Some m) = (b, None)"
  shows "GetCCPackage P C sha2 buf = Panic NilDeref"
  using assms
  by (simp add: GetCCPackage_def cds_InitFromBuffer_def cds_getCDSData_def chaincode_id_def)

lemma get_cc_package_panics_witness:
  "GetCCPackage sample_pkg_pb sample_cclib (\<lambda>x. x) (Some [0, 0]) = Panic NilDeref"
proof -
  have "Unmarshal (pb_ChaincodeDeploymentSpec sample_pkg_pb) (slice_bytes (Some [0, 0])) = (sample_empty_cds, None)"
    "cds_ChaincodeSpec sample_empty_cds = None"
    "Marshal (pb_ChaincodeDeploymentSpec sample_pkg_pb) (Some sample_empty_cds) = ([0, 0], None)"
    by (simp_all add: sample_pkg_defs)
  then show ?thesis by (rule get_cc_package_panics)
qed

end
