(* ===== verification/Install.thy ===== *)
theory Install
  imports Lifecycle CcPackage
begin

text \<open>
  Installing a chaincode: the sources of install packages in \<open>internal/chaincode/chaincode.go\<close> and
  the installation on a list of peers in \<open>install.go\<close>.
\<close>

section \<open>Install packages\<close>

record InstallChaincodeArgs =
  ica_ChaincodeInstallPackage :: bytes

record chaincodeFromPath =
  cfp_ccPath :: string
  cfp_label :: string
  cfp_lang :: string
  cfp_packager :: "Platform option"

text \<open>The implementations of \<open>ChaincodeInstaller\<close>: \<open>chaincodePackageCode\<close>, \<open>chaincodePackageFile\<close> and
  \<open>chaincodeFromPath\<close>. A nil interface is \<open>None\<close>.\<close>

datatype ChaincodeInstaller = CI_PackageCode bytes | CI_PackageFile string | CI_FromPath chaincodeFromPath

definition GetChaincodeInstallerFromPackage :: "bytes \<Rightarrow> ChaincodeInstaller option" where
  "GetChaincodeInstallerFromPackage pkgBytes = Some (CI_PackageCode pkgBytes)"

definition GetChaincodeInstallerFromPkgFile :: "string \<Rightarrow> ChaincodeInstaller option" where
  "GetChaincodeInstallerFromPkgFile pkgFile = Some (CI_PackageFile pkgFile)"

definition GetChaincodeInstallerFromGitRepo :: "string \<Rightarrow> ChaincodeInstaller option" where
  "GetChaincodeInstallerFromGitRepo git = None"

text \<open>\<open>golang\<close> is the platform \<open>&golang.Platform{}\<close>; for every other type the packager stays nil.\<close>

definition GetChaincodeInstallerFromSource :: "Platform \<Rightarrow> string \<Rightarrow> string \<Rightarrow> string \<Rightarrow> ChaincodeInstaller option" where
  "GetChaincodeInstallerFromSource golang path label typ =
     (let packager = (if typ = ''GOLANG'' then Some golang else None) in
      Some (CI_FromPath \<lparr>cfp_ccPath = path, cfp_label = label, cfp_lang = typ, cfp_packager = packager\<rparr>))"

record PackageMetadata =
  pm_Path :: string
  pm_Type :: string
  pm_Label :: string

text \<open>The libraries a package is written with: \<open>json.Marshal\<close> of the metadata, the error of writing an
  entry to the tar archive, the bytes of the closed archive or the error of closing it, and
  \<open>ioutil.ReadFile\<close>.\<close>

record package_lib =
  pk_json :: "PackageMetadata \<Rightarrow> bytes ret"
  pk_tar_write :: "string \<Rightarrow> bytes \<Rightarrow> gerror option"
  pk_close :: "(string \<times> bytes) list \<Rightarrow> bytes ret"
  pk_ReadFile :: "string \<Rightarrow> bytes ret"

definition toJSON :: "package_lib \<Rightarrow> string \<Rightarrow> string \<Rightarrow> string \<Rightarrow> bytes outcome" where
  "toJSON K path ccType label =
     on_err ''failed to marshal chaincode package metadata into JSON''
       (check (pk_json K \<lparr>pm_Path = path, pm_Type = ccType, pm_Label = label\<rparr>))"

text \<open>The tar writer is the list of the entries written so far.\<close>

definition writeBytesToPackage ::
    "package_lib \<Rightarrow> (string \<times> bytes) list \<Rightarrow> string \<Rightarrow> bytes \<Rightarrow> (string \<times> bytes) list outcome" where
  "writeBytesToPackage K tw name payload =
     (case pk_tar_write K name payload of Some err \<Rightarrow> Err err | None \<Rightarrow> Ok (tw @ [(name, payload)]))"

text \<open>The packager is an interface: calling a method of a nil one panics. \<open>NormalizePath\<close> is part of
  the interface \<open>PlatformRegistry\<close>, so the platform has it.\<close>

definition getTarPackage :: "package_lib \<Rightarrow> chaincodeFromPath \<Rightarrow> bytes outcome" where
  "getTarPackage K cc =
     bind (deref (cfp_packager cc)) (\<lambda>packager.
     bind (deref (plat_NormalizePath packager)) (\<lambda>normalize.
     bind (check (normalize (cfp_ccPath cc))) (\<lambda>normalizedPath.
     bind (toJSON K normalizedPath (cfp_lang cc) (cfp_ccPath cc)) (\<lambda>metadataBytes.
     bind (on_err ''error writing package metadata to tar''
             (writeBytesToPackage K [] ''metadata.json'' metadataBytes)) (\<lambda>tw.
     bind (on_err ''error getting chaincode bytes''
             (check (plat_GetDeploymentPayload packager (cfp_ccPath cc)))) (\<lambda>codeBytes.
     bind (on_err ''error writing package code bytes to tar''
             (writeBytesToPackage K tw ''code.tar.gz'' codeBytes)) (\<lambda>tw'.
     on_err ''failed to create tar for chaincode'' (check (pk_close K tw')))))))))"

definition GetInstalledChaincode :: "package_lib \<Rightarrow> ChaincodeInstaller option \<Rightarrow> InstallChaincodeArgs outcome" where
  "GetInstalledChaincode K installer =
     bind (deref installer) (\<lambda>i. case i of
       CI_PackageCode packageData \<Rightarrow> Ok \<lparr>ica_ChaincodeInstallPackage = packageData\<rparr>
     | CI_PackageFile pkgFile \<Rightarrow>
         bind (check (pk_ReadFile K pkgFile)) (\<lambda>pkgBytes. Ok \<lparr>ica_ChaincodeInstallPackage = pkgBytes\<rparr>)
     | CI_FromPath cc \<Rightarrow>
         bind (getTarPackage K cc) (\<lambda>chaincodeBytes. Ok \<lparr>ica_ChaincodeInstallPackage = chaincodeBytes\<rparr>))"

section \<open>Installing on peers\<close>

text \<open>A peer client: its address, and its endorser or the error of connecting to it.\<close>

record peer_client =
  pc_Address :: string
  pc_Endorser :: "endorser ret"

record InstallChaincodeResult =
  icr_PackageId :: string
  icr_Label :: string

record InstallResult =
  ir_Id :: string
  ir_Status :: int
  ir_Message :: string

record ChaincodeInstallResponse =
  cir_Status :: int
  cir_Label :: string
  cir_PackageId :: string
  cir_Results :: "InstallResult list"

text \<open>One pass of the loop over the peers, on the response so far and the count of successes. The
  error of decoding the result is ignored, whatever is in the message then is used.\<close>

definition install_peer ::
    "InstallChaincodeResult codec \<Rightarrow> SignedProposal \<Rightarrow> nat \<Rightarrow> peer_client
       \<Rightarrow> ChaincodeInstallResponse \<times> nat \<Rightarrow> (ChaincodeInstallResponse \<times> nat) run" where
  "install_peer R signedProp i committer acc =
     rbind (pure_run (check (pc_Endorser committer))) (\<lambda>endorseCli.
     rbind (emit (EvEndorse i signedProp)) (\<lambda>_.
     rbind (pure_run (bind (check (endorseCli signedProp)) deref)) (\<lambda>rsp.
     rbind (pure_run (deref (pr_Response rsp))) (\<lambda>r.
     let (resp, successCount) = acc;
         result = fst (Unmarshal R (resp_Payload r));
         resp1 = (if cir_Label resp = [] then resp\<lparr>cir_Label := icr_Label result\<rparr> else resp);
         resp2 = (if cir_PackageId resp1 = [] then resp1\<lparr>cir_PackageId := icr_PackageId result\<rparr> else resp1);
         successCount' = (if resp_Status r = 200 then successCount + 1 else successCount) in
     pure_run (Ok (resp2\<lparr>cir_Results := cir_Results resp2 @
       [\<lparr>ir_Id = pc_Address committer, ir_Status = resp_Status r, ir_Message = resp_Message r\<rparr>]\<rparr>,
       successCount'))))))"

fun install_loop ::
    "InstallChaincodeResult codec \<Rightarrow> SignedProposal \<Rightarrow> nat \<Rightarrow> peer_client list
       \<Rightarrow> ChaincodeInstallResponse \<times> nat \<Rightarrow> (ChaincodeInstallResponse \<times> nat) run" where
  "install_loop R signedProp i [] acc = pure_run (Ok acc)"
| "install_loop R signedProp i (committer # rest) acc =
     rbind (install_peer R signedProp i committer acc) (install_loop R signedProp (i + 1) rest)"

record install_lib =
  il_package :: package_lib
  il_InstallArgs :: "InstallChaincodeArgs codec"
  il_InstallResult :: "InstallChaincodeResult codec"

definition Install ::
    "proposer \<Rightarrow> install_lib \<Rightarrow> Signer \<Rightarrow> peer_client list \<Rightarrow> ChaincodeInstaller option
       \<Rightarrow> ChaincodeInstallResponse run" where
  "Install E L signer committers chaincode =
     rbind (pure_run (GetInstalledChaincode (il_package L) chaincode)) (\<lambda>installChaincodeArgs.
     rbind (pure_run (check (Marshal (il_InstallArgs L) (Some installChaincodeArgs)))) (\<lambda>installChaincodeArgsBytes.
     rbind (pure_run (check (sg_Serialize signer))) (\<lambda>creator.
     rbind (pure_run (CreateProposalFromCIS (pp_pb E) (pp_sha2 E) (pp_rnd E) (pp_ts E)
              HeaderType_ENDORSER_TRANSACTION ''''
              (Some (lifecycle_cis LSCC_InstallChaincode installChaincodeArgsBytes)) creator)) (\<lambda>(prop, _).
     rbind (pure_run (cryptoutil_GetSignedProposal (pp_pb E) (Some prop) signer)) (\<lambda>signedProp.
     rbind (install_loop (il_InstallResult L) signedProp 0 committers
              (\<lparr>cir_Status = 0, cir_Label = [], cir_PackageId = [], cir_Results = []\<rparr>, 0)) (\<lambda>(resp, successCount).
     pure_run (Ok (resp\<lparr>cir_Status :=
       (if successCount = 0 then 500 else if successCount \<noteq> length committers then 204 else 200)\<rparr>))))))))"

section \<open>What the loop collects\<close>

text \<open>A peer's answer, as the loop sees it.\<close>

definition answered :: "SignedProposal \<Rightarrow> peer_client \<Rightarrow> InstallResult \<Rightarrow> bool" where
  "answered sp c res \<longleftrightarrow> (\<exists>e rsp r. pc_Endorser c = (e, None) \<and> e sp = (Some rsp, None) \<and> pr_Response rsp = Some r \<and>
     res = \<lparr>ir_Id = pc_Address c, ir_Status = resp_Status r, ir_Message = resp_Message r\<rparr>)"

lemma install_peer_ok:
  assumes "install_peer R sp i c (resp, n) = (t, Ok (resp', n'))"
  shows "\<exists>res. answered sp c res \<and> cir_Results resp' = cir_Results resp @ [res] \<and>
     n' = n + (if ir_Status res = 200 then 1 else 0) \<and> t = [EvEndorse i sp]"
  using assms by (auto simp: install_peer_def Let_def answered_def split: if_splits)

lemma install_loop_ok:
  "install_loop R sp i cs (resp, n) = (t, Ok (resp', n')) \<Longrightarrow>
     \<exists>rs. list_all2 (answered sp) cs rs \<and> cir_Results resp' = cir_Results resp @ rs \<and>
       n' = n + length (filter (\<lambda>r. ir_Status r = 200) rs)"
proof (induction cs arbitrary: i resp n t)
  case (Cons c cs)
  from Cons.prems obtain t1 resp1 n1 t2 where
    p: "install_peer R sp i c (resp, n) = (t1, Ok (resp1, n1))"
      "install_loop R sp (i + 1) cs (resp1, n1) = (t2, Ok (resp', n'))"
    by auto
  from install_peer_ok[OF p(1)] obtain res where r: "answered sp c res"
    "cir_Results resp1 = cir_Results resp @ [res]" "n1 = n + (if ir_Status res = 200 then 1 else 0)" by blast
  from Cons.IH[OF p(2)] obtain rs where "list_all2 (answered sp) cs rs" "cir_Results resp' = cir_Results resp1 @ rs"
    "n' = n1 + length (filter (\<lambda>r. ir_Status r = 200) rs)" by blast
  with r show ?case by (intro exI[of _ "res # rs"]) simp
qed auto

lemma length_filter_all: "length (filter Q xs) = length xs \<longleftrightarrow> list_all Q xs"
proof (induction xs)
  case (Cons x xs)
  have "length (filter Q xs) \<noteq> Suc (length xs)" using length_filter_le[of Q xs] by linarith
  with Cons show ?case by auto
qed simp

section \<open>Theorems\<close>

text \<open>The response of \<open>Install\<close> reports every peer, in the order of the peers and with the status
  it answered, and the overall status is 200 when all of them, 204 when some of them and 500 when
  none of them installed the package.\<close>

lemma install_reports_every_peer:
  assumes "Install E L sg cs installer = (t, Ok resp)"
  shows "\<exists>sp. list_all2 (answered sp) cs (cir_Results resp) \<and>
     cir_Status resp =
       (if list_all (\<lambda>r. ir_Status r \<noteq> 200) (cir_Results resp) then 500
        else if list_all (\<lambda>r. ir_Status r = 200) (cir_Results resp) then 200 else 204)"
proof -
  from assms obtain sp r n t2 where
    l: "install_loop (il_InstallResult L) sp 0 cs
          (\<lparr>cir_Status = 0, cir_Label = [], cir_PackageId = [], cir_Results = []\<rparr>, 0) = (t2, Ok (r, n))"
    and r: "resp = r\<lparr>cir_Status := (if n = 0 then 500 else if n \<noteq> length cs then 204 else 200)\<rparr>"
    by (auto simp: Install_def)
  from install_loop_ok[OF l] have a: "list_all2 (answered sp) cs (cir_Results r)"
    and n: "n = length (filter (\<lambda>x. ir_Status x = 200) (cir_Results r))" by auto
  have "n = 0 \<longleftrightarrow> list_all (\<lambda>x. ir_Status x \<noteq> 200) (cir_Results r)"
    unfolding n by (simp add: list_all_iff filter_empty_conv)
  moreover have "n = length cs \<longleftrightarrow> list_all (\<lambda>x. ir_Status x = 200) (cir_Results r)"
    unfolding n list_all2_lengthD[OF a] by (rule length_filter_all)
  ultimately show ?thesis using a r by (intro exI[of _ sp]) simp
qed

text \<open>Two peers of which the second refuses.\<close>

definition in_pb :: pb where
  "in_pb = sample_pb\<lparr>
     pb_ChaincodeHeaderExtension := table_codec [\<lparr>che_ChaincodeId =
       Some \<lparr>ccid_Path = [], ccid_Name = LifeCycleName, ccid_Version = []\<rparr>\<rparr>],
     pb_ChaincodeInvocationSpec := table_codec [lifecycle_cis LSCC_InstallChaincode [0]],
     pb_ChaincodeProposalPayload := table_codec [\<lparr>cpp_Input = [0], cpp_TransientMap = Map.empty\<rparr>],
     pb_Proposal := table_codec [\<lparr>prop_Header = [0], prop_Payload = [0]\<rparr>]\<rparr>"

definition in_proposer :: proposer where
  "in_proposer = \<lparr>pp_pb = in_pb, pp_sha2 = (\<lambda>x. x), pp_rnd = ([1], None),
     pp_ts = (sample_ts, None), pp_json_map = (\<lambda>_. (Map.empty, None))\<rparr>"

definition in_lib :: install_lib where
  "in_lib = \<lparr>il_package = \<lparr>pk_json = (\<lambda>_. ([], None)), pk_tar_write = (\<lambda>_ _. None),
       pk_close = (\<lambda>es. (concat (map snd es), None)), pk_ReadFile = (\<lambda>_. ([], None))\<rparr>,
     il_InstallArgs = table_codec [\<lparr>ica_ChaincodeInstallPackage = [5]\<rparr>],
     il_InstallResult = table_codec [\<lparr>icr_PackageId = ''p:1'', icr_Label = ''p''\<rparr>]\<rparr>"

definition in_peers :: "peer_client list" where
  "in_peers = [\<lparr>pc_Address = ''p0'', pc_Endorser = (good_endorser, None)\<rparr>,
               \<lparr>pc_Address = ''p1'', pc_Endorser = ((\<lambda>_. (Some failing_response, None)), None)\<rparr>]"

definition in_response :: ChaincodeInstallResponse where
  "in_response = \<lparr>cir_Status = 204, cir_Label = ''p'', cir_PackageId = ''p:1'',
     cir_Results = [\<lparr>ir_Id = ''p0'', ir_Status = 200, ir_Message = ''OK''\<rparr>,
                    \<lparr>ir_Id = ''p1'', ir_Status = 500, ir_Message = ''no''\<rparr>]\<rparr>"

lemma in_proposal:
  "CreateProposalFromCIS in_pb (\<lambda>x. x) ([1], None) (sample_ts, None) HeaderType_ENDORSER_TRANSACTION []
     (Some (lifecycle_cis LSCC_InstallChaincode [0])) [2]
   = Ok (\<lparr>prop_Header = [0], prop_Payload = [0]\<rparr>, sample_txid)"
proof -
  have s: "cis_ChaincodeSpec (lifecycle_cis f b) = Some \<lparr>cspec_Type = ChaincodeSpec_UNDEFINED,
      cspec_ChaincodeId = Some \<lparr>ccid_Path = [], ccid_Name = LifeCycleName, ccid_Version = []\<rparr>,
      cspec_Input = Some \<lparr>cin_Args = [bytes_of_string f, b], cin_IsInit = False\<rparr>\<rparr>" for f b
    by (simp add: lifecycle_cis_def)
  show ?thesis
    by (simp add: CreateProposalFromCIS_def CreateChaincodeProposal_def CreateChaincodeProposalWithTransient_def
        getRandomNonce_def CreateChaincodeProposalWithTxIDNonceAndTransient_def MarshalOrPanic_def s
        in_pb_def sample_defs)
qed

lemma in_run:
  "Install in_proposer in_lib sample_client in_peers (Some (CI_PackageCode [5]))
     = ([EvEndorse 0 mixed_sp, EvEndorse 1 mixed_sp], Ok in_response)"
proof -
  have sp: "cryptoutil_GetSignedProposal in_pb (Some \<lparr>prop_Header = [0], prop_Payload = [0]\<rparr>) sample_client = Ok mixed_sp"
    by (simp add: cryptoutil_GetSignedProposal_def in_pb_def mixed_sp_def sample_client_def table_codec_simps)
  have c: "sg_Serialize sample_client = ([2], None)" by (simp add: sample_client_def)
  have p: "pp_pb in_proposer = in_pb" "pp_sha2 in_proposer = (\<lambda>x. x)" "pp_rnd in_proposer = ([1], None)"
    "pp_ts in_proposer = (sample_ts, None)" by (simp_all add: in_proposer_def)
  show ?thesis
    by (simp add: Install_def GetInstalledChaincode_def in_lib_def c p in_proposal sp install_peer_def in_peers_def
        good_endorser_def sample_response_def failing_response_def rbind_def emit_def pure_run_def
        table_codec_simps in_response_def)
qed

lemma install_reports_every_peer_witness:
  "\<exists>sp. list_all2 (answered sp) in_peers (cir_Results in_response) \<and> cir_Status in_response = 204"
  using install_reports_every_peer[OF in_run] by (auto simp: in_response_def)

text \<open>A package built from source with a type other than GOLANG panics when it is installed, and
  so does one from a git repository: the packager, or the whole installer, is a nil interface.\<close>

lemma nil_packager_panics:
  "GetInstalledChaincode K (GetChaincodeInstallerFromGitRepo git) = Panic NilDeref \<and>
   (if typ = ''GOLANG'' then True
    else GetInstalledChaincode K (GetChaincodeInstallerFromSource golang path label typ) = Panic NilDeref)"
  by (simp add: GetInstalledChaincode_def GetChaincodeInstallerFromGitRepo_def
      GetChaincodeInstallerFromSource_def getTarPackage_def)

text \<open>The label given for a source installation never reaches the package: two installers that
  differ only in the label build the same bytes, since the path is written as the label.\<close>

lemma source_label_ignored:
  "GetInstalledChaincode K (GetChaincodeInstallerFromSource golang path label typ) =
   GetInstalledChaincode K (GetChaincodeInstallerFromSource golang path label' typ)"
  by (simp add: GetInstalledChaincode_def GetChaincodeInstallerFromSource_def getTarPackage_def)

end
