(* ===== verification/ChannelUpdate.thy ===== *)
theory ChannelUpdate
  imports ChannelConfig OrdererDeliver Install
begin

text \<open>
  Creating, updating and joining channels: \<open>internal/channel/update.go\<close>, the signatures of an update
  in \<open>channel.go\<close> and \<open>util.go\<close>, and the two queries of \<open>list.go\<close>.

  What is sent to orderers and peers is the trace of a run (theory Submit). \<open>err_str\<close> is the method
  \<open>Error\<close> of errors.
\<close>

section \<open>Signing an update\<close>

definition SignUpdateConfig :: "pb \<Rightarrow> Signer \<Rightarrow> bytes \<Rightarrow> ConfigSignature outcome" where
  "SignUpdateConfig P signer update =
     bind (check (sg_NewSignatureHeader signer)) (\<lambda>signedHeader.
     bind (case Marshal (pb_SignatureHeader P) (Some signedHeader) of
             (header, None) \<Rightarrow> Ok header
           | (_, Some err) \<Rightarrow> Err (Errorf ''marshaling signature header: %v'' [AErr err])) (\<lambda>header.
     let data = concatenateBytes [header, update] in
     bind (check (sg_Sign signer data)) (\<lambda>signature.
     Ok \<lparr>csig_SignatureHeader = header, csig_Signature = signature\<rparr>)))"

definition SignBy :: "pb \<Rightarrow> UpdateEnvelope \<Rightarrow> Signer \<Rightarrow> UpdateEnvelope outcome" where
  "SignBy P c signer =
     (case ue_signatures c (sg_GetMSPId signer) of
        Some _ \<Rightarrow> Err (Errorf ''%s has signed updated config'' [AStr (sg_GetMSPId signer)])
      | None \<Rightarrow>
        bind (SignUpdateConfig P signer (ue_update c)) (\<lambda>sig.
        Ok (c\<lparr>ue_signatures := (ue_signatures c)(sg_GetMSPId signer \<mapsto> sig)\<rparr>)))"

definition GetUpdates :: "UpdateEnvelope \<Rightarrow> bytes" where
  "GetUpdates c = ue_update c"

text \<open>\<open>CreateUpdateEnvelope\<close> ranges over the map of the marshalled signatures; \<open>keys\<close> is the order.\<close>

fun read_signatures ::
    "ConfigSignature codec \<Rightarrow> (string \<rightharpoonup> bytes) \<Rightarrow> string list \<Rightarrow> UpdateEnvelope \<Rightarrow> UpdateEnvelope outcome" where
  "read_signatures S sigs [] c = Ok c"
| "read_signatures S sigs (name # names) c =
     bind (deref (sigs name)) (\<lambda>sigBytes.
     bind (check (Unmarshal S sigBytes)) (\<lambda>sig.
     read_signatures S sigs names (c\<lparr>ue_signatures := (ue_signatures c)(name \<mapsto> sig)\<rparr>)))"

definition CreateUpdateEnvelope ::
    "ConfigSignature codec \<Rightarrow> string list \<Rightarrow> bytes \<Rightarrow> (string \<rightharpoonup> bytes) \<Rightarrow> string \<Rightarrow> UpdateEnvelope outcome" where
  "CreateUpdateEnvelope S keys update sigs channeliD = read_signatures S sigs keys (new_update update channeliD)"

section \<open>Creating and updating a channel\<close>

text \<open>\<open>return nil, errors.WithMessage(err, msg)\<close>: a nil envelope without an error when \<open>err\<close> is nil.\<close>

definition nil_with_message :: "gerror option \<Rightarrow> string \<Rightarrow> 'a option outcome" where
  "nil_with_message err msg = (case errors_Wrap err msg of None \<Rightarrow> Ok None | Some e \<Rightarrow> Err e)"

definition sanityCheckAndSignConfigTx ::
    "pb \<Rightarrow> bytes ret \<Rightarrow> int \<Rightarrow> Envelope option \<Rightarrow> Signer \<Rightarrow> string \<Rightarrow> Envelope option outcome" where
  "sanityCheckAndSignConfigTx P rnd now envConfigUpdate signer channelID0 =
     bind (deref envConfigUpdate) (\<lambda>env.
     bind (on_err ''bad payload'' (check (UnmarshalPayload P (env_Payload env)))) (\<lambda>payload.
     case payl_Header payload of
       None \<Rightarrow> nil_with_message None ''bad header''
     | Some hdr \<Rightarrow>
       (case hdr_ChannelHeader hdr of
          None \<Rightarrow> nil_with_message None ''bad header''
        | Some chBytes \<Rightarrow>
          bind (on_err ''could not unmarshall channel header'' (check (UnmarshalChannelHeader P chBytes))) (\<lambda>ch.
          if ch_Type ch \<noteq> HeaderType_CONFIG_UPDATE then nil_with_message None ''bad type''
          else if ch_ChannelId ch = [] then nil_with_message None ''empty channel id''
          else
          let channelID = (if channelID0 = [] then ch_ChannelId ch else channelID0) in
          if ch_ChannelId ch \<noteq> channelID
          then Err (Errorf ''mismatched channel Name %s != %s'' [AStr (ch_ChannelId ch), AStr channelID])
          else
          bind (on_err ''Bad config update env'' (UnmarshalConfigUpdateEnvelope P (payl_Data payload))) (\<lambda>configUpdateEnv.
          bind (NewSignatureHeader rnd signer) (\<lambda>sigHeader.
          bind (MarshalOrPanic (pb_SignatureHeader P) (Some sigHeader)) (\<lambda>sigHeaderBytes.
          bind (ConcatenateBytes [sigHeaderBytes, cue_ConfigUpdate configUpdateEnv]) (\<lambda>data.
          bind (check (sg_Sign signer data)) (\<lambda>signature.
          let configSig = \<lparr>csig_SignatureHeader = sigHeaderBytes, csig_Signature = signature\<rparr>;
              signedUpdate = configUpdateEnv\<lparr>cue_Signatures := cue_Signatures configUpdateEnv @ [Some configSig]\<rparr> in
          bind (CreateSignedEnvelope P (pb_ConfigUpdateEnvelope P) now HeaderType_CONFIG_UPDATE channelID
                  (Some signer) (Some signedUpdate) 0 0) (\<lambda>e. Ok (Some e)))))))))))"

text \<open>What the two operations draw from outside beside the network.\<close>

record ('cfg, 'x) channel_lib =
  cl_pb :: pb
  cl_configtx :: "('cfg, 'x) configtx_lib"
  cl_ReadFile :: "string \<Rightarrow> bytes ret"
  cl_keys :: "string list"
  cl_rnd :: "bytes ret"
  cl_now :: int

definition Create :: "('cfg, 'x) channel_lib \<Rightarrow> Signer \<Rightarrow> ChannelEnvelope \<Rightarrow> orderer \<Rightarrow> unit run" where
  "Create L signer ch client =
     rbind (pure_run (CreateEnvelope (cl_pb L) (cl_configtx L) (cl_ReadFile L) (cl_keys L) ch)) (\<lambda>chEnv.
     rbind (pure_run (sanityCheckAndSignConfigTx (cl_pb L) (cl_rnd L) (cl_now L) chEnv signer
                        (ChannelEnvelope_ChannelID ch))) (\<lambda>signedEnv.
     rbind (GetBroadcastClient client) (\<lambda>broadcastClient.
     case broadcast_Send broadcastClient signedEnv of
       (t, Panic p) \<Rightarrow> (t, Panic p)
     | (t, r) \<Rightarrow> (t @ [EvCloseSend], r))))"

text \<open>\<open>Update\<close> closes the stream by a deferred call, which also runs when the function panics.\<close>

definition Update :: "('cfg, 'x) channel_lib \<Rightarrow> Signer \<Rightarrow> ChannelEnvelope \<Rightarrow> orderer \<Rightarrow> unit run" where
  "Update L signer ch oClient =
     rbind (pure_run (on_err ''create envelope''
              (CreateEnvelope (cl_pb L) (cl_configtx L) (cl_ReadFile L) (cl_keys L) ch))) (\<lambda>chEnv.
     rbind (pure_run (on_err ''sanity check and sign configtx''
              (sanityCheckAndSignConfigTx (cl_pb L) (cl_rnd L) (cl_now L) chEnv signer
                 (ChannelEnvelope_ChannelID ch)))) (\<lambda>signedEnv.
     rbind (GetBroadcastClient oClient) (\<lambda>broadcast.
     let (t, r) = broadcast_Send broadcast signedEnv in (t @ [EvCloseSend], r))))"

section \<open>Joining a channel\<close>

definition CSCC :: string where "CSCC = ''cscc''"
definition CSCC_JoinChannel :: string where "CSCC_JoinChannel = ''JoinChain''"
definition CSCC_GetChainInfo :: string where "CSCC_GetChainInfo = ''GetChainInfo''"
definition CSCC_GetChannels :: string where "CSCC_GetChannels = ''GetChannels''"

text \<open>An invocation of a system chaincode.\<close>

definition system_cis :: "string \<Rightarrow> bytes list \<Rightarrow> ChaincodeInvocationSpec" where
  "system_cis name args = \<lparr>cis_ChaincodeSpec = Some
     \<lparr>cspec_Type = ChaincodeSpec_Type_value ''GOLANG'',
      cspec_ChaincodeId = Some \<lparr>ccid_Path = [], ccid_Name = name, ccid_Version = []\<rparr>,
      cspec_Input = Some \<lparr>cin_Args = args, cin_IsInit = False\<rparr>\<rparr>\<rparr>"

definition createJoinChannelProposal :: "proposer \<Rightarrow> Signer \<Rightarrow> bytes \<Rightarrow> SignedProposal outcome" where
  "createJoinChannelProposal E signer block =
     bind (check (sg_Serialize signer)) (\<lambda>creator.
     bind (reformat ''error creating proposal for join %s''
             (CreateProposalFromCIS (pp_pb E) (pp_sha2 E) (pp_rnd E) (pp_ts E) HeaderType_CONFIG ''''
                (Some (system_cis ''cscc'' [bytes_of_string CSCC_JoinChannel, block])) creator)) (\<lambda>(prop, _).
     reformat ''error creating signed proposal %s'' (cryptoutil_GetSignedProposal (pp_pb E) (Some prop) signer)))"

text \<open>The block 0 of a channel, as bytes: what both operations do first.\<close>

definition fetch_genesis ::
    "deliver_lib \<Rightarrow> (bytes \<Rightarrow> bytes) \<Rightarrow> (bytes \<Rightarrow> bytes) \<Rightarrow> Signer \<Rightarrow> orderer_client \<Rightarrow> string \<Rightarrow> (bytes \<times> stream) outcome" where
  "fetch_genesis L sha2 sha3 signer oClient channelID =
     bind (GetDeliverClient sha2 sha3 oClient (Some signer) channelID True) (\<lambda>(ds, st).
     bind (reformat ''fail to get config block from channel %s with error: %v''
             (run_service (GetSpecifiedBlock L ds 0) st)) (\<lambda>(block, st').
     bind (check (Marshal (pb_Block (dl_pb L)) block)) (\<lambda>blockBytes. Ok (blockBytes, st'))))"

text \<open>The nonce and the time of the \<open>i\<close>-th proposal are those of \<open>E i\<close>.\<close>

definition join_peer ::
    "(gerror \<Rightarrow> string) \<Rightarrow> proposer \<Rightarrow> Signer \<Rightarrow> bytes \<Rightarrow> nat \<Rightarrow> peer_client \<Rightarrow> Response option run" where
  "join_peer err_str E signer blockBytes i peerClient =
     (let failed = \<lambda>message. pure_run (Ok (Some \<lparr>resp_Status = 500, resp_Message = message,
                                   resp_Payload = bytes_of_string (pc_Address peerClient)\<rparr>)) in
      case pc_Endorser peerClient of
        (_, Some err) \<Rightarrow> failed (err_str err)
      | (endorser, None) \<Rightarrow>
        (case createJoinChannelProposal E signer blockBytes of
           Panic p \<Rightarrow> pure_run (Panic p)
         | Err err \<Rightarrow> failed (err_str err)
         | Ok signedProp \<Rightarrow>
           rbind (emit (EvEndorse i signedProp)) (\<lambda>_.
           case endorser signedProp of
             (_, Some err) \<Rightarrow> failed (''process proposal, error: '' @ err_str err)
           | (r, None) \<Rightarrow> rbind (pure_run (deref r)) (\<lambda>resp. pure_run (Ok (pr_Response resp))))))"

fun join_loop ::
    "(gerror \<Rightarrow> string) \<Rightarrow> (nat \<Rightarrow> proposer) \<Rightarrow> Signer \<Rightarrow> bytes \<Rightarrow> nat \<Rightarrow> peer_client list \<Rightarrow> Response option list run" where
  "join_loop err_str E signer blockBytes i [] = pure_run (Ok [])"
| "join_loop err_str E signer blockBytes i (p # ps) =
     rbind (join_peer err_str (E i) signer blockBytes i p) (\<lambda>r.
     rbind (join_loop err_str E signer blockBytes (i + 1) ps) (\<lambda>rs. pure_run (Ok (r # rs))))"

definition Join ::
    "(gerror \<Rightarrow> string) \<Rightarrow> (nat \<Rightarrow> proposer) \<Rightarrow> deliver_lib \<Rightarrow> (bytes \<Rightarrow> bytes) \<Rightarrow> (bytes \<Rightarrow> bytes) \<Rightarrow> Signer
       \<Rightarrow> peer_client list \<Rightarrow> orderer_client \<Rightarrow> string \<Rightarrow> Response option list run" where
  "Join err_str E L sha2 sha3 signer pClients oClient channelID =
     rbind (pure_run (fetch_genesis L sha2 sha3 signer oClient channelID)) (\<lambda>(blockBytes, st).
     join_loop err_str E signer blockBytes 0 pClients)"

definition Join2 ::
    "proposer \<Rightarrow> deliver_lib \<Rightarrow> (bytes \<Rightarrow> bytes) \<Rightarrow> (bytes \<Rightarrow> bytes) \<Rightarrow> Signer \<Rightarrow> peer_client \<Rightarrow> orderer_client
       \<Rightarrow> string \<Rightarrow> Response option run" where
  "Join2 E L sha2 sha3 signer pClient oClient channelID =
     rbind (pure_run (fetch_genesis L sha2 sha3 signer oClient channelID)) (\<lambda>(blockBytes, st).
     rbind (pure_run (check (pc_Endorser pClient))) (\<lambda>endorser.
     rbind (pure_run (createJoinChannelProposal E signer blockBytes)) (\<lambda>signedProp.
     rbind (emit (EvEndorse 0 signedProp)) (\<lambda>_.
     rbind (pure_run (bind (check (endorser signedProp)) deref)) (\<lambda>r. pure_run (Ok (pr_Response r)))))))"

section \<open>Queries\<close>

record ChannelInfo =
  ci_ChannelId :: string

record BlockchainInfo =
  bci_Height :: "64 word"
  bci_CurrentBlockHash :: bytes
  bci_PreviousBlockHash :: bytes

definition system_proposal :: "proposer \<Rightarrow> Signer \<Rightarrow> string \<Rightarrow> bytes list \<Rightarrow> Proposal outcome" where
  "system_proposal E signer name args =
     bind (check (sg_Serialize signer)) (\<lambda>creator.
     bind (CreateProposalFromCIS (pp_pb E) (pp_sha2 E) (pp_rnd E) (pp_ts E) HeaderType_ENDORSER_TRANSACTION ''''
             (Some (system_cis name args)) creator) (\<lambda>(prop, _). Ok prop))"

definition createListChannelProposal :: "proposer \<Rightarrow> Signer \<Rightarrow> Proposal outcome" where
  "createListChannelProposal E signer = system_proposal E signer CSCC [bytes_of_string CSCC_GetChannels]"

definition createGetChannelInfoProposal :: "proposer \<Rightarrow> Signer \<Rightarrow> string \<Rightarrow> Proposal outcome" where
  "createGetChannelInfoProposal E signer channelID =
     bind (check (sg_Serialize signer)) (\<lambda>creator.
     on_err ''cannot create proposal''
       (bind (CreateProposalFromCIS (pp_pb E) (pp_sha2 E) (pp_rnd E) (pp_ts E) HeaderType_ENDORSER_TRANSACTION ''''
                (Some (system_cis ''qscc'' [bytes_of_string CSCC_GetChainInfo, bytes_of_string channelID])) creator)
          (\<lambda>(prop, _). Ok prop)))"

text \<open>The test of the response that both queries make: a nil response enters the branch whose
  message reads its status.\<close>

definition system_payload :: "string \<Rightarrow> ProposalResponse option \<Rightarrow> bytes outcome" where
  "system_payload format p =
     bind (deref p) (\<lambda>proposalResp.
     bind (deref (pr_Response proposalResp)) (\<lambda>r.
     if resp_Status r \<noteq> 200 then Err (Errorf format [AInt (resp_Status r), AStr (resp_Message r)])
     else Ok (resp_Payload r)))"

definition List_channels :: "proposer \<Rightarrow> ChannelInfo list codec \<Rightarrow> Signer \<Rightarrow> peer_client \<Rightarrow> ChannelInfo list run" where
  "List_channels E R signer pClient =
     rbind (pure_run (createListChannelProposal E signer)) (\<lambda>proposal.
     rbind (pure_run (cryptoutil_GetSignedProposal (pp_pb E) (Some proposal) signer)) (\<lambda>signedProp.
     rbind (pure_run (check (pc_Endorser pClient))) (\<lambda>endorser.
     rbind (emit (EvEndorse 0 signedProp)) (\<lambda>_.
     pure_run (
       bind (reformat ''Failed sending proposal, got %s'' (check (endorser signedProp))) (\<lambda>proposalResp.
       bind (system_payload ''Received bad response, status %d: %s'' proposalResp) (\<lambda>payload.
       reformat ''Cannot read channels list response, %s'' (check (Unmarshal R payload)))))))))"

definition GetInfo :: "proposer \<Rightarrow> BlockchainInfo codec \<Rightarrow> Signer \<Rightarrow> endorser \<Rightarrow> string \<Rightarrow> BlockchainInfo run" where
  "GetInfo E R signer endorser channelID =
     rbind (pure_run (createGetChannelInfoProposal E signer channelID)) (\<lambda>proposal.
     rbind (pure_run (on_err ''cannot create signed proposal''
              (GetSignedProposal (pp_pb E) (Some proposal) (Some signer)))) (\<lambda>signedProp.
     rbind (emit (EvEndorse 0 signedProp)) (\<lambda>_.
     pure_run (
       bind (check (endorser signedProp)) (\<lambda>resp.
       bind (system_payload ''received bad response, status %d: %s'' resp) (\<lambda>payload.
       check (Unmarshal R payload)))))))"

section \<open>Successful runs\<close>

lemma nil_with_message_simps [simp]:
  "nil_with_message None msg = Ok None" "nil_with_message (Some e) msg = Err (WithMsg msg e)"
  by (simp_all add: nil_with_message_def)

lemma ConcatenateBytes_two: "ConcatenateBytes [a, b] = Ok (a @ b)"
  using ConcatenateBytes_eq[of "[a, b]"] by simp

text \<open>A signature of an update by a signer: over the signature header it carries, and the update.\<close>

definition signs :: "Signer \<Rightarrow> bytes \<Rightarrow> ConfigSignature \<Rightarrow> bool" where
  "signs signer update sig \<longleftrightarrow> sg_Sign signer (csig_SignatureHeader sig @ update) = (csig_Signature sig, None)"

lemma SignUpdateConfig_ok: "SignUpdateConfig P signer update = Ok sig \<Longrightarrow> signs signer update sig"
  by (cases "sg_NewSignatureHeader signer"; cases "snd (sg_NewSignatureHeader signer)";
      cases "Marshal (pb_SignatureHeader P) (Some (fst (sg_NewSignatureHeader signer)))";
      cases "snd (Marshal (pb_SignatureHeader P) (Some (fst (sg_NewSignatureHeader signer))))")
     (auto simp: SignUpdateConfig_def signs_def)

lemma sanityCheck_ok:
  assumes "sanityCheckAndSignConfigTx P rnd now (Some env) signer channelID = Ok (Some e)"
    and "UnmarshalPayload P (env_Payload env) = (payload, None)"
  shows "\<exists>hdr chB ch cue sig. payl_Header payload = Some hdr \<and> hdr_ChannelHeader hdr = Some chB \<and>
    UnmarshalChannelHeader P chB = (ch, None) \<and> ch_Type ch = HeaderType_CONFIG_UPDATE \<and> ch_ChannelId ch \<noteq> [] \<and>
    (channelID = [] \<or> channelID = ch_ChannelId ch) \<and>
    UnmarshalConfigUpdateEnvelope P (payl_Data payload) = Ok cue \<and> signs signer (cue_ConfigUpdate cue) sig \<and>
    CreateSignedEnvelopeWithTLSBinding P (pb_ConfigUpdateEnvelope P) now HeaderType_CONFIG_UPDATE (ch_ChannelId ch)
      (Some signer) (Some (cue\<lparr>cue_Signatures := cue_Signatures cue @ [Some sig]\<rparr>)) 0 0 [] = Ok e"
proof -
  from assms obtain hdr chB where h: "payl_Header payload = Some hdr" "hdr_ChannelHeader hdr = Some chB"
    by (auto simp: sanityCheckAndSignConfigTx_def split: option.splits)
  from assms h obtain ch where ch: "UnmarshalChannelHeader P chB = (ch, None)"
    by (cases "UnmarshalChannelHeader P chB"; cases "snd (UnmarshalChannelHeader P chB)")
       (auto simp: sanityCheckAndSignConfigTx_def)
  show ?thesis using assms h ch
    by (simp add: sanityCheckAndSignConfigTx_def ConcatenateBytes_two CreateSignedEnvelope_def signs_def Let_def
        split: if_splits) force+
qed

section \<open>Collecting signatures\<close>

text \<open>The states an update reaches when organisations sign it one after the other.\<close>

inductive signing :: "pb \<Rightarrow> UpdateEnvelope \<Rightarrow> UpdateEnvelope \<Rightarrow> bool" for P c where
  unsigned: "signing P c c"
| sign: "signing P c c' \<Longrightarrow> SignBy P c' signer = Ok c'' \<Longrightarrow> signing P c c''"

definition signatures_valid :: "UpdateEnvelope \<Rightarrow> bool" where
  "signatures_valid c \<longleftrightarrow> (\<forall>mspId sig. ue_signatures c mspId = Some sig \<longrightarrow>
     (\<exists>signer. sg_GetMSPId signer = mspId \<and> signs signer (ue_update c) sig))"

lemma SignBy_valid: "signatures_valid c \<Longrightarrow> SignBy P c signer = Ok c' \<Longrightarrow> signatures_valid c' \<and> ue_update c' = ue_update c"
  by (auto simp: SignBy_def signatures_valid_def split: option.splits if_splits) (metis SignUpdateConfig_ok)

lemma signing_valid: "signing P c c' \<Longrightarrow> signatures_valid c \<Longrightarrow> signatures_valid c' \<and> ue_update c' = ue_update c"
  by (induction rule: signing.induct) (auto dest: SignBy_valid)

lemma map_filter_dom: "set keys \<subseteq> dom m \<Longrightarrow> List.map_filter m keys = map (\<lambda>k. the (m k)) keys"
  by (induction keys) (auto simp: List.map_filter_simps)

text \<open>However the organisations of a channel sign an update, the envelope made of it carries
  exactly one signature for each organisation that signed, each a signature by a signer of that
  organisation over the update that was computed first, in whatever order the map of signatures is
  traversed; and an organisation that has signed cannot sign again.\<close>

lemma collected_signatures:
  assumes "signing P (new_update update channelID) c" "map_order (ue_signatures c) keys"
  shows "\<exists>sigs. CreateEnvelope P X readFile keys (CE_Update c) = check (cx_NewEnvelope X update sigs) \<and>
           length sigs = card (dom (ue_signatures c)) \<and>
           list_all2 (\<lambda>mspId sig. \<exists>signer. sg_GetMSPId signer = mspId \<and> signs signer update sig) keys sigs \<and>
           (\<forall>signer. sg_GetMSPId signer \<in> dom (ue_signatures c) \<longrightarrow> is_err (SignBy P c signer))"
proof -
  have "signatures_valid (new_update update channelID)" by (simp add: signatures_valid_def new_update_def)
  from signing_valid[OF assms(1) this] have v: "signatures_valid c" "ue_update c = update"
    by (simp_all add: new_update_def)
  have k: "distinct keys" "set keys = dom (ue_signatures c)" using assms(2) by (simp_all add: map_order_def)
  let ?sigs = "map (\<lambda>k. the (ue_signatures c k)) keys"
  have "CreateEnvelope P X readFile keys (CE_Update c) = check (cx_NewEnvelope X update ?sigs)"
    using map_filter_dom[of keys "ue_signatures c"] k v(2) by simp
  moreover have "length ?sigs = card (dom (ue_signatures c))"
    using distinct_card[OF k(1)] k(2) by simp
  moreover have "list_all2 (\<lambda>mspId sig. \<exists>signer. sg_GetMSPId signer = mspId \<and> signs signer update sig) keys ?sigs"
    using v k(2) by (auto simp: list_all2_map2 list_all2_same signatures_valid_def)
  moreover have "is_err (SignBy P c signer)" if "sg_GetMSPId signer \<in> dom (ue_signatures c)" for signer
    using that by (auto simp: SignBy_def)
  ultimately show ?thesis by blast
qed

text \<open>Two organisations sign the update 5.\<close>

definition org_signer :: "string \<Rightarrow> byte \<Rightarrow> Signer" where
  "org_signer mspId key = \<lparr>sg_Serialize = ([key], None), sg_Sign = (\<lambda>b. (key # b, None)),
     sg_NewSignatureHeader = (\<lparr>sh_Creator = [key], sh_Nonce = [1]\<rparr>, None), sg_GetMSPId = mspId\<rparr>"

definition cu_pb :: pb where
  "cu_pb = cc_pb\<lparr>pb_SignatureHeader := table_codec [\<lparr>sh_Creator = [3], sh_Nonce = [1]\<rparr>, \<lparr>sh_Creator = [4], sh_Nonce = [1]\<rparr>]\<rparr>"

definition cu_signed :: UpdateEnvelope where
  "cu_signed = (new_update [5] ''ch'')\<lparr>ue_signatures :=
     [''Org1'' \<mapsto> \<lparr>csig_SignatureHeader = [0], csig_Signature = [3, 0, 5]\<rparr>,
      ''Org2'' \<mapsto> \<lparr>csig_SignatureHeader = [0, 0], csig_Signature = [4, 0, 0, 5]\<rparr>]\<rparr>"

lemma cu_signing: "signing cu_pb (new_update [5] ''ch'') cu_signed"
proof -
  have "SignBy cu_pb (new_update [5] ''ch'') (org_signer ''Org1'' 3)
      = Ok ((new_update [5] ''ch'')\<lparr>ue_signatures := [''Org1'' \<mapsto> \<lparr>csig_SignatureHeader = [0], csig_Signature = [3, 0, 5]\<rparr>]\<rparr>)"
    by (simp add: SignBy_def SignUpdateConfig_def new_update_def org_signer_def cu_pb_def table_codec_simps)
  moreover have "SignBy cu_pb ((new_update [5] ''ch'')\<lparr>ue_signatures :=
      [''Org1'' \<mapsto> \<lparr>csig_SignatureHeader = [0], csig_Signature = [3, 0, 5]\<rparr>]\<rparr>) (org_signer ''Org2'' 4) = Ok cu_signed"
    by (simp add: SignBy_def SignUpdateConfig_def new_update_def org_signer_def cu_pb_def cu_signed_def table_codec_simps)
  ultimately show ?thesis by (meson signing.unsigned signing.sign)
qed

lemma collected_signatures_witness:
  "\<exists>sigs. CreateEnvelope cu_pb names_configtx (\<lambda>_. ([], None)) [''Org2'', ''Org1''] (CE_Update cu_signed)
            = check (cx_NewEnvelope names_configtx [5] sigs) \<and> length sigs = 2 \<and>
     is_err (SignBy cu_pb cu_signed (org_signer ''Org1'' 3))"
proof -
  have m: "map_order (ue_signatures cu_signed) [''Org2'', ''Org1'']"
    by (auto simp: map_order_def cu_signed_def new_update_def split: if_splits)
  then have d: "dom (ue_signatures cu_signed) = {''Org2'', ''Org1''}" by (simp add: map_order_def)
  have "sg_GetMSPId (org_signer ''Org1'' 3) \<in> dom (ue_signatures cu_signed)" by (simp add: d org_signer_def)
  with collected_signatures[OF cu_signing m, where X=names_configtx and readFile="\<lambda>_. ([], None)"] show ?thesis
    unfolding d by auto
qed

section \<open>What is sent to the orderer\<close>

text \<open>The envelope that the check makes reads back, by \<open>EnvelopeToConfigUpdate\<close>, as the configuration
  update it was given with one more signature behind those it had.\<close>

lemma signed_check_reads_back:
  assumes "pb_laws P" "codec_laws (\<lambda>m. None \<notin> set (cue_Signatures m)) (pb_ConfigUpdateEnvelope P)"
    and "UnmarshalPayload P (env_Payload env) = (payload, None)"
    and "UnmarshalConfigUpdateEnvelope P (payl_Data payload) = Ok cue" "None \<notin> set (cue_Signatures cue)"
    and "sanityCheckAndSignConfigTx P rnd now (Some env) signer channelID = Ok (Some e)"
  shows "\<exists>sig ch. EnvelopeToConfigUpdate P (Some e) = Ok (cue\<lparr>cue_Signatures := cue_Signatures cue @ [Some sig]\<rparr>) \<and>
           signs signer (cue_ConfigUpdate cue) sig \<and>
           UnmarshalEnvelopeOfType P (pb_ConfigUpdateEnvelope P) (Some e) HeaderType_CONFIG_UPDATE m0
             = Ok (Some ch, cue\<lparr>cue_Signatures := cue_Signatures cue @ [Some sig]\<rparr>, None) \<and>
           (channelID = [] \<or> ch_ChannelId ch = channelID)"
proof -
  from sanityCheck_ok[OF assms(6,3)] obtain ch0 :: ChannelHeader and cue' sig where
    c: "UnmarshalConfigUpdateEnvelope P (payl_Data payload) = Ok cue'" and
    s': "channelID = [] \<or> channelID = ch_ChannelId ch0" "signs signer (cue_ConfigUpdate cue') sig"
      "CreateSignedEnvelopeWithTLSBinding P (pb_ConfigUpdateEnvelope P) now HeaderType_CONFIG_UPDATE (ch_ChannelId ch0)
        (Some signer) (Some (cue'\<lparr>cue_Signatures := cue_Signatures cue' @ [Some sig]\<rparr>)) 0 0 [] = Ok e"
    by (elim exE conjE) (rule that; assumption)
  have "cue' = cue" using c assms(4) by simp
  note s = s'[unfolded this]
  have ok: "None \<notin> set (cue_Signatures (cue\<lparr>cue_Signatures := cue_Signatures cue @ [Some sig]\<rparr>))"
    using assms(5) by simp
  note r = signed_envelope_read_ok(1)[OF assms(1,2) ok s(3)]
  from r[of m0] r[of "\<lparr>cue_ConfigUpdate = [], cue_Signatures = []\<rparr>"] s(1,2) show ?thesis
    by (auto simp: EnvelopeToConfigUpdate_def)
qed

text \<open>A payload whose header the check refuses with a message on an error that is nil.\<close>

definition malformed :: "pb \<Rightarrow> Payload \<Rightarrow> bool" where
  "malformed P payload \<longleftrightarrow> (case payl_Header payload of None \<Rightarrow> True | Some hdr \<Rightarrow>
     (case hdr_ChannelHeader hdr of None \<Rightarrow> True | Some b \<Rightarrow>
       (case UnmarshalChannelHeader P b of (ch, err) \<Rightarrow>
          err = None \<and> (ch_Type ch \<noteq> HeaderType_CONFIG_UPDATE \<or> ch_ChannelId ch = []))))"

lemma sanity_check_nil:
  assumes "sanityCheckAndSignConfigTx P rnd now (Some env) signer channelID = Ok None"
    and "UnmarshalPayload P (env_Payload env) = (payload, None)"
  shows "malformed P payload"
proof (cases "payl_Header payload")
  case (Some hdr)
  show ?thesis
  proof (cases "hdr_ChannelHeader hdr")
    case (Some b)
    then show ?thesis using assms \<open>payl_Header payload = Some hdr\<close>
      by (cases "UnmarshalChannelHeader P b"; cases "snd (UnmarshalChannelHeader P b)")
        (auto simp: malformed_def sanityCheckAndSignConfigTx_def Let_def split: if_splits)
  qed (use Some in \<open>simp add: malformed_def\<close>)
qed (simp add: malformed_def)

lemma update_sends:
  assumes "(t, r) \<in> {Create L signer ch oc, Update L signer ch oc}" "EvSend x \<in> set t"
  shows "\<exists>chEnv. CreateEnvelope (cl_pb L) (cl_configtx L) (cl_ReadFile L) (cl_keys L) ch = Ok chEnv \<and>
    sanityCheckAndSignConfigTx (cl_pb L) (cl_rnd L) (cl_now L) chEnv signer (ChannelEnvelope_ChannelID ch) = Ok x \<and>
    t \<in> {[EvOpen, EvSend x, EvCloseSend], [EvOpen, EvSend x]} \<and> (r = Ok () \<longrightarrow> ord_Send oc x = None \<and> getAck oc = Ok ())"
proof -
  have tr: "t' = [EvSend y]" if "broadcast_Send oc y = (t', r')" for y t' r'
    using fst_broadcast_Send[of oc y] that by simp
  have ack: "ord_Send oc y = None \<and> getAck oc = Ok ()" if "broadcast_Send oc y = (t', Ok ())" for y t'
    using that by (auto simp: broadcast_Send_def rbind_def emit_def pure_run_def split: option.splits)
  define ce where "ce = CreateEnvelope (cl_pb L) (cl_configtx L) (cl_ReadFile L) (cl_keys L) ch"
  obtain chEnv where c: "ce = Ok chEnv"
    using assms by (cases ce) (auto simp: Create_def Update_def ce_def[symmetric] rbind_def pure_run_def)
  define sc where "sc = sanityCheckAndSignConfigTx (cl_pb L) (cl_rnd L) (cl_now L) chEnv signer (ChannelEnvelope_ChannelID ch)"
  obtain y where s: "sc = Ok y"
    using assms by (cases sc) (auto simp: Create_def Update_def ce_def[symmetric] c sc_def[symmetric] rbind_def pure_run_def)
  obtain t' r' where b: "broadcast_Send oc y = (t', r')" by fastforce
  have o: "ord_Broadcast oc = None"
    using assms by (cases "ord_Broadcast oc") (auto simp: Create_def Update_def ce_def[symmetric] c sc_def[symmetric] s
        GetBroadcastClient_def rbind_def pure_run_def emit_def)
  have "t \<in> {[EvOpen, EvSend y, EvCloseSend], [EvOpen, EvSend y]} \<and> r = r'"
    using assms(1) b tr[OF b] by (cases r') (auto simp: Create_def Update_def ce_def[symmetric] c sc_def[symmetric] s o
        GetBroadcastClient_def rbind_def pure_run_def emit_def)
  then show ?thesis using assms(2) b ack c s by (auto simp: ce_def sc_def)
qed

text \<open>C18. Whatever \<open>Create\<close> and \<open>Update\<close> send to the orderer, they send once, and it is the update of the
  channel with one more signature: the envelope reads back, by \<open>EnvelopeToConfigUpdate\<close>, as the
  configuration update of the channel's envelope with a signature by the caller over that update behind
  those it had, under the channel that was named. The one exception is an envelope that the check finds
  malformed, for which nil is sent. Success means that the orderer has acknowledged it.\<close>

theorem signed_update_reads_back:
  assumes "pb_laws (cl_pb L)" "codec_laws (\<lambda>m. None \<notin> set (cue_Signatures m)) (pb_ConfigUpdateEnvelope (cl_pb L))"
    and "CreateEnvelope (cl_pb L) (cl_configtx L) (cl_ReadFile L) (cl_keys L) c = Ok (Some env)"
    and "UnmarshalPayload (cl_pb L) (env_Payload env) = (payload, None)"
    and "UnmarshalConfigUpdateEnvelope (cl_pb L) (payl_Data payload) = Ok cue" "None \<notin> set (cue_Signatures cue)"
    and "(t, r) \<in> {Create L signer c oc, Update L signer c oc}" "EvSend x \<in> set t"
  shows "t \<in> {[EvOpen, EvSend x, EvCloseSend], [EvOpen, EvSend x]} \<and>
    (r = Ok () \<longrightarrow> ord_Send oc x = None \<and> getAck oc = Ok ()) \<and>
    (case x of
       None \<Rightarrow> malformed (cl_pb L) payload
     | Some e \<Rightarrow> \<exists>sig ch.
         EnvelopeToConfigUpdate (cl_pb L) (Some e) = Ok (cue\<lparr>cue_Signatures := cue_Signatures cue @ [Some sig]\<rparr>) \<and>
         signs signer (cue_ConfigUpdate cue) sig \<and>
         UnmarshalEnvelopeOfType (cl_pb L) (pb_ConfigUpdateEnvelope (cl_pb L)) (Some e) HeaderType_CONFIG_UPDATE m0
           = Ok (Some ch, cue\<lparr>cue_Signatures := cue_Signatures cue @ [Some sig]\<rparr>, None) \<and>
         (ChannelEnvelope_ChannelID c = [] \<or> ch_ChannelId ch = ChannelEnvelope_ChannelID c))"
proof -
  from update_sends[OF assms(7,8)] assms(3) have
    s: "sanityCheckAndSignConfigTx (cl_pb L) (cl_rnd L) (cl_now L) (Some env) signer (ChannelEnvelope_ChannelID c) = Ok x"
    "t \<in> {[EvOpen, EvSend x, EvCloseSend], [EvOpen, EvSend x]}" "r = Ok () \<longrightarrow> ord_Send oc x = None \<and> getAck oc = Ok ()"
    by auto
  show ?thesis
  proof (cases x)
    case None
    then show ?thesis using s sanity_check_nil[OF _ assms(4)] by simp
  next
    case (Some e)
    then show ?thesis using s signed_check_reads_back[OF assms(1,2,4,5,6), of "cl_rnd L" "cl_now L" signer _ e m0] by simp
  qed
qed

text \<open>An update without a header, of another type or without a channel is not reported: the check
  returns a nil envelope and a nil error, \<open>Create\<close> and \<open>Update\<close> open a stream and send the nil
  envelope, and what the orderer answers to it is their result.\<close>

lemma malformed_update_sends_nil:
  assumes "CreateEnvelope (cl_pb L) (cl_configtx L) (cl_ReadFile L) (cl_keys L) ch = Ok (Some env)"
    and "UnmarshalPayload (cl_pb L) (env_Payload env) = (payload, None)" "malformed (cl_pb L) payload"
    and "ord_Broadcast oc = None"
  shows "sanityCheckAndSignConfigTx (cl_pb L) (cl_rnd L) (cl_now L) (Some env) signer (ChannelEnvelope_ChannelID ch) = Ok None \<and>
         Update L signer ch oc = ([EvOpen, EvSend None, EvCloseSend], snd (broadcast_Send oc None)) \<and>
         snd (Create L signer ch oc) = snd (Update L signer ch oc) \<and>
         (\<not> is_panic (snd (Create L signer ch oc)) \<longrightarrow> Create L signer ch oc = Update L signer ch oc)"
proof -
  have s: "sanityCheckAndSignConfigTx (cl_pb L) (cl_rnd L) (cl_now L) (Some env) signer (ChannelEnvelope_ChannelID ch) = Ok None"
    using assms(2,3) by (auto simp: sanityCheckAndSignConfigTx_def malformed_def split: option.splits)
  have o: "GetBroadcastClient oc = ([EvOpen], Ok oc)"
    using assms(4) by (simp add: GetBroadcastClient_def rbind_def emit_def pure_run_def)
  obtain r where b: "broadcast_Send oc None = ([EvSend None], r)"
    by (cases "ord_Send oc None"; cases "getAck oc") (simp_all add: broadcast_Send_def rbind_def emit_def pure_run_def)
  have u: "Update L signer ch oc = ([EvOpen, EvSend None, EvCloseSend], r)"
    by (simp add: Update_def rbind_def pure_run_def assms(1) s o b)
  have c: "Create L signer ch oc = ([EvOpen] @ (case r of Panic p \<Rightarrow> [EvSend None] | _ \<Rightarrow> [EvSend None, EvCloseSend]), r)"
    by (cases r) (simp_all add: Create_def rbind_def pure_run_def assms(1) s o b)
  show ?thesis using s u b by (cases r) (simp_all add: c)
qed

section \<open>Joining\<close>

lemma join_loop_not_err: "\<not> is_err (snd (join_loop err_str E signer bb i ps))"
proof (induction ps arbitrary: i)
  case (Cons p ps)
  have "\<not> is_err (snd (join_peer err_str (E i) signer bb i p))"
    by (auto simp: join_peer_def Let_def snd_rbind pure_run_def deref_def split: prod.splits option.splits outcome.splits)
  then show ?case using Cons[of "i + 1"]
    by (cases "snd (join_peer err_str (E i) signer bb i p)"; cases "snd (join_loop err_str E signer bb (i + 1) ps)")
       (simp_all add: snd_rbind)
qed (simp add: pure_run_def)

lemma join_loop_nth:
  "join_loop err_str E signer bb i ps = (t, Ok rs) \<Longrightarrow> length rs = length ps \<and>
     (\<forall>k < length ps. snd (join_peer err_str (E (i + k)) signer bb (i + k) (ps ! k)) = Ok (rs ! k))"
proof (induction ps arbitrary: i t rs)
  case (Cons p ps)
  then obtain t1 r t2 rs' where
    "join_peer err_str (E i) signer bb i p = (t1, Ok r)" "join_loop err_str E signer bb (i + 1) ps = (t2, Ok rs')"
    "rs = r # rs'" by auto
  then show ?case using Cons.IH[of "i + 1" t2 rs'] by (auto simp: nth_Cons split: nat.splits)
qed simp

text \<open>C23. Once the first block of the channel is there, joining reports on every peer, in order: it
  never fails as a whole, a peer that cannot be reached is a response of status 500 that names its
  address, and a peer that answers is represented by its own response, whatever happened to the
  others.\<close>

theorem join_answers_every_peer:
  assumes "fetch_genesis L sha2 sha3 signer oClient channelID = Ok (blockBytes, st)"
    and "Join err_str E L sha2 sha3 signer pClients oClient channelID = (t, r)"
  shows "\<not> is_err r \<and> (\<forall>rs. r = Ok rs \<longrightarrow> length rs = length pClients \<and>
     (\<forall>i < length pClients.
        (\<forall>e err. pc_Endorser (pClients ! i) = (e, Some err) \<longrightarrow>
           rs ! i = Some \<lparr>resp_Status = 500, resp_Message = err_str err,
                          resp_Payload = bytes_of_string (pc_Address (pClients ! i))\<rparr>) \<and>
        (\<forall>endorser sp resp. pc_Endorser (pClients ! i) = (endorser, None) \<longrightarrow>
           createJoinChannelProposal (E i) signer blockBytes = Ok sp \<longrightarrow> endorser sp = (Some resp, None) \<longrightarrow>
           rs ! i = pr_Response resp)))"
proof -
  have j: "join_loop err_str E signer blockBytes 0 pClients = (t, r)"
    using assms by (simp add: Join_def rbind_def pure_run_def)
  have n: "\<not> is_err r" using join_loop_not_err[of err_str E signer blockBytes 0 pClients] j by simp
  have l: "length rs = length pClients"
    "k < length pClients \<Longrightarrow> snd (join_peer err_str (E k) signer blockBytes k (pClients ! k)) = Ok (rs ! k)"
    if "r = Ok rs" for rs k
    using join_loop_nth[of err_str E signer blockBytes 0 pClients t rs] j that by simp_all
  have f: "x = Some \<lparr>resp_Status = 500, resp_Message = err_str err, resp_Payload = bytes_of_string (pc_Address p)\<rparr>"
    if "snd (join_peer err_str (E k) signer blockBytes k p) = Ok x" "pc_Endorser p = (e, Some err)" for k p x e err
    using that by (simp add: join_peer_def Let_def)
  have a: "x = pr_Response resp"
    if "snd (join_peer err_str (E k) signer blockBytes k p) = Ok x" "pc_Endorser p = (endorser, None)"
      "createJoinChannelProposal (E k) signer blockBytes = Ok sp" "endorser sp = (Some resp, None)" for k p x endorser sp resp
    using that by (simp add: join_peer_def Let_def snd_rbind)
  show ?thesis
  proof (intro conjI allI impI n)
    fix rs i e err
    assume "r = Ok rs" "i < length pClients" "pc_Endorser (pClients ! i) = (e, Some err)"
    then show "rs ! i = Some \<lparr>resp_Status = 500, resp_Message = err_str err,
                          resp_Payload = bytes_of_string (pc_Address (pClients ! i))\<rparr>"
      using f[OF l(2)] by simp
  next
    fix rs i endorser sp resp
    assume "r = Ok rs" "i < length pClients" "pc_Endorser (pClients ! i) = (endorser, None)"
      "createJoinChannelProposal (E i) signer blockBytes = Ok sp" "endorser sp = (Some resp, None)"
    then show "rs ! i = pr_Response resp" using a[OF l(2)] by simp
  qed (rule l(1))
qed

section \<open>Witnesses\<close>

text \<open>The update 5 of the channel \<open>ch\<close>, without a signature and with that of \<open>Org1\<close>.\<close>

definition cu_cue :: ConfigUpdateEnvelope where
  "cu_cue = \<lparr>cue_ConfigUpdate = [5], cue_Signatures = []\<rparr>"

definition cu_cue1 :: ConfigUpdateEnvelope where
  "cu_cue1 = \<lparr>cue_ConfigUpdate = [5], cue_Signatures = [Some \<lparr>csig_SignatureHeader = [0], csig_Signature = [3, 0, 5]\<rparr>]\<rparr>"

definition cu_env :: Envelope where
  "cu_env = \<lparr>env_Payload = [0], env_Signature = []\<rparr>"

definition cu_pb' :: pb where
  "cu_pb' = cu_pb\<lparr>pb_Envelope := table_codec [cu_env],
     pb_ChannelHeader := table_codec [MakeChannelHeader 0 HeaderType_CONFIG_UPDATE 0 ''ch'' 0],
     pb_ConfigUpdateEnvelope := table_codec [cu_cue, cu_cue1]\<rparr>"

definition cu_payload :: Payload where
  "cu_payload = \<lparr>payl_Header = Some \<lparr>hdr_ChannelHeader = Some [0], hdr_SignatureHeader = Some [0]\<rparr>, payl_Data = [0]\<rparr>"

lemma cu_laws: "pb_laws cu_pb'" "codec_laws (\<lambda>m. None \<notin> set (cue_Signatures m)) (pb_ConfigUpdateEnvelope cu_pb')"
proof -
  have "codec_norm any norm_payload (table_codec (map (\<lambda>d. \<lparr>payl_Header = Some \<lparr>hdr_ChannelHeader = Some [0],
      hdr_SignatureHeader = Some [0]\<rparr>, payl_Data = d\<rparr>) [[0], [0, 0]]))"
    by (rule table_codec_norm) (simp add: norm_payload_def norm_header_def)
  then show "pb_laws cu_pb'" "codec_laws (\<lambda>m. None \<notin> set (cue_Signatures m)) (pb_ConfigUpdateEnvelope cu_pb')"
    using sample_pb_laws by (simp_all add: pb_laws_def cu_pb'_def cu_pb_def cc_pb_def)
qed

lemma cu_reads:
  "UnmarshalPayload cu_pb' (env_Payload cu_env) = (cu_payload, None)"
  "UnmarshalConfigUpdateEnvelope cu_pb' (payl_Data cu_payload) = Ok cu_cue"
  by (simp_all add: UnmarshalPayload_def UnmarshalConfigUpdateEnvelope_def cu_env_def cu_payload_def cu_pb'_def cu_pb_def
      cc_pb_def table_codec_simps)

lemma cu_sanity:
  "sanityCheckAndSignConfigTx cu_pb' ([1], None) 0 (Some cu_env) (org_signer ''Org1'' 3) ''ch''
     = Ok (Some \<lparr>env_Payload = [0, 0], env_Signature = [3, 0, 0]\<rparr>)"
proof -
  have c: "UnmarshalChannelHeader cu_pb' [0] = (MakeChannelHeader 0 HeaderType_CONFIG_UPDATE 0 ''ch'' 0, None)"
    by (simp add: UnmarshalChannelHeader_def cu_pb'_def table_codec_simps)
  have n: "NewSignatureHeader ([1], None) (org_signer ''Org1'' 3) = Ok \<lparr>sh_Creator = [3], sh_Nonce = [1]\<rparr>"
    by (simp add: NewSignatureHeader_def CreateNonce_def getRandomNonce_def org_signer_def)
  have s: "CreateSignedEnvelope cu_pb' (pb_ConfigUpdateEnvelope cu_pb') 0 HeaderType_CONFIG_UPDATE ''ch''
      (Some (org_signer ''Org1'' 3)) (Some cu_cue1) 0 0 = Ok \<lparr>env_Payload = [0, 0], env_Signature = [3, 0, 0]\<rparr>"
    by (simp add: CreateSignedEnvelope_def CreateSignedEnvelopeWithTLSBinding_def MakePayloadHeader_def MarshalOrPanic_def
        cu_pb'_def cu_pb_def cc_pb_def cu_cue_def cu_cue1_def MakeChannelHeader_def org_signer_def table_codec_simps)
  have h: "payl_Header cu_payload = Some \<lparr>hdr_ChannelHeader = Some [0], hdr_SignatureHeader = Some [0]\<rparr>"
    by (simp add: cu_payload_def)
  have m: "MarshalOrPanic (pb_SignatureHeader cu_pb') (Some \<lparr>sh_Creator = [3], sh_Nonce = [1]\<rparr>) = Ok [0]"
    by (simp add: MarshalOrPanic_def cu_pb'_def cu_pb_def table_codec_simps)
  have u: "cue_ConfigUpdate cu_cue = [5]" "sg_Sign (org_signer ''Org1'' 3) [0, 5] = ([3, 0, 5], None)"
    "cu_cue\<lparr>cue_Signatures := cue_Signatures cu_cue @ [Some \<lparr>csig_SignatureHeader = [0], csig_Signature = [3, 0, 5]\<rparr>]\<rparr>
       = cu_cue1"
    "ch_Type (MakeChannelHeader 0 HeaderType_CONFIG_UPDATE 0 ''ch'' 0) = HeaderType_CONFIG_UPDATE"
    "ch_ChannelId (MakeChannelHeader 0 HeaderType_CONFIG_UPDATE 0 ''ch'' 0) = ''ch''"
    by (simp_all add: cu_cue_def cu_cue1_def org_signer_def MakeChannelHeader_def)
  show ?thesis
    by (simp add: sanityCheckAndSignConfigTx_def cu_reads h c u(1,4,5) n m ConcatenateBytes_two u(2) u(3) s)
qed

text \<open>The channel of the update as bytes, sent to an orderer that accepts everything.\<close>

definition cu_orderer :: orderer where
  "cu_orderer = \<lparr>ord_Broadcast = None, ord_Send = (\<lambda>_. None),
     ord_Recv = (Some \<lparr>br_Status = 200, br_Info = []\<rparr>, None)\<rparr>"

definition cu_good_lib :: "(string list, string list \<times> string list) channel_lib" where
  "cu_good_lib = \<lparr>cl_pb = cu_pb', cl_configtx = names_configtx, cl_ReadFile = (\<lambda>_. ([], None)), cl_keys = [], cl_rnd = ([1], None), cl_now = 0\<rparr>"

lemma cu_good: "pb_laws (cl_pb cu_good_lib)"
  "codec_laws (\<lambda>m. None \<notin> set (cue_Signatures m)) (pb_ConfigUpdateEnvelope (cl_pb cu_good_lib))"
  "CreateEnvelope (cl_pb cu_good_lib) (cl_configtx cu_good_lib) (cl_ReadFile cu_good_lib) (cl_keys cu_good_lib) (CE_Bytes [0] ''ch'')
     = Ok (Some cu_env)"
  "UnmarshalPayload (cl_pb cu_good_lib) (env_Payload cu_env) = (cu_payload, None)"
  "UnmarshalConfigUpdateEnvelope (cl_pb cu_good_lib) (payl_Data cu_payload) = Ok cu_cue"
proof -
  have "UnmarshalEnvelope cu_pb' [0] = (cu_env, None)"
    by (simp add: UnmarshalEnvelope_def cu_pb'_def cu_env_def table_codec_simps)
  then show "CreateEnvelope (cl_pb cu_good_lib) (cl_configtx cu_good_lib) (cl_ReadFile cu_good_lib) (cl_keys cu_good_lib)
      (CE_Bytes [0] ''ch'') = Ok (Some cu_env)" by (simp add: cu_good_lib_def)
qed (simp_all add: cu_good_lib_def cu_laws cu_reads)

lemma cu_good_sanity:
  "sanityCheckAndSignConfigTx (cl_pb cu_good_lib) (cl_rnd cu_good_lib) (cl_now cu_good_lib) (Some cu_env)
     (org_signer ''Org1'' 3) (ChannelEnvelope_ChannelID (CE_Bytes [0] ''ch'')) = Ok (Some \<lparr>env_Payload = [0, 0], env_Signature = [3, 0, 0]\<rparr>)"
  using cu_sanity by (simp add: cu_good_lib_def)

lemma signed_update_reads_back_witness:
  "\<exists>sig. EnvelopeToConfigUpdate (cl_pb cu_good_lib) (Some \<lparr>env_Payload = [0, 0], env_Signature = [3, 0, 0]\<rparr>)
           = Ok (cu_cue\<lparr>cue_Signatures := [Some sig]\<rparr>) \<and> signs (org_signer ''Org1'' 3) [5] sig"
proof -
  let ?e = "Some \<lparr>env_Payload = [0, 0], env_Signature = [3, 0, 0]\<rparr>"
  have n: "None \<notin> set (cue_Signatures cu_cue)" by (simp add: cu_cue_def)
  have u: "Update cu_good_lib (org_signer ''Org1'' 3) (CE_Bytes [0] ''ch'') cu_orderer = ([EvOpen, EvSend ?e, EvCloseSend], Ok ())"
    using cu_good(3) cu_good_sanity by (simp add: Update_def cu_orderer_def GetBroadcastClient_def broadcast_Send_def
      getAck_def rbind_def emit_def pure_run_def)
  have "([EvOpen, EvSend ?e, EvCloseSend], Ok ()) \<in> {Create cu_good_lib (org_signer ''Org1'' 3) (CE_Bytes [0] ''ch'') cu_orderer,
      Update cu_good_lib (org_signer ''Org1'' 3) (CE_Bytes [0] ''ch'') cu_orderer}" by (simp add: u)
  from signed_update_reads_back[OF cu_good n this, of ?e] show ?thesis
    by (auto simp: cu_cue_def)
qed

text \<open>An envelope of another type in the bytes of a channel.\<close>

definition cu_lib :: "(string list, string list \<times> string list) channel_lib" where
  "cu_lib = \<lparr>cl_pb = cu_pb'\<lparr>pb_ChannelHeader := table_codec [MakeChannelHeader 0 HeaderType_MESSAGE 0 ''ch'' 0]\<rparr>,
     cl_configtx = names_configtx, cl_ReadFile = (\<lambda>_. ([], None)), cl_keys = [], cl_rnd = ([1], None), cl_now = 0\<rparr>"

lemma malformed_update_sends_nil_witness:
  "Create cu_lib (org_signer ''Org1'' 3) (CE_Bytes [0] ''ch'') cu_orderer = ([EvOpen, EvSend None, EvCloseSend], Ok ())"
proof -
  have c: "CreateEnvelope (cl_pb cu_lib) (cl_configtx cu_lib) (cl_ReadFile cu_lib) (cl_keys cu_lib) (CE_Bytes [0] ''ch'')
      = Ok (Some cu_env)"
    by (simp add: UnmarshalEnvelope_def cu_lib_def cu_pb'_def table_codec_simps)
  have p: "UnmarshalPayload (cl_pb cu_lib) (env_Payload cu_env) = (cu_payload, None)"
    using cu_reads(1) by (simp add: cu_lib_def UnmarshalPayload_def)
  have m: "malformed (cl_pb cu_lib) cu_payload"
    by (simp add: malformed_def cu_payload_def cu_lib_def UnmarshalChannelHeader_def MakeChannelHeader_def table_codec_simps)
  have o: "ord_Broadcast cu_orderer = None" by (simp add: cu_orderer_def)
  have b: "snd (broadcast_Send cu_orderer None) = Ok ()"
    by (simp add: broadcast_Send_def getAck_def cu_orderer_def snd_rbind)
  from malformed_update_sends_nil[OF c p m o, of "org_signer ''Org1'' 3"] b show ?thesis by auto
qed

text \<open>Two peers that cannot be reached.\<close>

definition ju_pb :: pb where
  "ju_pb = od_pb\<lparr>pb_Block := table_codec [od_block 0],
     pb_SignatureHeader := table_codec [\<lparr>sh_Creator = [3], sh_Nonce = [1]\<rparr>]\<rparr>"

definition ju_lib :: deliver_lib where
  "ju_lib = \<lparr>dl_pb = ju_pb, dl_SeekInfo = table_codec [od_seek (SeekSpecified 0)], dl_now = 0\<rparr>"

definition ju_stream :: stream where
  "ju_stream = \<lparr>st_sent = [], st_inbox = [(AB_Block (Some (od_block 0)), None), (AB_Status 200, None)],
     st_send_error = (\<lambda>_. None)\<rparr>"

definition down :: "string \<Rightarrow> peer_client" where
  "down address = \<lparr>pc_Address = address, pc_Endorser = (\<lambda>_. (None, None), Some (ErrExt ''down''))\<rparr>"

lemma ju_genesis:
  "fetch_genesis ju_lib (\<lambda>x. x) (\<lambda>x. x) (org_signer ''Org1'' 3) \<lparr>oc_Deliver = (ju_stream, None), oc_Certificate = []\<rparr> ''ch''
     = Ok ([0], ju_stream\<lparr>st_sent := [Some \<lparr>env_Payload = [0], env_Signature = [3, 0]\<rparr>], st_inbox := []\<rparr>)"
proof -
  have s: "seekHelper ju_lib ''ch'' (SeekSpecified 0) [] (Some (org_signer ''Org1'' 3)) True
      = Ok (Some \<lparr>env_Payload = [0], env_Signature = [3, 0]\<rparr>)"
    by (simp add: seekHelper_def CreateSignedEnvelopeWithTLSBinding_def MakePayloadHeader_def MarshalOrPanic_def
        ju_lib_def ju_pb_def od_pb_def od_seek_def od_payload_def org_signer_def MakeChannelHeader_def table_codec_simps)
  have b: "Marshal (pb_Block (dl_pb ju_lib)) (Some (od_block 0)) = ([0], None)"
    by (simp add: ju_lib_def ju_pb_def table_codec_simps)
  show ?thesis
    by (simp add: fetch_genesis_def GetDeliverClient_def run_service_def sbind_def GetSpecifiedBlock_def
        service_on_err_def seekSpecified_def seek_def service_of_def s stream_Send_def readBlock_def stream_Recv_def
        ju_stream_def reformat_def b)
qed

lemma join_answers_every_peer_witness:
  "\<exists>rs. snd (Join (\<lambda>_. ''down'') (\<lambda>_. in_proposer) ju_lib (\<lambda>x. x) (\<lambda>x. x) (org_signer ''Org1'' 3)
               [down ''p0'', down ''p1''] \<lparr>oc_Deliver = (ju_stream, None), oc_Certificate = []\<rparr> ''ch'') = Ok rs \<and>
     rs ! 1 = Some \<lparr>resp_Status = 500, resp_Message = ''down'', resp_Payload = bytes_of_string ''p1''\<rparr>"
proof -
  define oc where "oc = \<lparr>oc_Deliver = (ju_stream, None), oc_Certificate = []\<rparr>"
  let ?join = "Join (\<lambda>_. ''down'') (\<lambda>_. in_proposer) ju_lib (\<lambda>x. x) (\<lambda>x. x) (org_signer ''Org1'' 3)
               [down ''p0'', down ''p1''] oc ''ch''"
  obtain t r where j: "?join = (t, r)" by (cases ?join)
  have "\<not> is_panic r"
    using j by (auto simp: Join_def ju_genesis oc_def join_peer_def down_def rbind_def pure_run_def)
  then obtain rs where "r = Ok rs"
    using join_answers_every_peer[OF ju_genesis[folded oc_def] j] by (cases r) auto
  then show ?thesis
    using join_answers_every_peer[OF ju_genesis[folded oc_def] j] j unfolding oc_def
    by (intro exI[of _ rs]) (auto simp: down_def)
qed

end
