(* ===== verification/Identity.thy ===== *)
theory Identity
  imports Ecdsa ChannelUpdate
begin

text \<open>
  Keys in PEM and the signing identity: \<open>internal/cryptoutil/util.go\<close>, \<open>suite.go\<close> and the rest of
  \<open>signer.go\<close>.

  X.509, PKCS and PEM are the parameter \<open>x509_lib\<close>; a certificate is its DER bytes. The scalar of a
  private key, its padding and the order in which the key formats are tried are written out.
\<close>

section \<open>Certificates and keys in PEM\<close>

text \<open>\<open>pem_Encrypted\<close> is what \<open>x509.IsEncryptedPEMBlock\<close> reads from the headers of the block.\<close>

record pem_block =
  pem_Type :: string
  pem_Bytes :: bytes
  pem_Encrypted :: bool

text \<open>The dynamic types of a private key behind \<open>interface{}\<close>.\<close>

datatype private_key = RSA_PrivateKey bytes | ECDSA_PrivateKey "ecdsa_PrivateKey option" | Other_PrivateKey bytes

type_synonym OID = "nat list"

record ecPrivateKey =
  eck_Version :: int
  eck_PrivateKey :: bytes
  eck_NamedCurveOID :: OID
  eck_PublicKey :: bytes

record pkcs8Info =
  p8_Version :: int
  p8_PrivateKeyAlgorithm :: "OID list"
  p8_PrivateKey :: bytes

record x509_lib =
  xl_pem_Decode :: "bytes \<Rightarrow> pem_block option"
  xl_pem_Encode :: "pem_block \<Rightarrow> bytes"
  xl_ParseCertificate :: "bytes \<Rightarrow> bytes ret"
  xl_ParsePKCS1PrivateKey :: "bytes \<Rightarrow> private_key ret"
  xl_ParsePKCS8PrivateKey :: "bytes \<Rightarrow> private_key ret"
  xl_ParseECPrivateKey :: "bytes \<Rightarrow> private_key ret"
  xl_MarshalECPrivateKey :: "ecdsa_PrivateKey \<Rightarrow> bytes ret"
  xl_DecryptPEMBlock :: "pem_block \<Rightarrow> bytes \<Rightarrow> bytes ret"
  xl_EncryptPEMBlock :: "string \<Rightarrow> bytes \<Rightarrow> bytes \<Rightarrow> pem_block ret"
  xl_asn1_ecPrivateKey :: "ecPrivateKey \<Rightarrow> bytes ret"
  xl_asn1_pkcs8Info :: "pkcs8Info \<Rightarrow> bytes ret"
  xl_ReadFile :: "string \<Rightarrow> bytes ret"

definition getCertFromPEM :: "x509_lib \<Rightarrow> slice \<Rightarrow> bytes outcome" where
  "getCertFromPEM X idBytes =
     (case idBytes of
        None \<Rightarrow> Err (ErrNew ''getCertFromPEM error: nil idBytes'')
      | Some b \<Rightarrow>
        (case xl_pem_Decode X b of
           None \<Rightarrow> Err (Errorf ''getCertFromPEM error: could not decode pem bytes [%v]'' [ABytes b])
         | Some pemCert \<Rightarrow>
           on_err ''getCertFromPEM error: failed to parse x509 cert''
             (check (xl_ParseCertificate X (pem_Bytes pemCert)))))"

definition GetCertFromPEM :: "x509_lib \<Rightarrow> slice \<Rightarrow> bytes outcome" where
  "GetCertFromPEM X certBytes = getCertFromPEM X certBytes"

definition GetCertificateFromFile :: "x509_lib \<Rightarrow> string \<Rightarrow> bytes outcome" where
  "GetCertificateFromFile X certFile = bind (check (xl_ReadFile X certFile)) (\<lambda>data. GetCertFromPEM X (Some data))"

text \<open>\<open>first_key\<close> takes the first format that is parsed without an error.\<close>

fun first_key :: "private_key ret list \<Rightarrow> private_key outcome" where
  "first_key [] = Err (ErrNew ''Invalid key type. The DER must contain an rsa.PrivateKey or ecdsa.PrivateKey'')"
| "first_key (r # rs) = (case snd r of None \<Rightarrow> Ok (fst r) | Some _ \<Rightarrow> first_key rs)"

definition DERToPrivateKey :: "x509_lib \<Rightarrow> bytes \<Rightarrow> private_key outcome" where
  "DERToPrivateKey X der =
     (case xl_ParsePKCS1PrivateKey X der of
        (key, None) \<Rightarrow> Ok key
      | (_, Some _) \<Rightarrow>
        (case xl_ParsePKCS8PrivateKey X der of
           (key, None) \<Rightarrow>
             (case key of Other_PrivateKey _ \<Rightarrow> Err (ErrNew ''Found unknown private key type in PKCS#8 wrapping'')
              | _ \<Rightarrow> Ok key)
         | (_, Some _) \<Rightarrow> first_key [xl_ParseECPrivateKey X der]))"

definition encryptPEMToPrivateKey :: "x509_lib \<Rightarrow> bytes \<Rightarrow> bytes \<Rightarrow> private_key outcome" where
  "encryptPEMToPrivateKey X raw pwd =
     (if length raw = 0 then Err (ErrNew ''invalid PEM. it must be different from nil.'')
      else case xl_pem_Decode X raw of
        None \<Rightarrow> Err (Errorf ''failed decoding PEM. block must be different from nil. [% x]'' [ABytes raw])
      | Some block \<Rightarrow>
        (if pem_Encrypted block
         then (if length pwd = 0 then Err (ErrNew ''Encrypted Key. Need a password'')
               else case xl_DecryptPEMBlock X block pwd of
                 (_, Some err) \<Rightarrow> Err (Errorf ''Failed PEM decryption [%s]'' [AErr err])
               | (decrypted, None) \<Rightarrow> DERToPrivateKey X decrypted)
         else DERToPrivateKey X (pem_Bytes block)))"

definition pemToPrivateKey :: "x509_lib \<Rightarrow> bytes \<Rightarrow> bytes \<Rightarrow> private_key outcome" where
  "pemToPrivateKey X raw pwd =
     (case xl_pem_Decode X raw of
        None \<Rightarrow> Err (Errorf '''' [])
      | Some b \<Rightarrow>
        (if pem_Encrypted b
         then (if length pwd = 0 then Err (Errorf ''must have password'' []) else encryptPEMToPrivateKey X raw pwd)
         else let derBytes = pem_Bytes b in
           first_key [xl_ParsePKCS1PrivateKey X derBytes, xl_ParsePKCS8PrivateKey X derBytes,
                      xl_ParseECPrivateKey X derBytes]))"

definition GetPrivateKeyFromPEM :: "x509_lib \<Rightarrow> bytes \<Rightarrow> bytes \<Rightarrow> Key outcome" where
  "GetPrivateKeyFromPEM X raw pwd =
     bind (pemToPrivateKey X raw pwd) (\<lambda>k.
     case k of ECDSA_PrivateKey ks \<Rightarrow> Ok (ecdsaPrivateKey ks) | _ \<Rightarrow> Err (Errorf ''unknown key type'' []))"

definition oidPublicKeyECDSA :: OID where "oidPublicKeyECDSA = [1, 2, 840, 10045, 2, 1]"

definition oidFromNamedCurve :: "curve \<Rightarrow> OID option" where
  "oidFromNamedCurve c = (case c of
     P224 \<Rightarrow> Some [1, 3, 132, 0, 33]
   | P256 \<Rightarrow> Some [1, 2, 840, 10045, 3, 1, 7]
   | P384 \<Rightarrow> Some [1, 3, 132, 0, 34]
   | P521 \<Rightarrow> Some [1, 3, 132, 0, 35]
   | OtherCurve _ \<Rightarrow> None)"

definition privateToEncryptoPEM :: "x509_lib \<Rightarrow> private_key \<Rightarrow> bytes \<Rightarrow> bytes outcome" where
  "privateToEncryptoPEM X privateKey pwd =
     (case privateKey of
        ECDSA_PrivateKey None \<Rightarrow> Err (Errorf ''Invalid ecdsa private key. It must be different from nil.'' [])
      | ECDSA_PrivateKey (Some prk) \<Rightarrow>
        bind (check (xl_MarshalECPrivateKey X prk)) (\<lambda>raw.
        bind (check (xl_EncryptPEMBlock X ''PRIVATE KEY'' raw pwd)) (\<lambda>block. Ok (xl_pem_Encode X block)))
      | _ \<Rightarrow> Err (Errorf ''Invalid key type. It must be *ecdsa.PrivateKey'' []))"

text \<open>\<open>big.Int.BitLen\<close>. Slicing a slice at a negative index panics.\<close>

fun bit_len :: "nat \<Rightarrow> nat" where
  "bit_len n = (if n = 0 then 0 else Suc (bit_len (n div 2)))"

declare bit_len.simps [simp del]

definition padded_scalar :: "curve \<Rightarrow> nat \<Rightarrow> bytes outcome" where
  "padded_scalar c D =
     (let privateKeyBytes = nat_bytes D;
          size = (bit_len (curve_N c) + 7) div 8 in
      if length privateKeyBytes > size then Panic IndexOutOfRange
      else Ok (go_copy_at (replicate size 0) (size - length privateKeyBytes) privateKeyBytes))"

definition privateKeyToPEM :: "ecdsa_lib \<Rightarrow> x509_lib \<Rightarrow> private_key \<Rightarrow> bytes \<Rightarrow> bytes outcome" where
  "privateKeyToPEM L X privateKey pwd =
     (case privateKey of
        ECDSA_PrivateKey p \<Rightarrow>
        (if length pwd > 0 then privateToEncryptoPEM X privateKey pwd
         else
         bind (deref p) (\<lambda>k. let c = pub_Curve (priv_PublicKey k) in
         case oidFromNamedCurve c of
           None \<Rightarrow> Err (Errorf '''' [])
         | Some oidNamedCurve \<Rightarrow>
           bind (padded_scalar c (priv_D k)) (\<lambda>paddedPrivateKey.
           case xl_asn1_ecPrivateKey X \<lparr>eck_Version = 1, eck_PrivateKey = paddedPrivateKey, eck_NamedCurveOID = [],
                  eck_PublicKey = ec_Marshal L c (pub_X (priv_PublicKey k)) (pub_Y (priv_PublicKey k))\<rparr> of
             (_, Some _) \<Rightarrow> Err (Errorf '''' [])
           | (asn1Bytes, None) \<Rightarrow>
             (let pkcs8Key = \<lparr>p8_Version = 0, p8_PrivateKeyAlgorithm = [oidPublicKeyECDSA, oidNamedCurve],
                              p8_PrivateKey = asn1Bytes\<rparr>;
                  pkcs8Bytes = fst (xl_asn1_pkcs8Info X pkcs8Key) in
              Ok (xl_pem_Encode X \<lparr>pem_Type = ''PRIVATE KEY'', pem_Bytes = pkcs8Bytes, pem_Encrypted = False\<rparr>)))))
      | _ \<Rightarrow> Err (Errorf ''Invalid key type:%v. It must be *ecdsa.PrivateKey or *rsa.PrivateKey'' []))"

definition GetPEMFromPrivateKey :: "ecdsa_lib \<Rightarrow> x509_lib \<Rightarrow> Key \<Rightarrow> bytes \<Rightarrow> bytes outcome" where
  "GetPEMFromPrivateKey L X key pwd =
     (case key of
        ecdsaPublicKey _ \<Rightarrow> Err (Errorf ''not ecdsa private key'' [])
      | ecdsaPrivateKey priv \<Rightarrow> privateKeyToPEM L X (ECDSA_PrivateKey priv) pwd)"

section \<open>The signing identity\<close>

text \<open>A signer is made by a suite, whose certificate is not nil. \<open>rnd\<close> is the result of reading random
  bytes.\<close>

record myCryptoSigner =
  cs_priKey :: Key
  cs_mspID :: string
  cs_signCert :: bytes
  cs_hashOpt :: string

record myCryptoSuite =
  suite_privKey :: Key
  suite_signCert :: bytes
  suite_mspID :: string
  suite_hashOpt :: string

record crypto_lib =
  cy_ecdsa :: ecdsa_lib
  cy_x509 :: x509_lib
  cy_pb :: pb
  cy_sha2 :: "bytes \<Rightarrow> bytes"
  cy_sha3 :: "bytes \<Rightarrow> bytes"
  cy_rnd :: "bytes ret"

definition GetRandomBytes :: "bytes ret \<Rightarrow> bytes outcome" where
  "GetRandomBytes rnd = on_err ''error getting random bytes'' (check rnd)"

definition GetRandomNonce :: "bytes ret \<Rightarrow> bytes outcome" where
  "GetRandomNonce rnd = GetRandomBytes rnd"

definition mcs_getSigner :: "crypto_lib \<Rightarrow> myCryptoSigner \<Rightarrow> ecdsaSigner outcome" where
  "mcs_getSigner C s = newEcdsaSigner (cy_ecdsa C) (cs_priKey s)"

definition mcs_Sign :: "crypto_lib \<Rightarrow> myCryptoSigner \<Rightarrow> bytes \<Rightarrow> bytes outcome" where
  "mcs_Sign C s msg =
     bind (Hash (cy_sha2 C) (cy_sha3 C) msg (cs_hashOpt s)) (\<lambda>digest.
     bind (mcs_getSigner C s) (\<lambda>sign.
     ecdsaSigner_Sign (cy_ecdsa C) sign digest))"

definition mcs_Serialize :: "crypto_lib \<Rightarrow> myCryptoSigner \<Rightarrow> bytes outcome" where
  "mcs_Serialize C s =
     (let pemBytes = xl_pem_Encode (cy_x509 C) \<lparr>pem_Type = ''CERTIFICATE'', pem_Bytes = cs_signCert s, pem_Encrypted = False\<rparr> in
      check (Marshal (pb_SerializedIdentity (cy_pb C)) (Some \<lparr>sid_Mspid = cs_mspID s, sid_IdBytes = pemBytes\<rparr>)))"

definition mcs_NewSignatureHeader :: "crypto_lib \<Rightarrow> myCryptoSigner \<Rightarrow> SignatureHeader outcome" where
  "mcs_NewSignatureHeader C s =
     bind (mcs_Serialize C s) (\<lambda>creator.
     bind (GetRandomNonce (cy_rnd C)) (\<lambda>nonce.
     Ok \<lparr>sh_Creator = creator, sh_Nonce = nonce\<rparr>))"

definition NewSigner :: "myCryptoSuite \<Rightarrow> myCryptoSigner" where
  "NewSigner cs =
     \<lparr>cs_priKey = suite_privKey cs, cs_mspID = suite_mspID cs, cs_signCert = suite_signCert cs,
      cs_hashOpt = (if suite_hashOpt cs = [] then SHA2_256 else suite_hashOpt cs)\<rparr>"

definition GetCreator :: "crypto_lib \<Rightarrow> myCryptoSuite \<Rightarrow> bytes outcome" where
  "GetCreator C cs = mcs_Serialize C (NewSigner cs)"

definition GetMyCryptoSuiteFromBytes :: "crypto_lib \<Rightarrow> bytes \<Rightarrow> slice \<Rightarrow> string \<Rightarrow> myCryptoSuite outcome" where
  "GetMyCryptoSuiteFromBytes C keyBytes certBytes mspid =
     bind (getCertFromPEM (cy_x509 C) certBytes) (\<lambda>signCert.
     bind (GetPrivateKeyFromPEM (cy_x509 C) keyBytes []) (\<lambda>priKey.
     Ok \<lparr>suite_privKey = priKey, suite_signCert = signCert, suite_mspID = mspid, suite_hashOpt = []\<rparr>))"

text \<open>A signer as a value of the interface \<open>Signer\<close>. The methods of a signer whose key is not nil do
  not panic (\<open>mcs_no_panic\<close> below), so that they are multi-value returns.\<close>

definition ret_of :: "'a \<Rightarrow> 'a outcome \<Rightarrow> 'a ret" where
  "ret_of zero r = (case r of Ok x \<Rightarrow> (x, None) | Err e \<Rightarrow> (zero, Some e) | Panic p \<Rightarrow> (zero, Some (ErrExt ''panic'')))"

definition as_signer :: "crypto_lib \<Rightarrow> myCryptoSigner \<Rightarrow> Signer" where
  "as_signer C s =
     \<lparr>sg_Serialize = ret_of [] (mcs_Serialize C s), sg_Sign = (\<lambda>msg. ret_of [] (mcs_Sign C s msg)),
      sg_NewSignatureHeader = ret_of \<lparr>sh_Creator = [], sh_Nonce = []\<rparr> (mcs_NewSignatureHeader C s),
      sg_GetMSPId = cs_mspID s\<rparr>"

section \<open>The scalar of a private key\<close>

lemma nat_bytes_zero [simp]: "nat_bytes 0 = []"
  by (simp add: nat_bytes.simps)

lemma be_val_append: "be_val (a @ b) = be_val a * 256 ^ length b + be_val b"
  by (induction a) (simp_all add: power_add algebra_simps)

lemma be_val_nat_bytes [simp]: "be_val (nat_bytes n) = n"
proof (induction n rule: nat_bytes.induct)
  case (1 n)
  have "unat (word_of_nat (n mod 256) :: byte) = n mod 256" by (simp add: unat_of_nat)
  with 1 show ?case by (cases "n = 0") (simp_all add: nat_bytes.simps[of n] be_val_append)
qed

lemma bit_len_zero [simp]: "bit_len 0 = 0"
  by (simp add: bit_len.simps)

lemma bit_len_le_iff: "bit_len n \<le> k \<longleftrightarrow> n < 2 ^ k"
proof (induction k arbitrary: n)
  case 0 then show ?case by (cases "n = 0") (simp_all add: bit_len.simps[of n])
next
  case (Suc k)
  then show ?case
    by (cases "n = 0") (simp_all add: bit_len.simps[of n] div_less_iff_less_mult mult.commute)
qed

lemma length_nat_bytes_iff: "length (nat_bytes n) \<le> k \<longleftrightarrow> n < 256 ^ k"
proof (induction k arbitrary: n)
  case 0 then show ?case by (cases "n = 0") (simp_all add: nat_bytes.simps[of n])
next
  case (Suc k)
  then show ?case
    by (cases "n = 0") (simp_all add: nat_bytes.simps[of n] div_less_iff_less_mult mult.commute)
qed

text \<open>The size of a scalar in bytes, computed from its bits.\<close>

lemma bit_len_bytes: "(bit_len n + 7) div 8 = length (nat_bytes n)"
proof -
  have "(bit_len n + 7) div 8 \<le> k \<longleftrightarrow> length (nat_bytes n) \<le> k" for k
  proof -
    have "(bit_len n + 7) div 8 \<le> k \<longleftrightarrow> bit_len n \<le> 8 * k" by linarith
    also have "\<dots> \<longleftrightarrow> n < 256 ^ k" by (simp add: bit_len_le_iff power_mult)
    finally show ?thesis by (simp add: length_nat_bytes_iff)
  qed
  then show ?thesis by (metis le_antisym order_refl)
qed

lemma padded_scalar_ok:
  assumes "D < curve_N c"
  shows "\<exists>p. padded_scalar c D = Ok p \<and> length p = length (nat_bytes (curve_N c)) \<and> be_val p = D"
proof -
  let ?size = "length (nat_bytes (curve_N c))"
  have "curve_N c < 256 ^ ?size" using length_nat_bytes_iff[of "curve_N c" ?size] by simp
  then have l: "length (nat_bytes D) \<le> ?size" using assms by (simp add: length_nat_bytes_iff)
  have z: "be_val (replicate n 0 @ bs) = be_val bs" for n bs by (induction n) simp_all
  have "go_copy_at (replicate ?size 0) (?size - length (nat_bytes D)) (nat_bytes D)
      = replicate (?size - length (nat_bytes D)) 0 @ nat_bytes D"
    using l by (simp add: go_copy_at_def)
  then show ?thesis using l z[of "?size - length (nat_bytes D)" "nat_bytes D"]
    by (simp add: padded_scalar_def bit_len_bytes Let_def)
qed

section \<open>What a signing identity promises\<close>

text \<open>The contract between a signer and the code that signs with it: the header a signer makes names
  as its creator the bytes the signer serialises to.\<close>

locale signing_identity =
  fixes signer :: Signer
  assumes header_creator: "sg_NewSignatureHeader signer = (sh, None) \<Longrightarrow> sg_Serialize signer = (sh_Creator sh, None)"
begin

text \<open>Envelopes and configuration signatures made with it name it.\<close>

lemma envelope_creator:
  assumes "pb_laws P" "CreateSignedEnvelopeWithTLSBinding P c now typ channelID (Some signer) d v epoch tls = Ok env"
  shows "\<exists>payload hdr shdr. UnmarshalPayload P (env_Payload env) = (payload, None) \<and> payl_Header payload = Some hdr \<and>
    UnmarshalSignatureHeader P (slice_bytes (hdr_SignatureHeader hdr)) = (shdr, None) \<and>
    sg_Serialize signer = (sh_Creator shdr, None) \<and> sg_Sign signer (env_Payload env) = (env_Signature env, None)"
proof -
  obtain sh db chB shB where e: "sg_NewSignatureHeader signer = (sh, None)"
    "Marshal (pb_SignatureHeader P) (Some sh) = (shB, None)"
    "Marshal (pb_Payload P) (Some \<lparr>payl_Header = Some \<lparr>hdr_ChannelHeader = Some chB,
       hdr_SignatureHeader = Some shB\<rparr>, payl_Data = db\<rparr>) = (env_Payload env, None)"
    "sg_Sign signer (env_Payload env) = (env_Signature env, None)"
    using assms(2) by (auto simp: CreateSignedEnvelopeWithTLSBinding_def MakePayloadHeader_def Let_def)
  show ?thesis
    using header_creator[OF e(1)] pb_laws_read(3)[OF assms(1) e(2)] pb_laws_read(4)[OF assms(1) e(3)] e(4)
    by (simp add: unmarshal_defs)
qed

lemma update_signature_creator:
  assumes "pb_laws P" "SignUpdateConfig P signer update = Ok sig"
  shows "\<exists>shdr. UnmarshalSignatureHeader P (csig_SignatureHeader sig) = (shdr, None) \<and>
    sg_Serialize signer = (sh_Creator shdr, None) \<and> signs signer update sig"
proof -
  obtain sh where e: "sg_NewSignatureHeader signer = (sh, None)"
    "Marshal (pb_SignatureHeader P) (Some sh) = (csig_SignatureHeader sig, None)"
    using assms(2) by (cases "sg_NewSignatureHeader signer"; cases "snd (sg_NewSignatureHeader signer)";
      cases "Marshal (pb_SignatureHeader P) (Some (fst (sg_NewSignatureHeader signer)))";
      cases "snd (Marshal (pb_SignatureHeader P) (Some (fst (sg_NewSignatureHeader signer))))")
     (auto simp: SignUpdateConfig_def)
  show ?thesis
    using header_creator[OF e(1)] pb_laws_read(3)[OF assms(1) e(2)] SignUpdateConfig_ok[OF assms(2)]
    by (simp add: unmarshal_defs)
qed

end

lemma ret_of_ok [simp]: "ret_of z r = (x, None) \<longleftrightarrow> r = Ok x"
  by (cases r) (auto simp: ret_of_def)

text \<open>The signers of the crypto suite keep it.\<close>

lemma as_signer_simps [simp]:
  "sg_Serialize (as_signer C s) = (b, None) \<longleftrightarrow> mcs_Serialize C s = Ok b"
  "sg_Sign (as_signer C s) m = (b, None) \<longleftrightarrow> mcs_Sign C s m = Ok b"
  "sg_NewSignatureHeader (as_signer C s) = (sh, None) \<longleftrightarrow> mcs_NewSignatureHeader C s = Ok sh"
  "sg_GetMSPId (as_signer C s) = cs_mspID s"
  by (simp_all add: as_signer_def)

interpretation mcs: signing_identity "as_signer C s" for C s
  by unfold_locales (auto simp: mcs_NewSignatureHeader_def)

lemma ecdsaSigner_no_panic:
  "newEcdsaSigner L (ecdsaPrivateKey (Some k)) = Ok e \<Longrightarrow> \<not> is_panic (ecdsaSigner_Sign L e d)"
  by (auto simp: newEcdsaSigner_def Key_Private_def Key_PublicKey_def Key_Bytes_def ecdsaSigner_Sign_def ToLowS_def
      IsLowS_def check_def split: option.splits if_splits prod.splits)

lemma mcs_no_panic:
  assumes "cs_priKey s = ecdsaPrivateKey (Some k)"
  shows "\<not> is_panic (mcs_Sign C s m) \<and> \<not> is_panic (mcs_Serialize C s) \<and> \<not> is_panic (mcs_NewSignatureHeader C s)"
proof -
  have n: "\<not> is_panic (newEcdsaSigner L (ecdsaPrivateKey (Some k)))" for L
    by (auto simp: newEcdsaSigner_def Key_Private_def Key_PublicKey_def Key_Bytes_def check_def split: option.splits)
  have "\<not> is_panic (mcs_Sign C s m)"
    using n[of "cy_ecdsa C"] ecdsaSigner_no_panic[of "cy_ecdsa C" k]
    by (cases "newEcdsaSigner (cy_ecdsa C) (ecdsaPrivateKey (Some k))")
       (auto simp: mcs_Sign_def mcs_getSigner_def Hash_def assms)
  moreover have "\<not> is_panic (mcs_Serialize C s)"
    by (simp add: mcs_Serialize_def check_def Let_def split: option.splits)
  moreover have "\<not> is_panic (mcs_NewSignatureHeader C s)"
    by (auto simp: mcs_NewSignatureHeader_def mcs_Serialize_def GetRandomNonce_def GetRandomBytes_def check_def Let_def
        split: option.splits)
  ultimately show ?thesis by blast
qed

section \<open>Theorems\<close>

text \<open>What PEM and PKCS#8 promise. A block that was encoded is read back. \<open>asn1.Marshal\<close> takes the two
  structures when their object identifiers are well formed; the one of the named curve is optional. A
  PKCS#8 structure of an EC key is parsed as the key with that curve and scalar (\<open>point\<close> is the public
  point of a scalar) when the inner structure has version 1 and a scalar of the curve in the size of its
  order, and it is not a PKCS#1 key.\<close>

definition pem_laws :: "x509_lib \<Rightarrow> bool" where
  "pem_laws X \<longleftrightarrow> (\<forall>b. xl_pem_Decode X (xl_pem_Encode X b) = Some b)"

fun oid_ok :: "OID \<Rightarrow> bool" where
  "oid_ok (a # b # arcs) = (a \<le> 2 \<and> (a < 2 \<longrightarrow> b < 40))"
| "oid_ok arcs = False"

definition marshal_laws :: "x509_lib \<Rightarrow> bool" where
  "marshal_laws X \<longleftrightarrow>
     (\<forall>ec. eck_NamedCurveOID ec = [] \<or> oid_ok (eck_NamedCurveOID ec) \<longrightarrow> snd (xl_asn1_ecPrivateKey X ec) = None) \<and>
     (\<forall>info. list_all oid_ok (p8_PrivateKeyAlgorithm info) \<longrightarrow> snd (xl_asn1_pkcs8Info X info) = None)"

definition pkcs8_laws :: "x509_lib \<Rightarrow> (curve \<Rightarrow> nat \<Rightarrow> ecdsa_PublicKey) \<Rightarrow> bool" where
  "pkcs8_laws X point \<longleftrightarrow>
     (\<forall>c oid ec ecDer der. oidFromNamedCurve c = Some oid \<longrightarrow> eck_Version ec = 1 \<longrightarrow>
        0 < be_val (eck_PrivateKey ec) \<longrightarrow> be_val (eck_PrivateKey ec) < curve_N c \<longrightarrow>
        length (eck_PrivateKey ec) = length (nat_bytes (curve_N c)) \<longrightarrow>
        xl_asn1_ecPrivateKey X ec = (ecDer, None) \<longrightarrow>
        xl_asn1_pkcs8Info X \<lparr>p8_Version = 0, p8_PrivateKeyAlgorithm = [oidPublicKeyECDSA, oid], p8_PrivateKey = ecDer\<rparr>
          = (der, None) \<longrightarrow>
        snd (xl_ParsePKCS1PrivateKey X der) \<noteq> None \<and>
        xl_ParsePKCS8PrivateKey X der = (ECDSA_PrivateKey (Some \<lparr>priv_PublicKey = point c (be_val (eck_PrivateKey ec)),
          priv_D = be_val (eck_PrivateKey ec)\<rparr>), None))"

lemma curve_oid_ok: "oidFromNamedCurve c = Some oid \<Longrightarrow> oid_ok oid" "oid_ok oidPublicKeyECDSA"
  by (cases c) (auto simp: oidFromNamedCurve_def oidPublicKeyECDSA_def)

text \<open>C29. A private key of a named curve is written to PEM without a password, and what was written is
  read back as that key, whatever the length of its scalar: the scalar is padded to the size of the
  curve's order, padding it never panics, and the structure around it is one that the parser takes. A
  key of another curve is refused.\<close>

theorem private_key_pem_roundtrip:
  assumes "pem_laws X" "marshal_laws X" "pkcs8_laws X point"
    and "k = \<lparr>priv_PublicKey = point c D, priv_D = D\<rparr>" "pub_Curve (point c D) = c" "0 < D" "D < curve_N c"
    and "GetPEMFromPrivateKey L X (ecdsaPrivateKey (Some k)) [] = r"
  shows "\<not> is_panic r \<and> (is_ok r \<longleftrightarrow> oidFromNamedCurve c \<noteq> None) \<and>
    (\<forall>pem. r = Ok pem \<longrightarrow> GetPrivateKeyFromPEM X pem pwd = Ok (ecdsaPrivateKey (Some k)))"
proof (cases "oidFromNamedCurve c")
  case None
  then have "r = Err (Errorf '''' [])" using assms(4,5,8) by (auto simp: GetPEMFromPrivateKey_def privateKeyToPEM_def)
  then show ?thesis using None by simp
next
  case (Some oid)
  obtain p where p: "padded_scalar c D = Ok p" "length p = length (nat_bytes (curve_N c))" "be_val p = D"
    using padded_scalar_ok[OF assms(7)] by blast
  let ?ec = "\<lparr>eck_Version = 1, eck_PrivateKey = p, eck_NamedCurveOID = [],
     eck_PublicKey = ec_Marshal L c (pub_X (point c D)) (pub_Y (point c D))\<rparr>"
  have "eck_NamedCurveOID ?ec = []" by simp
  then have "snd (xl_asn1_ecPrivateKey X ?ec) = None" using assms(2) unfolding marshal_laws_def by blast
  then obtain b where b: "xl_asn1_ecPrivateKey X ?ec = (b, None)" by (cases "xl_asn1_ecPrivateKey X ?ec") simp
  let ?info = "\<lparr>p8_Version = 0, p8_PrivateKeyAlgorithm = [oidPublicKeyECDSA, oid], p8_PrivateKey = b\<rparr>"
  have "list_all oid_ok (p8_PrivateKeyAlgorithm ?info)" using curve_oid_ok Some by simp
  then have "snd (xl_asn1_pkcs8Info X ?info) = None" using assms(2) unfolding marshal_laws_def by blast
  then obtain der where d: "xl_asn1_pkcs8Info X ?info = (der, None)" by (cases "xl_asn1_pkcs8Info X ?info") simp
  have r: "r = Ok (xl_pem_Encode X \<lparr>pem_Type = ''PRIVATE KEY'', pem_Bytes = der, pem_Encrypted = False\<rparr>)"
    using assms(4,5,8) p(1) b d Some by (auto simp: GetPEMFromPrivateKey_def privateKeyToPEM_def Let_def)
  have "snd (xl_ParsePKCS1PrivateKey X der) \<noteq> None \<and>
      xl_ParsePKCS8PrivateKey X der = (ECDSA_PrivateKey (Some \<lparr>priv_PublicKey = point c (be_val (eck_PrivateKey ?ec)),
        priv_D = be_val (eck_PrivateKey ?ec)\<rparr>), None)"
    using assms(3)[unfolded pkcs8_laws_def, rule_format, OF Some _ _ _ _ b d] p(2,3) assms(6,7) by simp
  then have "first_key [xl_ParsePKCS1PrivateKey X der, xl_ParsePKCS8PrivateKey X der, xl_ParseECPrivateKey X der]
      = Ok (ECDSA_PrivateKey (Some k))"
    using p(3) assms(4) by auto
  moreover have "xl_pem_Decode X (xl_pem_Encode X \<lparr>pem_Type = ''PRIVATE KEY'', pem_Bytes = der, pem_Encrypted = False\<rparr>)
      = Some \<lparr>pem_Type = ''PRIVATE KEY'', pem_Bytes = der, pem_Encrypted = False\<rparr>"
    using assms(1) by (simp add: pem_laws_def)
  ultimately show ?thesis using r Some by (simp add: GetPrivateKeyFromPEM_def pemToPrivateKey_def Let_def)
qed

text \<open>C30. An envelope signed by a suite that was made from a certificate and a key in PEM names, as its
  creator, the MSP identifier and that certificate, and its signature is a low-S signature of its
  payload that verifies under the public key of that key.\<close>

theorem envelope_names_its_signer:
  assumes "pb_laws (cy_pb C)" "pem_laws (cy_x509 C)" "ecdsa_laws (cy_ecdsa C) verify"
    and "GetMyCryptoSuiteFromBytes C keyBytes (Some certBytes) mspid = Ok suite"
    and "CreateSignedEnvelopeWithTLSBinding (cy_pb C) codec now typ channelID (Some (as_signer C (NewSigner suite)))
           d v epoch tls = Ok env"
  shows "\<exists>payload hdr (shdr :: SignatureHeader) ident block cert priv r s.
           UnmarshalPayload (cy_pb C) (env_Payload env) = (payload, None) \<and> payl_Header payload = Some hdr \<and>
           UnmarshalSignatureHeader (cy_pb C) (slice_bytes (hdr_SignatureHeader hdr)) = (shdr, None) \<and>
           UnmarshalSerializedIdentity (cy_pb C) (sh_Creator shdr) = (ident, None) \<and> sid_Mspid ident = mspid \<and>
           xl_pem_Decode (cy_x509 C) (sid_IdBytes ident) = Some block \<and> pem_Bytes block = cert \<and>
           GetCertFromPEM (cy_x509 C) (Some certBytes) = Ok cert \<and>
           GetPrivateKeyFromPEM (cy_x509 C) keyBytes [] = Ok (ecdsaPrivateKey (Some priv)) \<and>
           env_Signature env = asn1_signature r s \<and>
           verify (priv_PublicKey priv) (cy_sha2 C (env_Payload env)) r s \<and> IsLowS (priv_PublicKey priv) s = Ok True"
proof -
  let ?signer = "NewSigner suite"
  from assms(4) obtain cert key where s: "getCertFromPEM (cy_x509 C) (Some certBytes) = Ok cert"
      "GetPrivateKeyFromPEM (cy_x509 C) keyBytes [] = Ok key"
      "suite = \<lparr>suite_privKey = key, suite_signCert = cert, suite_mspID = mspid, suite_hashOpt = []\<rparr>"
    by (auto simp: GetMyCryptoSuiteFromBytes_def)
  from mcs.envelope_creator[OF assms(1,5)] obtain payload hdr shdr where e:
      "UnmarshalPayload (cy_pb C) (env_Payload env) = (payload, None)" "payl_Header payload = Some hdr"
      "UnmarshalSignatureHeader (cy_pb C) (slice_bytes (hdr_SignatureHeader hdr)) = (shdr, None)"
      "mcs_Serialize C ?signer = Ok (sh_Creator shdr)" "mcs_Sign C ?signer (env_Payload env) = Ok (env_Signature env)"
    by auto
  let ?ident = "\<lparr>sid_Mspid = mspid, sid_IdBytes = xl_pem_Encode (cy_x509 C)
     \<lparr>pem_Type = ''CERTIFICATE'', pem_Bytes = cert, pem_Encrypted = False\<rparr>\<rparr>"
  have "Marshal (pb_SerializedIdentity (cy_pb C)) (Some ?ident) = (sh_Creator shdr, None)"
    using e(4) s(3) by (simp add: mcs_Serialize_def NewSigner_def)
  from pb_laws_read(6)[OF assms(1) this] have i: "UnmarshalSerializedIdentity (cy_pb C) (sh_Creator shdr) = (?ident, None)"
    by (simp add: UnmarshalSerializedIdentity_def)
  from e(5) s(3) obtain sign where g: "newEcdsaSigner (cy_ecdsa C) key = Ok sign"
      "ecdsaSigner_Sign (cy_ecdsa C) sign (cy_sha2 C (env_Payload env)) = Ok (env_Signature env)"
    by (auto simp: mcs_Sign_def mcs_getSigner_def NewSigner_def)
  have k: "es_prik sign = key" using g(1) by (auto simp: newEcdsaSigner_def split: if_splits)
  from g(2) obtain priv where p: "key = ecdsaPrivateKey (Some priv)"
    using k by (auto simp: ecdsaSigner_Sign_def split: Key.splits)
  have low: "\<exists>r s. env_Signature env = asn1_signature r s \<and> verify (priv_PublicKey priv) (cy_sha2 C (env_Payload env)) r s \<and>
      IsLowS (priv_PublicKey priv) s = Ok True"
  proof -
    from g(2) k p obtain r t s' f where q: "ec_Sign (cy_ecdsa C) priv (cy_sha2 C (env_Payload env)) = ((r, t), None)"
        "ToLowS (priv_PublicKey priv) t = Ok (s', f)" "env_Signature env = asn1_signature r (nat s')"
      by (fastforce simp: ecdsaSigner_Sign_def)
    with low_signature[OF assms(3) q(1,2)] show ?thesis by blast
  qed
  then show ?thesis using e(1-3) i s(1,2) p assms(2)
    by (fastforce simp: GetCertFromPEM_def pem_laws_def)
qed

section \<open>Witnesses\<close>

text \<open>A text form of blocks that reads back, and a PKCS#8 form that is a tag for the curve, the
  version of the key and the scalar. Marshalling refuses malformed object identifiers and parsing any
  other version, as the library does.\<close>

definition block_text :: "pem_block \<Rightarrow> bytes" where
  "block_text b = (if pem_Encrypted b then 1 else 0) # replicate (length (pem_Type b)) 1 @ 0 #
     bytes_of_string (pem_Type b) @ pem_Bytes b"

definition read_block :: "bytes \<Rightarrow> pem_block option" where
  "read_block t = (case t of [] \<Rightarrow> None | f # rest \<Rightarrow>
     (let n = length (takeWhile (\<lambda>b. b = 1) rest); r = drop (Suc n) rest in
      Some \<lparr>pem_Type = map (\<lambda>b. char_of (unat b)) (take n r), pem_Bytes = drop n r, pem_Encrypted = (f = 1)\<rparr>))"

lemma read_block_text: "read_block (block_text b) = Some b"
proof -
  have c: "map (\<lambda>b. char_of (unat b)) (bytes_of_string s) = s" for s
    by (simp add: bytes_of_string_def unat_of_nat comp_def)
  have t: "takeWhile (\<lambda>b. b = 1) (replicate n (1 :: byte) @ 0 # bs) = replicate n 1" for n bs
    by (induction n) simp_all
  have l: "length (bytes_of_string s) = length s" for s by (simp add: bytes_of_string_def)
  show ?thesis by (simp add: block_text_def read_block_def t c l)
qed

definition point56 :: "curve \<Rightarrow> nat \<Rightarrow> ecdsa_PublicKey" where
  "point56 c D = \<lparr>pub_Curve = c, pub_X = 5, pub_Y = 6\<rparr>"

definition curve_tag :: "OID list \<Rightarrow> byte" where
  "curve_tag oids = (if oids = [oidPublicKeyECDSA, [1, 3, 132, 0, 33]] then 1
     else if oids = [oidPublicKeyECDSA, [1, 2, 840, 10045, 3, 1, 7]] then 2
     else if oids = [oidPublicKeyECDSA, [1, 3, 132, 0, 34]] then 3 else 4)"

definition tag_curve :: "byte \<Rightarrow> curve" where
  "tag_curve t = (if t = 1 then P224 else if t = 2 then P256 else if t = 3 then P384 else P521)"

definition text_x509 :: x509_lib where
  "text_x509 = \<lparr>xl_pem_Decode = read_block, xl_pem_Encode = block_text, xl_ParseCertificate = (\<lambda>b. (b, None)),
     xl_ParsePKCS1PrivateKey = (\<lambda>b. (RSA_PrivateKey [], Some (ErrExt ''asn1''))),
     xl_ParsePKCS8PrivateKey = (\<lambda>b. case b of
          t # v # d \<Rightarrow> if v \<noteq> 1 then (RSA_PrivateKey [], Some (ErrExt ''unknown EC private key version'')) else
            (ECDSA_PrivateKey (Some \<lparr>priv_PublicKey = point56 (tag_curve t) (be_val d), priv_D = be_val d\<rparr>), None)
        | _ \<Rightarrow> (RSA_PrivateKey [], Some (ErrExt ''asn1''))),
     xl_ParseECPrivateKey = (\<lambda>b. (RSA_PrivateKey [], Some (ErrExt ''asn1''))),
     xl_MarshalECPrivateKey = (\<lambda>k. ([], None)), xl_DecryptPEMBlock = (\<lambda>b p. ([], None)),
     xl_EncryptPEMBlock = (\<lambda>t b p. (\<lparr>pem_Type = t, pem_Bytes = b, pem_Encrypted = True\<rparr>, None)),
     xl_asn1_ecPrivateKey = (\<lambda>ec. if eck_NamedCurveOID ec = [] \<or> oid_ok (eck_NamedCurveOID ec)
        then ((if eck_Version ec = 1 then 1 else 0) # eck_PrivateKey ec, None)
        else ([], Some (ErrExt ''invalid object identifier''))),
     xl_asn1_pkcs8Info = (\<lambda>p. if list_all oid_ok (p8_PrivateKeyAlgorithm p)
        then (curve_tag (p8_PrivateKeyAlgorithm p) # p8_PrivateKey p, None)
        else ([], Some (ErrExt ''invalid object identifier''))),
     xl_ReadFile = (\<lambda>f. ([], Some (ErrExt ''no such file'')))\<rparr>"

lemma text_x509_laws: "pem_laws text_x509" "marshal_laws text_x509" "pkcs8_laws text_x509 point56"
proof -
  show "pem_laws text_x509" by (simp add: pem_laws_def text_x509_def read_block_text)
  show "marshal_laws text_x509" by (simp add: marshal_laws_def text_x509_def)
  have "tag_curve (curve_tag [oidPublicKeyECDSA, oid]) = c" if "oidFromNamedCurve c = Some oid" for c oid
    using that by (cases c) (auto simp: oidFromNamedCurve_def curve_tag_def tag_curve_def)
  then show "pkcs8_laws text_x509 point56" by (auto simp: pkcs8_laws_def text_x509_def split: if_splits)
qed

definition key7 :: ecdsa_PrivateKey where
  "key7 = \<lparr>priv_PublicKey = point56 P256 7, priv_D = 7\<rparr>"

lemma private_key_pem_roundtrip_witness:
  "\<exists>pem. GetPEMFromPrivateKey fixed_lib text_x509 (ecdsaPrivateKey (Some key7)) [] = Ok pem \<and>
     GetPrivateKeyFromPEM text_x509 pem [] = Ok (ecdsaPrivateKey (Some key7))"
proof -
  have c: "pub_Curve (point56 P256 7) = P256" "0 < (7 :: nat)" "7 < curve_N P256" by (simp_all add: point56_def)
  obtain p where p: "padded_scalar P256 7 = Ok p" using padded_scalar_ok[OF c(3)] by blast
  then obtain pem where g: "GetPEMFromPrivateKey fixed_lib text_x509 (ecdsaPrivateKey (Some key7)) [] = Ok pem"
    by (simp add: GetPEMFromPrivateKey_def privateKeyToPEM_def key7_def point56_def oidFromNamedCurve_def oidPublicKeyECDSA_def
        text_x509_def)
  from private_key_pem_roundtrip[OF text_x509_laws key7_def c g, of "[]"] g show ?thesis by blast
qed

text \<open>A suite made from that key and a certificate, whose bytes are \<open>[9]\<close>.\<close>

definition id_cert :: pem_block where
  "id_cert = \<lparr>pem_Type = ''CERTIFICATE'', pem_Bytes = [9], pem_Encrypted = False\<rparr>"

definition id_key :: pem_block where
  "id_key = \<lparr>pem_Type = ''PRIVATE KEY'', pem_Bytes = [2, 1, 7], pem_Encrypted = False\<rparr>"

definition id_pb :: pb where
  "id_pb = cu_pb'\<lparr>pb_SerializedIdentity := table_codec [\<lparr>sid_Mspid = ''Org1MSP'', sid_IdBytes = block_text id_cert\<rparr>],
     pb_SignatureHeader := table_codec [\<lparr>sh_Creator = [0], sh_Nonce = [1]\<rparr>]\<rparr>"

definition id_crypto :: crypto_lib where
  "id_crypto = \<lparr>cy_ecdsa = fixed_lib, cy_x509 = text_x509, cy_pb = id_pb, cy_sha2 = (\<lambda>b. b), cy_sha3 = (\<lambda>b. b), cy_rnd = ([1], None)\<rparr>"

definition id_suite :: myCryptoSuite where
  "id_suite = \<lparr>suite_privKey = ecdsaPrivateKey (Some key7), suite_signCert = [9], suite_mspID = ''Org1MSP'', suite_hashOpt = []\<rparr>"

lemma id_suite_made: "GetMyCryptoSuiteFromBytes id_crypto (block_text id_key) (Some (block_text id_cert)) ''Org1MSP'' = Ok id_suite"
  by (simp add: GetMyCryptoSuiteFromBytes_def getCertFromPEM_def GetPrivateKeyFromPEM_def pemToPrivateKey_def id_crypto_def
      text_x509_def read_block_text id_key_def id_cert_def id_suite_def key7_def tag_curve_def)

lemma id_laws: "pb_laws (cy_pb id_crypto)" "pem_laws (cy_x509 id_crypto)" "ecdsa_laws (cy_ecdsa id_crypto) fixed_verify"
  using cu_laws(1) text_x509_laws(1) fixed_laws by (simp_all add: id_crypto_def pb_laws_def id_pb_def)

lemma id_signs: "mcs_Sign id_crypto (NewSigner id_suite) m = Ok (asn1_signature 3 1)"
proof -
  have "newEcdsaSigner fixed_lib (ecdsaPrivateKey (Some key7))
      = Ok \<lparr>es_prik = ecdsaPrivateKey (Some key7), es_pk = ECDSA_PublicKey (priv_PublicKey p256_priv)\<rparr>"
    by (simp add: newEcdsaSigner_def Key_Private_def Key_PublicKey_def Key_Bytes_def fixed_lib_def)
  moreover have "ecdsaSigner_Sign fixed_lib \<lparr>es_prik = ecdsaPrivateKey (Some key7), es_pk = pk\<rparr> m = Ok (asn1_signature 3 1)" for pk
    by (simp add: ecdsaSigner_Sign_def fixed_lib_def key7_def point56_def ToLowS_def IsLowS_def curveHalfOrders_def)
  ultimately show ?thesis
    by (simp add: mcs_Sign_def mcs_getSigner_def NewSigner_def id_suite_def id_crypto_def)
qed

lemma id_envelope:
  "CreateSignedEnvelopeWithTLSBinding (cy_pb id_crypto) (pb_ConfigUpdateEnvelope cu_pb') 0 HeaderType_CONFIG_UPDATE ''ch''
     (Some (as_signer id_crypto (NewSigner id_suite))) (Some cu_cue) 0 0 [] = Ok \<lparr>env_Payload = [0], env_Signature = asn1_signature 3 1\<rparr>"
proof -
  have h: "sg_NewSignatureHeader (as_signer id_crypto (NewSigner id_suite)) = (\<lparr>sh_Creator = [0], sh_Nonce = [1]\<rparr>, None)"
    by (simp add: mcs_NewSignatureHeader_def mcs_Serialize_def GetRandomNonce_def GetRandomBytes_def id_crypto_def
        NewSigner_def id_suite_def id_pb_def text_x509_def id_cert_def table_codec_simps)
  have s: "sg_Sign (as_signer id_crypto (NewSigner id_suite)) m = (asn1_signature 3 1, None)" for m
    by (simp add: id_signs)
  show ?thesis
    by (simp add: CreateSignedEnvelopeWithTLSBinding_def MakePayloadHeader_def MarshalOrPanic_def h s)
       (simp add: id_crypto_def id_pb_def cu_pb'_def cu_pb_def cc_pb_def cu_cue_def cu_cue1_def MakeChannelHeader_def table_codec_simps)
qed

lemma envelope_names_its_signer_witness:
  "\<exists>(shdr :: SignatureHeader) ident r s. UnmarshalSerializedIdentity id_pb (sh_Creator shdr) = (ident, None) \<and> sid_Mspid ident = ''Org1MSP'' \<and>
     asn1_signature 3 1 = asn1_signature r s \<and> fixed_verify (point56 P256 7) [0] r s"
proof -
  have k: "GetPrivateKeyFromPEM (cy_x509 id_crypto) (block_text id_key) [] = Ok (ecdsaPrivateKey (Some key7))"
    by (simp add: GetPrivateKeyFromPEM_def pemToPrivateKey_def id_crypto_def text_x509_def read_block_text id_key_def
        key7_def tag_curve_def)
  have f: "cy_pb id_crypto = id_pb" "cy_sha2 id_crypto b = b" "priv_PublicKey key7 = point56 P256 7" for b
    by (simp_all add: id_crypto_def key7_def)
  from envelope_names_its_signer[OF id_laws id_suite_made id_envelope, unfolded k f Envelope.select_convs]
    obtain shdr :: SignatureHeader and ident :: SerializedIdentity and priv r s where
    "UnmarshalSerializedIdentity id_pb (sh_Creator shdr) = (ident, None)" "sid_Mspid ident = ''Org1MSP''"
    "Ok (ecdsaPrivateKey (Some key7)) = Ok (ecdsaPrivateKey (Some priv))"
    "asn1_signature 3 1 = asn1_signature r s" "fixed_verify (priv_PublicKey priv) [0] r s"
    by (elim exE conjE) (rule that; assumption)
  then show ?thesis using f(3) by (intro exI[of _ shdr] exI[of _ ident] exI[of _ r] exI[of _ s]) simp
qed

end
