(* ===== verification/Queries.thy ===== *)
theory Queries
  imports Lifecycle
begin

text \<open>
  Querying the lifecycle chaincode, \<open>internal/chaincode/list.go\<close>: the chaincodes a peer has
  installed, the definition an organisation approved, the definitions committed on a channel, and
  whether a definition is ready to be committed. Each query is a proposal to one endorser whose
  answer is decoded; nothing goes to the orderer.
\<close>

section \<open>Messages\<close>

record InstalledChaincode =
  ic_PackageId :: string
  ic_Label :: string

record QueryApprovedArgs =
  qa_Name :: string
  qa_Sequence :: "64 word"

record QueryApprovedResult =
  qar_Sequence :: "64 word"
  qar_Version :: string

record ChaincodeDefinition =
  cd_DefName :: string
  cd_DefSequence :: "64 word"
  cd_DefVersion :: string

record QueryDefinitionResult =
  qdr_Sequence :: "64 word"
  qdr_Version :: string
  qdr_Approvals :: "(string \<times> bool) list"

record ReadinessArgs =
  ra_Sequence :: "64 word"
  ra_Name :: string
  ra_Version :: string
  ra_EndorsementPlugin :: string
  ra_InitRequired :: bool

text \<open>The messages without fields are \<open>unit\<close>; the arguments of \<open>QueryChaincodeDefinition\<close> are a name;
  the result of \<open>CheckCommitReadiness\<close> is its map of approvals.\<close>

record query_lib =
  ql_QueryInstalledArgs :: "unit codec"
  ql_QueryInstalledResult :: "InstalledChaincode list codec"
  ql_QueryApprovedArgs :: "QueryApprovedArgs codec"
  ql_QueryApprovedResult :: "QueryApprovedResult codec"
  ql_QueryDefinitionArgs :: "string codec"
  ql_QueryDefinitionsArgs :: "unit codec"
  ql_QueryDefinitionResult :: "QueryDefinitionResult codec"
  ql_QueryDefinitionsResult :: "ChaincodeDefinition list codec"
  ql_ReadinessArgs :: "ReadinessArgs codec"
  ql_ReadinessResult :: "(string \<times> bool) list codec"

section \<open>The answer of the endorser\<close>

text \<open>The tests that follow \<open>ProcessProposal\<close> in all four queries, up to the payload that is decoded.\<close>

definition query_payload :: "ProposalResponse option \<Rightarrow> bytes outcome" where
  "query_payload resp =
     bind (deref resp) (\<lambda>r.
     case pr_Response r of
       None \<Rightarrow> Err (ErrNew ''received proposal response with nil response'')
     | Some response \<Rightarrow>
       (if resp_Status response \<noteq> Status_SUCCESS
        then Err (Errorf ''query failed with status: %d - %s''
                    [AInt (resp_Status response), AStr (resp_Message response)])
        else Ok (resp_Payload response)))"

section \<open>Installed chaincodes\<close>

definition createQueryInstalledProposal :: "proposer \<Rightarrow> query_lib \<Rightarrow> Signer \<Rightarrow> Proposal outcome" where
  "createQueryInstalledProposal E Q signer =
     bind (on_err ''failed to marshal args'' (check (Marshal (ql_QueryInstalledArgs Q) (Some ())))) (\<lambda>argsBytes.
     bind (on_err ''failed to serialize identity'' (check (sg_Serialize signer))) (\<lambda>creator.
     bind (on_err ''failed to create ChaincodeInvocationSpec proposal''
             (CreateProposalFromCIS (pp_pb E) (pp_sha2 E) (pp_rnd E) (pp_ts E) HeaderType_ENDORSER_TRANSACTION ''''
                (Some (lifecycle_cis LSCC_QueryInstalledChaincode argsBytes)) creator)) (\<lambda>(prop, _).
     Ok prop)))"

definition QueryInstalled ::
    "proposer \<Rightarrow> query_lib \<Rightarrow> Signer \<Rightarrow> endorser \<Rightarrow> InstalledChaincode list run" where
  "QueryInstalled E Q signer endorseCli =
     rbind (pure_run (createQueryInstalledProposal E Q signer)) (\<lambda>proposal.
     rbind (pure_run (on_err ''failed to create signed proposal''
              (cryptoutil_GetSignedProposal (pp_pb E) (Some proposal) signer))) (\<lambda>signedProp.
     rbind (emit (EvEndorse 0 signedProp)) (\<lambda>_.
     rbind (pure_run (on_err ''failed to endorse proposal'' (check (endorseCli signedProp)))) (\<lambda>resp.
     rbind (pure_run (query_payload resp)) (\<lambda>payload.
     pure_run (on_err ''failed to unmarshal proposal response's response payload''
       (check (Unmarshal (ql_QueryInstalledResult Q) payload))))))))"

section \<open>Approved definitions\<close>

definition createQueryApprovedProposal ::
    "proposer \<Rightarrow> query_lib \<Rightarrow> Signer \<Rightarrow> string \<Rightarrow> string \<Rightarrow> Proposal outcome" where
  "createQueryApprovedProposal E Q signer name channelID =
     bind (on_err ''failed to marshal args''
             (check (Marshal (ql_QueryApprovedArgs Q) (Some \<lparr>qa_Name = name, qa_Sequence = 0\<rparr>)))) (\<lambda>argsBytes.
     bind (on_err ''failed to serialize identity'' (check (sg_Serialize signer))) (\<lambda>creator.
     bind (on_err ''failed to create ChaincodeInvocationSpec proposal''
             (CreateProposalFromCIS (pp_pb E) (pp_sha2 E) (pp_rnd E) (pp_ts E) HeaderType_ENDORSER_TRANSACTION channelID
                (Some (lifecycle_cis LSCC_QueryApprivedChaincode argsBytes)) creator)) (\<lambda>(proposal, _).
     Ok proposal)))"

definition QueryApproved ::
    "proposer \<Rightarrow> query_lib \<Rightarrow> Signer \<Rightarrow> endorser \<Rightarrow> string \<Rightarrow> string \<Rightarrow> QueryApprovedResult run" where
  "QueryApproved E Q signer endorser name channelID =
     rbind (pure_run (createQueryApprovedProposal E Q signer name channelID)) (\<lambda>proposal.
     rbind (pure_run (cryptoutil_GetSignedProposal (pp_pb E) (Some proposal) signer)) (\<lambda>signedProp.
     rbind (emit (EvEndorse 0 signedProp)) (\<lambda>_.
     rbind (pure_run (check (endorser signedProp))) (\<lambda>proposalResp.
     rbind (pure_run (query_payload proposalResp)) (\<lambda>payload.
     pure_run (check (Unmarshal (ql_QueryApprovedResult Q) payload)))))))"

section \<open>Committed definitions\<close>

definition createQueryCommittedChaincodeProposal ::
    "proposer \<Rightarrow> query_lib \<Rightarrow> Signer \<Rightarrow> string \<Rightarrow> string \<Rightarrow> Proposal outcome" where
  "createQueryCommittedChaincodeProposal E Q signer name channelID =
     (let function = (if name \<noteq> [] then ''QueryChaincodeDefinition'' else ''QueryChaincodeDefinitions'');
          marshalled = (if name \<noteq> [] then Marshal (ql_QueryDefinitionArgs Q) (Some name)
                        else Marshal (ql_QueryDefinitionsArgs Q) (Some ())) in
      bind (on_err ''failed to marshal args'' (check marshalled)) (\<lambda>argsBytes.
      bind (check (sg_Serialize signer)) (\<lambda>creator.
      bind (on_err ''failed to create ChaincodeInvocationSpec proposal''
              (CreateProposalFromCIS (pp_pb E) (pp_sha2 E) (pp_rnd E) (pp_ts E) HeaderType_ENDORSER_TRANSACTION channelID
                 (Some (lifecycle_cis function argsBytes)) creator)) (\<lambda>(proposal, _).
      Ok proposal))))"

text \<open>The loop over the options: each is applied to the request and its result is asserted to be a
  \<open>*QueryCommittedChaincodeRequest\<close>, which panics for anything else.\<close>

fun apply_committed_options ::
    "Option list \<Rightarrow> QueryCommittedChaincodeRequest \<Rightarrow> QueryCommittedChaincodeRequest outcome" where
  "apply_committed_options [] req = Ok req"
| "apply_committed_options (opt # opts) req =
     (case opt (ReqQueryCommitted req) of
        ReqQueryCommitted req' \<Rightarrow> apply_committed_options opts req'
      | _ \<Rightarrow> Panic (PanicMsg ''interface conversion''))"

definition zero_LifecycleArgs :: LifecycleArgs where
  "zero_LifecycleArgs = \<lparr>la_Name = [], la_Version = [], la_Sequence = 0, la_EndorsementPlugin = [],
     la_ValidationPlugin = [], la_ValidationParameter = [], la_InitRequired = False\<rparr>"

text \<open>\<open>CommittedChaincodeList\<close> embeds the two result messages; the second is never filled.\<close>

record CommittedChaincodeList =
  ccl_ChaincodeDefinitions :: "ChaincodeDefinition list"
  ccl_Definition :: "QueryDefinitionResult option"

definition QueryCommitted ::
    "proposer \<Rightarrow> query_lib \<Rightarrow> Signer \<Rightarrow> endorser \<Rightarrow> string \<Rightarrow> Option list \<Rightarrow> CommittedChaincodeList run" where
  "QueryCommitted E Q signer endorseCli channelID opts =
     rbind (pure_run (apply_committed_options opts zero_LifecycleArgs)) (\<lambda>req.
     rbind (pure_run (createQueryCommittedChaincodeProposal E Q signer (la_Name req) channelID)) (\<lambda>proposal.
     rbind (pure_run (on_err ''failed to create signed proposal''
              (cryptoutil_GetSignedProposal (pp_pb E) (Some proposal) signer))) (\<lambda>signedProposal.
     rbind (emit (EvEndorse 0 signedProposal)) (\<lambda>_.
     rbind (pure_run (check (endorseCli signedProposal))) (\<lambda>resp.
     rbind (pure_run (query_payload resp)) (\<lambda>payload.
     rbind (pure_run (if la_Name req = []
              then on_err ''failed to unmarshal proposal response's response payload''
                     (check (Unmarshal (ql_QueryDefinitionsResult Q) payload))
              else Ok [])) (\<lambda>definitions.
     rbind (pure_run (on_err ''failed to unmarshal proposal response's response payload''
              (check (Unmarshal (ql_QueryDefinitionResult Q) payload)))) (\<lambda>_.
     pure_run (Ok \<lparr>ccl_ChaincodeDefinitions = definitions, ccl_Definition = None\<rparr>)))))))))"

section \<open>Commit readiness\<close>

definition createCommitReadinessProposal ::
    "proposer \<Rightarrow> query_lib \<Rightarrow> Signer \<Rightarrow> CheckCommitReadinessRequest \<Rightarrow> string \<Rightarrow> Proposal outcome" where
  "createCommitReadinessProposal E Q signer cr channelID =
     bind (check (Marshal (ql_ReadinessArgs Q)
             (Some \<lparr>ra_Sequence = ccr_Sequence cr, ra_Name = ccr_Name cr, ra_Version = ccr_Version cr,
                    ra_EndorsementPlugin = ccr_EndorsementPlugin cr, ra_InitRequired = ccr_InitRequired cr\<rparr>)))
       (\<lambda>argsBytes.
     bind (check (sg_Serialize signer)) (\<lambda>creator.
     bind (on_err ''failed to create ChaincodeInvocationSpec proposal''
             (CreateChaincodeProposalWithTxIDAndTransient (pp_pb E) (pp_sha2 E) (pp_rnd E) (pp_ts E)
                HeaderType_ENDORSER_TRANSACTION channelID
                (Some (lifecycle_cis LSCC_CheckCommitReadinessFuncName argsBytes)) creator '''' Map.empty))
       (\<lambda>(proposal, _). Ok proposal)))"

fun apply_readiness_options ::
    "Option list \<Rightarrow> CheckCommitReadinessRequest \<Rightarrow> CheckCommitReadinessRequest outcome" where
  "apply_readiness_options [] req = Ok req"
| "apply_readiness_options (opt # opts) req =
     (case opt (ReqReadiness req) of
        ReqReadiness req' \<Rightarrow> apply_readiness_options opts req'
      | _ \<Rightarrow> Panic (PanicMsg ''interface conversion''))"

definition zero_CheckCommitReadinessRequest :: CheckCommitReadinessRequest where
  "zero_CheckCommitReadinessRequest = \<lparr>ccr_Sequence = 0, ccr_Name = [], ccr_Version = [],
     ccr_EndorsementPlugin = [], ccr_ValidationPlugin = [], ccr_ValidationParameter = [],
     ccr_InitRequired = False, ccr_ChannelID = []\<rparr>"

definition CheckCommitReadiness ::
    "proposer \<Rightarrow> query_lib \<Rightarrow> Signer \<Rightarrow> endorser \<Rightarrow> string \<Rightarrow> Option list \<Rightarrow> (string \<times> bool) list run" where
  "CheckCommitReadiness E Q signer endorseCli channelID opts =
     rbind (pure_run (apply_readiness_options opts zero_CheckCommitReadinessRequest)) (\<lambda>req0.
     let req = (if ccr_Sequence req0 = 0 then req0\<lparr>ccr_Sequence := 1\<rparr> else req0) in
     rbind (pure_run (createCommitReadinessProposal E Q signer req channelID)) (\<lambda>proposal.
     rbind (pure_run (on_err ''failed to create signed proposal''
              (cryptoutil_GetSignedProposal (pp_pb E) (Some proposal) signer))) (\<lambda>signeProp.
     rbind (emit (EvEndorse 0 signeProp)) (\<lambda>_.
     rbind (pure_run (on_err ''failed to endorse proposal'' (check (endorseCli signeProp)))) (\<lambda>proposalResponse.
     rbind (pure_run (query_payload proposalResponse)) (\<lambda>payload.
     pure_run (check (Unmarshal (ql_ReadinessResult Q) payload))))))))"

section \<open>The repository's options keep the request\<close>

definition repository_options :: "Option set" where
  "repository_options =
     range WithEndorsePlugin \<union> range WithValidatePlugin \<union> range WithSignPolicy \<union> range WithChannelPolicy \<union>
     range WithCollectionConfig \<union> range WithSequence \<union> range WithTimeout \<union> {WithInitRequired} \<union> range WithName"

lemmas option_defs = WithEndorsePlugin_def WithValidatePlugin_def WithSignPolicy_def WithChannelPolicy_def
  WithCollectionConfig_def WithSequence_def WithTimeout_def WithInitRequired_def WithName_def

lemma option_committed:
  "opt \<in> repository_options \<Longrightarrow> \<exists>req'. opt (ReqQueryCommitted req) = ReqQueryCommitted req'"
  by (auto simp: repository_options_def option_defs)

lemma option_readiness:
  "opt \<in> repository_options \<Longrightarrow> \<exists>req'. opt (ReqReadiness req) = ReqReadiness req' \<and>
     ccr_Name req' = ccr_Name req \<and> ccr_Version req' = ccr_Version req"
  by (auto simp: repository_options_def option_defs)

lemma apply_committed_ok:
  "set opts \<subseteq> repository_options \<Longrightarrow> is_ok (apply_committed_options opts req)"
proof (induction opts arbitrary: req)
  case (Cons opt opts)
  then obtain req' where "opt (ReqQueryCommitted req) = ReqQueryCommitted req'" using option_committed by force
  with Cons show ?case by simp
qed simp

lemma apply_readiness_name:
  "set opts \<subseteq> repository_options \<Longrightarrow> apply_readiness_options opts req = r \<Longrightarrow>
     \<exists>req'. r = Ok req' \<and> ccr_Name req' = ccr_Name req \<and> ccr_Version req' = ccr_Version req"
proof (induction opts arbitrary: req)
  case (Cons opt opts)
  then obtain req1 where "opt (ReqReadiness req) = ReqReadiness req1" "ccr_Name req1 = ccr_Name req"
    "ccr_Version req1 = ccr_Version req" using option_readiness[of opt req] by auto
  with Cons.prems Cons.IH[of req1] show ?case by simp
qed auto

lemma apply_committed_append:
  "apply_committed_options (xs @ ys) req = bind (apply_committed_options xs req) (apply_committed_options ys)"
  by (induction xs req rule: apply_committed_options.induct) (auto split: request.splits)

lemma apply_committed_name:
  "apply_committed_options (opts @ [WithName name]) req = Ok req' \<Longrightarrow> la_Name req' = name"
  by (auto simp: apply_committed_append WithName_def)

section \<open>Theorems\<close>

text \<open>A query for one committed definition discards the answer: whatever the peer answers, the
  list that is returned is empty.\<close>

lemma named_query_is_empty:
  "case snd (QueryCommitted E Q sg endorser ch (opts @ [WithName name])) of
     Ok l \<Rightarrow> (if name = [] then True else l = \<lparr>ccl_ChaincodeDefinitions = [], ccl_Definition = None\<rparr>)
   | _ \<Rightarrow> True"
proof -
  have "l = \<lparr>ccl_ChaincodeDefinitions = [], ccl_Definition = None\<rparr>"
    if "snd (QueryCommitted E Q sg endorser ch (opts @ [WithName name])) = Ok l" "name \<noteq> []" for l
    using that by (auto simp: QueryCommitted_def snd_rbind dest!: apply_committed_name)
  then show ?thesis by (cases "snd (QueryCommitted E Q sg endorser ch (opts @ [WithName name]))") auto
qed

text \<open>C24. The options of the repository keep the kind of the request, so the type assertions of
  \<open>QueryCommitted\<close> and \<open>CheckCommitReadiness\<close> never panic on them. None of them sets the name or the
  version of a readiness request: with these options, readiness is always asked for the empty name.\<close>

theorem repository_options_typed:
  assumes "set opts \<subseteq> repository_options"
  shows "is_ok (apply_committed_options opts zero_LifecycleArgs) \<and>
         (\<exists>req. apply_readiness_options opts zero_CheckCommitReadinessRequest = Ok req \<and>
            ccr_Name req = [] \<and> ccr_Version req = [])"
  using apply_committed_ok[OF assms] apply_readiness_name[OF assms, of zero_CheckCommitReadinessRequest]
  by (auto simp: zero_CheckCommitReadinessRequest_def)

lemma repository_options_typed_witness:
  "\<exists>req. apply_readiness_options [WithName ''mycc'', WithSequence 2, WithInitRequired]
       zero_CheckCommitReadinessRequest = Ok req \<and> ccr_Name req = []"
proof -
  have "set [WithName ''mycc'', WithSequence 2, WithInitRequired] \<subseteq> repository_options"
    by (auto simp: repository_options_def)
  from repository_options_typed[OF this] show ?thesis by blast
qed

end
