(* ===== verification/Gateway.thy ===== *)
theory Gateway
  imports Identity Queries
begin

text \<open>
  The API of the SDK: \<open>gateway/common.go\<close>, \<open>chaincode.go\<close>, \<open>channel.go\<close> and \<open>proposal.go\<close>, with
  \<open>internal/chaincode/contract\<close>.

  A request names its signer by a key and a certificate and its peers and orderer by their
  addresses. Dialling them is a parameter: \<open>gw_peer_New\<close> and \<open>gw_orderer_New\<close> are \<open>peer.New\<close> and
  \<open>orderer.New\<close>. The record \<open>gateway\<close> collects everything a request draws from outside.
\<close>

section \<open>Requests\<close>

record GwSigner =
  gs_Key :: bytes
  gs_Cert :: slice
  gs_MspId :: string

text \<open>The messages \<open>Peer\<close> and \<open>Orderer\<close> have the same fields.\<close>

record GwPeer =
  gp_Url :: string
  gp_HostName :: string
  gp_TlsRootCert :: slice

record GwOrganization =
  go_Name :: string
  go_MspId :: string
  go_Type :: int
  go_RootCert :: slice
  go_TlsRootCert :: slice

record GwDefinition =
  gd_Name :: string
  gd_Version :: string
  gd_Sequence :: "64 word"
  gd_EndorsePlugin :: string
  gd_ValidatePlugin :: string
  gd_ValidateParams :: bytes
  gd_InitRequired :: bool

record GwArgs =
  gargs_Name :: string
  gargs_Version :: string
  gargs_Args :: "bytes list"

text \<open>A peer that was dialled: what \<open>peer_client\<close> has, the result of opening a deliver client, and its
  TLS certificates; an orderer that was dialled has both services.\<close>

record gw_peer = peer_client +
  pc_Deliver :: "gerror option"
  pc_Certificate :: "bytes list"

record gw_orderer =
  gwo_broadcast :: orderer
  gwo_deliver :: orderer_client

record ('cfg, 'cu, 'x) gateway =
  gw_crypto :: crypto_lib
  gw_peer_New :: "GwPeer \<Rightarrow> gw_peer ret"
  gw_orderer_New :: "GwPeer \<Rightarrow> gw_orderer ret"
  gw_E :: "nat \<Rightarrow> proposer"
  gw_runs :: group_runs
  gw_arrival :: "nat list"
  gw_lifecycle :: lifecycle_lib
  gw_install :: install_lib
  gw_query :: query_lib
  gw_deliver :: deliver_lib
  gw_channel :: "('cfg, 'x) channel_lib"
  gw_cfgpb :: "('cfg, 'cu) cfgpb"
  gw_ConfigSignature :: "ConfigSignature codec"
  gw_channels :: "ChannelInfo list codec"
  gw_platform :: Platform
  gw_err_str :: "gerror \<Rightarrow> string"

section \<open>common.go\<close>

definition createSigner :: "crypto_lib \<Rightarrow> GwSigner option \<Rightarrow> Signer outcome" where
  "createSigner C signer =
     bind (deref signer) (\<lambda>s.
     bind (GetMyCryptoSuiteFromBytes C (gs_Key s) (gs_Cert s) (gs_MspId s)) (\<lambda>cs.
     Ok (as_signer C (NewSigner cs))))"

definition createPeerClients ::
    "(GwPeer \<Rightarrow> gw_peer ret) \<Rightarrow> GwPeer option list \<Rightarrow> gw_peer list outcome" where
  "createPeerClients peer_New peers = map_outcome (\<lambda>p. bind (deref p) (\<lambda>q. check (peer_New q))) peers"

text \<open>The loop that stores the clients of the endorsers. \<open>cf.Delivers\<close> is a slice that is never made: it
  has \<open>cf_Delivers cf\<close> elements when the loop stores into it.\<close>

fun factory_loop :: "nat \<Rightarrow> gw_peer list \<Rightarrow> CommonFactory \<Rightarrow> CommonFactory outcome" where
  "factory_loop i [] cf = Ok cf"
| "factory_loop i (e # es) cf =
     bind (check (pc_Endorser e)) (\<lambda>endorser.
     bind (go_update (cf_Endorsers cf) i endorser) (\<lambda>endorsers.
     bind (case pc_Deliver e of Some err \<Rightarrow> Err err | None \<Rightarrow> Ok ()) (\<lambda>deliver.
     bind (go_update (replicate (cf_Delivers cf) ()) i deliver) (\<lambda>delivers.
     bind (go_update (cf_PeerAddresses cf) i (pc_Address e)) (\<lambda>addresses.
     factory_loop (i + 1) es (cf\<lparr>cf_Endorsers := endorsers, cf_Delivers := length delivers,
                                 cf_PeerAddresses := addresses\<rparr>))))))"

text \<open>An element of a slice of clients that has just been made is a nil interface.\<close>

definition nil_endorser :: endorser where
  "nil_endorser sp = (None, Some (ErrExt ''nil client''))"

definition createCommonFactory ::
    "(GwPeer \<Rightarrow> gw_peer ret) \<Rightarrow> (GwPeer \<Rightarrow> gw_orderer ret) \<Rightarrow> GwPeer option \<Rightarrow> GwPeer option list \<Rightarrow> GwPeer option
       \<Rightarrow> CommonFactory outcome" where
  "createCommonFactory peer_New orderer_New commiter endorsers ord =
     bind (deref commiter) (\<lambda>c. bind (check (peer_New c)) (\<lambda>commitCli.
     bind (deref ord) (\<lambda>d. bind (check (orderer_New d)) (\<lambda>ordererCli.
     bind (check (pc_Endorser commitCli)) (\<lambda>committer.
     bind (createPeerClients peer_New endorsers) (\<lambda>endorserClients.
     factory_loop 0 endorserClients
       \<lparr>cf_Committer = Some committer, cf_Endorsers = replicate (length endorsers) nil_endorser, cf_Delivers = 0,
        cf_PeerAddresses = replicate (length endorsers) [], cf_OClient = Some (gwo_broadcast ordererCli),
        cf_TLSCert = pc_Certificate commitCli\<rparr>))))))"

text \<open>Certificates that cannot be read are nil: the errors are dropped.\<close>

definition cert_or_nil :: "x509_lib \<Rightarrow> slice \<Rightarrow> Certificate option" where
  "cert_or_nil X pem = (case GetCertFromPEM X pem of Ok c \<Rightarrow> Some c | _ \<Rightarrow> None)"

definition createChannelOrg :: "x509_lib \<Rightarrow> GwOrganization \<Rightarrow> Organization" where
  "createChannelOrg X org =
     \<lparr>org_Type = go_Type org, org_ID = go_MspId org, org_Name = go_Name org,
      org_RootCA = cert_or_nil X (go_RootCert org), org_TLSRootCA = cert_or_nil X (go_TlsRootCert org),
      org_AdminCA = None, org_AnchorPeers = [], org_OrdererConsenters = []\<rparr>"

text \<open>\<open>errors.WithMessage\<close> on the error of a run.\<close>

definition run_on_err :: "string \<Rightarrow> 'a run \<Rightarrow> 'a run" where
  "run_on_err msg m = (fst m, on_err msg (snd m))"

lemma run_on_err_ok [simp]: "run_on_err msg m = (t, Ok y) \<longleftrightarrow> m = (t, Ok y)"
  by (cases m; cases "snd m") (auto simp: run_on_err_def)

section \<open>Contracts\<close>

record Contract =
  ct_signer :: Signer
  ct_channelID :: string
  ct_name :: string
  ct_lang :: string
  ct_version :: string
  ct_cf :: CommonFactory

type_synonym ContractOption = "InvokeSpec \<Rightarrow> InvokeSpec"

definition zero_InvokeSpec :: InvokeSpec where
  "zero_InvokeSpec = \<lparr>is_Name = [], is_Version = [], is_Lang = [], is_Args = [], is_Path = [], is_Transient = [],
     is_IsInit = False, is_Timeout = 0\<rparr>"

definition WithInit :: ContractOption where "WithInit req = req\<lparr>is_IsInit := True\<rparr>"

definition ContractWithTimeout :: "int \<Rightarrow> ContractOption" where
  "ContractWithTimeout timeout req = req\<lparr>is_Timeout := timeout\<rparr>"

definition WithTransient :: "string \<Rightarrow> ContractOption" where
  "WithTransient tmap req = req\<lparr>is_Transient := tmap\<rparr>"

definition WithLang :: "string \<Rightarrow> ContractOption" where
  "WithLang lang req = req\<lparr>is_Lang := lang\<rparr>"

definition apply_spec_options :: "ContractOption list \<Rightarrow> InvokeSpec \<Rightarrow> InvokeSpec" where
  "apply_spec_options options spec = foldl (\<lambda>s opt. opt s) spec options"

text \<open>A nil committer panics when the query is sent to it, which is the first event of the query.\<close>

definition contract_New ::
    "proposer \<Rightarrow> query_lib \<Rightarrow> Signer \<Rightarrow> string \<Rightarrow> string \<Rightarrow> string \<Rightarrow> CommonFactory \<Rightarrow> ContractOption list
       \<Rightarrow> Contract run" where
  "contract_New E Q signer name version channelID impl options =
     rbind (run_on_err ''fail to get chaincode %s:%s that commit on channel %s''
             (case cf_Committer impl of
                Some committer \<Rightarrow> QueryCommitted E Q signer committer channelID [WithName name]
              | None \<Rightarrow>
                (case QueryCommitted E Q signer nil_endorser channelID [WithName name] of
                   ([], r) \<Rightarrow> ([], r)
                 | _ \<Rightarrow> ([], Panic NilDeref)))) (\<lambda>_.
     let req = apply_spec_options options zero_InvokeSpec in
     pure_run (Ok \<lparr>ct_signer = signer, ct_channelID = channelID, ct_name = name, ct_lang = is_Lang req,
                   ct_version = version, ct_cf = impl\<rparr>))"

definition Contract_Invoke ::
    "proposer \<Rightarrow> group_runs \<Rightarrow> nat list \<Rightarrow> Contract \<Rightarrow> bytes list \<Rightarrow> ContractOption list \<Rightarrow> TxResponse run" where
  "Contract_Invoke E G arrival c args opts =
     (let spec = (apply_spec_options opts (zero_InvokeSpec\<lparr>is_Lang := ct_lang c\<rparr>))
            \<lparr>is_Name := ct_name c, is_Version := ct_version c, is_Args := args, is_Lang := ct_lang c\<rparr> in
      Invoke E G arrival (ct_signer c) (ct_cf c) spec (ct_channelID c))"

definition Contract_Query ::
    "proposer \<Rightarrow> group_runs \<Rightarrow> nat list \<Rightarrow> Contract \<Rightarrow> bytes list \<Rightarrow> TxResponse ret run" where
  "Contract_Query E G arrival c args =
     Query E G arrival (ct_signer c) (ct_cf c)
       (zero_InvokeSpec\<lparr>is_Name := ct_name c, is_Version := ct_version c, is_Args := args\<rparr>) (ct_channelID c)"

definition Contract_SendTransaction ::
    "proposer \<Rightarrow> nat list \<Rightarrow> Contract \<Rightarrow> bytes list \<Rightarrow> ContractOption list \<Rightarrow> ProcessProposalResult run" where
  "Contract_SendTransaction E arrival c args opts =
     (let spec = (apply_spec_options opts (zero_InvokeSpec\<lparr>is_Lang := ct_lang c\<rparr>))
            \<lparr>is_Name := ct_name c, is_Version := ct_version c, is_Args := args\<rparr> in
      SendTransaction E arrival (ct_signer c) (ct_cf c) spec (ct_channelID c))"

section \<open>chaincode.go\<close>

datatype ChaincodeContent = CC_PkgBytes bytes | CC_File string | CC_Other

text \<open>The getters of the content read the zero value when it is of another kind.\<close>

definition GetPkgBytes :: "ChaincodeContent \<Rightarrow> bytes" where
  "GetPkgBytes x = (case x of CC_PkgBytes b \<Rightarrow> b | _ \<Rightarrow> [])"

definition GetFile :: "ChaincodeContent \<Rightarrow> string" where
  "GetFile x = (case x of CC_File f \<Rightarrow> f | _ \<Rightarrow> [])"

abbreviation FROM_PACKAGE_BYTES :: int where "FROM_PACKAGE_BYTES \<equiv> 0"
abbreviation FROM_PACKAGE_FILE :: int where "FROM_PACKAGE_FILE \<equiv> 1"
abbreviation FROM_SOURCE_CODE :: int where "FROM_SOURCE_CODE \<equiv> 2"
abbreviation FROM_GIT_REPO :: int where "FROM_GIT_REPO \<equiv> 3"

definition status_response :: "int \<Rightarrow> Response" where
  "status_response status = \<lparr>resp_Status = status, resp_Message = [], resp_Payload = []\<rparr>"

definition ChaincodeInstall ::
    "('cfg, 'cu, 'x) gateway \<Rightarrow> GwSigner option \<Rightarrow> GwPeer option list \<Rightarrow> int \<Rightarrow> ChaincodeContent
       \<Rightarrow> ChaincodeInstallResponse run" where
  "ChaincodeInstall W rs peers mode content =
     rbind (pure_run (createSigner (gw_crypto W) rs)) (\<lambda>signer.
     rbind (pure_run (createPeerClients (gw_peer_New W) peers)) (\<lambda>pClients.
     let chaincodeInstaller =
           (if mode = FROM_PACKAGE_BYTES then GetChaincodeInstallerFromPackage (GetPkgBytes content)
            else if mode = FROM_PACKAGE_FILE then GetChaincodeInstallerFromPkgFile (GetFile content)
            else if mode = FROM_SOURCE_CODE then GetChaincodeInstallerFromSource (gw_platform W) [] [] []
            else if mode = FROM_GIT_REPO then GetChaincodeInstallerFromGitRepo []
            else None) in
     Install (gw_E W 0) (gw_install W) signer (map peer_client.truncate pClients) chaincodeInstaller))"

text \<open>The status of the response of a transaction: reading it from a nil response panics.\<close>

definition tx_status :: "TxResponse \<Rightarrow> Response run" where
  "tx_status resp = rbind (pure_run (deref (tr_Response resp))) (\<lambda>r. pure_run (Ok (status_response (resp_Status r))))"

definition ChaincodeApprove ::
    "('cfg, 'cu, 'x) gateway \<Rightarrow> GwSigner option \<Rightarrow> GwPeer option \<Rightarrow> GwPeer option \<Rightarrow> GwDefinition option \<Rightarrow> string
       \<Rightarrow> string \<Rightarrow> Response run" where
  "ChaincodeApprove W rs committer ord def packageId channelId =
     rbind (pure_run (createSigner (gw_crypto W) rs)) (\<lambda>signer.
     rbind (pure_run (createCommonFactory (gw_peer_New W) (gw_orderer_New W) committer [committer] ord)) (\<lambda>cf.
     rbind (pure_run (deref def)) (\<lambda>d.
     let definition = \<lparr>ar_PackageID = packageId, ar_Name = gd_Name d, ar_TxID = [], ar_Version = gd_Version d,
           ar_Sequence = gd_Sequence d, ar_SignPolicy = [], ar_ChannelConfigPolicy = [],
           ar_EndorserPlugin = gd_EndorsePlugin d, ar_ValidationPlugin = gd_ValidatePlugin d,
           ar_ValidationParameterBytes = gd_ValidateParams d, ar_CollectionConfig = [], ar_InitRequired = False,
           ar_WaitForEvent = False, ar_WaitForEventTimeout = 0\<rparr> in
     rbind (Approve (gw_E W 0) (gw_lifecycle W) (gw_runs W) signer cf definition channelId) (\<lambda>r.
     rbind (pure_run (check r)) tx_status))))"

definition ChaincodeCommit ::
    "('cfg, 'cu, 'x) gateway \<Rightarrow> GwSigner option \<Rightarrow> GwPeer option list \<Rightarrow> GwPeer option \<Rightarrow> GwDefinition option \<Rightarrow> string
       \<Rightarrow> Response run" where
  "ChaincodeCommit W rs endorsers ord def channelId =
     rbind (pure_run (createSigner (gw_crypto W) rs)) (\<lambda>signer.
     rbind (pure_run (createCommonFactory (gw_peer_New W) (gw_orderer_New W) None endorsers ord)) (\<lambda>cf.
     rbind (pure_run (deref def)) (\<lambda>d.
     let definition = \<lparr>cr_TxID = [], cr_Name = gd_Name d, cr_Version = gd_Version d, cr_Sequence = gd_Sequence d,
           cr_SignPolicy = [], cr_ChannelConfigPolicy = [], cr_EndorsementPlugin = gd_EndorsePlugin d,
           cr_ValidationPlugin = gd_ValidatePlugin d, cr_ValidationParameter = gd_ValidateParams d,
           cr_InitRequired = gd_InitRequired d, cr_CollectionConfig = [], cr_WaitForEvent = False,
           cr_WaitForEventTimeout = 0\<rparr> in
     rbind (Commit (gw_E W 0) (gw_lifecycle W) (gw_runs W) signer cf definition channelId) tx_status)))"

definition gateway_contract ::
    "('cfg, 'cu, 'x) gateway \<Rightarrow> GwSigner option \<Rightarrow> GwPeer option \<Rightarrow> GwPeer option list \<Rightarrow> GwPeer option \<Rightarrow> GwArgs option
       \<Rightarrow> string \<Rightarrow> (Contract \<times> GwArgs) run" where
  "gateway_contract W rs committer endorsers ord args channelId =
     rbind (pure_run (on_err ''get signer'' (createSigner (gw_crypto W) rs))) (\<lambda>signer.
     rbind (pure_run (on_err ''get common factory''
              (createCommonFactory (gw_peer_New W) (gw_orderer_New W) committer endorsers ord))) (\<lambda>cf.
     rbind (pure_run (deref args)) (\<lambda>a.
     rbind (run_on_err ''new contract''
              (contract_New (gw_E W 0) (gw_query W) signer (gargs_Name a) (gargs_Version a) channelId cf [])) (\<lambda>c.
     pure_run (Ok (c, a))))))"

definition ChaincodeInvoke ::
    "('cfg, 'cu, 'x) gateway \<Rightarrow> GwSigner option \<Rightarrow> GwPeer option \<Rightarrow> GwPeer option list \<Rightarrow> GwPeer option \<Rightarrow> GwArgs option
       \<Rightarrow> string \<Rightarrow> Response run" where
  "ChaincodeInvoke W rs committer endorsers ord args channelId =
     rbind (gateway_contract W rs committer endorsers ord args channelId) (\<lambda>(c, a).
     rbind (run_on_err ''invoke'' (Contract_Invoke (gw_E W 1) (gw_runs W) (gw_arrival W) c (gargs_Args a) [])) (\<lambda>resp.
     rbind (pure_run (deref (tr_Response resp))) (\<lambda>x.
     pure_run (Ok \<lparr>resp_Status = resp_Status x, resp_Message = [], resp_Payload = bytes_of_string (tr_TxID resp)\<rparr>))))"

definition ChaincodeQuery ::
    "('cfg, 'cu, 'x) gateway \<Rightarrow> GwSigner option \<Rightarrow> GwPeer option \<Rightarrow> GwPeer option \<Rightarrow> GwArgs option \<Rightarrow> string
       \<Rightarrow> Response run" where
  "ChaincodeQuery W rs committer ord args channelId =
     rbind (gateway_contract W rs committer [] ord args channelId) (\<lambda>(c, a).
     rbind (Contract_Query (gw_E W 1) (gw_runs W) (gw_arrival W) c (gargs_Args a)) (\<lambda>r.
     rbind (pure_run (on_err ''invoke'' (check r))) (\<lambda>resp.
     rbind (pure_run (deref (tr_Response resp))) (\<lambda>x. pure_run (Ok x)))))"

section \<open>channel.go\<close>

definition gateway_orderer :: "('cfg, 'cu, 'x) gateway \<Rightarrow> GwPeer option \<Rightarrow> gw_orderer outcome" where
  "gateway_orderer W ord = bind (deref ord) (\<lambda>d. check (gw_orderer_New W d))"

text \<open>\<open>if err != nil { return &Response{Status: 500, Message: err.Error()}, nil }\<close>\<close>

definition report_500 :: "(gerror \<Rightarrow> string) \<Rightarrow> unit run \<Rightarrow> Response run" where
  "report_500 err_str m = (case m of
     (t, Ok _) \<Rightarrow> (t, Ok (status_response 200))
   | (t, Err err) \<Rightarrow> (t, Ok \<lparr>resp_Status = 500, resp_Message = err_str err, resp_Payload = []\<rparr>)
   | (t, Panic p) \<Rightarrow> (t, Panic p))"

definition ChannelCreate ::
    "('cfg, 'cu, 'x) gateway \<Rightarrow> GwSigner option \<Rightarrow> GwPeer option \<Rightarrow> GwOrganization option list \<Rightarrow> string \<Rightarrow> string
       \<Rightarrow> Response run" where
  "ChannelCreate W rs ord members channelId consortiumName =
     rbind (pure_run (on_err ''create signer'' (createSigner (gw_crypto W) rs))) (\<lambda>signer.
     rbind (pure_run (gateway_orderer W ord)) (\<lambda>oClient.
     rbind (pure_run (map_outcome (\<lambda>m. bind (deref m) (\<lambda>org. Ok (createChannelOrg (cy_x509 (gw_crypto W)) org))) members))
       (\<lambda>channelOrgs.
     rbind (pure_run (on_err ''create application channel''
              (CreateApplicationChannel channelId consortiumName channelOrgs))) (\<lambda>channelEnvelope.
     report_500 (gw_err_str W) (Create (gw_channel W) signer channelEnvelope (gwo_broadcast oClient))))))"

definition ChannelJoin ::
    "('cfg, 'cu, 'x) gateway \<Rightarrow> GwSigner option \<Rightarrow> GwPeer option \<Rightarrow> GwPeer option list \<Rightarrow> string \<Rightarrow> Response run" where
  "ChannelJoin W rs ord peers channelId =
     rbind (pure_run (on_err ''create signer'' (createSigner (gw_crypto W) rs))) (\<lambda>signer.
     rbind (pure_run (bind (deref ord) (\<lambda>d. on_err ''create orderer client'' (check (gw_orderer_New W d))))) (\<lambda>oClient.
     rbind (pure_run (createPeerClients (gw_peer_New W) peers)) (\<lambda>pClients.
     rbind (pure_run (go_index pClients 0)) (\<lambda>p.
     rbind (run_on_err ''join peer'' (Join2 (gw_E W 0) (gw_deliver W) (cy_sha2 (gw_crypto W)) (cy_sha3 (gw_crypto W))
                    signer (peer_client.truncate p) (gwo_deliver oClient) channelId)) (\<lambda>rsp.
     pure_run (deref rsp))))))"

definition ChannelUpdate ::
    "('cfg, 'cu, 'x) gateway \<Rightarrow> GwSigner option \<Rightarrow> GwPeer option \<Rightarrow> string \<Rightarrow> bytes \<Rightarrow> Response run" where
  "ChannelUpdate W rs ord channelId envelope =
     rbind (pure_run (createSigner (gw_crypto W) rs)) (\<lambda>signer.
     rbind (pure_run (gateway_orderer W ord)) (\<lambda>oClient.
     let updateEnvelope = NewChannelFromBytes channelId envelope in
     rbind (Update (gw_channel W) signer updateEnvelope (gwo_broadcast oClient)) (\<lambda>_.
     pure_run (Ok (status_response 200)))))"

text \<open>The channels of the answer are printed and not returned.\<close>

definition ChannelList :: "('cfg, 'cu, 'x) gateway \<Rightarrow> GwSigner option \<Rightarrow> GwPeer option \<Rightarrow> Response run" where
  "ChannelList W rs peer =
     rbind (pure_run (createSigner (gw_crypto W) rs)) (\<lambda>signer.
     rbind (pure_run (bind (deref peer) (\<lambda>p. check (gw_peer_New W p)))) (\<lambda>pClient.
     rbind (List_channels (gw_E W 0) (gw_channels W) signer (peer_client.truncate pClient)) (\<lambda>channelRsp.
     pure_run (Ok (status_response 200)))))"

definition gateway_FetchBlock ::
    "('cfg, 'cu, 'x) gateway \<Rightarrow> GwSigner option \<Rightarrow> GwPeer option \<Rightarrow> string \<Rightarrow> 64 word \<Rightarrow> Response outcome" where
  "gateway_FetchBlock W rs ord channelId height =
     bind (createSigner (gw_crypto W) rs) (\<lambda>signer.
     bind (gateway_orderer W ord) (\<lambda>oClient.
     bind (FetchBlock (gw_deliver W) (cy_sha2 (gw_crypto W)) (cy_sha3 (gw_crypto W)) (Some signer)
             (Some (gwo_deliver oClient)) channelId height) (\<lambda>(block, st).
     bind (check (Marshal (pb_Block (dl_pb (gw_deliver W))) block)) (\<lambda>blockBytes.
     Ok \<lparr>resp_Status = 200, resp_Message = [], resp_Payload = blockBytes\<rparr>))))"

definition gateway_FetchConfig ::
    "('cfg, 'cu, 'x) gateway \<Rightarrow> GwSigner option \<Rightarrow> GwPeer option \<Rightarrow> string \<Rightarrow> Response outcome" where
  "gateway_FetchConfig W rs ord channelId =
     bind (createSigner (gw_crypto W) rs) (\<lambda>signer.
     bind (gateway_orderer W ord) (\<lambda>oClient.
     bind (FetchConfig (gw_deliver W) (cy_sha2 (gw_crypto W)) (cy_sha3 (gw_crypto W)) (Some signer)
             (Some (gwo_deliver oClient)) channelId) (\<lambda>(config, st).
     bind (check (Marshal (pb_Block (dl_pb (gw_deliver W))) config)) (\<lambda>payload.
     Ok \<lparr>resp_Status = 200, resp_Message = [], resp_Payload = payload\<rparr>))))"

section \<open>proposal.go\<close>

record ProposalSignature =
  ps_ProposalHash :: bytes
  ps_Creator :: string
  ps_Signature :: bytes

record ProposalEnvelope =
  pe_ChannelId :: string
  pe_Proposal :: bytes
  pe_Sign :: "ProposalSignature option"

datatype ProposalContent = PC_NewOrg "GwOrganization option" | PC_RemovedOrgName string | PC_None

definition GetNewOrg :: "ProposalContent \<Rightarrow> GwOrganization option" where
  "GetNewOrg x = (case x of PC_NewOrg org \<Rightarrow> org | _ \<Rightarrow> None)"

definition GetRemovedOrgName :: "ProposalContent \<Rightarrow> string" where
  "GetRemovedOrgName x = (case x of PC_RemovedOrgName n \<Rightarrow> n | _ \<Rightarrow> [])"

abbreviation Channel_AddPeerOrg :: int where "Channel_AddPeerOrg \<equiv> 1"
abbreviation Channel_RemovePeerOrg :: int where "Channel_RemovePeerOrg \<equiv> 2"
abbreviation Consortium_AddPeerOrg :: int where "Consortium_AddPeerOrg \<equiv> 4"
abbreviation Consortium_RemovePeerOrg :: int where "Consortium_RemovePeerOrg \<equiv> 5"

text \<open>The update that a proposal asks for; it is nil for a type that the switch does not list.\<close>

definition missing_content :: "int \<Rightarrow> gerror" where
  "missing_content typ = Errorf ''missing proposal content when type is %v'' [AInt typ]"

definition proposed_update ::
    "('cfg, 'cu, 'x) gateway \<Rightarrow> Block option \<Rightarrow> int \<Rightarrow> ProposalContent \<Rightarrow> string \<Rightarrow> string
       \<Rightarrow> UpdateEnvelope option outcome" where
  "proposed_update W lastConfigBlock typ content consortiumName channelId =
     (let P = cl_pb (gw_channel W); X = cl_configtx (gw_channel W); K = gw_cfgpb W;
          org_of = createChannelOrg (cy_x509 (gw_crypto W)); some = (\<lambda>r. bind r (\<lambda>u. Ok (Some u))) in
      if typ = Channel_AddPeerOrg then
        (case GetNewOrg content of None \<Rightarrow> Err (missing_content typ)
         | Some newOrg \<Rightarrow> some (ChannelAddOrg P K X lastConfigBlock (org_of newOrg) channelId))
      else if typ = Channel_RemovePeerOrg then
        (if GetRemovedOrgName content = [] then Err (missing_content typ)
         else some (ChannelRemoveOrg P K X lastConfigBlock (GetRemovedOrgName content) channelId))
      else if typ = Consortium_AddPeerOrg then
        (case GetNewOrg content of None \<Rightarrow> Err (missing_content typ)
         | Some newOrg \<Rightarrow> some (ConsortiumAddOrg P K X lastConfigBlock (org_of newOrg) consortiumName channelId))
      else if typ = Consortium_RemovePeerOrg then
        (if GetRemovedOrgName content = [] then Err (missing_content typ)
         else some (ConsortiumRemoveOrg P K X lastConfigBlock (GetRemovedOrgName content) consortiumName channelId))
      else Ok None)"

text \<open>Signing a proposal, which the sponsor and the other organisations do in the same way. The hash
  is that of SHA-256, which does not fail.\<close>

definition sign_proposal ::
    "pb \<Rightarrow> ConfigSignature codec \<Rightarrow> crypto_lib \<Rightarrow> Signer \<Rightarrow> bytes \<Rightarrow> ProposalSignature outcome" where
  "sign_proposal P S C signer proposal =
     bind (SignUpdateConfig P signer proposal) (\<lambda>sig.
     bind (check (Marshal S (Some sig))) (\<lambda>sigBytes.
     Ok \<lparr>ps_ProposalHash = (case Hash (cy_sha2 C) (cy_sha3 C) proposal SHA2_256 of Ok h \<Rightarrow> h | _ \<Rightarrow> []),
         ps_Creator = sg_GetMSPId signer, ps_Signature = sigBytes\<rparr>))"

definition ProposalInitiate ::
    "('cfg, 'cu, 'x) gateway \<Rightarrow> GwSigner option \<Rightarrow> GwPeer option \<Rightarrow> int \<Rightarrow> ProposalContent \<Rightarrow> string \<Rightarrow> string
       \<Rightarrow> ProposalEnvelope outcome" where
  "ProposalInitiate W rs ord typ content consortiumName channelId =
     bind (createSigner (gw_crypto W) rs) (\<lambda>signer.
     bind (gateway_orderer W ord) (\<lambda>ordererClient.
     bind (FetchConfig (gw_deliver W) (cy_sha2 (gw_crypto W)) (cy_sha3 (gw_crypto W)) (Some signer)
             (Some (gwo_deliver ordererClient)) channelId) (\<lambda>(lastConfigBlock, st).
     bind (proposed_update W lastConfigBlock typ content consortiumName channelId) (\<lambda>updateEnvelope.
     bind (deref updateEnvelope) (\<lambda>u.
     let proposal = GetUpdates u in
     bind (sign_proposal (cl_pb (gw_channel W)) (gw_ConfigSignature W) (gw_crypto W) signer proposal) (\<lambda>sign.
     Ok \<lparr>pe_ChannelId = channelId, pe_Proposal = proposal, pe_Sign = Some sign\<rparr>))))))"

definition ProposalSign ::
    "('cfg, 'cu, 'x) gateway \<Rightarrow> GwSigner option \<Rightarrow> ProposalEnvelope option \<Rightarrow> ProposalSignature outcome" where
  "ProposalSign W rs envelope =
     bind (createSigner (gw_crypto W) rs) (\<lambda>signer.
     bind (deref envelope) (\<lambda>env.
     sign_proposal (cl_pb (gw_channel W)) (gw_ConfigSignature W) (gw_crypto W) signer (pe_Proposal env)))"

text \<open>The loop over the signatures of the request: those of another proposal are skipped.\<close>

fun collect_sigs :: "bytes \<Rightarrow> ProposalSignature option list \<Rightarrow> (string \<rightharpoonup> bytes) \<Rightarrow> (string \<rightharpoonup> bytes) outcome" where
  "collect_sigs proposalHash [] sigs = Ok sigs"
| "collect_sigs proposalHash (p # ps) sigs =
     bind (deref p) (\<lambda>sig.
     collect_sigs proposalHash ps
       (if proposalHash = ps_ProposalHash sig then sigs(ps_Creator sig \<mapsto> ps_Signature sig) else sigs))"

text \<open>The two maps of the request are ranged over in the orders \<open>keys1\<close> and, in \<open>CreateEnvelope\<close>,
  \<open>cl_keys\<close>.\<close>

definition submitted_update ::
    "('cfg, 'cu, 'x) gateway \<Rightarrow> string list \<Rightarrow> ProposalEnvelope \<Rightarrow> ProposalSignature \<Rightarrow> ProposalSignature option list
       \<Rightarrow> UpdateEnvelope outcome" where
  "submitted_update W keys1 env sponsor sigs =
     bind (collect_sigs (ps_ProposalHash sponsor) sigs [ps_Creator sponsor \<mapsto> ps_Signature sponsor]) (\<lambda>m.
     CreateUpdateEnvelope (gw_ConfigSignature W) keys1 (pe_Proposal env) m (pe_ChannelId env))"

definition ProposalSubmit ::
    "('cfg, 'cu, 'x) gateway \<Rightarrow> string list \<Rightarrow> GwSigner option \<Rightarrow> GwPeer option \<Rightarrow> ProposalEnvelope option
       \<Rightarrow> ProposalSignature option list \<Rightarrow> Response run" where
  "ProposalSubmit W keys1 rs ord envelope sigs =
     rbind (pure_run (createSigner (gw_crypto W) rs)) (\<lambda>signer.
     rbind (pure_run (gateway_orderer W ord)) (\<lambda>ordererClient.
     rbind (pure_run (deref envelope)) (\<lambda>env.
     rbind (pure_run (deref (pe_Sign env))) (\<lambda>sponsor.
     if ps_Creator sponsor \<noteq> sg_GetMSPId signer
     then pure_run (Err (Errorf ''proposal submit must be the same with sponsor, submit: %s, sponsor:%s''
            [AStr (sg_GetMSPId signer), AStr (ps_Creator sponsor)]))
     else
     rbind (pure_run (submitted_update W keys1 env sponsor sigs)) (\<lambda>updateEnvelope.
     report_500 (gw_err_str W) (Update (gw_channel W) signer (CE_Update updateEnvelope) (gwo_broadcast ordererClient)))))))"

section \<open>Transactions through the gateway\<close>

lemma run_succeeds: "is_ok (snd m) \<longleftrightarrow> (\<exists>t y. m = (t, Ok y))"
  by (cases m; cases "snd m") auto

text \<open>Storing the first deliver client is out of range.\<close>

lemma factory_needs_no_endorser:
  assumes "createCommonFactory peer_New orderer_New c es d = Ok cf"
  shows "c \<noteq> None \<and> es = [] \<and> cf_Endorsers cf = []"
proof -
  have loop: "factory_loop i (p # ps) f \<noteq> Ok cf" if "cf_Delivers f = 0" for i p ps f
    using that by (auto simp: go_update_def)
  from assms obtain ps f where p: "c \<noteq> None" "createPeerClients peer_New es = Ok ps" "factory_loop 0 ps f = Ok cf"
      "cf_Delivers f = 0" "cf_Endorsers f = replicate (length es) nil_endorser"
    by (cases c) (auto simp: createCommonFactory_def)
  then have "ps = []" using loop[of f 0] by (cases ps) auto
  with p show ?thesis using map_outcome_length[of _ es ps] by (auto simp: createPeerClients_def)
qed

lemma no_endorsers_no_response:
  assumes "cf_Endorsers cf = []"
  shows "processProposal [] sp cf = ([], Ok [])"
  using assms by (simp add: processProposal_def)

lemma no_endorsers_no_invoke:
  assumes "cf_Endorsers cf = []"
  shows "\<not> is_ok (snd (invokeOrQeury E G [] signer cf spec ch invoke))"
  unfolding run_succeeds invokeOrQeury_def
  by (auto simp: no_endorsers_no_response[OF assms] after_endorsement_def)

lemma contract_New_ok: "contract_New E Q signer name version ch impl options = (t, Ok c) \<Longrightarrow> ct_cf c = impl"
  by (auto simp: contract_New_def Let_def)

lemma gateway_contract_ok:
  "gateway_contract W rs committer es ord args channelId = (t, Ok (c, a)) \<Longrightarrow>
     createCommonFactory (gw_peer_New W) (gw_orderer_New W) committer es ord = Ok (ct_cf c)"
  unfolding gateway_contract_def by (auto dest!: contract_New_ok)

lemma no_endorsers_no_invocation:
  "cf_Endorsers cf = [] \<Longrightarrow> \<not> is_ok (snd (Invoke E G [] signer cf spec ch))"
  using no_endorsers_no_invoke[of cf E G signer spec ch True] unfolding run_succeeds Invoke_def by fastforce

text \<open>C33. No transaction gets through the gateway. The slice of deliver clients is indexed without
  having been made, so that a request with endorsers panics; without endorsers there is no
  response; and a commit dereferences the committer it passes as nil. Whatever the request, the
  peers and the orderer, and in whatever order the endorsers answer, approving, committing, invoking and querying do not succeed.\<close>

theorem gateway_transactions_never_succeed:
  assumes "length (gw_arrival W) = length endorsers"
  shows "\<not> is_ok (snd (ChaincodeApprove W rs committer ord def packageId channelId)) \<and>
         \<not> is_ok (snd (ChaincodeCommit W rs endorsers ord def channelId)) \<and>
         \<not> is_ok (snd (ChaincodeInvoke W rs committer endorsers ord args channelId)) \<and>
         (endorsers = [] \<longrightarrow> \<not> is_ok (snd (ChaincodeQuery W rs committer ord args channelId)))"
proof (intro conjI impI)
  let ?factory = "createCommonFactory (gw_peer_New W) (gw_orderer_New W)"
  show "\<not> is_ok (snd (ChaincodeApprove W rs committer ord def packageId channelId))"
    using factory_needs_no_endorser[of "gw_peer_New W" "gw_orderer_New W" committer "[committer]" ord]
    unfolding run_succeeds ChaincodeApprove_def by (auto simp: Let_def)
  show "\<not> is_ok (snd (ChaincodeCommit W rs endorsers ord def channelId))"
    using factory_needs_no_endorser[of "gw_peer_New W" "gw_orderer_New W" None endorsers ord]
    unfolding run_succeeds ChaincodeCommit_def by (auto simp: Let_def)
  have c: "es = [] \<and> cf_Endorsers (ct_cf c) = []" if "gateway_contract W rs committer es ord args channelId = (t, Ok (c, a))" for es t c a
    using factory_needs_no_endorser[OF gateway_contract_ok[OF that]] by blast
  show "\<not> is_ok (snd (ChaincodeInvoke W rs committer endorsers ord args channelId))"
  proof
    assume "is_ok (snd (ChaincodeInvoke W rs committer endorsers ord args channelId))"
    then obtain t c a t' r where "gateway_contract W rs committer endorsers ord args channelId = (t, Ok (c, a))"
        "Contract_Invoke (gw_E W 1) (gw_runs W) (gw_arrival W) c (gargs_Args a) [] = (t', Ok r)"
      unfolding run_succeeds ChaincodeInvoke_def by (fastforce split: prod.splits)
    moreover from this have "endorsers = []" using c by blast
    moreover from this have "gw_arrival W = []" using assms by simp
    ultimately show False
      using c[of endorsers t c a] no_endorsers_no_invocation[of "ct_cf c" "gw_E W 1" "gw_runs W" "ct_signer c" _ "ct_channelID c"]
      by (auto simp: run_succeeds Contract_Invoke_def Let_def)
  qed
  show "\<not> is_ok (snd (ChaincodeQuery W rs committer ord args channelId))" if "endorsers = []"
  proof
    assume "is_ok (snd (ChaincodeQuery W rs committer ord args channelId))"
    then obtain t c a t' r where "gateway_contract W rs committer [] ord args channelId = (t, Ok (c, a))"
        "Contract_Query (gw_E W 1) (gw_runs W) (gw_arrival W) c (gargs_Args a) = (t', Ok r)"
      unfolding run_succeeds ChaincodeQuery_def by fastforce
    moreover have "gw_arrival W = []" using assms that by simp
    ultimately show False
      using c[of "[]" t c a] no_endorsers_no_invoke[of "ct_cf c" "gw_E W 1" "gw_runs W" "ct_signer c" _ "ct_channelID c" False]
      by (cases r) (auto simp: run_succeeds Contract_Query_def Query_def)
  qed
qed

section \<open>Proposals\<close>

text \<open>A marshalled signature of a proposal by an organisation, made by a signer of a request.\<close>

definition org_signed :: "('cfg, 'cu, 'x) gateway \<Rightarrow> bytes \<Rightarrow> string \<Rightarrow> bytes \<Rightarrow> ConfigSignature \<Rightarrow> bool" where
  "org_signed W proposal mspId b sig \<longleftrightarrow> Unmarshal (gw_ConfigSignature W) b = (sig, None) \<and>
     (\<exists>rs signer. createSigner (gw_crypto W) rs = Ok signer \<and> sg_GetMSPId signer = mspId \<and> signs signer proposal sig)"

definition sigs_valid :: "('cfg, 'cu, 'x) gateway \<Rightarrow> bytes \<Rightarrow> (string \<rightharpoonup> bytes) \<Rightarrow> bool" where
  "sigs_valid W proposal m \<longleftrightarrow> (\<forall>mspId b. m mspId = Some b \<longrightarrow> (\<exists>sig. org_signed W proposal mspId b sig))"

lemma sign_proposal_signed:
  assumes "codec_laws any (gw_ConfigSignature W)" "createSigner (gw_crypto W) rs = Ok signer"
    and "sign_proposal P (gw_ConfigSignature W) C signer proposal = Ok sg"
  shows "\<exists>sig. org_signed W proposal (ps_Creator sg) (ps_Signature sg) sig"
proof -
  from assms(3) obtain sig where "SignUpdateConfig P signer proposal = Ok sig"
      "Marshal (gw_ConfigSignature W) (Some sig) = (ps_Signature sg, None)" "ps_Creator sg = sg_GetMSPId signer"
    by (auto simp: sign_proposal_def)
  with assms(1,2) show ?thesis
    by (auto simp: org_signed_def intro!: exI[of _ sig] dest: SignUpdateConfig_ok codec_roundtrip)
qed

lemma ProposalInitiate_signed:
  assumes "codec_laws any (gw_ConfigSignature W)" "ProposalInitiate W rs ord typ content con ch = Ok env"
  shows "\<exists>sponsor sig. pe_Sign env = Some sponsor \<and> pe_ChannelId env = ch \<and>
           org_signed W (pe_Proposal env) (ps_Creator sponsor) (ps_Signature sponsor) sig"
proof -
  from assms(2) obtain signer sponsor where s: "createSigner (gw_crypto W) rs = Ok signer"
      "sign_proposal (cl_pb (gw_channel W)) (gw_ConfigSignature W) (gw_crypto W) signer (pe_Proposal env) = Ok sponsor"
      "pe_Sign env = Some sponsor" "pe_ChannelId env = ch"
    by (auto simp: ProposalInitiate_def Let_def)
  with sign_proposal_signed[OF assms(1) s(1,2)] show ?thesis by blast
qed

lemma ProposalSign_signed:
  "codec_laws any (gw_ConfigSignature W) \<Longrightarrow> ProposalSign W rs (Some env) = Ok sg \<Longrightarrow>
     \<exists>sig. org_signed W (pe_Proposal env) (ps_Creator sg) (ps_Signature sg) sig"
  by (auto simp: ProposalSign_def intro: sign_proposal_signed)

lemma collect_sigs_valid:
  assumes "collect_sigs h (map Some sgs) m0 = Ok m" "sigs_valid W p m0"
    and "\<forall>sg \<in> set sgs. ps_ProposalHash sg = h \<longrightarrow> (\<exists>sig. org_signed W p (ps_Creator sg) (ps_Signature sg) sig)"
  shows "sigs_valid W p m \<and> dom m = dom m0 \<union> ps_Creator ` {sg \<in> set sgs. ps_ProposalHash sg = h}"
  using assms
proof (induction sgs arbitrary: m0)
  case (Cons sg sgs)
  let ?m1 = "if h = ps_ProposalHash sg then m0(ps_Creator sg \<mapsto> ps_Signature sg) else m0"
  have "sigs_valid W p ?m1" using Cons.prems(2,3) by (auto simp: sigs_valid_def)
  with Cons.IH[of ?m1] Cons.prems(1,3)
  have "sigs_valid W p m \<and> dom m = dom ?m1 \<union> ps_Creator ` {sg \<in> set sgs. ps_ProposalHash sg = h}" by simp
  then show ?case by auto
qed simp

lemma read_signatures_ok:
  assumes "sigs_valid W p m" "set keys \<subseteq> dom m"
  shows "\<exists>c'. read_signatures (gw_ConfigSignature W) m keys c = Ok c' \<and> ue_update c' = ue_update c \<and>
    ue_channelID c' = ue_channelID c \<and> dom (ue_signatures c') = dom (ue_signatures c) \<union> set keys \<and>
    (\<forall>k sig. ue_signatures c' k = Some sig \<longrightarrow> ue_signatures c k = Some sig \<or> org_signed W p k (the (m k)) sig)"
  using assms(2)
proof (induction keys arbitrary: c)
  case (Cons k ks)
  then obtain b where b: "m k = Some b" by auto
  with assms(1) obtain sig where s: "org_signed W p k b sig" by (auto simp: sigs_valid_def)
  let ?c1 = "c\<lparr>ue_signatures := (ue_signatures c)(k \<mapsto> sig)\<rparr>"
  have "set ks \<subseteq> dom m" using Cons.prems by simp
  from Cons.IH[OF this, of ?c1] obtain c' where c: "read_signatures (gw_ConfigSignature W) m ks ?c1 = Ok c'"
    "ue_update c' = ue_update ?c1" "ue_channelID c' = ue_channelID ?c1" "dom (ue_signatures c') = dom (ue_signatures ?c1) \<union> set ks"
    "\<forall>k' t. ue_signatures c' k' = Some t \<longrightarrow> ue_signatures ?c1 k' = Some t \<or> org_signed W p k' (the (m k')) t" by blast
  have "read_signatures (gw_ConfigSignature W) m (k # ks) c = Ok c'"
    using b s c(1) by (simp add: org_signed_def)
  moreover have "\<forall>k' t. ue_signatures c' k' = Some t \<longrightarrow> ue_signatures c k' = Some t \<or> org_signed W p k' (the (m k')) t"
  proof (intro allI impI)
    fix k' t assume "ue_signatures c' k' = Some t"
    with c(5) have "ue_signatures ?c1 k' = Some t \<or> org_signed W p k' (the (m k')) t" by blast
    then show "ue_signatures c k' = Some t \<or> org_signed W p k' (the (m k')) t"
      using b s by (cases "k' = k") auto
  qed
  ultimately show ?case using c(2-4) by auto
qed simp

text \<open>C19. From the proposal to its submission: when a sponsor initiates a proposal and organisations
  sign it, submitting them makes an update of exactly the proposed configuration for that channel
  that carries one signature for the sponsor and for each organisation that signed this proposal,
  each a signature over it by a signer of that organisation, while the signatures of other proposals
  in the request are left out; the orders in which the maps are traversed do not matter.\<close>

theorem submission_collects_signatures:
  assumes "codec_laws any (gw_ConfigSignature W)" "ProposalInitiate W rs ord typ content con ch = Ok env"
    and "pe_Sign env = Some sponsor"
    and "\<forall>sg \<in> set sgs. ps_ProposalHash sg = ps_ProposalHash sponsor \<longrightarrow> (\<exists>r. ProposalSign W r (Some env) = Ok sg)"
    and "collect_sigs (ps_ProposalHash sponsor) (map Some sgs) [ps_Creator sponsor \<mapsto> ps_Signature sponsor] = Ok m"
    and "map_order m keys"
  shows "\<exists>u. submitted_update W keys env sponsor (map Some sgs) = Ok u \<and> ue_update u = pe_Proposal env \<and>
           ue_channelID u = ch \<and>
           dom (ue_signatures u) = insert (ps_Creator sponsor)
             (ps_Creator ` {sg \<in> set sgs. ps_ProposalHash sg = ps_ProposalHash sponsor}) \<and>
           (\<forall>mspId sig. ue_signatures u mspId = Some sig \<longrightarrow>
              (\<exists>r signer. createSigner (gw_crypto W) r = Ok signer \<and> sg_GetMSPId signer = mspId \<and>
                 signs signer (pe_Proposal env) sig))"
proof -
  from ProposalInitiate_signed[OF assms(1,2)] assms(3) obtain sig where
    i: "pe_ChannelId env = ch" "org_signed W (pe_Proposal env) (ps_Creator sponsor) (ps_Signature sponsor) sig" by auto
  then have m0: "sigs_valid W (pe_Proposal env) [ps_Creator sponsor \<mapsto> ps_Signature sponsor]"
    by (auto simp: sigs_valid_def)
  have "\<forall>sg \<in> set sgs. ps_ProposalHash sg = ps_ProposalHash sponsor \<longrightarrow>
      (\<exists>sig. org_signed W (pe_Proposal env) (ps_Creator sg) (ps_Signature sg) sig)"
    using assms(4) ProposalSign_signed[OF assms(1)] by blast
  from collect_sigs_valid[OF assms(5) m0 this] have v: "sigs_valid W (pe_Proposal env) m"
    "dom m = insert (ps_Creator sponsor) (ps_Creator ` {sg \<in> set sgs. ps_ProposalHash sg = ps_ProposalHash sponsor})"
    by auto
  have k: "set keys \<subseteq> dom m" "set keys = dom m" using assms(6) by (simp_all add: map_order_def)
  from read_signatures_ok[OF v(1) k(1), of "new_update (pe_Proposal env) ch"] obtain u where
    u: "read_signatures (gw_ConfigSignature W) m keys (new_update (pe_Proposal env) ch) = Ok u"
      "ue_update u = pe_Proposal env" "ue_channelID u = ch" "dom (ue_signatures u) = set keys"
      "\<forall>k t. ue_signatures u k = Some t \<longrightarrow> org_signed W (pe_Proposal env) k (the (m k)) t"
    by (auto simp: new_update_def)
  then have "submitted_update W keys env sponsor (map Some sgs) = Ok u"
    using assms(5) i(1) by (simp add: submitted_update_def CreateUpdateEnvelope_def)
  with u k(2) v(2) show ?thesis by (auto simp: org_signed_def)
qed

section \<open>Witnesses\<close>

text \<open>A network in which everything can be dialled; the orderer serves block 9, which names block 3 as
  the last configuration, and then a block with the configuration of \<open>Org1\<close>.\<close>

definition gw_seeks :: deliver_lib where
  "gw_seeks = od_lib\<lparr>dl_pb := od_pb\<lparr>pb_SignatureHeader := table_codec [\<lparr>sh_Creator = [0], sh_Nonce = [1]\<rparr>]\<rparr>\<rparr>"

definition gw_stream :: stream where
  "gw_stream = \<lparr>st_sent = [], st_inbox = [(AB_Block (Some (od_block 9)), None), (AB_Status 200, None),
     (AB_Block (Some (cc_block [0])), None), (AB_Status 200, None)], st_send_error = (\<lambda>_. None)\<rparr>"

definition gw_pb :: pb where
  "gw_pb = cc_pb\<lparr>pb_SignatureHeader := table_codec [\<lparr>sh_Creator = [0], sh_Nonce = []\<rparr>, \<lparr>sh_Creator = [0], sh_Nonce = [1]\<rparr>]\<rparr>"

definition gw_sig :: ConfigSignature where
  "gw_sig = \<lparr>csig_SignatureHeader = [0, 0], csig_Signature = asn1_signature 3 1\<rparr>"

definition gw_node :: gw_peer where
  "gw_node = \<lparr>pc_Address = ''peer0'', pc_Endorser = (nil_endorser, None), pc_Deliver = None, pc_Certificate = []\<rparr>"

definition gw_query_lib :: query_lib where
  "gw_query_lib = \<lparr>ql_QueryInstalledArgs = table_codec [()], ql_QueryInstalledResult = table_codec [[]],
     ql_QueryApprovedArgs = table_codec [], ql_QueryApprovedResult = table_codec [], ql_QueryDefinitionArgs = table_codec [],
     ql_QueryDefinitionsArgs = table_codec [()], ql_QueryDefinitionResult = table_codec [],
     ql_QueryDefinitionsResult = table_codec [[]], ql_ReadinessArgs = table_codec [], ql_ReadinessResult = table_codec [[]]\<rparr>"

definition gw_sample :: "nat list \<Rightarrow> (string list, unit, string list \<times> string list) gateway" where
  "gw_sample arrival = \<lparr>gw_crypto = id_crypto, gw_peer_New = (\<lambda>_. (gw_node, None)),
     gw_orderer_New = (\<lambda>_. (\<lparr>gwo_broadcast = cu_orderer, gwo_deliver = \<lparr>oc_Deliver = (gw_stream, None), oc_Certificate = []\<rparr>\<rparr>, None)),
     gw_E = (\<lambda>_. in_proposer), gw_runs = invoke_runs, gw_arrival = arrival, gw_lifecycle = lc_lib, gw_install = in_lib,
     gw_query = gw_query_lib, gw_deliver = gw_seeks, gw_channel = cu_lib\<lparr>cl_pb := gw_pb\<rparr>, gw_cfgpb = cc_cfgpb,
     gw_ConfigSignature = table_codec [gw_sig], gw_channels = table_codec [[]],
     gw_platform = \<lparr>plat_Name = [], plat_ValidateCodePackage = (\<lambda>_. None), plat_GetDeploymentPayload = (\<lambda>_. ([], None)),
       plat_NormalizePath = None\<rparr>,
     gw_err_str = (\<lambda>_. [])\<rparr>"

definition gw_request :: GwSigner where
  "gw_request = \<lparr>gs_Key = block_text id_key, gs_Cert = Some (block_text id_cert), gs_MspId = ''Org1MSP''\<rparr>"

definition gw_addr :: GwPeer where
  "gw_addr = \<lparr>gp_Url = ''localhost:7050'', gp_HostName = ''localhost'', gp_TlsRootCert = None\<rparr>"

lemma gw_signer: "createSigner id_crypto (Some gw_request) = Ok (as_signer id_crypto (NewSigner id_suite))"
  using id_suite_made by (simp add: createSigner_def gw_request_def)

lemma gw_factory:
  "createCommonFactory (gw_peer_New (gw_sample a)) (gw_orderer_New (gw_sample a)) (Some gw_addr) [Some gw_addr] (Some gw_addr)
     = Panic IndexOutOfRange"
  by (simp add: createCommonFactory_def createPeerClients_def gw_sample_def gw_node_def go_update_def)

lemma gateway_transactions_never_succeed_witness:
  "ChaincodeInvoke (gw_sample [0]) (Some gw_request) (Some gw_addr) [Some gw_addr] (Some gw_addr) None ''ch''
     = ([], Panic IndexOutOfRange) \<and>
   \<not> is_ok (snd (ChaincodeQuery (gw_sample []) (Some gw_request) (Some gw_addr) (Some gw_addr) None ''ch''))"
proof -
  have "gw_crypto (gw_sample a) = id_crypto" "length (gw_arrival (gw_sample a)) = length a" for a
    by (simp_all add: gw_sample_def)
  then have "ChaincodeInvoke (gw_sample [0]) (Some gw_request) (Some gw_addr) [Some gw_addr] (Some gw_addr) None ''ch''
     = ([], Panic IndexOutOfRange)"
    by (simp add: ChaincodeInvoke_def gateway_contract_def gw_signer gw_factory rbind_def pure_run_def)
  moreover have "length (gw_arrival (gw_sample [])) = length ([] :: GwPeer option list)" by (simp add: gw_sample_def)
  from gateway_transactions_never_succeed[OF this]
  have "\<not> is_ok (snd (ChaincodeQuery (gw_sample []) (Some gw_request) (Some gw_addr) (Some gw_addr) None ''ch''))" by blast
  ultimately show ?thesis ..
qed

lemma gw_header: "sg_NewSignatureHeader (as_signer id_crypto (NewSigner id_suite)) = (\<lparr>sh_Creator = [0], sh_Nonce = [1]\<rparr>, None)"
  by (simp add: mcs_NewSignatureHeader_def mcs_Serialize_def GetRandomNonce_def GetRandomBytes_def id_crypto_def
      NewSigner_def id_suite_def id_pb_def text_x509_def id_cert_def table_codec_simps)

lemma gw_sign: "sg_Sign (as_signer id_crypto (NewSigner id_suite)) m = (asn1_signature 3 1, None)"
  by (simp add: id_signs)

lemma gw_seek:
  "seekHelper gw_seeks ''ch'' SeekNewest [] (Some (as_signer id_crypto (NewSigner id_suite))) True
     = Ok (Some \<lparr>env_Payload = [0], env_Signature = asn1_signature 3 1\<rparr>)"
  "seekHelper gw_seeks ''ch'' (SeekSpecified 3) [] (Some (as_signer id_crypto (NewSigner id_suite))) True
     = Ok (Some \<lparr>env_Payload = [0, 0], env_Signature = asn1_signature 3 1\<rparr>)"
  by (simp_all add: seekHelper_def CreateSignedEnvelopeWithTLSBinding_def MakePayloadHeader_def MarshalOrPanic_def
      gw_header gw_sign del: as_signer_simps)
     (simp_all add: gw_seeks_def od_lib_def od_pb_def od_seek_def od_payload_def MakeChannelHeader_def table_codec_simps)

lemma gw_fetch:
  "\<exists>st. FetchConfig gw_seeks h h (Some (as_signer id_crypto (NewSigner id_suite)))
     (Some \<lparr>oc_Deliver = (gw_stream, None), oc_Certificate = []\<rparr>) ''ch'' = Ok (Some (cc_block [0]), st)"
proof -
  have i: "GetLastConfigIndexFromBlock (dl_pb gw_seeks) (Some (od_block 9)) = Ok 3"
    by (simp add: GetLastConfigIndexFromBlock_def GetMetadataFromBlock_def od_block_def gw_seeks_def od_pb_def
        table_codec_simps go_index_def)
  show ?thesis
    by (simp add: FetchConfig_def GetDeliverClient_def run_service_def sbind_def GetNewestBlock_def
        GetSpecifiedBlock_def service_on_err_def seekNewest_def seekSpecified_def seek_def service_of_def
        gw_seek stream_Send_def readBlock_def stream_Recv_def gw_stream_def i)
qed

definition gw_new_org :: GwOrganization where
  "gw_new_org = \<lparr>go_Name = ''Org2'', go_MspId = ''Org2MSP'', go_Type = Organization_PEER, go_RootCert = None, go_TlsRootCert = None\<rparr>"

lemma gw_update:
  "ChannelAddOrg gw_pb cc_cfgpb names_configtx (Some (cc_block [0])) (createChannelOrg text_x509 gw_new_org) ''ch''
     = Ok (new_update (change_bytes [(True, ''Org2'')]) ''ch'')"
proof -
  have c: "getBlockConfig gw_pb cc_cfgpb (Some (cc_block [0])) = Ok (Some [''Org1''])"
    by (simp add: getBlockConfig_def UnmarshalConfig_def UnmarshalConfigPayload_def unmarshalPayloadConfigEnvelope_def
        config_unmarshalHeader_def config_unmarshalSignatureHeader_def UnmarshalEnvelope_def UnmarshalPayload_def
        UnmarshalChannelHeader_def UnmarshalSignatureHeader_def cc_block_def cc_pb_def gw_pb_def cc_cfgpb_def table_codec_simps
        sample_pb_def go_index_def)
  obtain c' where "CreateOrganization (createChannelOrg text_x509 gw_new_org) = Ok c'" "co_Name c' = ''Org2''"
    by (simp add: CreateOrganization_def createChannelOrg_def gw_new_org_def)
  then show ?thesis
    by (simp add: ChannelAddOrg_def c names_configtx_def changes_def Let_def) (simp add: createChannelOrg_def gw_new_org_def)
qed

definition gw_sponsor :: ProposalSignature where
  "gw_sponsor = \<lparr>ps_ProposalHash = change_bytes [(True, ''Org2'')], ps_Creator = ''Org1MSP'', ps_Signature = [0]\<rparr>"

lemma gw_initiate:
  "ProposalInitiate (gw_sample []) (Some gw_request) (Some gw_addr) Channel_AddPeerOrg (PC_NewOrg (Some gw_new_org)) [] ''ch''
     = Ok \<lparr>pe_ChannelId = ''ch'', pe_Proposal = change_bytes [(True, ''Org2'')], pe_Sign = Some gw_sponsor\<rparr>"
proof -
  have s: "sign_proposal gw_pb (table_codec [gw_sig]) id_crypto (as_signer id_crypto (NewSigner id_suite)) p
      = Ok \<lparr>ps_ProposalHash = p, ps_Creator = ''Org1MSP'', ps_Signature = [0]\<rparr>" for p
    by (simp add: sign_proposal_def SignUpdateConfig_def gw_header gw_sign del: as_signer_simps(1-3))
       (simp add: gw_pb_def gw_sig_def table_codec_simps id_crypto_def NewSigner_def id_suite_def)
  obtain st where f: "FetchConfig gw_seeks (cy_sha2 id_crypto) (cy_sha3 id_crypto) (Some (as_signer id_crypto (NewSigner id_suite)))
     (Some \<lparr>oc_Deliver = (gw_stream, None), oc_Certificate = []\<rparr>) ''ch'' = Ok (Some (cc_block [0]), st)"
    using gw_fetch[of "cy_sha2 id_crypto"] by (auto simp: id_crypto_def)
  have u: "proposed_update (gw_sample []) (Some (cc_block [0])) Channel_AddPeerOrg (PC_NewOrg (Some gw_new_org)) [] ''ch''
      = Ok (Some (new_update (change_bytes [(True, ''Org2'')]) ''ch''))"
    using gw_update by (simp add: proposed_update_def gw_sample_def GetNewOrg_def cu_lib_def id_crypto_def)
  have w: "gw_crypto (gw_sample []) = id_crypto" "gw_deliver (gw_sample []) = gw_seeks" "cl_pb (gw_channel (gw_sample [])) = gw_pb"
    "gw_ConfigSignature (gw_sample []) = table_codec [gw_sig]"
    "gateway_orderer (gw_sample []) (Some gw_addr)
       = Ok \<lparr>gwo_broadcast = cu_orderer, gwo_deliver = \<lparr>oc_Deliver = (gw_stream, None), oc_Certificate = []\<rparr>\<rparr>"
    by (simp_all add: gw_sample_def cu_lib_def gateway_orderer_def)
  show ?thesis
    by (simp add: ProposalInitiate_def w gw_signer f u s Let_def GetUpdates_def new_update_def gw_sponsor_def)
qed

lemma submission_collects_signatures_witness:
  "\<exists>env u. ProposalInitiate (gw_sample []) (Some gw_request) (Some gw_addr) Channel_AddPeerOrg (PC_NewOrg (Some gw_new_org)) [] ''ch''
       = Ok env \<and>
     submitted_update (gw_sample []) [''Org1MSP''] env gw_sponsor
       (map Some [\<lparr>ps_ProposalHash = [99], ps_Creator = ''Org9'', ps_Signature = [1]\<rparr>]) = Ok u \<and>
     dom (ue_signatures u) = {''Org1MSP''}"
proof -
  let ?sg = "\<lparr>ps_ProposalHash = [99], ps_Creator = ''Org9'', ps_Signature = [1]\<rparr>"
  let ?env = "\<lparr>pe_ChannelId = ''ch'', pe_Proposal = change_bytes [(True, ''Org2'')], pe_Sign = Some gw_sponsor\<rparr>"
  let ?m = "[ps_Creator gw_sponsor \<mapsto> ps_Signature gw_sponsor]"
  have "ps_ProposalHash ?sg \<noteq> ps_ProposalHash gw_sponsor" by (simp add: gw_sponsor_def bytes_of_string_def)
  then have "\<forall>sg \<in> set [?sg]. ps_ProposalHash sg = ps_ProposalHash gw_sponsor \<longrightarrow> P sg" for P by simp
  note h = this
  have c: "codec_laws any (gw_ConfigSignature (gw_sample []))" by (simp add: gw_sample_def table_codec_laws)
  have m: "collect_sigs (ps_ProposalHash gw_sponsor) (map Some [?sg]) ?m = Ok ?m"
    using \<open>ps_ProposalHash ?sg \<noteq> ps_ProposalHash gw_sponsor\<close> by simp
  have k: "map_order ?m [''Org1MSP'']" by (simp add: map_order_def gw_sponsor_def)
  have p: "pe_Sign ?env = Some gw_sponsor" by simp
  note u = submission_collects_signatures[OF c gw_initiate p h m k]
  have "insert (ps_Creator gw_sponsor) (ps_Creator ` {sg \<in> set [?sg]. ps_ProposalHash sg = ps_ProposalHash gw_sponsor})
      = {''Org1MSP''}"
    using \<open>ps_ProposalHash ?sg \<noteq> ps_ProposalHash gw_sponsor\<close> by (auto simp: gw_sponsor_def)
  with u gw_initiate show ?thesis by (intro exI[of _ ?env]) (elim exE conjE, intro exI conjI, assumption+, simp)
qed

end
