(* ===== verification/Connections.thy ===== *)
theory Connections
  imports Identity
begin

text \<open>
  Connections to peers and orderers: \<open>internal/comm/client.go\<close>, \<open>internal/comm/util.go\<close>,
  \<open>internal/client/peer/peer.go\<close>, the constructors and dialling of
  \<open>internal/client/orderer/orderer.go\<close>, and \<open>client.Option\<close>.

  Dialling, PEM, X.509 and the services on a connection are the parameter \<open>comm_lib\<close>; what is modelled
  is which options a connection is dialled with. Durations are nanoseconds. A pool of certificates is
  the list of its DER bytes. The loop over the blocks of a PEM text ends only if the decoder makes
  progress, so its result is an option: \<open>None\<close> is a loop that does not end.
\<close>

section \<open>TLS configurations and dial options\<close>

record tls_Config =
  tc_VerifyPeerCertificate :: "(bytes list \<Rightarrow> gerror option) option"
  tc_MinVersion :: int
  tc_RootCAs :: "Certificate list option"
  tc_Certificates :: "bytes list list"
  tc_ServerName :: string
  tc_TimeShift :: "int option"

abbreviation VersionTLS12 :: int where "VersionTLS12 \<equiv> 0x0303"

type_synonym TLSOption = "tls_Config \<Rightarrow> tls_Config"

definition ServerNameOverride :: "string \<Rightarrow> TLSOption" where
  "ServerNameOverride name tlsConfig = tlsConfig\<lparr>tc_ServerName := name\<rparr>"

definition CertPoolOverride :: "Certificate list option \<Rightarrow> TLSOption" where
  "CertPoolOverride pool tlsConfig = tlsConfig\<lparr>tc_RootCAs := pool\<rparr>"

record DynamicClientCredentials =
  dcc_TLSConfig :: tls_Config
  dcc_TLSOptions :: "TLSOption list"

definition latestConfig :: "DynamicClientCredentials \<Rightarrow> tls_Config" where
  "latestConfig dtc = foldl (\<lambda>cfg tlsOption. tlsOption cfg) (dcc_TLSConfig dtc) (dcc_TLSOptions dtc)"

definition ServerHandshake :: "DynamicClientCredentials \<Rightarrow> unit outcome" where
  "ServerHandshake dtc = Err (ErrNew ''core/comm: server handshakes are not implemented with clientCreds'')"

definition OverrideServerName :: "DynamicClientCredentials \<Rightarrow> string \<Rightarrow> DynamicClientCredentials" where
  "OverrideServerName dtc name = dtc\<lparr>dcc_TLSConfig := (dcc_TLSConfig dtc)\<lparr>tc_ServerName := name\<rparr>\<rparr>"

datatype DialOption = WithKeepaliveParams int int bool | WithBlock | FailOnNonTempDialError bool
  | WithTransportCredentials DynamicClientCredentials | WithInsecure | WithDefaultCallOptions int int

text \<open>What a connection uses of its options: the last credentials that were given.\<close>

fun transport :: "DialOption list \<Rightarrow> tls_Config option" where
  "transport [] = None"
| "transport (opt # opts) =
     (case transport opts of
        Some cfg \<Rightarrow> Some cfg
      | None \<Rightarrow> (case opt of WithTransportCredentials dtc \<Rightarrow> Some (latestConfig dtc) | _ \<Rightarrow> None))"

record 'conn comm_lib =
  cm_pem_Decode :: "bytes \<Rightarrow> (pem_block \<times> bytes) option"
  cm_ParseCertificate :: "bytes \<Rightarrow> Certificate ret"
  cm_X509KeyPair :: "bytes \<Rightarrow> bytes \<Rightarrow> bytes list ret"
  cm_DialContext :: "int \<Rightarrow> string \<Rightarrow> DialOption list \<Rightarrow> 'conn ret"
  cm_Endorser :: "'conn \<Rightarrow> endorser"
  cm_Broadcast :: "'conn \<Rightarrow> orderer"
  cm_Deliver :: "'conn \<Rightarrow> stream ret"

section \<open>Certificates of a PEM text\<close>

partial_function (option) pem_loop ::
    "'conn comm_lib \<Rightarrow> bytes \<Rightarrow> Certificate list \<Rightarrow> Certificate list outcome option" where
  "pem_loop L pemCerts certs =
     (if pemCerts = [] then Some (Ok certs)
      else case cm_pem_Decode L pemCerts of
        None \<Rightarrow> Some (Ok certs)
      | Some (block, rest) \<Rightarrow>
        (case cm_ParseCertificate L (pem_Bytes block) of
           (_, Some err) \<Rightarrow> Some (Err err)
         | (cert, None) \<Rightarrow> pem_loop L rest (certs @ [cert])))"

definition pemToX509Certs :: "'conn comm_lib \<Rightarrow> bytes \<Rightarrow> Certificate list outcome option" where
  "pemToX509Certs L pemCerts = pem_loop L pemCerts []"

text \<open>What follows a loop that may not end.\<close>

fun obind :: "'a outcome option \<Rightarrow> ('a \<Rightarrow> 'b outcome option) \<Rightarrow> 'b outcome option" where
  "obind None f = None"
| "obind (Some (Ok x)) f = f x"
| "obind (Some (Err err)) f = Some (Err err)"
| "obind (Some (Panic p)) f = Some (Panic p)"

lemma obind_ok [simp]: "obind m f = Some (Ok y) \<longleftrightarrow> (\<exists>x. m = Some (Ok x) \<and> f x = Some (Ok y))"
  by (cases "(m, f)" rule: obind.cases) auto

lemma obind_none: "obind m f = None \<longleftrightarrow> m = None \<or> (\<exists>x. m = Some (Ok x) \<and> f x = None)"
  by (cases "(m, f)" rule: obind.cases) auto

text \<open>\<open>CertPool.AddCert\<close> leaves out a certificate that the pool has.\<close>

definition AddCert :: "Certificate list \<Rightarrow> Certificate \<Rightarrow> Certificate list" where
  "AddCert pool cert = (if cert \<in> set pool then pool else pool @ [cert])"

definition AddPemToCertPool :: "'conn comm_lib \<Rightarrow> bytes \<Rightarrow> Certificate list \<Rightarrow> Certificate list outcome option" where
  "AddPemToCertPool L pemCerts pool =
     obind (pemToX509Certs L pemCerts) (\<lambda>certs. Some (Ok (foldl AddCert pool certs)))"

fun add_roots :: "'conn comm_lib \<Rightarrow> bytes list \<Rightarrow> Certificate list \<Rightarrow> Certificate list outcome option" where
  "add_roots L [] pool = Some (Ok pool)"
| "add_roots L (certBytes # roots) pool =
     obind (map_option (on_err ''error adding root certificate'') (AddPemToCertPool L certBytes pool)) (add_roots L roots)"

section \<open>The gRPC client\<close>

record SecureOptions =
  so_VerifyCertificate :: "(bytes list \<Rightarrow> gerror option) option"
  so_Certificate :: slice
  so_Key :: slice
  so_ServerRootCAs :: "bytes list"
  so_UseTLS :: bool
  so_RequireClientCert :: bool
  so_TimeShift :: int

record ClientConfig =
  cfg_SecOpts :: SecureOptions
  cfg_ClientInterval :: int
  cfg_ClientTimeout :: int
  cfg_Timeout :: int
  cfg_AsyncConnect :: bool

record GRPCClient =
  gc_tlsConfig :: "tls_Config option"
  gc_dialOpts :: "DialOption list"
  gc_timeout :: int
  gc_maxRecvMsgSize :: int
  gc_maxSendMsgSize :: int

abbreviation MaxMsgSize :: int where "MaxMsgSize \<equiv> 100 * 1024 * 1024"

text \<open>The TLS configuration that the options make; nil without TLS.\<close>

definition parseSecureOptions :: "'conn comm_lib \<Rightarrow> SecureOptions \<Rightarrow> tls_Config option outcome option" where
  "parseSecureOptions L opts =
     (if \<not> so_UseTLS opts then Some (Ok None)
      else
      obind (if length (so_ServerRootCAs opts) > 0
             then obind (add_roots L (so_ServerRootCAs opts) []) (\<lambda>pool. Some (Ok (Some pool)))
             else Some (Ok None)) (\<lambda>rootCAs.
      obind (if so_RequireClientCert opts
             then (case (so_Key opts, so_Certificate opts) of
                     (Some key, Some certificate) \<Rightarrow>
                       Some (on_err ''failed to load client certificate''
                         (bind (check (cm_X509KeyPair L certificate key)) (\<lambda>cert. Ok [cert])))
                   | _ \<Rightarrow> Some (Err (ErrNew ''both Key and GetCertificate are required when using mutual TLS'')))
             else Some (Ok [])) (\<lambda>certificates.
      Some (Ok (Some
        \<lparr>tc_VerifyPeerCertificate = so_VerifyCertificate opts, tc_MinVersion = VersionTLS12, tc_RootCAs = rootCAs,
         tc_Certificates = certificates, tc_ServerName = [],
         tc_TimeShift = (if so_TimeShift opts > 0 then Some (- so_TimeShift opts) else None)\<rparr>)))))"

text \<open>The client that is returned beside an error is not used by its callers and not modelled.\<close>

definition NewGRPCClient :: "'conn comm_lib \<Rightarrow> ClientConfig \<Rightarrow> GRPCClient outcome option" where
  "NewGRPCClient L config =
     obind (parseSecureOptions L (cfg_SecOpts config)) (\<lambda>tlsConfig.
     Some (Ok
       \<lparr>gc_tlsConfig = tlsConfig,
        gc_dialOpts = [WithKeepaliveParams (cfg_ClientInterval config) (cfg_ClientTimeout config) True]
          @ (if cfg_AsyncConnect config then [] else [WithBlock, FailOnNonTempDialError True]),
        gc_timeout = cfg_Timeout config, gc_maxRecvMsgSize = MaxMsgSize, gc_maxSendMsgSize = MaxMsgSize\<rparr>))"

definition dial_options :: "GRPCClient \<Rightarrow> TLSOption list \<Rightarrow> DialOption list" where
  "dial_options c tlsOptions =
     gc_dialOpts c
     @ [case gc_tlsConfig c of
          Some cfg \<Rightarrow> WithTransportCredentials \<lparr>dcc_TLSConfig = cfg, dcc_TLSOptions = tlsOptions\<rparr>
        | None \<Rightarrow> WithInsecure]
     @ [WithDefaultCallOptions (gc_maxRecvMsgSize c) (gc_maxSendMsgSize c)]"

definition NewConnection :: "'conn comm_lib \<Rightarrow> GRPCClient \<Rightarrow> string \<Rightarrow> TLSOption list \<Rightarrow> 'conn outcome" where
  "NewConnection L c address tlsOptions =
     on_err ''failed to create new connection''
       (check (cm_DialContext L (gc_timeout c) address (dial_options c tlsOptions)))"

text \<open>The zero \<open>tls.Certificate\<close> has no certificate bytes.\<close>

definition GRPCClient_Certificate :: "GRPCClient \<Rightarrow> bytes list" where
  "GRPCClient_Certificate client =
     (case gc_tlsConfig client of
        Some cfg \<Rightarrow> (if length (tc_Certificates cfg) > 0 then tc_Certificates cfg ! 0 else [])
      | None \<Rightarrow> [])"

definition TLSEnabled :: "GRPCClient \<Rightarrow> bool" where
  "TLSEnabled client \<longleftrightarrow> gc_tlsConfig client \<noteq> None"

definition MutualTLSRequired :: "GRPCClient \<Rightarrow> bool" where
  "MutualTLSRequired client = (case gc_tlsConfig client of Some cfg \<Rightarrow> length (tc_Certificates cfg) > 0 | None \<Rightarrow> False)"

definition SetMaxRecvMsgSize :: "GRPCClient \<Rightarrow> int \<Rightarrow> GRPCClient" where
  "SetMaxRecvMsgSize client n = client\<lparr>gc_maxRecvMsgSize := n\<rparr>"

definition SetMaxSendMsgSize :: "GRPCClient \<Rightarrow> int \<Rightarrow> GRPCClient" where
  "SetMaxSendMsgSize client n = client\<lparr>gc_maxSendMsgSize := n\<rparr>"

text \<open>Without TLS the client has no configuration to store the roots in.\<close>

definition SetServerRootCAs :: "'conn comm_lib \<Rightarrow> GRPCClient \<Rightarrow> bytes list \<Rightarrow> GRPCClient outcome option" where
  "SetServerRootCAs L client serverRoots =
     obind (add_roots L serverRoots []) (\<lambda>certPool.
     Some (case gc_tlsConfig client of
       None \<Rightarrow> Panic NilDeref
     | Some cfg \<Rightarrow> Ok (client\<lparr>gc_tlsConfig := Some (cfg\<lparr>tc_RootCAs := Some certPool\<rparr>)\<rparr>)))"

section \<open>Clients of peers and orderers\<close>

record common_client =
  cc_GRPCClient :: GRPCClient
  cc_address :: string
  cc_sn :: string

text \<open>\<open>client.Option\<close> takes and returns a pointer.\<close>

type_synonym ClientOption = "ClientConfig option \<Rightarrow> ClientConfig option"

definition root_options :: "slice \<Rightarrow> SecureOptions" where
  "root_options rootTlsCert =
     \<lparr>so_VerifyCertificate = None, so_Certificate = None, so_Key = None,
      so_ServerRootCAs = (case rootTlsCert of Some pem \<Rightarrow> [pem] | None \<Rightarrow> []), so_UseTLS = rootTlsCert \<noteq> None,
      so_RequireClientCert = False, so_TimeShift = 0\<rparr>"

abbreviation three_seconds :: int where "three_seconds \<equiv> 3000000000"

definition apply_client_options :: "ClientOption list \<Rightarrow> ClientConfig \<Rightarrow> ClientConfig outcome" where
  "apply_client_options opts cfg = deref (foldl (\<lambda>c opt. opt c) (Some cfg) opts)"

definition peer_New ::
    "'conn comm_lib \<Rightarrow> string \<Rightarrow> string \<Rightarrow> slice \<Rightarrow> ClientOption list \<Rightarrow> common_client outcome option" where
  "peer_New L url serviceName tlsRootCert opts =
     obind (Some (apply_client_options opts
       \<lparr>cfg_SecOpts = root_options tlsRootCert, cfg_ClientInterval = 0, cfg_ClientTimeout = 0, cfg_Timeout = 0,
        cfg_AsyncConnect = False\<rparr>)) (\<lambda>clientConfig.
     obind (map_option (on_err ''fail to create grpc client'')
       (NewGRPCClient L (if cfg_Timeout clientConfig = 0 then clientConfig\<lparr>cfg_Timeout := three_seconds\<rparr> else clientConfig)))
       (\<lambda>gClient. Some (Ok \<lparr>cc_GRPCClient = gClient, cc_address = url, cc_sn = serviceName\<rparr>)))"

text \<open>\<open>orderer.New\<close> calls \<open>Config.New\<close> without options.\<close>

definition orderer_Config_New ::
    "'conn comm_lib \<Rightarrow> string \<Rightarrow> string \<Rightarrow> slice \<Rightarrow> ClientOption list \<Rightarrow> common_client outcome option" where
  "orderer_Config_New L url serviceName tlsRootCert opts =
     obind (Some (apply_client_options opts
       \<lparr>cfg_SecOpts = root_options tlsRootCert, cfg_ClientInterval = 0, cfg_ClientTimeout = 0,
        cfg_Timeout = three_seconds, cfg_AsyncConnect = False\<rparr>)) (\<lambda>config.
     obind (NewGRPCClient L config) (\<lambda>gClient.
     Some (Ok \<lparr>cc_GRPCClient = gClient, cc_address = url, cc_sn = serviceName\<rparr>)))"

definition orderer_New :: "'conn comm_lib \<Rightarrow> string \<Rightarrow> string \<Rightarrow> slice \<Rightarrow> common_client outcome option" where
  "orderer_New L url serviceName tlsRootCert = orderer_Config_New L url serviceName tlsRootCert []"

text \<open>Every service of a client is on a connection of its own, under the name of the service.\<close>

definition client_connect :: "'conn comm_lib \<Rightarrow> common_client \<Rightarrow> 'conn outcome" where
  "client_connect L c = NewConnection L (cc_GRPCClient c) (cc_address c) [ServerNameOverride (cc_sn c)]"

definition GetEndorser :: "'conn comm_lib \<Rightarrow> common_client \<Rightarrow> endorser outcome" where
  "GetEndorser L pc =
     bind (on_err ''endorser client failed to connect to %s, %s'' (client_connect L pc)) (\<lambda>conn. Ok (cm_Endorser L conn))"

definition peer_GetDeliverClient :: "'conn comm_lib \<Rightarrow> common_client \<Rightarrow> 'conn outcome" where
  "peer_GetDeliverClient L pc = on_err ''deliver client failed to connect to %s'' (client_connect L pc)"

definition peer_Deliver :: "'conn comm_lib \<Rightarrow> common_client \<Rightarrow> stream outcome" where
  "peer_Deliver L pc =
     bind (on_err ''endorser client failed to connect to %s'' (client_connect L pc)) (\<lambda>conn. check (cm_Deliver L conn))"

definition GetDeliverService :: "'conn comm_lib \<Rightarrow> common_client \<Rightarrow> stream outcome" where
  "GetDeliverService L pc = peer_Deliver L pc"

text \<open>\<open>peerDeliverService.Send\<close> drops the error of the stream.\<close>

definition peerDeliverService_Send :: "Envelope option \<Rightarrow> unit service" where
  "peerDeliverService_Send env st = (Ok (), snd (stream_Send env st))"

definition orderer_Broadcast :: "'conn comm_lib \<Rightarrow> common_client \<Rightarrow> orderer outcome" where
  "orderer_Broadcast L oc =
     bind (on_err ''orderer client failed to connect to %s'' (client_connect L oc)) (\<lambda>conn.
     case ord_Broadcast (cm_Broadcast L conn) of Some err \<Rightarrow> Err err | None \<Rightarrow> Ok (cm_Broadcast L conn))"

definition orderer_Deliver :: "'conn comm_lib \<Rightarrow> common_client \<Rightarrow> stream outcome" where
  "orderer_Deliver L oc =
     bind (on_err ''orderer client failed to connect to %s'' (client_connect L oc)) (\<lambda>conn. check (cm_Deliver L conn))"

definition client_Certificate :: "common_client \<Rightarrow> bytes list" where
  "client_Certificate c = GRPCClient_Certificate (cc_GRPCClient c)"

definition GetAddress :: "common_client \<Rightarrow> string" where
  "GetAddress c = cc_sn c"

section \<open>Reading certificates\<close>

text \<open>The documented behaviour of \<open>pem.Decode\<close>: a block that is found is taken off the text, and an
  encoded block is found in front of anything.\<close>

definition pem_progress :: "'conn comm_lib \<Rightarrow> bool" where
  "pem_progress L \<longleftrightarrow> (\<forall>b block rest. cm_pem_Decode L b = Some (block, rest) \<longrightarrow> length rest < length b)"

lemma pem_loop_ends:
  assumes "pem_progress L"
  shows "pem_loop L b certs \<noteq> None"
proof (induction b arbitrary: certs rule: length_induct)
  case (1 b)
  show ?case
  proof (cases "b = [] \<or> cm_pem_Decode L b = None")
    case False
    then obtain block rest where d: "cm_pem_Decode L b = Some (block, rest)" "b \<noteq> []" by auto
    then have "length rest < length b" using assms by (simp add: pem_progress_def)
    then have "pem_loop L rest cs \<noteq> None" for cs using "1.IH" by blast
    then show ?thesis using d by (subst pem_loop.simps) (auto split: option.split prod.split)
  qed (subst pem_loop.simps, auto)
qed

lemma pem_loop_blocks:
  assumes "\<And>block rest. block \<in> set blocks \<Longrightarrow> cm_pem_Decode L (E block @ rest) = Some (block, rest)"
    and "cm_pem_Decode L rest = None"
    and "\<And>block. block \<in> set blocks \<Longrightarrow> E block \<noteq> [] \<and> cm_ParseCertificate L (pem_Bytes block) = (cert block, None)"
  shows "pem_loop L (concat (map E blocks) @ rest) certs = Some (Ok (certs @ map cert blocks))"
  using assms(1,3)
proof (induction blocks arbitrary: certs)
  case Nil
  show ?case using assms(2) by (subst pem_loop.simps) simp
next
  case (Cons block blocks)
  have "E block \<noteq> []" "cm_ParseCertificate L (pem_Bytes block) = (cert block, None)" using Cons.prems(2) by auto
  then have "pem_loop L (E block @ concat (map E blocks) @ rest) certs
      = pem_loop L (concat (map E blocks) @ rest) (certs @ [cert block])"
    by (subst pem_loop.simps) (simp add: Cons.prems(1))
  with Cons show ?case by simp
qed

lemma add_roots_ends:
  assumes "pem_progress L"
  shows "add_roots L roots pool \<noteq> None"
proof (induction roots arbitrary: pool)
  case (Cons r roots)
  have "AddPemToCertPool L r pool \<noteq> None"
    using pem_loop_ends[OF assms, of r "[]"] by (simp add: AddPemToCertPool_def pemToX509Certs_def obind_none)
  then show ?case using Cons by (simp add: obind_none del: not_None_eq)
qed simp

lemma New_client_ends:
  assumes "pem_progress L"
  shows "NewGRPCClient L cfg \<noteq> None"
  using add_roots_ends[OF assms]
  by (auto simp: NewGRPCClient_def parseSecureOptions_def obind_none simp del: not_None_eq split: option.splits)

text \<open>C32. Reading the certificates of a PEM text ends on every text, and so does making a client of a
  peer or an orderer; and a text of encoded certificates, whatever follows them that is not a block,
  is read as exactly these certificates in their order.\<close>

theorem pem_certificates_read:
  assumes "pem_progress L"
    and "\<And>block rest. block \<in> set blocks \<Longrightarrow> cm_pem_Decode L (E block @ rest) = Some (block, rest)"
    and "cm_pem_Decode L rest = None"
    and "\<And>block. block \<in> set blocks \<Longrightarrow> E block \<noteq> [] \<and> cm_ParseCertificate L (pem_Bytes block) = (cert block, None)"
  shows "(\<exists>r. pemToX509Certs L b = Some r) \<and>
         (\<exists>r. peer_New L url sn root opts = Some r) \<and> (\<exists>r. orderer_New L url sn root = Some r) \<and>
         pemToX509Certs L (concat (map E blocks) @ rest) = Some (Ok (map cert blocks))"
proof (intro conjI)
  show "\<exists>r. pemToX509Certs L b = Some r"
    using pem_loop_ends[OF assms(1)] by (simp add: pemToX509Certs_def)
  have "peer_New L url sn root opts \<noteq> None"
    using New_client_ends[OF assms(1)] by (simp add: peer_New_def obind_none del: not_None_eq)
  then show "\<exists>r. peer_New L url sn root opts = Some r" by simp
  have "orderer_New L url sn root \<noteq> None"
    using New_client_ends[OF assms(1)] by (simp add: orderer_New_def orderer_Config_New_def obind_none del: not_None_eq)
  then show "\<exists>r. orderer_New L url sn root = Some r" by simp
  show "pemToX509Certs L (concat (map E blocks) @ rest) = Some (Ok (map cert blocks))"
    using pem_loop_blocks[OF assms(2-4), of blocks] by (simp add: pemToX509Certs_def)
qed

section \<open>Connections are pinned to the root that was given\<close>

lemma AddCert_set: "set (foldl AddCert pool certs) = set pool \<union> set certs"
  by (induction certs arbitrary: pool) (auto simp: AddCert_def)

lemma add_roots_single:
  "add_roots L [pem] [] = Some (Ok pool) \<longleftrightarrow> (\<exists>certs. pemToX509Certs L pem = Some (Ok certs) \<and> pool = foldl AddCert [] certs)"
  by (auto simp: AddPemToCertPool_def)

text \<open>The configuration of a connection to a named service whose certificate must be issued by one of
  the certificates of the pool.\<close>

definition pinned_config :: "Certificate list \<Rightarrow> string \<Rightarrow> tls_Config" where
  "pinned_config pool sn =
     \<lparr>tc_VerifyPeerCertificate = None, tc_MinVersion = VersionTLS12, tc_RootCAs = Some pool, tc_Certificates = [],
      tc_ServerName = sn, tc_TimeShift = None\<rparr>"

definition pinned :: "'conn comm_lib \<Rightarrow> slice \<Rightarrow> string \<Rightarrow> DialOption list \<Rightarrow> bool" where
  "pinned L root sn opts = (case root of
     None \<Rightarrow> transport opts = None \<and> WithInsecure \<in> set opts
   | Some pem \<Rightarrow> WithInsecure \<notin> set opts \<and>
       (\<exists>certs pool. pemToX509Certs L pem = Some (Ok certs) \<and> set pool = set certs \<and>
          transport opts = Some (pinned_config pool sn)))"

lemma New_client_ok:
  assumes "NewGRPCClient L cfg = Some (Ok g)"
  shows "parseSecureOptions L (cfg_SecOpts cfg) = Some (Ok (gc_tlsConfig g)) \<and> gc_timeout g = cfg_Timeout cfg \<and>
         WithInsecure \<notin> set (gc_dialOpts g) \<and> (\<forall>opts. transport (gc_dialOpts g @ opts) = transport opts)"
  using assms by (auto simp: NewGRPCClient_def split: option.split if_splits)

text \<open>What the constructors of the two kinds of clients share.\<close>

locale tls_client =
  fixes L :: "'conn comm_lib" and New :: "string \<Rightarrow> string \<Rightarrow> slice \<Rightarrow> common_client outcome option"
  assumes New_client: "New url sn root = Some (Ok c) \<Longrightarrow>
    cc_address c = url \<and> cc_sn c = sn \<and>
    (\<exists>cfg. NewGRPCClient L cfg = Some (Ok (cc_GRPCClient c)) \<and> cfg_SecOpts cfg = root_options root \<and>
       cfg_Timeout cfg = three_seconds)"
begin

lemma connect_pinned:
  assumes "New url sn root = Some (Ok c)"
  shows "\<exists>opts. client_connect L c
      = on_err ''failed to create new connection'' (check (cm_DialContext L three_seconds url opts)) \<and> pinned L root sn opts"
proof -
  from New_client[OF assms] obtain cfg where c: "cc_address c = url" "cc_sn c = sn"
    and cfg: "NewGRPCClient L cfg = Some (Ok (cc_GRPCClient c))" "cfg_SecOpts cfg = root_options root"
      "cfg_Timeout cfg = three_seconds" by blast
  let ?opts = "dial_options (cc_GRPCClient c) [ServerNameOverride sn]"
  define tls where "tls = gc_tlsConfig (cc_GRPCClient c)"
  note g = New_client_ok[OF cfg(1), unfolded cfg tls_def[symmetric]] tls_def[symmetric]
  then have tls: "parseSecureOptions L (root_options root) = Some (Ok tls)" by blast
  have "pinned L root sn ?opts"
  proof (cases root)
    case None
    then have "tls = None" using tls by (simp add: parseSecureOptions_def root_options_def)
    then show ?thesis using None g by (simp add: pinned_def dial_options_def)
  next
    case (Some pem)
    then obtain certs where "pemToX509Certs L pem = Some (Ok certs)"
      and "tls = Some ((pinned_config (foldl AddCert [] certs) [])\<lparr>tc_ServerName := []\<rparr>)"
      using tls by (auto simp: parseSecureOptions_def root_options_def add_roots_single pinned_config_def simp del: add_roots.simps)
    then show ?thesis using Some g
      by (auto simp: pinned_def dial_options_def latestConfig_def ServerNameOverride_def pinned_config_def AddCert_set
          intro!: exI[of _ "foldl AddCert [] certs"])
  qed
  then show ?thesis using c g by (auto simp: client_connect_def NewConnection_def)
qed

end

interpretation peer_tls: tls_client L "\<lambda>url sn root. peer_New L url sn root []" for L :: "'conn comm_lib"
  by unfold_locales (auto simp: peer_New_def apply_client_options_def intro!: exI)

interpretation orderer_tls: tls_client L "orderer_New L" for L :: "'conn comm_lib"
  by unfold_locales (auto simp: orderer_New_def orderer_Config_New_def apply_client_options_def intro!: exI)

text \<open>C31. Every connection of a client of a peer or an orderer that was made with a root certificate is
  dialled at the address that was given, for at most three seconds, with TLS 1.2 or later, for the name
  of the service, and trusts exactly the certificates of that root; it is never insecure. Without a
  root certificate every connection is insecure.\<close>

theorem connections_are_pinned:
  assumes "peer_New L url sn root [] = Some (Ok c) \<or> orderer_New L url sn root = Some (Ok c)"
  shows "\<exists>opts. client_connect L c
      = on_err ''failed to create new connection'' (check (cm_DialContext L three_seconds url opts)) \<and> pinned L root sn opts"
  using assms peer_tls.connect_pinned orderer_tls.connect_pinned by blast

lemma parse_certificates:
  assumes "parseSecureOptions L opts = Some (Ok tls)"
  shows "(tls \<noteq> None \<longleftrightarrow> so_UseTLS opts) \<and>
         (case tls of
            Some cfg \<Rightarrow>
              (if so_RequireClientCert opts
               then \<exists>key certificate cert. so_Key opts = Some key \<and> so_Certificate opts = Some certificate \<and>
                      cm_X509KeyPair L certificate key = (cert, None) \<and> tc_Certificates cfg = [cert]
               else tc_Certificates cfg = [])
          | None \<Rightarrow> True)"
  using assms by (cases tls) (auto simp: parseSecureOptions_def check_eq_Ok split: if_splits option.splits)

text \<open>A client asks for a certificate of its own exactly when the options require one, and then it has
  the pair that was loaded.\<close>

lemma mutual_tls_iff:
  assumes "NewGRPCClient L config = Some (Ok client)"
  shows "(TLSEnabled client \<longleftrightarrow> so_UseTLS (cfg_SecOpts config)) \<and>
         (MutualTLSRequired client \<longleftrightarrow> so_UseTLS (cfg_SecOpts config) \<and> so_RequireClientCert (cfg_SecOpts config)) \<and>
         (MutualTLSRequired client \<longrightarrow>
            (\<exists>key certificate. so_Key (cfg_SecOpts config) = Some key \<and> so_Certificate (cfg_SecOpts config) = Some certificate \<and>
               cm_X509KeyPair L certificate key = (GRPCClient_Certificate client, None)))"
  using parse_certificates[OF New_client_ok[OF assms, THEN conjunct1]]
  by (cases "gc_tlsConfig client")
     (auto simp: TLSEnabled_def MutualTLSRequired_def GRPCClient_Certificate_def split: if_splits)

text \<open>Replacing the roots of a client without TLS panics, once the new roots have been read.\<close>

lemma set_roots_needs_tls:
  assumes "add_roots L roots [] = Some (Ok pool)"
  shows "SetServerRootCAs L client roots = Some (Panic NilDeref) \<longleftrightarrow> \<not> TLSEnabled client"
  using assms by (auto simp: SetServerRootCAs_def TLSEnabled_def split: option.split)

text \<open>A text without any block, whatever it holds, is no error: it makes a client that trusts nobody.\<close>

lemma garbage_root_accepted:
  assumes "cm_pem_Decode L pem = None"
  shows "\<exists>c. orderer_New L url sn (Some pem) = Some (Ok c) \<and>
             (\<exists>cfg. gc_tlsConfig (cc_GRPCClient c) = Some cfg \<and> tc_RootCAs cfg = Some [])"
proof -
  have "pemToX509Certs L pem = Some (Ok [])"
    unfolding pemToX509Certs_def using assms by (subst pem_loop.simps) simp
  then show ?thesis
    by (simp add: orderer_New_def orderer_Config_New_def apply_client_options_def NewGRPCClient_def parseSecureOptions_def
        root_options_def AddPemToCertPool_def)
qed

section \<open>Witnesses\<close>

text \<open>A text is a sequence of certificates, each its length and its bytes.\<close>

definition len_pem :: "pem_block \<Rightarrow> bytes" where
  "len_pem b = word_of_nat (length (pem_Bytes b)) # pem_Bytes b"

definition len_block :: "bytes \<Rightarrow> pem_block" where
  "len_block b = \<lparr>pem_Type = ''CERTIFICATE'', pem_Bytes = b, pem_Encrypted = False\<rparr>"

definition len_lib :: "unit comm_lib" where
  "len_lib =
     \<lparr>cm_pem_Decode = (\<lambda>b. case b of [] \<Rightarrow> None | n # rest \<Rightarrow>
        if unat n \<le> length rest then Some (len_block (take (unat n) rest), drop (unat n) rest) else None),
      cm_ParseCertificate = (\<lambda>b. (b, None)), cm_X509KeyPair = (\<lambda>c k. ([c], None)),
      cm_DialContext = (\<lambda>_ _ _. ((), None)), cm_Endorser = (\<lambda>_ sp. (None, None)),
      cm_Broadcast = (\<lambda>_. \<lparr>ord_Broadcast = None, ord_Send = (\<lambda>_. None), ord_Recv = (None, None)\<rparr>),
      cm_Deliver = (\<lambda>_. (\<lparr>st_sent = [], st_inbox = [], st_send_error = (\<lambda>_. None)\<rparr>, None))\<rparr>"

lemma len_progress: "pem_progress len_lib"
  by (auto simp: pem_progress_def len_lib_def split: list.splits if_splits)

lemma len_decode: "length (pem_Bytes b) < 256 \<Longrightarrow> pem_Type b = ''CERTIFICATE'' \<Longrightarrow> \<not> pem_Encrypted b \<Longrightarrow>
    cm_pem_Decode len_lib (len_pem b @ rest) = Some (b, rest)"
  by (cases b) (simp add: len_lib_def len_pem_def len_block_def unat_byte_of_nat)

lemma pem_certificates_read_witness:
  "pemToX509Certs len_lib (concat (map len_pem [len_block [1], len_block [2, 3]]) @ [9]) = Some (Ok [[1], [2, 3]])"
proof -
  have d: "cm_pem_Decode len_lib (len_pem b @ rest) = Some (b, rest)" if "b \<in> set [len_block [1], len_block [2, 3]]" for b rest
    using that by (intro len_decode) (auto simp: len_block_def)
  have "cm_pem_Decode len_lib [9] = None" by (simp add: len_lib_def)
  moreover have "len_pem b \<noteq> [] \<and> cm_ParseCertificate len_lib (pem_Bytes b) = (pem_Bytes b, None)" for b
    by (simp add: len_pem_def len_lib_def)
  ultimately show ?thesis
    using pem_certificates_read[of len_lib "[len_block [1], len_block [2, 3]]" len_pem "[9]" pem_Bytes, OF len_progress d]
    by (simp add: len_block_def)
qed

lemma connections_are_pinned_witness:
  "\<exists>c opts. orderer_New len_lib ''host:7050'' ''orderer'' (Some (len_pem (len_block [7]))) = Some (Ok c) \<and>
     pinned len_lib (Some (len_pem (len_block [7]))) ''orderer'' opts"
proof -
  have "pem_loop len_lib (concat (map len_pem [len_block [7]]) @ []) [] = Some (Ok ([] @ map pem_Bytes [len_block [7]]))"
  proof (rule pem_loop_blocks)
    show "cm_pem_Decode len_lib (len_pem b @ rest) = Some (b, rest)" if "b \<in> set [len_block [7]]" for b rest
      using that by (intro len_decode) (auto simp: len_block_def)
  qed (simp_all add: len_pem_def len_lib_def)
  then obtain c where "orderer_New len_lib ''host:7050'' ''orderer'' (Some (len_pem (len_block [7]))) = Some (Ok c)"
    by (simp add: orderer_New_def orderer_Config_New_def apply_client_options_def NewGRPCClient_def parseSecureOptions_def
        root_options_def AddPemToCertPool_def pemToX509Certs_def)
  with connections_are_pinned[of len_lib "''host:7050''" "''orderer''" "Some (len_pem (len_block [7]))" c] show ?thesis by blast
qed

end
