(* ===== verification/GoStrings.thy ===== *)
theory GoStrings
  imports Prelude
begin

text \<open>
  The parts of the packages \<open>strings\<close> and \<open>strconv\<close> that several components use: splitting at a
  separator, joining, prefixes, and decimal numbers. A Go \<open>int\<close> has 64 bits.
\<close>

section \<open>Splitting and joining\<close>

text \<open>\<open>strings.Split(s, sep)\<close> for a separator of one character, and \<open>strings.Join\<close>.\<close>

fun split_char :: "char \<Rightarrow> string \<Rightarrow> string list" where
  "split_char sep [] = [[]]"
| "split_char sep (c # s) =
     (if c = sep then [] # split_char sep s
      else case split_char sep s of [] \<Rightarrow> [[c]] | p # ps \<Rightarrow> (c # p) # ps)"

fun join_char :: "char \<Rightarrow> string list \<Rightarrow> string" where
  "join_char sep [] = []"
| "join_char sep [p] = p"
| "join_char sep (p # q # ps) = p @ sep # join_char sep (q # ps)"

lemma split_char_not_nil [simp]: "split_char sep s \<noteq> []"
  by (induction s) (auto split: list.split)

lemma join_split [simp]: "join_char sep (split_char sep s) = s"
proof (induction s)
  case (Cons c s)
  then show ?case by (cases "split_char sep s" rule: list.exhaust; cases "tl (split_char sep s)") auto
qed simp

lemma split_char_plain: "sep \<notin> set p \<Longrightarrow> split_char sep p = [p]"
  by (induction p) auto

lemma split_char_append: "sep \<notin> set p \<Longrightarrow> split_char sep (p @ sep # s) = p # split_char sep s"
  by (induction p) auto

lemma split_join: "ps \<noteq> [] \<Longrightarrow> \<forall>p\<in>set ps. sep \<notin> set p \<Longrightarrow> split_char sep (join_char sep ps) = ps"
  by (induction sep ps rule: join_char.induct) (simp_all add: split_char_plain split_char_append)

lemma split_char_parts: "p \<in> set (split_char sep s) \<Longrightarrow> sep \<notin> set p"
proof (induction s arbitrary: p)
  case (Cons c s)
  then show ?case
    by (cases "split_char sep s") (auto split: if_splits)
qed simp

fun has_prefix :: "string \<Rightarrow> string \<Rightarrow> bool" where
  "has_prefix s [] = True"
| "has_prefix [] (c # p) = False"
| "has_prefix (d # s) (c # p) = (d = c \<and> has_prefix s p)"

lemma has_prefix_iff: "has_prefix s p \<longleftrightarrow> (\<exists>t. s = p @ t)"
  by (induction s p rule: has_prefix.induct) auto

section \<open>Decimal numbers\<close>

definition digit_char :: "nat \<Rightarrow> char" where "digit_char n = char_of (48 + n)"

definition char_digit :: "char \<Rightarrow> nat option" where
  "char_digit c = (let n = of_char c in if 48 \<le> n \<and> n \<le> 57 then Some (n - 48) else None)"

fun dec :: "nat \<Rightarrow> string" where
  "dec n = (if n < 10 then [digit_char n] else dec (n div 10) @ [digit_char (n mod 10)])"

declare dec.simps [simp del]

fun undec :: "nat \<Rightarrow> string \<Rightarrow> nat option" where
  "undec acc [] = Some acc"
| "undec acc (c # s) = (case char_digit c of None \<Rightarrow> None | Some d \<Rightarrow> undec (10 * acc + d) s)"

text \<open>\<open>strconv.Itoa\<close> (the verb \<open>%d\<close>) and \<open>strconv.Atoi\<close>: an optional sign and at least one digit; a number
  that does not fit into 64 bits is an error.\<close>

definition itoa :: "int \<Rightarrow> string" where
  "itoa i = (if i < 0 then CHR ''-'' # dec (nat (- i)) else dec (nat i))"

definition atoi :: "string \<Rightarrow> int option" where
  "atoi s =
     (let (neg, ds) = (case s of c # r \<Rightarrow> if c = CHR ''-'' then (True, r) else if c = CHR ''+'' then (False, r) else (False, s)
                       | [] \<Rightarrow> (False, [])) in
      if ds = [] then None
      else case undec 0 ds of
        None \<Rightarrow> None
      | Some n \<Rightarrow>
          (if neg then (if n \<le> 2 ^ 63 then Some (- int n) else None)
           else (if n < 2 ^ 63 then Some (int n) else None)))"

lemma char_digit_char: "n < 10 \<Longrightarrow> char_digit (digit_char n) = Some n"
  by (simp add: char_digit_def digit_char_def)

lemma undec_append: "undec acc (s @ t) = Option.bind (undec acc s) (\<lambda>a. undec a t)"
  by (induction acc s rule: undec.induct) (auto split: option.split)

lemma undec_dec: "undec 0 (dec n) = Some n"
proof (induction n rule: dec.induct)
  case (1 n)
  then show ?case by (subst dec.simps) (simp add: undec_append char_digit_char)
qed

lemma dec_chars: "c \<in> set (dec n) \<Longrightarrow> char_digit c \<noteq> None"
proof (induction n rule: dec.induct)
  case (1 n)
  then show ?case
    by (subst (asm) (2) dec.simps) (auto simp: char_digit_char split: if_splits)
qed

lemma dec_not_nil [simp]: "dec n \<noteq> []"
  by (subst dec.simps) simp

lemma dec_no_sign: "c \<in> set (dec n) \<Longrightarrow> c \<noteq> CHR ''-'' \<and> c \<noteq> CHR ''+'' \<and> c \<noteq> CHR ''.''"
  using dec_chars[of c n] by (auto simp: char_digit_def)

lemma atoi_itoa: "- (2 ^ 63) \<le> i \<Longrightarrow> i < 2 ^ 63 \<Longrightarrow> atoi (itoa i) = Some i"
proof -
  assume i: "- (2 ^ 63) \<le> i" "i < 2 ^ 63"
  obtain c r where d: "dec (nat i) = c # r" by (cases "dec (nat i)") auto
  then have "c \<noteq> CHR ''-'' \<and> c \<noteq> CHR ''+''" using dec_no_sign[of c "nat i"] by simp
  then show ?thesis using i undec_dec[of "nat i"] d
    by (auto simp: atoi_def itoa_def undec_dec Let_def)
qed

lemma itoa_no_dot: "CHR ''.'' \<notin> set (itoa i)"
  using dec_no_sign[of "CHR ''.''"] by (auto simp: itoa_def)

end
