(* ===== verification/Csr.thy ===== *)
theory Csr
  imports Identity GoStrings "HOL-Library.Multiset"
begin

text \<open>
  Certificate requests: \<open>internal/cryptoutil/csr.go\<close>, \<open>csrcert.go\<close> and the rest of \<open>helper.go\<close>.

  What is modelled is the template of the request that is made from a description: the subject, the
  classification of the hosts and the extensions. Parsing of addresses, ASN.1 and X.509 are the
  parameter \<open>csr_lib\<close>. A map of object identifiers is the list of its entries in the order in which it
  is ranged over.
\<close>

section \<open>Descriptions\<close>

record Name =
  nm_C :: string
  nm_ST :: string
  nm_L :: string
  nm_O :: string
  nm_OU :: string
  nm_E :: string
  nm_SerialNumber :: string
  nm_OID :: "(string \<times> string) list"

record CAConfig =
  ca_PathLength :: int
  ca_PathLenZero :: bool
  ca_Expiry :: string
  ca_Backdate :: string

record KeyRequest =
  kr_A :: string
  kr_S :: int

record CSRInfo =
  csr_CN :: string
  csr_Names :: "Name list"
  csr_Hosts :: "string list"
  csr_CA :: "CAConfig option"
  csr_KeyRequest :: "KeyRequest option"
  csr_SerialNumber :: string

record Extension =
  ext_Id :: "int list"
  ext_Critical :: bool
  ext_Value :: bytes

record CertificateRequest =
  cr_CN :: string
  cr_Names :: "Name list"
  cr_Hosts :: "string list"
  cr_KeyRequest :: "KeyRequest option"
  cr_CA :: "CAConfig option"
  cr_SerialNumber :: string
  cr_Extensions :: "Extension list"
  cr_CRL :: string

record pkix_Name =
  px_CommonName :: string
  px_Country :: "string list"
  px_Province :: "string list"
  px_Locality :: "string list"
  px_Organization :: "string list"
  px_OrganizationalUnit :: "string list"
  px_SerialNumber :: string
  px_ExtraNames :: "(int list \<times> string) list"

record csr_template =
  tpl_Subject :: pkix_Name
  tpl_SignatureAlgorithm :: SignatureAlgorithm
  tpl_IPAddresses :: "bytes list"
  tpl_EmailAddresses :: "string list"
  tpl_URIs :: "string list"
  tpl_DNSNames :: "string list"
  tpl_ExtraExtensions :: "Extension list"

record csr_lib =
  cs_ParseIP :: "string \<Rightarrow> bytes option"
  cs_ParseAddress :: "string \<Rightarrow> string option ret"
  cs_ParseRequestURI :: "string \<Rightarrow> string option ret"
  cs_asn1_BasicConstraints :: "bool \<Rightarrow> int \<Rightarrow> bytes ret"
  cs_CreateCertificateRequest :: "csr_template \<Rightarrow> ecdsaSigner \<Rightarrow> bytes ret"
  cs_pem_Encode :: "pem_block \<Rightarrow> bytes"

section \<open>The subject\<close>

definition appendIf :: "string \<Rightarrow> string list \<Rightarrow> string list" where
  "appendIf s a = (if s \<noteq> [] then a @ [s] else a)"

definition OIDFromString :: "string \<Rightarrow> int list outcome" where
  "OIDFromString s =
     (let parts = split_char (CHR ''.'') s in
      if length parts < 1 then Err (Errorf ''invalid OID string: %s'' [AStr s])
      else map_outcome (\<lambda>p. case atoi p of
             None \<Rightarrow> Err (Errorf ''invalid OID part %s'' [AStr p])
           | Some i \<Rightarrow> Ok i) parts)"

definition oid_email :: "int list" where "oid_email = [1, 2, 840, 113549, 1, 9, 1]"

definition append_name :: "Name \<Rightarrow> pkix_Name \<Rightarrow> pkix_Name outcome" where
  "append_name n name =
     bind (map_outcome (\<lambda>(k, v). bind (OIDFromString k) (\<lambda>oid. Ok (oid, v))) (nm_OID n)) (\<lambda>oids.
     Ok (name
       \<lparr>px_Country := appendIf (nm_C n) (px_Country name),
        px_Province := appendIf (nm_ST n) (px_Province name),
        px_Locality := appendIf (nm_L n) (px_Locality name),
        px_Organization := appendIf (nm_O n) (px_Organization name),
        px_OrganizationalUnit := appendIf (nm_OU n) (px_OrganizationalUnit name),
        px_ExtraNames := px_ExtraNames name @ oids @ (if nm_E n \<noteq> [] then [(oid_email, nm_E n)] else [])\<rparr>))"

fun names_loop :: "Name list \<Rightarrow> pkix_Name \<Rightarrow> pkix_Name outcome" where
  "names_loop [] name = Ok name"
| "names_loop (n # ns) name = bind (append_name n name) (names_loop ns)"

definition zero_Name :: pkix_Name where
  "zero_Name = \<lparr>px_CommonName = [], px_Country = [], px_Province = [], px_Locality = [], px_Organization = [],
     px_OrganizationalUnit = [], px_SerialNumber = [], px_ExtraNames = []\<rparr>"

definition CertificateRequest_Name :: "CertificateRequest \<Rightarrow> pkix_Name outcome" where
  "CertificateRequest_Name cr =
     bind (names_loop (cr_Names cr) (zero_Name\<lparr>px_CommonName := cr_CN cr\<rparr>)) (\<lambda>name.
     Ok (name\<lparr>px_SerialNumber := cr_SerialNumber cr\<rparr>))"

section \<open>The template\<close>

definition add_host :: "csr_lib \<Rightarrow> csr_template \<Rightarrow> string \<Rightarrow> csr_template" where
  "add_host C tpl host =
     (case cs_ParseIP C host of
        Some ip \<Rightarrow> tpl\<lparr>tpl_IPAddresses := tpl_IPAddresses tpl @ [ip]\<rparr>
      | None \<Rightarrow>
        (case cs_ParseAddress C host of
           (Some email, None) \<Rightarrow> tpl\<lparr>tpl_EmailAddresses := tpl_EmailAddresses tpl @ [email]\<rparr>
         | _ \<Rightarrow>
           (case cs_ParseRequestURI C host of
              (Some uri, None) \<Rightarrow> tpl\<lparr>tpl_URIs := tpl_URIs tpl @ [uri]\<rparr>
            | _ \<Rightarrow> tpl\<lparr>tpl_DNSNames := tpl_DNSNames tpl @ [host]\<rparr>)))"

definition appendExtensionsToCSR :: "Extension list \<Rightarrow> csr_template \<Rightarrow> csr_template outcome" where
  "appendExtensionsToCSR extensions csr =
     Ok (foldl (\<lambda>t e. t\<lparr>tpl_ExtraExtensions := tpl_ExtraExtensions t @ [e]\<rparr>) csr extensions)"

definition oid_basicConstraints :: "int list" where "oid_basicConstraints = [2, 5, 29, 19]"

definition appendCAInfoToCSR :: "csr_lib \<Rightarrow> CAConfig \<Rightarrow> csr_template \<Rightarrow> csr_template outcome" where
  "appendCAInfoToCSR C reqConf csr =
     (let pathlen = (if ca_PathLength reqConf = 0 \<and> \<not> ca_PathLenZero reqConf then -1 else ca_PathLength reqConf) in
      bind (check (cs_asn1_BasicConstraints C True pathlen)) (\<lambda>val.
      Ok (csr\<lparr>tpl_ExtraExtensions := tpl_ExtraExtensions csr
            @ [\<lparr>ext_Id = oid_basicConstraints, ext_Critical = True, ext_Value = val\<rparr>]\<rparr>)))"

definition generateCSR :: "csr_lib \<Rightarrow> ecdsaSigner \<Rightarrow> CertificateRequest \<Rightarrow> bytes outcome" where
  "generateCSR C priv req =
     (let sigAlgo = SignerAlgo (es_pk priv) in
      if sigAlgo = UnknownSignatureAlgorithm then Err (ErrNew ''unknown signed algorithm'')
      else
      bind (CertificateRequest_Name req) (\<lambda>subj.
      let tpl = foldl (add_host C)
            \<lparr>tpl_Subject = subj, tpl_SignatureAlgorithm = sigAlgo, tpl_IPAddresses = [], tpl_EmailAddresses = [],
             tpl_URIs = [], tpl_DNSNames = [], tpl_ExtraExtensions = []\<rparr> (cr_Hosts req) in
      bind (case cr_CA req of None \<Rightarrow> Ok tpl | Some ca \<Rightarrow> on_err [] (appendCAInfoToCSR C ca tpl)) (\<lambda>tpl1.
      bind (on_err [] (appendExtensionsToCSR (cr_Extensions req) tpl1)) (\<lambda>tpl2.
      bind (on_err [] (check (cs_CreateCertificateRequest C tpl2 priv))) (\<lambda>csr.
      Ok (cs_pem_Encode C \<lparr>pem_Type = ''CERTIFICATE REQUEST'', pem_Bytes = csr, pem_Encrypted = False\<rparr>))))))"

text \<open>The serial number of the description is not copied.\<close>

definition newCertificateRequest :: "CSRInfo \<Rightarrow> CertificateRequest" where
  "newCertificateRequest req =
     \<lparr>cr_CN = csr_CN req, cr_Names = csr_Names req, cr_Hosts = csr_Hosts req, cr_KeyRequest = csr_KeyRequest req,
      cr_CA = csr_CA req, cr_SerialNumber = [], cr_Extensions = [], cr_CRL = []\<rparr>"

definition GenerateKey :: "ecdsa_lib \<Rightarrow> csr_lib \<Rightarrow> CSRInfo option \<Rightarrow> string \<Rightarrow> (bytes \<times> Key) outcome" where
  "GenerateKey L C req name =
     bind (reformat ''KeyGen: %v'' (KeyGen L P256)) (\<lambda>key.
     bind (reformat ''NewECDSASigner: %v'' (NewECDSASigner L key)) (\<lambda>signer.
     bind (deref req) (\<lambda>r.
     bind (reformat ''generate error: %v'' (generateCSR C signer (newCertificateRequest r))) (\<lambda>certPEM.
     Ok (certPEM, key)))))"

section \<open>Object identifiers\<close>

text \<open>An object identifier with components of 64 bits, negative ones included, is read from its dotted
  form as it is.\<close>

lemma oid_from_string:
  assumes "oid \<noteq> []" "\<forall>i\<in>set oid. - (2 ^ 63) \<le> i \<and> i < 2 ^ 63"
  shows "OIDFromString (join_char (CHR ''.'') (map itoa oid)) = Ok oid"
proof -
  let ?read = "\<lambda>p. case atoi p of None \<Rightarrow> Err (Errorf ''invalid OID part %s'' [AStr p]) | Some i \<Rightarrow> Ok i"
  have "split_char (CHR ''.'') (join_char (CHR ''.'') (map itoa oid)) = map itoa oid"
    using assms(1) by (intro split_join) (auto simp: itoa_no_dot)
  moreover have "map_outcome ?read (map itoa oid) = Ok oid"
    using assms(2) by (induction oid) (simp_all add: atoi_itoa)
  ultimately show ?thesis using assms(1) by (simp add: OIDFromString_def Let_def)
qed

section \<open>Hosts\<close>

datatype host_kind = HostIP bytes | HostEmail string | HostURI string | HostDNS string

definition kind_of :: "csr_lib \<Rightarrow> string \<Rightarrow> host_kind" where
  "kind_of C host =
     (case cs_ParseIP C host of
        Some ip \<Rightarrow> HostIP ip
      | None \<Rightarrow>
        (case cs_ParseAddress C host of
           (Some email, None) \<Rightarrow> HostEmail email
         | _ \<Rightarrow> (case cs_ParseRequestURI C host of (Some uri, None) \<Rightarrow> HostURI uri | _ \<Rightarrow> HostDNS host)))"

definition alt_names :: "csr_template \<Rightarrow> host_kind list" where
  "alt_names tpl = map HostIP (tpl_IPAddresses tpl) @ map HostEmail (tpl_EmailAddresses tpl)
     @ map HostURI (tpl_URIs tpl) @ map HostDNS (tpl_DNSNames tpl)"

lemma add_host_kind:
  "mset (alt_names (add_host C tpl h)) = add_mset (kind_of C h) (mset (alt_names tpl)) \<and>
   tpl_Subject (add_host C tpl h) = tpl_Subject tpl \<and>
   tpl_SignatureAlgorithm (add_host C tpl h) = tpl_SignatureAlgorithm tpl \<and>
   tpl_ExtraExtensions (add_host C tpl h) = tpl_ExtraExtensions tpl"
  by (auto simp: add_host_def kind_of_def alt_names_def split: option.splits prod.splits)

lemma add_hosts_kinds:
  "mset (alt_names (foldl (add_host C) tpl hosts)) = mset (alt_names tpl) + image_mset (kind_of C) (mset hosts) \<and>
   tpl_Subject (foldl (add_host C) tpl hosts) = tpl_Subject tpl \<and>
   tpl_SignatureAlgorithm (foldl (add_host C) tpl hosts) = tpl_SignatureAlgorithm tpl \<and>
   tpl_ExtraExtensions (foldl (add_host C) tpl hosts) = tpl_ExtraExtensions tpl"
  by (induction hosts arbitrary: tpl) (simp_all add: add_host_kind)

lemma alt_names_extensions [simp]: "alt_names (tpl\<lparr>tpl_ExtraExtensions := es\<rparr>) = alt_names tpl"
  by (simp add: alt_names_def)

lemma append_extensions:
  "foldl (\<lambda>t e. t\<lparr>tpl_ExtraExtensions := tpl_ExtraExtensions t @ [e]\<rparr>) tpl es
     = tpl\<lparr>tpl_ExtraExtensions := tpl_ExtraExtensions tpl @ es\<rparr>"
  by (induction es arbitrary: tpl) simp_all

lemma append_name_CN: "append_name n name = Ok name' \<Longrightarrow> px_CommonName name' = px_CommonName name"
  by (auto simp: append_name_def)

lemma names_loop_CN: "names_loop ns name = Ok name' \<Longrightarrow> px_CommonName name' = px_CommonName name"
  by (induction ns arbitrary: name) (auto dest: append_name_CN)

lemma request_name:
  "CertificateRequest_Name cr = Ok name \<Longrightarrow> px_CommonName name = cr_CN cr \<and> px_SerialNumber name = cr_SerialNumber cr"
  by (auto simp: CertificateRequest_Name_def dest: names_loop_CN)

lemma appendCAInfo_ok:
  "appendCAInfoToCSR C ca tpl = Ok tpl' \<Longrightarrow>
     \<exists>val. cs_asn1_BasicConstraints C True
         (if ca_PathLength ca = 0 \<and> \<not> ca_PathLenZero ca then -1 else ca_PathLength ca) = (val, None) \<and>
       tpl' = tpl\<lparr>tpl_ExtraExtensions := tpl_ExtraExtensions tpl @ [\<lparr>ext_Id = oid_basicConstraints, ext_Critical = True, ext_Value = val\<rparr>]\<rparr>"
  by (auto simp: appendCAInfoToCSR_def Let_def check_eq_Ok)

text \<open>What a template says of a description: a certificate request is made of it and nothing else.\<close>

definition describes :: "csr_lib \<Rightarrow> CSRInfo \<Rightarrow> csr_template \<Rightarrow> bool" where
  "describes C req tpl \<longleftrightarrow>
     px_CommonName (tpl_Subject tpl) = csr_CN req \<and> px_SerialNumber (tpl_Subject tpl) = [] \<and>
     mset (alt_names tpl) = image_mset (kind_of C) (mset (csr_Hosts req)) \<and>
     (case csr_CA req of
        None \<Rightarrow> tpl_ExtraExtensions tpl = []
      | Some ca \<Rightarrow> \<exists>val. tpl_ExtraExtensions tpl = [\<lparr>ext_Id = oid_basicConstraints, ext_Critical = True, ext_Value = val\<rparr>])"

lemma generateCSR_ok:
  assumes "generateCSR C signer (newCertificateRequest req) = Ok pem"
  shows "\<exists>tpl der. describes C req tpl \<and> tpl_SignatureAlgorithm tpl = SignerAlgo (es_pk signer) \<and>
           cs_CreateCertificateRequest C tpl signer = (der, None) \<and>
           pem = cs_pem_Encode C \<lparr>pem_Type = ''CERTIFICATE REQUEST'', pem_Bytes = der, pem_Encrypted = False\<rparr>"
proof -
  let ?t0 = "\<lambda>subj. foldl (add_host C)
            \<lparr>tpl_Subject = subj, tpl_SignatureAlgorithm = SignerAlgo (es_pk signer), tpl_IPAddresses = [],
             tpl_EmailAddresses = [], tpl_URIs = [], tpl_DNSNames = [], tpl_ExtraExtensions = []\<rparr> (csr_Hosts req)"
  from assms obtain subj tpl der where s: "CertificateRequest_Name (newCertificateRequest req) = Ok subj"
    "(case csr_CA req of None \<Rightarrow> Ok (?t0 subj) | Some ca \<Rightarrow> on_err [] (appendCAInfoToCSR C ca (?t0 subj))) = Ok tpl"
    "cs_CreateCertificateRequest C tpl signer = (der, None)"
    "pem = cs_pem_Encode C \<lparr>pem_Type = ''CERTIFICATE REQUEST'', pem_Bytes = der, pem_Encrypted = False\<rparr>"
    by (auto simp: generateCSR_def Let_def newCertificateRequest_def appendExtensionsToCSR_def check_eq_Ok split: if_splits)
  have n: "px_CommonName subj = csr_CN req" "px_SerialNumber subj = []"
    using request_name[OF s(1)] by (simp_all add: newCertificateRequest_def)
  have t: "mset (alt_names (?t0 subj)) = image_mset (kind_of C) (mset (csr_Hosts req))" "tpl_Subject (?t0 subj) = subj"
    "tpl_SignatureAlgorithm (?t0 subj) = SignerAlgo (es_pk signer)" "tpl_ExtraExtensions (?t0 subj) = []"
    by (simp_all add: add_hosts_kinds) (simp add: alt_names_def)
  have "describes C req tpl \<and> tpl_SignatureAlgorithm tpl = SignerAlgo (es_pk signer)"
  proof (cases "csr_CA req")
    case None
    then show ?thesis using s(2) n t by (simp add: describes_def)
  next
    case (Some ca)
    then obtain val where "tpl = ?t0 subj\<lparr>tpl_ExtraExtensions := tpl_ExtraExtensions (?t0 subj)
        @ [\<lparr>ext_Id = oid_basicConstraints, ext_Critical = True, ext_Value = val\<rparr>]\<rparr>"
      using s(2) appendCAInfo_ok[of C ca "?t0 subj" tpl] by auto
    then show ?thesis using Some n t by (simp add: describes_def)
  qed
  with s(3,4) show ?thesis by blast
qed

text \<open>C28. A request for a certificate describes what was asked for: its subject is the common name, its
  alternative names are the hosts, each once and as an address, a mail address, a URI or else a name,
  its algorithm is ECDSA with SHA-256, and it is signed with the new key on P-256 that is returned. The
  serial number of the description is lost.\<close>

theorem csr_describes_request:
  assumes "GenerateKey L C (Some req) name = Ok (pem, key)"
    and "\<And>priv. ec_GenerateKey L P256 = (priv, None) \<Longrightarrow> pub_Curve (priv_PublicKey priv) = P256"
    and "\<And>priv b p. ec_GenerateKey L P256 = (priv, None) \<Longrightarrow> ec_MarshalPKIX L (Some (priv_PublicKey priv)) = (b, None) \<Longrightarrow>
           ec_ParsePKIX L b = (p, None) \<Longrightarrow> p = ECDSA_PublicKey (priv_PublicKey priv)"
  shows "\<exists>priv signer tpl der. key = ecdsaPrivateKey (Some priv) \<and> ec_GenerateKey L P256 = (priv, None) \<and>
           es_prik signer = key \<and> es_pk signer = ECDSA_PublicKey (priv_PublicKey priv) \<and>
           describes C req tpl \<and> tpl_SignatureAlgorithm tpl = ECDSAWithSHA256 \<and>
           cs_CreateCertificateRequest C tpl signer = (der, None) \<and>
           pem = cs_pem_Encode C \<lparr>pem_Type = ''CERTIFICATE REQUEST'', pem_Bytes = der, pem_Encrypted = False\<rparr>"
proof -
  from assms(1) obtain priv signer where k: "ec_GenerateKey L P256 = (priv, None)" "key = ecdsaPrivateKey (Some priv)"
    "NewECDSASigner L key = Ok signer" "generateCSR C signer (newCertificateRequest req) = Ok pem"
    by (auto simp: GenerateKey_def KeyGen_def check_eq_Ok)
  then have s: "es_prik signer = key" "es_pk signer = ECDSA_PublicKey (priv_PublicKey priv)"
    using assms(3)[OF k(1)] by (auto simp: NewECDSASigner_def Key_PublicKey_def Key_Bytes_def check_eq_Ok split: if_splits)
  have "SignerAlgo (es_pk signer) = ECDSAWithSHA256"
    using s(2) assms(2)[OF k(1)] by (simp add: SignerAlgo_def)
  with generateCSR_ok[OF k(4)] k s show ?thesis by auto
qed

section \<open>Witness\<close>

definition csr_sample_lib :: csr_lib where
  "csr_sample_lib = \<lparr>cs_ParseIP = (\<lambda>h. if h = ''10.0.0.1'' then Some [10, 0, 0, 1] else None),
     cs_ParseAddress = (\<lambda>h. if h = ''a@b'' then (Some h, None) else (None, Some (ErrExt ''mail''))),
     cs_ParseRequestURI = (\<lambda>h. if hd h = CHR ''/'' then (Some h, None) else (None, Some (ErrExt ''uri''))),
     cs_asn1_BasicConstraints = (\<lambda>ca n. ([48], None)), cs_CreateCertificateRequest = (\<lambda>t s. ([7], None)),
     cs_pem_Encode = pem_Bytes\<rparr>"

definition csr_sample :: CSRInfo where
  "csr_sample = \<lparr>csr_CN = ''peer0'', csr_Names = [], csr_Hosts = [''10.0.0.1'', ''peer0.org1'', ''a@b'', ''/x''],
     csr_CA = None, csr_KeyRequest = None, csr_SerialNumber = ''17''\<rparr>"

lemma csr_made: "GenerateKey fixed_lib csr_sample_lib (Some csr_sample) ''peer0'' = Ok ([7], ecdsaPrivateKey (Some p256_priv))"
  by (simp add: GenerateKey_def KeyGen_def NewECDSASigner_def Key_Private_def Key_PublicKey_def Key_Bytes_def generateCSR_def
      fixed_lib_def p256_priv_def SignerAlgo_def CertificateRequest_Name_def newCertificateRequest_def csr_sample_def
      csr_sample_lib_def appendExtensionsToCSR_def)

lemma csr_describes_request_witness:
  "\<exists>tpl. describes csr_sample_lib csr_sample tpl \<and> tpl_SignatureAlgorithm tpl = ECDSAWithSHA256 \<and>
     image_mset (kind_of csr_sample_lib) (mset (csr_Hosts csr_sample))
       = {#HostIP [10, 0, 0, 1], HostDNS ''peer0.org1'', HostEmail ''a@b'', HostURI ''/x''#}"
proof -
  have g: "ec_GenerateKey fixed_lib P256 = (priv, None) \<Longrightarrow> priv = p256_priv" for priv
    by (simp add: fixed_lib_def)
  have "pub_Curve (priv_PublicKey priv) = P256" if "ec_GenerateKey fixed_lib P256 = (priv, None)" for priv
    using g[OF that] by (simp add: p256_priv_def)
  moreover have "p = ECDSA_PublicKey (priv_PublicKey priv)"
    if "ec_GenerateKey fixed_lib P256 = (priv, None)" "ec_ParsePKIX fixed_lib b = (p, None)" for priv b p
    using g[OF that(1)] that(2) by (simp add: fixed_lib_def)
  ultimately show ?thesis
    using csr_describes_request[OF csr_made] by (force simp: csr_sample_def csr_sample_lib_def kind_of_def)
qed

end
