(* ===== verification/CaClient.thy ===== *)
theory CaClient
  imports Csr "HOL-Library.List_Lexorder" "HOL-Library.Char_ord"
begin

text \<open>
  The client of the certificate authority: \<open>caclient/client.go\<close>, \<open>identity.go\<close>, \<open>param.go\<close>,
  \<open>keystore.go\<close> and \<open>error.go\<close>.

  The server is a parameter: its answer to a request may depend on the requests that were sent before,
  which every operation takes and returns with those it sent. JSON, URLs and \<open>mapstructure\<close> are
  parameters as well. A map of query parameters is the list of its entries in the order in which it is
  ranged over; the encoded query does not depend on it.
\<close>

section \<open>Requests and answers\<close>

datatype Auth = NoAuth | BasicAuth string string | AuthToken string

record request =
  rq_Method :: string
  rq_URL :: string
  rq_Path :: string
  rq_Query :: "(string \<times> string) list"
  rq_Auth :: Auth
  rq_Body :: bytes

record http_response =
  hr_StatusCode :: int
  hr_Body :: "bytes ret"

record 'j api_response =
  ap_Success :: bool
  ap_Result :: 'j
  ap_Errors :: "(int \<times> string) list"

record Attribute =
  at_Name :: string
  at_Value :: string
  at_ECert :: bool

record AttributeRequest =
  aq_Name :: string
  aq_Optional :: bool

record EnrollmentRequest =
  er_Name :: string
  er_Secret :: string
  er_CAName :: string
  er_Profile :: string
  er_Label :: string
  er_Type :: string
  er_AttrReq :: "AttributeRequest option list"
  er_CN :: string
  er_Hosts :: "string list"

record EnrollmentRequestNet =
  en_Request :: string
  en_Profile :: string
  en_Label :: string
  en_CAName :: string
  en_AttrReqs :: "AttributeRequest option list"

record EnrollmentResponseNet =
  ep_Cert :: string
  ep_CAChain :: string

record RegistrationRequest =
  rr_Name :: string
  rr_Type :: string
  rr_Secret :: string
  rr_MaxEnrollments :: int
  rr_Affiliation :: string
  rr_Attributes :: "Attribute list"
  rr_CAName :: string
  rr_Profile :: string

record GetIdentityResponse =
  gi_ID :: string
  gi_Type :: string
  gi_Affiliation :: string
  gi_Attributes :: "Attribute list"
  gi_MaxEnrollments :: int
  gi_CAName :: string

record ModifyIdentityRequest =
  mi_ID :: string
  mi_Type :: string
  mi_Affiliation :: string
  mi_Attributes :: "Attribute list"
  mi_MaxEnrollments :: int
  mi_Secret :: string
  mi_CAName :: string

record AffiliationRequest =
  af_Name :: string
  af_Force :: bool
  af_CAName :: string

datatype AffiliationInfo = AffiliationInfo string "AffiliationInfo list" "GetIdentityResponse list"

text \<open>\<open>ca_not_pointer\<close> is what \<open>mapstructure.Decode\<close> answers when it is given a struct by value.\<close>

record 'j ca_lib =
  ca_ecdsa :: ecdsa_lib
  ca_csr :: csr_lib
  ca_ParseURL :: "string \<Rightarrow> (string \<times> (string \<times> string) list) ret"
  ca_escape :: "string \<Rightarrow> string"
  ca_Do :: "request list \<Rightarrow> request \<Rightarrow> http_response ret"
  ca_json_Response :: "bytes \<Rightarrow> 'j api_response ret"
  ca_json_Enrollment :: "EnrollmentRequestNet \<Rightarrow> bytes ret"
  ca_json_Registration :: "RegistrationRequest \<Rightarrow> bytes ret"
  ca_json_Modify :: "ModifyIdentityRequest \<Rightarrow> bytes ret"
  ca_json_Affiliation :: "AffiliationRequest \<Rightarrow> bytes ret"
  ca_EnrollmentResponse :: "'j \<Rightarrow> EnrollmentResponseNet ret"
  ca_RegistrationResponse :: "'j \<Rightarrow> string ret"
  ca_GetIdentityResponse :: "'j \<Rightarrow> GetIdentityResponse ret"
  ca_AffiliationResponse :: "'j \<Rightarrow> (AffiliationInfo \<times> string) ret"
  ca_not_pointer :: "'j \<Rightarrow> gerror option"

section \<open>Operations that send requests\<close>

type_synonym 'a ca = "request list \<Rightarrow> 'a outcome \<times> request list"

definition ca_pure :: "'a outcome \<Rightarrow> 'a ca" where
  "ca_pure r h = (r, h)"

definition ca_bind :: "'a ca \<Rightarrow> ('a \<Rightarrow> 'b ca) \<Rightarrow> 'b ca" where
  "ca_bind m f h = (case m h of
     (Ok x, h1) \<Rightarrow> f x h1
   | (Err err, h1) \<Rightarrow> (Err err, h1)
   | (Panic p, h1) \<Rightarrow> (Panic p, h1))"

definition ca_reformat :: "string \<Rightarrow> 'a ca \<Rightarrow> 'a ca" where
  "ca_reformat format m h = (reformat format (fst (m h)), snd (m h))"

section \<open>client.go: sending\<close>

definition response_text :: "int \<times> string \<Rightarrow> string" where
  "response_text err = ''Response from server: Error Code: '' @ itoa (fst err) @ '' - '' @ snd err @ [CHR 0x0A]"

definition error_text :: "(int \<times> string) list \<Rightarrow> string" where
  "error_text errs = foldl (\<lambda>errorMsg err.
     if errorMsg = [] then response_text err else errorMsg @ CHR 0x0A # response_text err) [] errs"

text \<open>The text of the server is the format of the error. \<open>decode\<close> fills the response that the caller
  passed; a nil response is \<open>no_response\<close>.\<close>

definition read_response :: "'j ca_lib \<Rightarrow> http_response \<Rightarrow> ('j \<Rightarrow> 'r ret) \<Rightarrow> 'r outcome" where
  "read_response L resp decode =
     bind (check (hr_Body resp)) (\<lambda>bodyData.
     bind (if length bodyData > 0
           then bind (check (ca_json_Response L bodyData)) (\<lambda>res.
             if length (ap_Errors res) > 0 then Err (Errorf (error_text (ap_Errors res)) [])
             else Ok (Some res))
           else Ok None) (\<lambda>res.
     if hr_StatusCode resp \<ge> 400 then Err (Errorf ''invalid request code: %d'' [AInt (hr_StatusCode resp)])
     else case res of
       None \<Rightarrow> Err (Errorf ''nil response result'' [])
     | Some r \<Rightarrow> check (decode (ap_Result r))))"

definition no_response :: "'j \<Rightarrow> unit ret" where "no_response j = ((), None)"

definition send :: "'j ca_lib \<Rightarrow> request \<Rightarrow> ('j \<Rightarrow> 'r ret) \<Rightarrow> 'r ca" where
  "send L req decode h =
     (bind (reformat ''client request fail: %v'' (check (ca_Do L h req))) (\<lambda>resp. read_response L resp decode), h @ [req])"

record Client =
  cl_username :: string
  cl_password :: string
  cl_url :: string

record ca_Config =
  cfg_Username :: string
  cfg_Password :: string
  cfg_URL :: string

definition ca_New :: "ca_Config \<Rightarrow> Client" where
  "ca_New c = \<lparr>cl_username = cfg_Username c, cl_password = cfg_Password c, cl_url = cfg_URL c\<rparr>"

definition CheckConnect :: "Client \<Rightarrow> unit outcome" where
  "CheckConnect c = Ok ()"

definition client_newRequest :: "'j ca_lib \<Rightarrow> Client \<Rightarrow> string \<Rightarrow> string \<Rightarrow> bytes \<Rightarrow> request outcome" where
  "client_newRequest L c method uri body =
     (let urlStr = cl_url c @ ''/'' @ uri in
      bind (check (ca_ParseURL L urlStr)) (\<lambda>(path, query).
      Ok \<lparr>rq_Method = method, rq_URL = urlStr, rq_Path = path, rq_Query = query, rq_Auth = NoAuth, rq_Body = body\<rparr>))"

section \<open>identity.go\<close>

record identity =
  id_key :: Key
  id_cert :: bytes
  id_client :: Client

definition addQueryParm :: "request \<Rightarrow> string \<times> string \<Rightarrow> request" where
  "addQueryParm req p = req\<lparr>rq_Query := rq_Query req @ [p]\<rparr>"

definition ca_marshal :: "string \<Rightarrow> bytes ret \<Rightarrow> bytes outcome" where
  "ca_marshal what r = (case r of
     (buf, None) \<Rightarrow> Ok buf
   | (_, Some err) \<Rightarrow> Err (Errorf ''%v; Failed to marshal %s'' [AErr err, AStr what]))"

text \<open>\<open>url.Values.Encode\<close> sorts by key, and \<open>URL.RequestURI\<close> is the path and the query.\<close>

definition encode_query :: "('j ca_lib) \<Rightarrow> (string \<times> string) list \<Rightarrow> string" where
  "encode_query L query =
     join_char (CHR ''&'') (map (\<lambda>(k, v). ca_escape L k @ ''='' @ ca_escape L v) (sort_key fst query))"

definition RequestURI :: "'j ca_lib \<Rightarrow> request \<Rightarrow> string" where
  "RequestURI L req = rq_Path req @ (if rq_Query req = [] then [] else ''?'' @ encode_query L (rq_Query req))"

definition setAuthToken :: "'j ca_lib \<Rightarrow> identity \<Rightarrow> request \<Rightarrow> bytes \<Rightarrow> request outcome" where
  "setAuthToken L idn req body =
     bind (GenECDSAToken (ca_ecdsa L) (id_cert idn) (id_key idn) (rq_Method req) (RequestURI L req) body) (\<lambda>token.
     Ok (req\<lparr>rq_Auth := AuthToken token\<rparr>))"

text \<open>The requests of an identity differ in the method and in how the error of the token is reported.\<close>

definition identity_send ::
    "'j ca_lib \<Rightarrow> identity \<Rightarrow> string \<Rightarrow> string \<Rightarrow> bytes \<Rightarrow> (string \<times> string) list \<Rightarrow> (request outcome \<Rightarrow> request outcome)
       \<Rightarrow> ('j \<Rightarrow> 'r ret) \<Rightarrow> 'r ca" where
  "identity_send L idn method uri body queryParam token_err result =
     ca_bind (ca_pure (client_newRequest L (id_client idn) method uri body)) (\<lambda>req0.
     let req = foldl addQueryParm req0 queryParam in
     ca_bind (ca_pure (token_err (setAuthToken L idn req body))) (\<lambda>req1.
     send L req1 result))"

definition identity_post ::
    "'j ca_lib \<Rightarrow> identity \<Rightarrow> string \<Rightarrow> bytes \<Rightarrow> ('j \<Rightarrow> 'r ret) \<Rightarrow> (string \<times> string) list \<Rightarrow> 'r ca" where
  "identity_post L idn uri reqBody result queryParam =
     identity_send L idn ''POST'' uri reqBody queryParam (\<lambda>r. r) result"

definition identity_get :: "'j ca_lib \<Rightarrow> identity \<Rightarrow> string \<Rightarrow> string \<Rightarrow> ('j \<Rightarrow> 'r ret) \<Rightarrow> 'r ca" where
  "identity_get L idn uri caname result =
     identity_send L idn ''GET'' uri [] (if caname \<noteq> [] then [(''ca'', caname)] else []) (reformat ''addAuthToken: %v'') result"

definition identity_put ::
    "'j ca_lib \<Rightarrow> identity \<Rightarrow> string \<Rightarrow> (string \<times> string) list \<Rightarrow> bytes \<Rightarrow> ('j \<Rightarrow> 'r ret) \<Rightarrow> 'r ca" where
  "identity_put L idn uri queryParam reqBody result =
     identity_send L idn ''PUT'' uri reqBody queryParam (\<lambda>r. r) result"

definition identity_delete ::
    "'j ca_lib \<Rightarrow> identity \<Rightarrow> string \<Rightarrow> ('j \<Rightarrow> 'r ret) \<Rightarrow> (string \<times> string) list \<Rightarrow> 'r ca" where
  "identity_delete L idn uri result queryParam =
     identity_send L idn ''DELETE'' uri [] queryParam (\<lambda>r. r) result"

definition addIdentity :: "'j ca_lib \<Rightarrow> identity \<Rightarrow> RegistrationRequest \<Rightarrow> string ca" where
  "addIdentity L idn req =
     ca_bind (ca_pure (reformat ''Marshal: %v'' (ca_marshal ''RegistrationRequest'' (ca_json_Registration L req)))) (\<lambda>reqBody.
     ca_reformat ''Post Error: %v'' (identity_post L idn ''register'' reqBody (ca_RegistrationResponse L) []))"

definition getIdentity :: "'j ca_lib \<Rightarrow> identity \<Rightarrow> string \<Rightarrow> string \<Rightarrow> GetIdentityResponse ca" where
  "getIdentity L idn name caname = identity_get L idn (''identities/'' @ name) caname (ca_GetIdentityResponse L)"

definition by_value :: "'j ca_lib \<Rightarrow> 'j \<Rightarrow> unit ret" where
  "by_value L j = ((), ca_not_pointer L j)"

abbreviation FormatBool :: "bool \<Rightarrow> string" where "FormatBool b \<equiv> (if b then ''true'' else ''false'')"

text \<open>The map of a removal has an entry for \<open>ca\<close> when there is a name; \<open>order\<close> is the order in which it is
  ranged over.\<close>

definition removal_query :: "((string \<times> string) list \<Rightarrow> (string \<times> string) list) \<Rightarrow> bool \<Rightarrow> string \<Rightarrow> (string \<times> string) list" where
  "removal_query order force caname = order ((''force'', FormatBool force) # (if caname \<noteq> [] then [(''ca'', caname)] else []))"

definition delIdentity ::
    "'j ca_lib \<Rightarrow> ((string \<times> string) list \<Rightarrow> (string \<times> string) list) \<Rightarrow> identity \<Rightarrow> string \<Rightarrow> string \<Rightarrow> bool \<Rightarrow> unit ca" where
  "delIdentity L order idn name caname force =
     identity_delete L idn (''identities/'' @ name) (by_value L) (removal_query order force caname)"

definition updateIdentity :: "'j ca_lib \<Rightarrow> identity \<Rightarrow> ModifyIdentityRequest \<Rightarrow> unit ca" where
  "updateIdentity L idn req =
     ca_bind (ca_pure (ca_marshal ''modifyIdentity'' (ca_json_Modify L req))) (\<lambda>reqBody.
     identity_put L idn (''identities/'' @ mi_ID req) [(''force'', ''true'')] reqBody (by_value L))"

definition addAffiliation :: "'j ca_lib \<Rightarrow> identity \<Rightarrow> string \<Rightarrow> string \<Rightarrow> bool \<Rightarrow> unit ca" where
  "addAffiliation L idn name caname force =
     ca_bind (ca_pure (reformat ''Marshal: %v'' (ca_marshal ''addAffiliation''
       (ca_json_Affiliation L \<lparr>af_Name = name, af_Force = force, af_CAName = caname\<rparr>)))) (\<lambda>reqBody.
     identity_post L idn ''affiliations'' reqBody no_response [(''force'', FormatBool force)])"

definition delAffiliation ::
    "'j ca_lib \<Rightarrow> ((string \<times> string) list \<Rightarrow> (string \<times> string) list) \<Rightarrow> identity \<Rightarrow> AffiliationRequest \<Rightarrow> unit ca" where
  "delAffiliation L order idn req =
     ca_bind (identity_delete L idn (''affiliations/'' @ af_Name req) (ca_AffiliationResponse L)
       (removal_query order (af_Force req) (af_CAName req))) (\<lambda>_. ca_pure (Ok ()))"

definition getAffiliation :: "'j ca_lib \<Rightarrow> identity \<Rightarrow> string \<Rightarrow> string \<Rightarrow> (AffiliationInfo \<times> string) ca" where
  "getAffiliation L idn name caname = identity_get L idn (''affiliations/'' @ name) caname (ca_AffiliationResponse L)"

section \<open>client.go: enrolment and registration\<close>

record keystore =
  ks_rootCert :: bytes
  ks_signCert :: bytes
  ks_privKey :: Key

definition GetKeyCert :: "ecdsa_lib \<Rightarrow> x509_lib \<Rightarrow> keystore \<Rightarrow> bytes \<Rightarrow> bytes outcome" where
  "GetKeyCert L X ks pwd = GetPEMFromPrivateKey L X (ks_privKey ks) pwd"

definition newIdentity :: "Client \<Rightarrow> keystore \<Rightarrow> identity" where
  "newIdentity c key = \<lparr>id_key = ks_privKey key, id_cert = ks_signCert key, id_client = c\<rparr>"

text \<open>The bytes that \<open>base64.StdEncoding.DecodeString\<close> returns, beside an error too: those of the
  groups before the one that is refused.\<close>

fun b64_written :: "string \<Rightarrow> bytes" where
  "b64_written (c1 # c2 # c3 # c4 # rest) =
     (case (b64_val c1, b64_val c2, b64_val c3, b64_val c4) of
        (Some i1, Some i2, Some i3, Some i4) \<Rightarrow>
          word_of_nat (i1 * 4 + i2 div 16) # word_of_nat (i2 mod 16 * 16 + i3 div 4)
            # word_of_nat (i3 mod 4 * 64 + i4) # b64_written rest
      | (Some i1, Some i2, Some i3, None) \<Rightarrow>
          (if c4 = CHR ''='' then [word_of_nat (i1 * 4 + i2 div 16), word_of_nat (i2 mod 16 * 16 + i3 div 4)] else [])
      | (Some i1, Some i2, None, None) \<Rightarrow>
          (if c3 = CHR ''='' \<and> c4 = CHR ''='' then [word_of_nat (i1 * 4 + i2 div 16)] else [])
      | _ \<Rightarrow> [])"
| "b64_written _ = []"

definition DecodeString_bytes :: "string \<Rightarrow> bytes" where
  "DecodeString_bytes str = b64_written (filter (\<lambda>c. c \<noteq> CHR 0x0A \<and> c \<noteq> CHR 0x0D) str)"

definition string_of_bytes :: "bytes \<Rightarrow> string" where
  "string_of_bytes b = map (\<lambda>x. char_of (unat x)) b"

definition Enroll :: "'j ca_lib \<Rightarrow> Client \<Rightarrow> EnrollmentRequest \<Rightarrow> keystore ca" where
  "Enroll L c req =
     (let csr = \<lparr>csr_CN = (if er_CN req = [] then er_Name req else er_CN req), csr_Names = [], csr_Hosts = er_Hosts req,
                 csr_CA = None, csr_KeyRequest = None, csr_SerialNumber = []\<rparr> in
      ca_bind (ca_pure (GenerateKey (ca_ecdsa L) (ca_csr L) (Some csr) (er_Name req))) (\<lambda>(csrBytes, key).
      ca_bind (ca_pure (ca_marshal ''SignRequest'' (ca_json_Enrollment L
        \<lparr>en_Request = string_of_bytes csrBytes, en_Profile = er_Profile req, en_Label = er_Label req,
         en_CAName = er_CAName req, en_AttrReqs = er_AttrReq req\<rparr>))) (\<lambda>body.
      ca_bind (ca_pure (client_newRequest L c ''POST'' ''enroll'' body)) (\<lambda>request.
      ca_bind (send L (request\<lparr>rq_Auth := BasicAuth (er_Name req) (er_Secret req)\<rparr>) (ca_EnrollmentResponse L)) (\<lambda>respNet.
      ca_pure (Ok \<lparr>ks_rootCert = DecodeString_bytes (ep_CAChain respNet),
                   ks_signCert = DecodeString_bytes (ep_Cert respNet), ks_privKey = key\<rparr>))))))"

definition errHasRegistered :: "string \<Rightarrow> string \<Rightarrow> gerror" where
  "errHasRegistered role roleType = Errorf ''role %s with type %s has registered in CA server'' [AStr role, AStr roleType]"

definition ErrIsRegistered :: "gerror \<Rightarrow> bool" where
  "ErrIsRegistered err = (case err of
     Errorf fmt [AStr role, AStr roleType] \<Rightarrow> fmt = ''role %s with type %s has registered in CA server''
   | _ \<Rightarrow> False)"

definition login_identity :: "'j ca_lib \<Rightarrow> Client \<Rightarrow> keystore option \<Rightarrow> identity ca" where
  "login_identity L c authorized =
     (case authorized of
        Some key \<Rightarrow> ca_pure (Ok (newIdentity c key))
      | None \<Rightarrow>
        (if cl_username c = [] \<or> cl_password c = []
         then ca_pure (Err (Errorf ''name or secret of login CA server is missing'' []))
         else
         ca_bind (Enroll L c \<lparr>er_Name = cl_username c, er_Secret = cl_password c, er_CAName = [], er_Profile = [],
             er_Label = [], er_Type = [], er_AttrReq = [], er_CN = [], er_Hosts = []\<rparr>) (\<lambda>cakey.
         ca_pure (Ok (newIdentity c cakey)))))"

text \<open>Every error of the query for an affiliation is taken for a missing affiliation, and every error of
  the query for an identity for a missing identity.\<close>

definition ensure_affiliation :: "'j ca_lib \<Rightarrow> identity \<Rightarrow> RegistrationRequest \<Rightarrow> unit ca" where
  "ensure_affiliation L idn req h =
     (if rr_Affiliation req \<noteq> [] then
        (case getAffiliation L idn (rr_Affiliation req) (rr_CAName req) h of
           (Err _, h1) \<Rightarrow>
             ca_reformat ''fail to add affilications: %v''
               (addAffiliation L idn (rr_Affiliation req) (rr_CAName req) True) h1
         | (Ok _, h1) \<Rightarrow> (Ok (), h1)
         | (Panic p, h1) \<Rightarrow> (Panic p, h1))
      else (Ok (), h))"

definition register_identity :: "'j ca_lib \<Rightarrow> identity \<Rightarrow> RegistrationRequest \<Rightarrow> unit ca" where
  "register_identity L idn req h =
     (case getIdentity L idn (rr_Name req) (rr_CAName req) h of
        (Ok _, h1) \<Rightarrow> (Err (errHasRegistered (rr_Name req) (rr_Type req)), h1)
      | (Err _, h1) \<Rightarrow> ca_bind (addIdentity L idn req) (\<lambda>_. ca_pure (Ok ())) h1
      | (Panic p, h1) \<Rightarrow> (Panic p, h1))"

definition Register :: "'j ca_lib \<Rightarrow> Client \<Rightarrow> RegistrationRequest \<Rightarrow> keystore option \<Rightarrow> unit ca" where
  "Register L c req authorized =
     ca_bind (login_identity L c authorized) (\<lambda>idn.
     ca_bind (ensure_affiliation L idn req) (\<lambda>_.
     register_identity L idn req))"

section \<open>param.go\<close>

definition GetName :: "AttributeRequest \<Rightarrow> string" where "GetName ar = aq_Name ar"

definition IsRequired :: "AttributeRequest \<Rightarrow> bool" where "IsRequired ar \<longleftrightarrow> \<not> aq_Optional ar"

definition role_attribute :: "string \<Rightarrow> Attribute" where
  "role_attribute role = \<lparr>at_Name = ''role'', at_Value = role, at_ECert = True\<rparr>"

definition registrar_attribute :: "string \<Rightarrow> string \<Rightarrow> Attribute" where
  "registrar_attribute name val = \<lparr>at_Name = name, at_Value = val, at_ECert = False\<rparr>"

definition DefaultAdminAttr :: "Attribute list" where
  "DefaultAdminAttr =
     [registrar_attribute ''hf.Registrar.Roles'' ''client,orderer,peer,user'',
      registrar_attribute ''hf.Registrar.DelegateRoles'' ''client,orderer,peer,user'',
      registrar_attribute ''hf.Registrar.Attributes'' ''*'',
      registrar_attribute ''hf.GenCRL'' ''true'',
      registrar_attribute ''hf.Revoker'' ''true'',
      registrar_attribute ''hf.AffiliationMgr'' ''true'',
      role_attribute ''admin'']"

definition DefaultPeerAttr :: "Attribute list" where "DefaultPeerAttr = [role_attribute ''peer'']"

definition DefaultOrdererAttr :: "Attribute list" where "DefaultOrdererAttr = [role_attribute ''orderer'']"

definition DefaultClientAttr :: "Attribute list" where "DefaultClientAttr = [role_attribute ''client'']"

definition NewRegisterRequest :: "string \<Rightarrow> string \<Rightarrow> string \<Rightarrow> RegistrationRequest" where
  "NewRegisterRequest name secret idtype =
     \<lparr>rr_Name = name, rr_Type = idtype, rr_Secret = secret, rr_MaxEnrollments = 0, rr_Affiliation = [],
      rr_Attributes =
        (if idtype = ''peer'' then DefaultPeerAttr
         else if idtype = ''orderer'' then DefaultOrdererAttr
         else if idtype = ''client'' then DefaultClientAttr
         else if idtype = ''admin'' then DefaultAdminAttr
         else []),
      rr_CAName = [], rr_Profile = []\<rparr>"

definition SetAttribute :: "RegistrationRequest \<Rightarrow> string \<Rightarrow> string \<Rightarrow> RegistrationRequest" where
  "SetAttribute req attrKey attrValue =
     req\<lparr>rr_Attributes := rr_Attributes req @ [\<lparr>at_Name = attrKey, at_Value = attrValue, at_ECert = True\<rparr>]\<rparr>"

section \<open>What is sent\<close>

lemma ca_bind_eval:
  "m h = (Ok x, h1) \<Longrightarrow> ca_bind m f h = f x h1"
  "m h = (Err err, h1) \<Longrightarrow> ca_bind m f h = (Err err, h1)"
  "m h = (Panic p, h1) \<Longrightarrow> ca_bind m f h = (Panic p, h1)"
  by (simp_all add: ca_bind_def)

lemma ca_bind_ok [simp]: "ca_bind m f h = (Ok y, h2) \<longleftrightarrow> (\<exists>x h1. m h = (Ok x, h1) \<and> f x h1 = (Ok y, h2))"
  by (auto simp: ca_bind_def split: prod.splits outcome.splits)

lemma ca_pure_ok [simp]: "ca_pure r h = (r', h1) \<longleftrightarrow> r = r' \<and> h1 = h"
  by (auto simp: ca_pure_def)

lemma ca_bind_pure: "ca_bind (ca_pure r) f h = (case r of Ok x \<Rightarrow> f x h | Err err \<Rightarrow> (Err err, h) | Panic p \<Rightarrow> (Panic p, h))"
  by (simp add: ca_bind_def ca_pure_def split: outcome.split)

lemma snd_ca_reformat [simp]: "snd (ca_reformat fmt m h) = snd (m h)"
  by (simp add: ca_reformat_def)

lemma ca_reformat_ok [simp]: "ca_reformat fmt m h = (Ok x, h1) \<longleftrightarrow> m h = (Ok x, h1)"
  by (cases "m h") (auto simp: ca_reformat_def)

lemma addQueryParms:
  "foldl addQueryParm req ps = req\<lparr>rq_Query := rq_Query req @ ps\<rparr>"
  by (induction ps arbitrary: req) (simp_all add: addQueryParm_def)

text \<open>The query that is encoded does not depend on the order in which the map is ranged over.\<close>

lemma query_order_irrelevant:
  assumes "set ps = set ps'" "distinct (map fst ps)" "distinct (map fst ps')"
  shows "encode_query L ps = encode_query L ps'"
proof -
  have "inj_on fst (set ps')" "distinct (map fst (sort_key fst ps))" "distinct (map fst (sort_key fst ps'))"
    using assms(2,3) by (auto simp: distinct_map)
  then have "sort_key fst ps = sort_key fst ps'"
    using assms(1) by (intro map_sorted_distinct_set_unique[where f = fst]) simp_all
  then show ?thesis by (simp add: encode_query_def)
qed

text \<open>A request is authorised by an identity when it carries a token of its certificate and key for its
  own method, URI and body.\<close>

definition authorised :: "'j ca_lib \<Rightarrow> identity \<Rightarrow> request \<Rightarrow> bool" where
  "authorised L idn q \<longleftrightarrow> (\<exists>token. rq_Auth q = AuthToken token \<and>
     GenECDSAToken (ca_ecdsa L) (id_cert idn) (id_key idn) (rq_Method q) (RequestURI L q) (rq_Body q) = Ok token)"

definition request_of :: "identity \<Rightarrow> string \<Rightarrow> string \<Rightarrow> request \<Rightarrow> bool" where
  "request_of idn method uri q \<longleftrightarrow> rq_Method q = method \<and> rq_URL q = cl_url (id_client idn) @ ''/'' @ uri"

lemma identity_send_cases:
  assumes "\<And>r q. token_err r = Ok q \<Longrightarrow> r = Ok q" "identity_send L idn method uri body ps token_err result h = (r, h')"
  shows "h' = h \<and> \<not> is_ok r \<or>
         (\<exists>q. h' = h @ [q] \<and> authorised L idn q \<and> request_of idn method uri q \<and> rq_Body q = body \<and>
            r = fst (send L q result h))"
proof -
  let ?t = "\<lambda>req. token_err (setAuthToken L idn (foldl addQueryParm req ps) body)"
  show ?thesis
  proof (cases "client_newRequest L (id_client idn) method uri body")
    case (Ok req)
    show ?thesis
    proof (cases "?t req")
      case token: (Ok q)
      have "authorised L idn q \<and> request_of idn method uri q \<and> rq_Body q = body"
        using Ok assms(1)[OF token]
        by (auto simp: client_newRequest_def Let_def setAuthToken_def authorised_def request_of_def addQueryParms RequestURI_def)
      then show ?thesis using assms(2) Ok token
        by (auto simp: identity_send_def ca_bind_pure Let_def send_def)
    qed (use assms(2) Ok in \<open>auto simp: identity_send_def ca_bind_pure Let_def\<close>)
  qed (use assms(2) in \<open>auto simp: identity_send_def ca_bind_pure\<close>)
qed

lemmas identity_request_cases =
  identity_send_cases[of "\<lambda>r. r", simplified] identity_send_cases[of "reformat ''addAuthToken: %v''", simplified]

text \<open>The last request of a history \<open>h @ qs\<close>, if it was sent at all, is answered without an error.\<close>

definition served :: "'j ca_lib \<Rightarrow> ('j \<Rightarrow> 'r ret) \<Rightarrow> request list \<Rightarrow> request list \<Rightarrow> bool" where
  "served L decode h qs \<longleftrightarrow> list_ex (\<lambda>q. is_ok (fst (send L q decode h))) qs"

lemma served_simps [simp]:
  "\<not> served L decode h []" "served L decode h [q] \<longleftrightarrow> is_ok (fst (send L q decode h))"
  by (simp_all add: served_def)

text \<open>At most one request, which decides whether the operation succeeds.\<close>

definition one_request ::
    "'j ca_lib \<Rightarrow> identity \<Rightarrow> string \<Rightarrow> string \<Rightarrow> (bytes \<Rightarrow> bool) \<Rightarrow> ('j \<Rightarrow> 'r ret) \<Rightarrow> request list \<Rightarrow> request list
       \<Rightarrow> request list \<Rightarrow> 'a outcome \<Rightarrow> bool" where
  "one_request L idn method uri body decode h h' qs r \<longleftrightarrow> h' = h @ qs \<and> length qs \<le> 1 \<and>
     list_all (\<lambda>q. authorised L idn q \<and> request_of idn method uri q \<and> body (rq_Body q)) qs \<and>
     (is_ok r \<longleftrightarrow> served L decode h qs)"

lemma ca_marshal_ok [simp]: "ca_marshal what r = Ok buf \<longleftrightarrow> r = (buf, None)"
  by (auto simp: ca_marshal_def split: prod.split option.split)

lemma ca_pure_bind: "ca_bind (ca_pure r) f h = (r', h') \<longleftrightarrow>
    (\<exists>x. r = Ok x \<and> f x h = (r', h')) \<or> (\<exists>err. r = Err err \<and> r' = Err err \<and> h' = h) \<or> (\<exists>p. r = Panic p \<and> r' = Panic p \<and> h' = h)"
  by (auto simp: ca_bind_pure split: outcome.split)

lemma ca_reformat_cases: "ca_reformat fmt m h = (r', h') \<longleftrightarrow> (\<exists>r. m h = (r, h') \<and> r' = reformat fmt r)"
  by (cases "m h") (auto simp: ca_reformat_def)

lemma is_ok_reformat [simp]: "is_ok (reformat fmt r) = is_ok r"
  by (cases r) (simp_all add: reformat_def)

lemma one_requestI:
  assumes "h' = h \<and> \<not> is_ok r \<or> (\<exists>q. h' = h @ [q] \<and> authorised L idn q \<and> request_of idn method uri q \<and>
      body (rq_Body q) \<and> is_ok r = is_ok (fst (send L q decode h)))"
  shows "\<exists>qs. one_request L idn method uri body decode h h' qs r"
  using assms
proof
  assume "h' = h \<and> \<not> is_ok r"
  then show ?thesis by (intro exI[of _ "[]"]) (simp add: one_request_def)
next
  assume "\<exists>q. h' = h @ [q] \<and> authorised L idn q \<and> request_of idn method uri q \<and>
      body (rq_Body q) \<and> is_ok r = is_ok (fst (send L q decode h))"
  then obtain q where "h' = h @ [q] \<and> authorised L idn q \<and> request_of idn method uri q \<and>
      body (rq_Body q) \<and> is_ok r = is_ok (fst (send L q decode h))" by blast
  then show ?thesis by (intro exI[of _ "[q]"]) (simp add: one_request_def)
qed

lemma one_request_cases:
  "getIdentity L idn name caname h = (r1, h') \<Longrightarrow>
     \<exists>qs. one_request L idn ''GET'' (''identities/'' @ name) (\<lambda>b. b = []) (ca_GetIdentityResponse L) h h' qs r1"
  "getAffiliation L idn name caname h = (r2, h') \<Longrightarrow>
     \<exists>qs. one_request L idn ''GET'' (''affiliations/'' @ name) (\<lambda>b. b = []) (ca_AffiliationResponse L) h h' qs r2"
  "addIdentity L idn req h = (r3, h') \<Longrightarrow>
     \<exists>qs. one_request L idn ''POST'' ''register'' (\<lambda>b. ca_json_Registration L req = (b, None)) (ca_RegistrationResponse L) h h' qs r3"
  "addAffiliation L idn name caname force h = (r4, h') \<Longrightarrow>
     \<exists>qs. one_request L idn ''POST'' ''affiliations''
       (\<lambda>b. ca_json_Affiliation L \<lparr>af_Name = name, af_Force = force, af_CAName = caname\<rparr> = (b, None)) no_response h h' qs r4"
  unfolding getIdentity_def getAffiliation_def addIdentity_def addAffiliation_def identity_get_def
    identity_post_def ca_pure_bind ca_reformat_cases
  by (rule one_requestI; auto dest: identity_request_cases)+

lemma not_registered_error:
  "reformat fmt r = Err err \<Longrightarrow> \<not> ErrIsRegistered err"
  by (auto simp: reformat_def ErrIsRegistered_def split: outcome.splits)

lemma registered_error: "ErrIsRegistered (errHasRegistered role roleType)"
  by (simp add: ErrIsRegistered_def errHasRegistered_def)

lemma addIdentity_error: "addIdentity L idn req h = (Err err, h') \<Longrightarrow> \<not> ErrIsRegistered err"
  unfolding addIdentity_def ca_pure_bind ca_reformat_cases by (auto dest: not_registered_error not_registered_error[OF sym])

text \<open>The affiliation is asked for and then, if that fails, added.\<close>

abbreviation asks_affiliation :: "identity \<Rightarrow> RegistrationRequest \<Rightarrow> request \<Rightarrow> bool" where
  "asks_affiliation idn req \<equiv> request_of idn ''GET'' (''affiliations/'' @ rr_Affiliation req)"

definition adds_affiliation :: "'j ca_lib \<Rightarrow> identity \<Rightarrow> RegistrationRequest \<Rightarrow> request \<Rightarrow> bool" where
  "adds_affiliation L idn req q \<longleftrightarrow> request_of idn ''POST'' ''affiliations'' q \<and>
     ca_json_Affiliation L \<lparr>af_Name = rr_Affiliation req, af_Force = True, af_CAName = rr_CAName req\<rparr> = (rq_Body q, None)"

abbreviation asks_identity :: "identity \<Rightarrow> RegistrationRequest \<Rightarrow> request \<Rightarrow> bool" where
  "asks_identity idn req \<equiv> request_of idn ''GET'' (''identities/'' @ rr_Name req)"

definition registers :: "'j ca_lib \<Rightarrow> identity \<Rightarrow> RegistrationRequest \<Rightarrow> request \<Rightarrow> bool" where
  "registers L idn req q \<longleftrightarrow> request_of idn ''POST'' ''register'' q \<and> ca_json_Registration L req = (rq_Body q, None)"

lemma ensure_affiliation_cases:
  assumes "ensure_affiliation L idn req h = (r, h')"
  shows "\<exists>ask add. h' = h @ ask @ add \<and> length ask \<le> 1 \<and> length add \<le> 1 \<and> list_all (authorised L idn) (ask @ add) \<and>
           list_all (asks_affiliation idn req) ask \<and> list_all (adds_affiliation L idn req) add \<and>
           (rr_Affiliation req = [] \<longrightarrow> ask = [] \<and> add = []) \<and>
           (served L (ca_AffiliationResponse L) h ask \<longrightarrow> add = []) \<and>
           (is_ok r \<and> add \<noteq> [] \<longrightarrow> served L no_response (h @ ask) add) \<and>
           (\<forall>err. r = Err err \<longrightarrow> \<not> ErrIsRegistered err)"
proof (cases "rr_Affiliation req = []")
  case False
  obtain r1 h1 where g: "getAffiliation L idn (rr_Affiliation req) (rr_CAName req) h = (r1, h1)" by fastforce
  from one_request_cases(2)[OF g] obtain ask where q1: "h1 = h @ ask" "length ask \<le> 1" "list_all (authorised L idn) ask"
    "list_all (asks_affiliation idn req) ask" "is_ok r1 \<longleftrightarrow> served L (ca_AffiliationResponse L) h ask"
    by (auto simp: one_request_def list_all_iff)
  show ?thesis
  proof (cases r1)
    case (Err err)
    obtain r2 h2 where a: "addAffiliation L idn (rr_Affiliation req) (rr_CAName req) True h1 = (r2, h2)" by fastforce
    from one_request_cases(4)[OF a] obtain add where q2: "h2 = h1 @ add" "length add \<le> 1" "list_all (authorised L idn) add"
      "list_all (adds_affiliation L idn req) add" "is_ok r2 \<longleftrightarrow> served L no_response h1 add"
      by (auto simp: one_request_def list_all_iff adds_affiliation_def)
    have "h' = h @ ask @ add" "r = reformat ''fail to add affilications: %v'' r2"
      using assms False g Err a q1(1) q2(1) by (auto simp: ensure_affiliation_def ca_reformat_def)
    then show ?thesis using q1 q2 Err False not_registered_error[of "''fail to add affilications: %v''" r2]
      by (intro exI[of _ ask] exI[of _ add]) auto
  next
    case (Ok x)
    then show ?thesis using assms False g q1
      by (intro exI[of _ ask] exI[of _ "[]"]) (auto simp: ensure_affiliation_def)
  next
    case (Panic p)
    then show ?thesis using assms False g q1
      by (intro exI[of _ ask] exI[of _ "[]"]) (auto simp: ensure_affiliation_def)
  qed
qed (use assms in \<open>auto simp: ensure_affiliation_def intro!: exI[of _ "[]"]\<close>)

lemma register_identity_cases:
  assumes "register_identity L idn req h = (r, h')"
  shows "\<exists>ids regs. h' = h @ ids @ regs \<and> length ids \<le> 1 \<and> length regs \<le> 1 \<and> list_all (authorised L idn) (ids @ regs) \<and>
           list_all (asks_identity idn req) ids \<and> list_all (registers L idn req) regs \<and>
           (served L (ca_GetIdentityResponse L) h ids \<longrightarrow> regs = []) \<and>
           ((\<exists>err. r = Err err \<and> ErrIsRegistered err) \<longleftrightarrow> served L (ca_GetIdentityResponse L) h ids) \<and>
           (r = Ok () \<longleftrightarrow> served L (ca_RegistrationResponse L) (h @ ids) regs)"
proof -
  obtain r1 h1 where g: "getIdentity L idn (rr_Name req) (rr_CAName req) h = (r1, h1)" by fastforce
  from one_request_cases(1)[OF g] obtain ids where q1: "h1 = h @ ids" "length ids \<le> 1" "list_all (authorised L idn) ids"
    "list_all (asks_identity idn req) ids" "is_ok r1 \<longleftrightarrow> served L (ca_GetIdentityResponse L) h ids"
    by (auto simp: one_request_def list_all_iff)
  show ?thesis
  proof (cases r1)
    case (Ok x)
    then have "h' = h1" "r = Err (errHasRegistered (rr_Name req) (rr_Type req))"
      using assms g by (simp_all add: register_identity_def)
    then show ?thesis using g q1 Ok
      by (intro exI[of _ ids] exI[of _ "[]"]) (simp add: registered_error)
  next
    case (Err e1)
    obtain r2 h2 where a: "addIdentity L idn req h1 = (r2, h2)" by fastforce
    from one_request_cases(3)[OF a] obtain regs where q2: "h2 = h1 @ regs" "length regs \<le> 1" "list_all (authorised L idn) regs"
      "list_all (registers L idn req) regs" "is_ok r2 \<longleftrightarrow> served L (ca_RegistrationResponse L) h1 regs"
      by (auto simp: one_request_def list_all_iff registers_def)
    have "h' = h2 \<and> (case r2 of Ok _ \<Rightarrow> r = Ok () | Err e \<Rightarrow> r = Err e | Panic p \<Rightarrow> r = Panic p)"
      using assms g Err a by (auto simp: register_identity_def ca_bind_def ca_pure_def split: outcome.splits)
    then show ?thesis
      using Err g q1 q2 addIdentity_error[of L idn req h1 _ h2] a
      by (intro exI[of _ ids] exI[of _ regs]) (auto split: outcome.splits)
  next
    case (Panic p)
    then show ?thesis using assms g q1
      by (intro exI[of _ ids] exI[of _ "[]"]) (auto simp: register_identity_def)
  qed
qed

section \<open>Registration and enrolment\<close>

text \<open>C27. What registering an identity sends, after the login, is at most one query for its affiliation, at
  most one request to add the affiliation, at most one query for the identity and at most one
  registration, in this order and with exactly what was asked for; each carries a token of the
  registrar's certificate for that very request. An affiliation that the server has answered for is not
  added, and an identity that it has answered for is not registered: then, and only then, the error says
  that the identity is registered. Nothing is registered under an affiliation that could not be added.
  Success means that the registration was sent and answered without an error.\<close>

theorem register_protocol:
  assumes "login_identity L c authorized h = (Ok idn, h0)" "Register L c req authorized h = (r, h')"
  shows "\<exists>ask add ids regs. h' = h0 @ ask @ add @ ids @ regs \<and>
           length ask \<le> 1 \<and> length add \<le> 1 \<and> length ids \<le> 1 \<and> length regs \<le> 1 \<and>
           list_all (authorised L idn) (ask @ add @ ids @ regs) \<and>
           list_all (asks_affiliation idn req) ask \<and> list_all (adds_affiliation L idn req) add \<and>
           list_all (asks_identity idn req) ids \<and> list_all (registers L idn req) regs \<and>
           (rr_Affiliation req = [] \<longrightarrow> ask = [] \<and> add = []) \<and>
           (served L (ca_AffiliationResponse L) h0 ask \<longrightarrow> add = []) \<and>
           (add \<noteq> [] \<and> \<not> served L no_response (h0 @ ask) add \<longrightarrow> ids = [] \<and> regs = []) \<and>
           (served L (ca_GetIdentityResponse L) (h0 @ ask @ add) ids \<longrightarrow> regs = []) \<and>
           ((\<exists>err. r = Err err \<and> ErrIsRegistered err) \<longleftrightarrow> served L (ca_GetIdentityResponse L) (h0 @ ask @ add) ids) \<and>
           (r = Ok () \<longleftrightarrow> served L (ca_RegistrationResponse L) (h0 @ ask @ add @ ids) regs)"
proof -
  obtain r1 h1 where e: "ensure_affiliation L idn req h0 = (r1, h1)" by fastforce
  from ensure_affiliation_cases[OF e] obtain ask add where a: "h1 = h0 @ ask @ add" "length ask \<le> 1" "length add \<le> 1"
    "list_all (authorised L idn) (ask @ add)" "list_all (asks_affiliation idn req) ask" "list_all (adds_affiliation L idn req) add"
    "rr_Affiliation req = [] \<longrightarrow> ask = [] \<and> add = []" "served L (ca_AffiliationResponse L) h0 ask \<longrightarrow> add = []"
    "is_ok r1 \<and> add \<noteq> [] \<longrightarrow> served L no_response (h0 @ ask) add" "\<forall>err. r1 = Err err \<longrightarrow> \<not> ErrIsRegistered err"
    by blast
  have R: "Register L c req authorized h = ca_bind (ensure_affiliation L idn req) (\<lambda>_. register_identity L idn req) h0"
    using assms(1) by (simp add: Register_def ca_bind_eval(1)[of "login_identity L c authorized" h])
  show ?thesis
  proof (cases r1)
    case (Ok x)
    then have "register_identity L idn req h1 = (r, h')" using assms(2) R e by (simp add: ca_bind_eval(1))
    from register_identity_cases[OF this] obtain ids regs where i: "h' = h1 @ ids @ regs" "length ids \<le> 1" "length regs \<le> 1"
      "list_all (authorised L idn) (ids @ regs)" "list_all (asks_identity idn req) ids" "list_all (registers L idn req) regs"
      "served L (ca_GetIdentityResponse L) h1 ids \<longrightarrow> regs = []"
      "(\<exists>err. r = Err err \<and> ErrIsRegistered err) \<longleftrightarrow> served L (ca_GetIdentityResponse L) h1 ids"
      "r = Ok () \<longleftrightarrow> served L (ca_RegistrationResponse L) (h1 @ ids) regs"
      by blast
    note j = i[unfolded a(1) append_assoc]
    have l: "list_all (authorised L idn) (ask @ add @ ids @ regs)" using a(4) j(4) by simp
    have k: "add \<noteq> [] \<and> \<not> served L no_response (h0 @ ask) add \<longrightarrow> ids = [] \<and> regs = []" using a(9) Ok by auto
    show ?thesis
      by (intro exI[of _ ask] exI[of _ add] exI[of _ ids] exI[of _ regs] conjI) (fact a j l k)+
  next
    case (Err err)
    then have "r = Err err \<and> h' = h1" using assms(2) R e by (simp add: ca_bind_eval(2))
    then show ?thesis using a Err
      by (intro exI[of _ ask] exI[of _ add] exI[of _ "[]"]) simp
  next
    case (Panic p)
    then have "r = Panic p \<and> h' = h1" using assms(2) R e by (simp add: ca_bind_eval(3))
    then show ?thesis using a
      by (intro exI[of _ ask] exI[of _ add] exI[of _ "[]"]) simp
  qed
qed

text \<open>The answers that are no error: a status below 400, no errors in the body and a result that the
  caller can take.\<close>

lemma read_response_ok:
  "read_response L resp decode = Ok x \<Longrightarrow>
     \<exists>body res. hr_Body resp = (body, None) \<and> ca_json_Response L body = (res, None) \<and> ap_Errors res = [] \<and>
       hr_StatusCode resp < 400 \<and> decode (ap_Result res) = (x, None)"
  by (auto simp: read_response_def check_eq_Ok split: if_splits option.splits)

lemma send_ok:
  "send L q decode h = (Ok x, h') \<Longrightarrow> h' = h @ [q] \<and>
     (\<exists>resp body res. ca_Do L h q = (resp, None) \<and> hr_Body resp = (body, None) \<and> ca_json_Response L body = (res, None) \<and>
        ap_Errors res = [] \<and> hr_StatusCode resp < 400 \<and> decode (ap_Result res) = (x, None))"
  by (auto simp: send_def check_eq_Ok dest: read_response_ok)

text \<open>Removing or changing an identity reports a failure whatever the server did, since the result is
  passed by value; the request has been sent nevertheless.\<close>

lemma by_value_never_succeeds:
  assumes "\<And>j. ca_not_pointer L j \<noteq> None"
  shows "\<not> is_ok (fst (delIdentity L order idn name caname force h)) \<and> \<not> is_ok (fst (updateIdentity L idn m h))"
proof -
  have "identity_send L idn meth uri body ps (\<lambda>r. r) (by_value L) h \<noteq> (Ok x, h')" for meth uri body ps h x h'
    by (auto simp: identity_send_def Let_def by_value_def assms[unfolded not_None_eq] dest!: send_ok)
      (metis assms)
  then have "\<not> is_ok (fst (identity_send L idn meth uri body ps (\<lambda>r. r) (by_value L) h))" for meth uri body ps h
    by (metis is_ok_iff prod.collapse)
  then show ?thesis
    by (auto simp: delIdentity_def updateIdentity_def identity_delete_def identity_put_def ca_bind_pure split: outcome.split)
qed

text \<open>A certificate in the answer that is not base 64 is no error either: the groups before the fault are
  kept.\<close>

lemma base64_prefix_kept: "b64_groups s = Ok bs \<Longrightarrow> b64_written s = bs"
  by (induction s arbitrary: bs rule: b64_groups.induct) (auto split: option.splits if_splits)

text \<open>Enrolling sends one request, to the enrolment of the server and with the name and the secret, for
  a certificate whose subject is the common name that was asked for, or else the name of the identity.
  The key that is returned is the new key this request was signed with, the certificates are those of
  the answer, and a token made with the result is signed by that key.\<close>

lemma enrolment_keeps_the_key:
  assumes "Enroll L c req h = (Ok ks, h')"
  shows "\<exists>q csr pem priv signer tpl der. h' = h @ [q] \<and> rq_Method q = ''POST'' \<and> rq_URL q = cl_url c @ ''/enroll'' \<and>
           rq_Auth q = BasicAuth (er_Name req) (er_Secret req) \<and>
           csr_CN csr = (if er_CN req = [] then er_Name req else er_CN req) \<and> csr_Hosts csr = er_Hosts req \<and>
           describes (ca_csr L) csr tpl \<and> cs_CreateCertificateRequest (ca_csr L) tpl signer = (der, None) \<and>
           ks_privKey ks = ecdsaPrivateKey (Some priv) \<and> es_prik signer = ks_privKey ks \<and>
           pem = cs_pem_Encode (ca_csr L) \<lparr>pem_Type = ''CERTIFICATE REQUEST'', pem_Bytes = der, pem_Encrypted = False\<rparr> \<and>
           ca_json_Enrollment L \<lparr>en_Request = string_of_bytes pem, en_Profile = er_Profile req, en_Label = er_Label req,
             en_CAName = er_CAName req, en_AttrReqs = er_AttrReq req\<rparr> = (rq_Body q, None) \<and>
           (\<exists>resp body res answer. ca_Do L h q = (resp, None) \<and> hr_StatusCode resp < 400 \<and> hr_Body resp = (body, None) \<and>
              ca_json_Response L body = (res, None) \<and> ap_Errors res = [] \<and>
              ca_EnrollmentResponse L (ap_Result res) = (answer, None) \<and>
              ks_signCert ks = DecodeString_bytes (ep_Cert answer) \<and> ks_rootCert ks = DecodeString_bytes (ep_CAChain answer)) \<and>
           NewECDSASigner (ca_ecdsa L) (id_key (newIdentity c ks)) = Ok signer"
proof -
  let ?csr = "\<lparr>csr_CN = (if er_CN req = [] then er_Name req else er_CN req), csr_Names = [], csr_Hosts = er_Hosts req,
               csr_CA = None, csr_KeyRequest = None, csr_SerialNumber = []\<rparr>"
  from assms obtain pem key body q0 answer where k: "GenerateKey (ca_ecdsa L) (ca_csr L) (Some ?csr) (er_Name req) = Ok (pem, key)"
    and j: "ca_json_Enrollment L \<lparr>en_Request = string_of_bytes pem, en_Profile = er_Profile req, en_Label = er_Label req,
         en_CAName = er_CAName req, en_AttrReqs = er_AttrReq req\<rparr> = (body, None)"
    and n: "client_newRequest L c ''POST'' ''enroll'' body = Ok q0"
    and s: "send L (q0\<lparr>rq_Auth := BasicAuth (er_Name req) (er_Secret req)\<rparr>) (ca_EnrollmentResponse L) h = (Ok answer, h')"
    and ks: "ks = \<lparr>ks_rootCert = DecodeString_bytes (ep_CAChain answer), ks_signCert = DecodeString_bytes (ep_Cert answer), ks_privKey = key\<rparr>"
    by (auto simp: Enroll_def Let_def)
  let ?q = "q0\<lparr>rq_Auth := BasicAuth (er_Name req) (er_Secret req)\<rparr>"
  from k obtain priv signer where g: "key = ecdsaPrivateKey (Some priv)" "NewECDSASigner (ca_ecdsa L) key = Ok signer"
    "generateCSR (ca_csr L) signer (newCertificateRequest ?csr) = Ok pem"
    by (auto simp: GenerateKey_def KeyGen_def)
  then have e: "es_prik signer = key" by (auto simp: NewECDSASigner_def split: if_splits)
  from generateCSR_ok[OF g(3)] obtain tpl der where t: "describes (ca_csr L) ?csr tpl"
    "cs_CreateCertificateRequest (ca_csr L) tpl signer = (der, None)"
    "pem = cs_pem_Encode (ca_csr L) \<lparr>pem_Type = ''CERTIFICATE REQUEST'', pem_Bytes = der, pem_Encrypted = False\<rparr>" by blast
  have q: "rq_Method ?q = ''POST''" "rq_URL ?q = cl_url c @ ''/enroll''" "rq_Body ?q = body"
    "rq_Auth ?q = BasicAuth (er_Name req) (er_Secret req)"
    using n by (auto simp: client_newRequest_def Let_def)
  show ?thesis
    apply (rule exI[of _ ?q], rule exI[of _ ?csr], rule exI[of _ pem], rule exI[of _ priv], rule exI[of _ signer],
        rule exI[of _ tpl], rule exI[of _ der])
    using send_ok[OF s] g e t q j by (auto simp: ks newIdentity_def)
qed

text \<open>A request for a role has the attribute of that role in its certificate.\<close>

lemma default_role_attribute:
  "role \<in> {''peer'', ''orderer'', ''client'', ''admin''} \<longleftrightarrow>
     role_attribute role \<in> set (rr_Attributes (NewRegisterRequest name secret role))"
  by (auto simp: NewRegisterRequest_def DefaultPeerAttr_def DefaultOrdererAttr_def DefaultClientAttr_def
      DefaultAdminAttr_def role_attribute_def registrar_attribute_def)

section \<open>Witnesses\<close>

text \<open>A server that knows no identity and accepts every registration and enrolment.\<close>

definition ca_sample :: "unit ca_lib" where
  "ca_sample = \<lparr>ca_ecdsa = fixed_lib, ca_csr = csr_sample_lib, ca_ParseURL = (\<lambda>u. ((u, []), None)), ca_escape = (\<lambda>s. s),
     ca_Do = (\<lambda>h q. (\<lparr>hr_StatusCode = (if rq_Method q = ''GET'' then 404 else 200), hr_Body = ([1], None)\<rparr>, None)),
     ca_json_Response = (\<lambda>b. (\<lparr>ap_Success = True, ap_Result = (), ap_Errors = []\<rparr>, None)),
     ca_json_Enrollment = (\<lambda>_. ([9], None)), ca_json_Registration = (\<lambda>_. ([8], None)), ca_json_Modify = (\<lambda>_. ([7], None)),
     ca_json_Affiliation = (\<lambda>_. ([6], None)),
     ca_EnrollmentResponse = (\<lambda>_. (\<lparr>ep_Cert = ''AQI='', ep_CAChain = ''AQI=''\<rparr>, None)),
     ca_RegistrationResponse = (\<lambda>_. (''secret'', None)),
     ca_GetIdentityResponse = (\<lambda>_. (\<lparr>gi_ID = [], gi_Type = [], gi_Affiliation = [], gi_Attributes = [], gi_MaxEnrollments = 0,
        gi_CAName = []\<rparr>, None)),
     ca_AffiliationResponse = (\<lambda>_. ((AffiliationInfo [] [] [], []), None)),
     ca_not_pointer = (\<lambda>_. Some (ErrExt ''result must be a pointer''))\<rparr>"

definition ca_admin :: Client where
  "ca_admin = \<lparr>cl_username = ''admin'', cl_password = ''pw'', cl_url = ''http://ca''\<rparr>"

definition ca_registrar :: keystore where
  "ca_registrar = \<lparr>ks_rootCert = [1], ks_signCert = [1, 2], ks_privKey = ecdsaPrivateKey (Some p256_priv)\<rparr>"

lemma ca_token: "GenECDSAToken fixed_lib cert (ecdsaPrivateKey (Some p256_priv)) m u b = Ok (B64Encode cert @ ''.'' @ B64Encode (asn1_signature 3 1))"
proof -
  have "NewECDSASigner fixed_lib (ecdsaPrivateKey (Some p256_priv))
      = Ok \<lparr>es_prik = ecdsaPrivateKey (Some p256_priv), es_pk = ECDSA_PublicKey (priv_PublicKey p256_priv)\<rparr>"
    by (simp add: NewECDSASigner_def Key_Private_def Key_PublicKey_def Key_Bytes_def fixed_lib_def)
  then show ?thesis by (simp add: GenECDSAToken_def genecdsaToken_def fixed_sign)
qed

lemma ca_sample_fields:
  "ca_ecdsa ca_sample = fixed_lib" "ca_ParseURL ca_sample u = ((u, []), None)"
  "ca_Do ca_sample h q = (\<lparr>hr_StatusCode = (if rq_Method q = ''GET'' then 404 else 200), hr_Body = ([1], None)\<rparr>, None)"
  "ca_json_Response ca_sample b = (\<lparr>ap_Success = True, ap_Result = (), ap_Errors = []\<rparr>, None)"
  "ca_csr ca_sample = csr_sample_lib" "ca_json_Enrollment ca_sample e = ([9], None)"
  "ca_EnrollmentResponse ca_sample x = (\<lparr>ep_Cert = ''AQI='', ep_CAChain = ''AQI=''\<rparr>, None)"
  "ca_json_Registration ca_sample r = ([8], None)" "ca_RegistrationResponse ca_sample x = (''secret'', None)"
  by (simp_all add: ca_sample_def)

lemma ca_sends:
  "identity_send ca_sample (newIdentity ca_admin ca_registrar) method uri body [] token_err decode h
     = (let q = \<lparr>rq_Method = method, rq_URL = ''http://ca/'' @ uri, rq_Path = ''http://ca/'' @ uri, rq_Query = [],
          rq_Auth = AuthToken (B64Encode [1, 2] @ ''.'' @ B64Encode (asn1_signature 3 1)), rq_Body = body\<rparr> in
        case token_err (Ok q) of
          Ok q' \<Rightarrow> send ca_sample q' decode h | Err err \<Rightarrow> (Err err, h) | Panic p \<Rightarrow> (Panic p, h))"
  by (simp add: identity_send_def client_newRequest_def newIdentity_def ca_admin_def ca_registrar_def setAuthToken_def
      ca_bind_pure ca_sample_fields ca_token Let_def split: outcome.split)

lemma ca_registers: "\<exists>h'. Register ca_sample ca_admin (NewRegisterRequest ''bob'' ''pw'' ''peer'') (Some ca_registrar) [] = (Ok (), h')"
proof -
  let ?idn = "newIdentity ca_admin ca_registrar" and ?req = "NewRegisterRequest ''bob'' ''pw'' ''peer''"
  have a: "ensure_affiliation ca_sample ?idn ?req [] = (Ok (), [])"
    by (simp add: ensure_affiliation_def NewRegisterRequest_def)
  obtain err h1 where g: "getIdentity ca_sample ?idn (rr_Name ?req) (rr_CAName ?req) [] = (Err err, h1)"
    by (simp add: getIdentity_def identity_get_def NewRegisterRequest_def ca_sends reformat_def send_def read_response_def
        ca_sample_fields Let_def)
  have "\<exists>s h2. addIdentity ca_sample ?idn ?req h1 = (Ok s, h2)"
    by (simp add: addIdentity_def identity_post_def ca_sends send_def read_response_def ca_sample_fields Let_def)
  then obtain s h2 where r: "addIdentity ca_sample ?idn ?req h1 = (Ok s, h2)" by blast
  show ?thesis
    using a g r by (simp add: Register_def login_identity_def register_identity_def)
qed

lemma register_protocol_witness:
  "\<exists>h'. Register ca_sample ca_admin (NewRegisterRequest ''bob'' ''pw'' ''peer'') (Some ca_registrar) [] = (Ok (), h') \<and>
     h' \<noteq> [] \<and> list_all (authorised ca_sample (newIdentity ca_admin ca_registrar)) h'"
proof -
  have l: "login_identity ca_sample ca_admin (Some ca_registrar) [] = (Ok (newIdentity ca_admin ca_registrar), [])"
    by (simp add: login_identity_def)
  obtain h' where h: "Register ca_sample ca_admin (NewRegisterRequest ''bob'' ''pw'' ''peer'') (Some ca_registrar) [] = (Ok (), h')"
    using ca_registers by blast
  show ?thesis using register_protocol[OF l h] h by auto
qed

definition enrol_sample :: EnrollmentRequest where
  "enrol_sample = \<lparr>er_Name = ''bob'', er_Secret = ''pw'', er_CAName = [], er_Profile = [], er_Label = [], er_Type = [],
     er_AttrReq = [], er_CN = [], er_Hosts = csr_Hosts csr_sample\<rparr>"

lemma ca_enrols: "\<exists>ks h'. Enroll ca_sample ca_admin enrol_sample [] = (Ok ks, h')"
proof -
  have k: "GenerateKey fixed_lib csr_sample_lib (Some (csr_sample\<lparr>csr_CN := ''bob'', csr_SerialNumber := []\<rparr>)) ''bob''
      = Ok ([7], ecdsaPrivateKey (Some p256_priv))"
    by (simp add: GenerateKey_def KeyGen_def NewECDSASigner_def Key_Private_def Key_PublicKey_def Key_Bytes_def generateCSR_def
      fixed_lib_def p256_priv_def SignerAlgo_def CertificateRequest_Name_def newCertificateRequest_def csr_sample_def
      csr_sample_lib_def appendExtensionsToCSR_def)
  then show ?thesis
    by (simp add: Enroll_def enrol_sample_def csr_sample_def ca_bind_pure ca_sample_fields client_newRequest_def
        ca_marshal_def Let_def send_def read_response_def)
qed

lemma enrolment_keeps_the_key_witness:
  "\<exists>(q :: request) (csr :: CSRInfo) tpl. rq_URL q = ''http://ca/enroll'' \<and> csr_CN csr = ''bob'' \<and> rq_Auth q = BasicAuth ''bob'' ''pw'' \<and>
     describes csr_sample_lib csr tpl"
proof -
  obtain ks h' where h: "Enroll ca_sample ca_admin enrol_sample [] = (Ok ks, h')"
    using ca_enrols by blast
  obtain q :: request and csr :: CSRInfo and tpl where "rq_URL q = cl_url ca_admin @ ''/enroll''" "rq_Auth q = BasicAuth (er_Name enrol_sample) (er_Secret enrol_sample)"
    "csr_CN csr = (if er_CN enrol_sample = [] then er_Name enrol_sample else er_CN enrol_sample)"
    "describes (ca_csr ca_sample) csr tpl"
    using enrolment_keeps_the_key[OF h] by (elim exE conjE) (rule that; assumption)
  then show ?thesis by (auto simp: enrol_sample_def ca_admin_def ca_sample_def)
qed

end
