(* ===== verification/Metadata.thy ===== *)
theory Metadata
  imports Prelude "HOL-Library.Sublist"
begin

unbundle bit_operations_syntax

text \<open>
  \<open>internal/ccplatform/golang/util.go\<close> and the parts of \<open>platform.go\<close> that decide what may go into
  a Go chaincode package: the metadata files and their CouchDB index definitions, the code
  package, and the source paths.

  \<open>json.Unmarshal\<close> into a \<open>map[string]interface{}\<close> is the parameter \<open>parse\<close>; an object is the list
  of its entries in the order in which Go's \<open>range\<close> visits them, which is any order. A gzipped
  tar archive is a parameter too: opening it, and the headers it yields before its end or an error.
\<close>

section \<open>Text\<close>

text \<open>\<open>[.]json\<close> after \<open>.*\<close>, which does not cross a line break: it may match anywhere.\<close>

fun star_json :: "string \<Rightarrow> bool" where
  "star_json [] = False"
| "star_json (c # cs) = (prefix ''.json'' (c # cs) \<or> (c \<noteq> CHR 0x0A \<and> star_json cs))"

definition allowed_char :: "char \<Rightarrow> bool" where
  "allowed_char c \<longleftrightarrow>
     c \<in> set ''ABCDEFGHIJKLMNOPQRSTUVWXYZabcdefghijklmnopqrstuvwxyz0123456789_-''"

definition strip_prefix :: "string \<Rightarrow> string \<Rightarrow> string option" where
  "strip_prefix p s = (if prefix p s then Some (drop (length p) s) else None)"

definition collectionNameValid :: "string \<Rightarrow> bool" where
  "collectionNameValid s = (case s of [] \<Rightarrow> False | c # _ \<Rightarrow> allowed_char c)"

definition fileNameValid :: "string \<Rightarrow> bool" where
  "fileNameValid s = star_json s"

text \<open>\<open>strings.Split(s, "/")\<close>, \<open>filepath.Split\<close> and \<open>filepath.Clean\<close> on Unix.\<close>

fun split_slash :: "string \<Rightarrow> string list" where
  "split_slash [] = [[]]"
| "split_slash (c # cs) =
     (if c = CHR ''/'' then [] # split_slash cs
      else (case split_slash cs of [] \<Rightarrow> [[c]] | w # ws \<Rightarrow> (c # w) # ws))"

definition path_dir :: "string \<Rightarrow> string" where
  "path_dir s = rev (dropWhile (\<lambda>c. c \<noteq> CHR ''/'') (rev s))"

definition path_file :: "string \<Rightarrow> string" where
  "path_file s = rev (takeWhile (\<lambda>c. c \<noteq> CHR ''/'') (rev s))"

fun clean_stack :: "bool \<Rightarrow> string list \<Rightarrow> string list \<Rightarrow> string list" where
  "clean_stack rooted st [] = rev st"
| "clean_stack rooted st (c # cs) =
     (if c = [] \<or> c = ''.'' then clean_stack rooted st cs
      else if c = ''..''
      then (if st \<noteq> [] \<and> hd st \<noteq> ''..'' then clean_stack rooted (tl st) cs
            else if rooted then clean_stack rooted st cs
            else clean_stack rooted (''..'' # st) cs)
      else clean_stack rooted (c # st) cs)"

fun join_slash :: "string list \<Rightarrow> string" where
  "join_slash [] = []"
| "join_slash [w] = w"
| "join_slash (w # ws) = w @ ''/'' @ join_slash ws"

definition path_Clean :: "string \<Rightarrow> string" where
  "path_Clean s =
     (let rooted = prefix ''/'' s; r = join_slash (clean_stack rooted [] (split_slash s)) in
      if rooted then ''/'' @ r else if r = [] then ''.'' else r)"

text \<open>\<open>strings.ToLower\<close>, of which the code only compares the result with \<open>asc\<close> and \<open>desc\<close>: no
  letter outside ASCII has one of these letters as its lower case.\<close>

definition to_lower :: "string \<Rightarrow> string" where
  "to_lower s = map (\<lambda>c. if 65 \<le> (of_char c :: nat) \<and> (of_char c :: nat) \<le> 90
                         then char_of ((of_char c :: nat) + 32) else c) s"

section \<open>JSON values\<close>

datatype js = JNull | JBool bool | JNum int | JStr string | JArr "js list" | JObj "(string \<times> js) list"

type_synonym entries = "(string \<times> js) list"

section \<open>Index definitions\<close>

fun validateFieldMap :: "entries \<Rightarrow> unit outcome" where
  "validateFieldMap [] = Ok ()"
| "validateFieldMap ((jsonKey, JStr v) # es) =
     (if \<not> (to_lower v = ''asc'' \<or> to_lower v = ''desc'')
      then Err (Errorf ''Sort must be either \"asc\" or \"desc\".  \"%s\" was found.'' [AStr v])
      else validateFieldMap es)"
| "validateFieldMap ((jsonKey, v) # es) =
     Err (Errorf ''Invalid field definition, fields must be in the form \"fieldname\":\"sort\"'' [])"

text \<open>\<open>reflect.TypeOf\<close> of a JSON null is nil, and \<open>Kind\<close> of it panics. Numbers, booleans and arrays
  fall through the switch.\<close>

fun fields_loop :: "js list \<Rightarrow> unit outcome" where
  "fields_loop [] = Ok ()"
| "fields_loop (JNull # items) = Panic NilDeref"
| "fields_loop (JObj m # items) = bind (validateFieldMap m) (\<lambda>_. fields_loop items)"
| "fields_loop (v # items) = fields_loop items"

fun processIndexMap :: "entries \<Rightarrow> unit outcome" where
  "processIndexMap [] = Ok ()"
| "processIndexMap ((jsonKey, jsonValue) # es) =
     (if jsonKey = ''fields''
      then (case jsonValue of
              JArr items \<Rightarrow> bind (fields_loop items) (\<lambda>_. processIndexMap es)
            | _ \<Rightarrow> Err (Errorf ''Expecting a JSON array of fields'' []))
      else if jsonKey = ''partial_filter_selector'' then processIndexMap es
      else Err (Errorf ''Invalid Entry.  Entry %s'' [AStr jsonKey]))"

fun index_loop :: "entries \<Rightarrow> bool \<Rightarrow> bool outcome" where
  "index_loop [] indexIncluded = Ok indexIncluded"
| "index_loop ((jsonKey, jsonValue) # es) indexIncluded =
     (if jsonKey = ''index''
      then (case jsonValue of
              JNull \<Rightarrow> Panic NilDeref
            | JObj m \<Rightarrow> bind (processIndexMap m) (\<lambda>_. index_loop es True)
            | _ \<Rightarrow> Err (Errorf ''Invalid entry, \"index\" must be a JSON'' []))
      else if jsonKey = ''ddoc''
      then (case jsonValue of
              JNull \<Rightarrow> Panic NilDeref
            | JStr _ \<Rightarrow> index_loop es indexIncluded
            | _ \<Rightarrow> Err (Errorf ''Invalid entry, \"ddoc\" must be a string'' []))
      else if jsonKey = ''name''
      then (case jsonValue of
              JNull \<Rightarrow> Panic NilDeref
            | JStr _ \<Rightarrow> index_loop es indexIncluded
            | _ \<Rightarrow> Err (Errorf ''Invalid entry, \"name\" must be a string'' []))
      else if jsonKey = ''type''
      then (if jsonValue \<noteq> JStr ''json'' then Err (Errorf ''Index type must be json'' [])
            else index_loop es indexIncluded)
      else Err (Errorf ''Invalid Entry.  Entry %s'' [AStr jsonKey]))"

definition validateIndexJSON :: "entries \<Rightarrow> unit outcome" where
  "validateIndexJSON indexDefinition =
     bind (index_loop indexDefinition False) (\<lambda>indexIncluded.
     if \<not> indexIncluded
     then Err (Errorf ''Index definition must include a \"fields\" definition'' []) else Ok ())"

text \<open>\<open>parse\<close> gives the entries of an object; a JSON null parses to a nil map, which has none.\<close>

definition isJSON :: "(bytes \<Rightarrow> entries option) \<Rightarrow> bytes \<Rightarrow> bool \<times> entries" where
  "isJSON parse s = (case parse s of None \<Rightarrow> (False, []) | Some es \<Rightarrow> (True, es))"

definition couchdbIndexFileValidator ::
    "(bytes \<Rightarrow> entries option) \<Rightarrow> string \<Rightarrow> bytes \<Rightarrow> unit outcome" where
  "couchdbIndexFileValidator parse fileName fileBytes =
     (let (boolIsJSON, indexDefinition) = isJSON parse fileBytes in
      if \<not> boolIsJSON
      then Err (Errorf ''Index metadata file [%s] is not a valid JSON'' [AStr fileName])
      else (case validateIndexJSON indexDefinition of
              Err err \<Rightarrow> Err (Errorf ''Index metadata file [%s] is not a valid index definition: %s''
                            [AStr fileName, AErr err])
            | r \<Rightarrow> r))"

section \<open>Metadata files\<close>

text \<open>The two regular expressions that have a validator, which is the same for both.\<close>

definition index_path :: "string \<Rightarrow> bool" where
  "index_path p = (case strip_prefix ''META-INF/statedb/couchdb/indexes/'' p of
     None \<Rightarrow> False | Some r \<Rightarrow> star_json r)"

definition collection_index_path :: "string \<Rightarrow> bool" where
  "collection_index_path p =
     (case strip_prefix ''META-INF/statedb/couchdb/collections/'' p of
        None \<Rightarrow> False
      | Some r \<Rightarrow> takeWhile allowed_char r \<noteq> [] \<and>
          (case strip_prefix ''/indexes/'' (dropWhile allowed_char r) of
             None \<Rightarrow> False | Some r' \<Rightarrow> star_json r'))"

definition selectFileValidator ::
    "(bytes \<Rightarrow> entries option) \<Rightarrow> string \<Rightarrow> (string \<Rightarrow> bytes \<Rightarrow> unit outcome) option" where
  "selectFileValidator parse filePathName =
     (if index_path filePathName \<or> collection_index_path filePathName
      then Some (couchdbIndexFileValidator parse) else None)"

definition contains_str :: "string list \<Rightarrow> string \<Rightarrow> bool" where
  "contains_str validStrings target = list_ex (\<lambda>s. s = target) validStrings"

definition validDatabases :: "string list" where "validDatabases = [''couchdb'']"

definition buildMetadataFileErrorMessage :: "string \<Rightarrow> gerror" where
  "buildMetadataFileErrorMessage filePathName =
     (let dir = path_dir filePathName; filename = path_file filePathName in
      if \<not> prefix ''META-INF/statedb'' filePathName
      then Errorf ''metadata file path must begin with META-INF/statedb, found: %s'' [AStr dir]
      else
      let d = split_slash (path_Clean dir) in
      if length d < 4
      then Errorf ''metadata file path must include a database and index directory: %s'' [AStr dir]
      else if \<not> contains_str validDatabases (d ! 2)
      then Errorf ''database name [%s] is not supported, valid options: %s'' [AStr (d ! 2), AStr ''couchdb'']
      else if length d = 4 \<and> d ! 3 \<noteq> ''indexes''
      then Errorf ''metadata file path does not have an indexes directory: %s'' [AStr dir]
      else if length d \<noteq> 6
      then Errorf ''metadata file path for collections must include a collections and index directory: %s''
             [AStr dir]
      else if d ! 3 \<noteq> ''collections'' \<or> d ! 5 \<noteq> ''indexes''
      then Errorf ''metadata file path for collections must have a collections and indexes directory: %s''
             [AStr dir]
      else if \<not> collectionNameValid (d ! 4)
      then Errorf ''collection name is not valid: %s'' [AStr (d ! 4)]
      else if \<not> fileNameValid filename
      then Errorf ''artifact file name is not valid: %s'' [AStr filename]
      else Errorf ''metadata file path or name is not supported: %s'' [AStr dir])"

datatype file_error = UnhandledDirectoryError gerror | FileError gerror

text \<open>\<open>None\<close> is the nil error.\<close>

definition ValidateMetadataFile ::
    "(bytes \<Rightarrow> entries option) \<Rightarrow> string \<Rightarrow> bytes \<Rightarrow> file_error option outcome" where
  "ValidateMetadataFile parse filePathName fileBytes =
     (case selectFileValidator parse filePathName of
        None \<Rightarrow> Ok (Some (UnhandledDirectoryError (buildMetadataFileErrorMessage filePathName)))
      | Some fileValidator \<Rightarrow>
        (case fileValidator filePathName fileBytes of
           Err err \<Rightarrow> Ok (Some (FileError err))
         | Panic p \<Rightarrow> Panic p
         | Ok _ \<Rightarrow> Ok None))"

section \<open>Code packages and source paths\<close>

record tar_header =
  tar_Name :: string
  tar_Mode :: "64 word"

text \<open>The regular expression \<open>^(/)?(src|META-INF)/.*\<close>: \<open>.*\<close> matches the empty text.\<close>

definition code_path :: "string \<Rightarrow> bool" where
  "code_path name =
     (prefix ''src/'' name \<or> prefix ''META-INF/'' name \<or> prefix ''/src/'' name \<or> prefix ''/META-INF/'' name)"

fun scan_headers :: "tar_header list \<Rightarrow> unit outcome" where
  "scan_headers [] = Ok ()"
| "scan_headers (h # hs) =
     (if \<not> code_path (tar_Name h)
      then Err (Errorf ''illegal file detected in payload: \"%s\"'' [AStr (tar_Name h)])
      else if tar_Mode h AND NOT 33206 \<noteq> 0
      then Err (Errorf ''illegal file mode detected for file %s: %o''
                  [AStr (tar_Name h), AInt (uint (tar_Mode h))])
      else scan_headers hs)"

definition ValidateCodePackage ::
    "(bytes \<Rightarrow> gerror option) \<Rightarrow> (bytes \<Rightarrow> tar_header list) \<Rightarrow> bytes \<Rightarrow> unit outcome" where
  "ValidateCodePackage gzip_open tar_headers code =
     (if length code = 0 then Ok ()
      else (case gzip_open code of
              Some err \<Rightarrow> Err (Errorf ''failure opening codepackage gzip stream: %s'' [AErr err])
            | None \<Rightarrow> scan_headers (tar_headers code)))"

definition decodeUrl :: "string \<Rightarrow> string outcome" where
  "decodeUrl path =
     (let urlLocation = (if prefix ''http://'' path then drop 7 path
                         else if prefix ''https://'' path then drop 8 path else path) in
      if length urlLocation < 2 then Err (ErrNew (''ChaincodeSpec'' @ [CHR 0x27] @ ''s path/URL invalid''))
      else if last urlLocation = CHR ''/'' then Ok (butlast urlLocation) else Ok urlLocation)"

fun filter_strings :: "string list \<Rightarrow> (string \<Rightarrow> bool) \<Rightarrow> string list" where
  "filter_strings [] f = []"
| "filter_strings (v # vs) f = (if f v then v # filter_strings vs f else filter_strings vs f)"

section \<open>What is accepted, whatever the order of the entries\<close>

fun sort_ok :: "js \<Rightarrow> bool" where
  "sort_ok (JStr s) = (to_lower s = ''asc'' \<or> to_lower s = ''desc'')"
| "sort_ok _ = False"

fun field_ok :: "js \<Rightarrow> bool" where
  "field_ok JNull = False"
| "field_ok (JObj m) = list_all (\<lambda>e. sort_ok (snd e)) m"
| "field_ok _ = True"

fun index_entry_ok :: "string \<times> js \<Rightarrow> bool" where
  "index_entry_ok (k, v) =
     (if k = ''fields'' then (case v of JArr items \<Rightarrow> list_all field_ok items | _ \<Rightarrow> False)
      else k = ''partial_filter_selector'')"

fun entry_ok :: "string \<times> js \<Rightarrow> bool" where
  "entry_ok (k, v) =
     (if k = ''index'' then (case v of JObj m \<Rightarrow> list_all index_entry_ok m | _ \<Rightarrow> False)
      else if k = ''ddoc'' \<or> k = ''name'' then (case v of JStr _ \<Rightarrow> True | _ \<Rightarrow> False)
      else k = ''type'' \<and> v = JStr ''json'')"

lemma outcome_unit_Ok: "(\<exists>x. m = Ok x) \<longleftrightarrow> m = Ok ()"
  by (cases m) auto

lemma validateFieldMap_ok: "validateFieldMap es = Ok () \<longleftrightarrow> list_all (\<lambda>e. sort_ok (snd e)) es"
  by (induction es rule: validateFieldMap.induct) auto

lemma fields_loop_ok: "fields_loop items = Ok () \<longleftrightarrow> list_all field_ok items"
  by (induction items rule: fields_loop.induct) (auto simp: validateFieldMap_ok)

lemma processIndexMap_ok: "processIndexMap es = Ok () \<longleftrightarrow> list_all index_entry_ok es"
proof (induction es)
  case (Cons e es)
  obtain k v where e: "e = (k, v)" by (cases e)
  show ?case using Cons.IH unfolding e by (cases v) (auto simp: fields_loop_ok)
qed simp

lemma index_loop_ok:
  "index_loop es b = Ok r \<longleftrightarrow> list_all entry_ok es \<and> r = (b \<or> list_ex (\<lambda>e. fst e = ''index'') es)"
proof (induction es arbitrary: b)
  case (Cons e es)
  obtain k v where e: "e = (k, v)" by (cases e)
  show ?case using Cons.IH unfolding e by (cases v) (auto simp: processIndexMap_ok)
qed auto

lemma validateIndexJSON_ok:
  "validateIndexJSON es = Ok () \<longleftrightarrow> list_all entry_ok es \<and> list_ex (\<lambda>e. fst e = ''index'') es"
  by (auto simp: validateIndexJSON_def index_loop_ok)

section \<open>Which paths have a validator\<close>

lemma star_json_iff: "star_json s \<longleftrightarrow> (\<exists>a r. s = a @ ''.json'' @ r \<and> CHR 0x0A \<notin> set a)"
proof (induction s)
  case (Cons c cs)
  show ?case
  proof
    assume "star_json (c # cs)"
    then consider "prefix ''.json'' (c # cs)" | "c \<noteq> CHR 0x0A" "star_json cs" by auto
    then show "\<exists>a r. c # cs = a @ ''.json'' @ r \<and> CHR 0x0A \<notin> set a"
    proof cases
      case 1
      then obtain r where "c # cs = ''.json'' @ r" unfolding prefix_def by blast
      then show ?thesis by (intro exI[of _ "[]"] exI[of _ r]) auto
    next
      case 2
      then obtain a r where "cs = a @ ''.json'' @ r" "CHR 0x0A \<notin> set a" using Cons.IH by blast
      then show ?thesis using 2(1) by (intro exI[of _ "c # a"] exI[of _ r]) auto
    qed
  next
    assume "\<exists>a r. c # cs = a @ ''.json'' @ r \<and> CHR 0x0A \<notin> set a"
    then obtain a r where a: "c # cs = a @ ''.json'' @ r" "CHR 0x0A \<notin> set a" by blast
    show "star_json (c # cs)"
    proof (cases a)
      case Nil
      then have "prefix ''.json'' (c # cs)" using a(1) by (simp only: append.simps prefixI)
      then show ?thesis by simp
    next
      case (Cons b bs)
      then show ?thesis using a Cons.IH by auto
    qed
  qed
qed simp

lemma strip_prefix_eq: "strip_prefix p s = Some r \<longleftrightarrow> s = p @ r"
  by (auto simp: strip_prefix_def prefix_def)

lemma index_path_iff:
  "index_path p \<longleftrightarrow> (\<exists>a r. p = ''META-INF/statedb/couchdb/indexes/'' @ a @ ''.json'' @ r \<and> CHR 0x0A \<notin> set a)"
proof -
  have "index_path p \<longleftrightarrow> (\<exists>q. strip_prefix ''META-INF/statedb/couchdb/indexes/'' p = Some q \<and> star_json q)"
    by (simp add: index_path_def split: option.splits)
  then show ?thesis unfolding strip_prefix_eq star_json_iff by blast
qed

lemma take_allowed:
  assumes "list_all allowed_char c"
  shows "takeWhile allowed_char (c @ ''/indexes/'' @ q) = c"
    and "dropWhile allowed_char (c @ ''/indexes/'' @ q) = ''/indexes/'' @ q"
  using assms by (induction c) (auto simp: allowed_char_def)

lemma collection_index_path_iff:
  "collection_index_path p \<longleftrightarrow>
     (\<exists>c a r. p = ''META-INF/statedb/couchdb/collections/'' @ c @ ''/indexes/'' @ a @ ''.json'' @ r \<and>
              c \<noteq> [] \<and> list_all allowed_char c \<and> CHR 0x0A \<notin> set a)" (is "?l \<longleftrightarrow> ?r")
proof
  assume ?l
  then obtain q q' where q: "strip_prefix ''META-INF/statedb/couchdb/collections/'' p = Some q"
    "takeWhile allowed_char q \<noteq> []" "strip_prefix ''/indexes/'' (dropWhile allowed_char q) = Some q'" "star_json q'"
    by (auto simp: collection_index_path_def split: option.splits)
  then obtain a r where a: "q' = a @ ''.json'' @ r" "CHR 0x0A \<notin> set a" unfolding star_json_iff by blast
  have "q = takeWhile allowed_char q @ ''/indexes/'' @ a @ ''.json'' @ r"
    using q(3) a(1) takeWhile_dropWhile_id[of allowed_char q] unfolding strip_prefix_eq by simp
  moreover have "list_all allowed_char (takeWhile allowed_char q)"
    by (auto simp: list_all_iff dest: set_takeWhileD)
  ultimately show ?r
    using q(1,2) a(2) unfolding strip_prefix_eq by metis
next
  assume ?r
  then obtain c a r where c: "p = ''META-INF/statedb/couchdb/collections/'' @ c @ ''/indexes/'' @ a @ ''.json'' @ r"
    "c \<noteq> []" "list_all allowed_char c" "CHR 0x0A \<notin> set a" by blast
  have s: "strip_prefix ''META-INF/statedb/couchdb/collections/'' p = Some (c @ ''/indexes/'' @ a @ ''.json'' @ r)"
    "strip_prefix ''/indexes/'' (''/indexes/'' @ a @ ''.json'' @ r) = Some (a @ ''.json'' @ r)"
    using c(1) unfolding strip_prefix_eq by simp_all
  have "star_json (a @ ''.json'' @ r)" using c(4) unfolding star_json_iff by blast
  then show ?l
    using c(2) unfolding collection_index_path_def s(1) option.case take_allowed[OF c(3)] s(2) by simp
qed

section \<open>Theorems\<close>

text \<open>C35. Exactly these metadata files are accepted: the path is an index of the database or of a
  collection with a well-formed name, with \<open>.json\<close> somewhere in the last part, and the contents
  are an object whose entries are all allowed, one of them an index. It does not matter in which
  order the entries of the object, or of the objects in it, are visited.\<close>

theorem metadata_file_accepted_iff:
  "ValidateMetadataFile parse p b = Ok None \<longleftrightarrow>
     ((\<exists>a r. p = ''META-INF/statedb/couchdb/indexes/'' @ a @ ''.json'' @ r \<and> CHR 0x0A \<notin> set a) \<or>
      (\<exists>c a r. p = ''META-INF/statedb/couchdb/collections/'' @ c @ ''/indexes/'' @ a @ ''.json'' @ r \<and>
               c \<noteq> [] \<and> list_all allowed_char c \<and> CHR 0x0A \<notin> set a)) \<and>
     (\<exists>es. parse b = Some es \<and> list_all entry_ok es \<and> list_ex (\<lambda>e. fst e = ''index'') es)"
proof -
  have v: "couchdbIndexFileValidator parse p b = Ok () \<longleftrightarrow>
      (\<exists>es. parse b = Some es \<and> list_all entry_ok es \<and> list_ex (\<lambda>e. fst e = ''index'') es)"
    by (auto simp: couchdbIndexFileValidator_def isJSON_def validateIndexJSON_ok[symmetric]
        split: option.splits outcome.splits)
  have "ValidateMetadataFile parse p b = Ok None \<longleftrightarrow>
      (index_path p \<or> collection_index_path p) \<and> couchdbIndexFileValidator parse p b = Ok ()"
    by (auto simp: ValidateMetadataFile_def selectFileValidator_def split: outcome.splits)
  then show ?thesis unfolding v index_path_iff collection_index_path_iff by (rule trans) simp
qed

end
