(* ===== verification/Paths.thy ===== *)
theory Paths
  imports Metadata GoStrings "HOL-Library.List_Lexorder" "HOL-Library.Char_ord"
begin

text \<open>
  Paths as the package \<open>path/filepath\<close> treats them on Unix, on top of \<open>path_Clean\<close>: joining, the
  directory of a path and the path relative to another. A proper path is a list of proper
  components, and on such paths the operations are those of lists.
\<close>

section \<open>Operations\<close>

text \<open>\<open>filepath.Join\<close> of two elements and \<open>path.Dir\<close>.\<close>

definition path_Join :: "string \<Rightarrow> string \<Rightarrow> string" where
  "path_Join a b = (if a = [] then (if b = [] then [] else path_Clean b)
     else if b = [] then path_Clean a else path_Clean (a @ ''/'' @ b))"

definition path_Dir :: "string \<Rightarrow> string" where
  "path_Dir s = path_Clean (path_dir s)"

text \<open>The components of a path that has been cleaned.\<close>

definition clean_parts :: "string \<Rightarrow> string list" where
  "clean_parts s = clean_stack (prefix ''/'' s) [] (split_slash s)"

fun drop_common :: "string list \<Rightarrow> string list \<Rightarrow> string list \<times> string list" where
  "drop_common (a # as) (b # bs) = (if a = b then drop_common as bs else (a # as, b # bs))"
| "drop_common as bs = (as, bs)"

definition path_Rel :: "string \<Rightarrow> string \<Rightarrow> string outcome" where
  "path_Rel basepath targpath =
     (if prefix ''/'' basepath \<noteq> prefix ''/'' targpath
      then Err (Errorf ''Rel: can't make %s relative to %s'' [AStr targpath, AStr basepath])
      else (case drop_common (clean_parts basepath) (clean_parts targpath) of
        (as, bs) \<Rightarrow>
          if as \<noteq> [] \<and> hd as = ''..''
          then Err (Errorf ''Rel: can't make %s relative to %s'' [AStr targpath, AStr basepath])
          else let r = replicate (length as) ''..'' @ bs in Ok (if r = [] then ''.'' else join_slash r)))"

section \<open>Proper paths\<close>

definition proper_name :: "string \<Rightarrow> bool" where
  "proper_name c \<longleftrightarrow> c \<noteq> [] \<and> c \<noteq> ''.'' \<and> c \<noteq> ''..'' \<and> CHR ''/'' \<notin> set c"

definition proper_path :: "string list \<Rightarrow> bool" where
  "proper_path cs \<longleftrightarrow> list_all proper_name cs"

lemma proper_path_simps [simp]:
  "proper_path []" "proper_path (c # cs) \<longleftrightarrow> proper_name c \<and> proper_path cs"
  "proper_path (as @ bs) \<longleftrightarrow> proper_path as \<and> proper_path bs"
  by (simp_all add: proper_path_def)

text \<open>An absolute path.\<close>

definition abs_path :: "string list \<Rightarrow> string" where
  "abs_path cs = ''/'' @ join_slash cs"

lemma join_slash_Cons: "join_slash (c # cs) = c @ (if cs = [] then [] else ''/'' @ join_slash cs)"
  by (cases cs) simp_all

lemma join_slash_append:
  "cs \<noteq> [] \<Longrightarrow> ds \<noteq> [] \<Longrightarrow> join_slash (cs @ ds) = join_slash cs @ ''/'' @ join_slash ds"
  by (induction cs) (auto simp: join_slash_Cons)

lemma split_slash_plain: "CHR ''/'' \<notin> set c \<Longrightarrow> split_slash c = [c]"
  by (induction c) auto

lemma split_slash_append: "CHR ''/'' \<notin> set c \<Longrightarrow> split_slash (c @ CHR ''/'' # s) = c # split_slash s"
  by (induction c) auto

lemma split_join_slash: "proper_path cs \<Longrightarrow> cs \<noteq> [] \<Longrightarrow> split_slash (join_slash cs) = cs"
proof (induction cs)
  case (Cons c cs)
  then show ?case
    by (cases cs) (auto simp: proper_name_def split_slash_plain split_slash_append)
qed simp

lemma clean_stack_proper: "proper_path cs \<Longrightarrow> clean_stack rooted st cs = rev st @ cs"
  by (induction cs arbitrary: st) (auto simp: proper_name_def)

lemma clean_stack_trailing: "proper_path cs \<Longrightarrow> clean_stack rooted st (cs @ [[]]) = rev st @ cs"
  by (induction cs arbitrary: st) (auto simp: proper_name_def)

lemma clean_stack_skip [simp]: "clean_stack rooted st ([] # cs) = clean_stack rooted st cs"
  by simp

lemma join_slash_relative: "proper_path cs \<Longrightarrow> \<not> prefix ''/'' (join_slash cs)"
  by (cases cs; cases "hd cs") (auto simp: proper_name_def join_slash_Cons)

lemma join_slash_not_nil: "proper_path cs \<Longrightarrow> join_slash cs = [] \<longleftrightarrow> cs = []"
  by (cases cs) (auto simp: proper_name_def join_slash_Cons)

lemma clean_parts_relative: "proper_path cs \<Longrightarrow> cs \<noteq> [] \<Longrightarrow> clean_parts (join_slash cs) = cs"
  by (simp add: clean_parts_def split_join_slash clean_stack_proper)

lemma clean_parts_abs: "proper_path cs \<Longrightarrow> clean_parts (abs_path cs) = cs"
  by (cases "cs = []") (simp_all add: clean_parts_def abs_path_def split_join_slash clean_stack_proper)

lemma path_Clean_parts: "path_Clean s = (if prefix ''/'' s then abs_path (clean_parts s)
    else if join_slash (clean_parts s) = [] then ''.'' else join_slash (clean_parts s))"
  by (simp add: path_Clean_def clean_parts_def abs_path_def Let_def)

lemma clean_relative: "proper_path cs \<Longrightarrow> cs \<noteq> [] \<Longrightarrow> path_Clean (join_slash cs) = join_slash cs"
  by (simp add: path_Clean_parts clean_parts_relative join_slash_relative join_slash_not_nil)

lemma clean_abs: "proper_path cs \<Longrightarrow> path_Clean (abs_path cs) = abs_path cs"
  by (simp add: path_Clean_parts clean_parts_abs) (simp add: abs_path_def)

lemma join_relative:
  "proper_path cs \<Longrightarrow> proper_path ds \<Longrightarrow> cs \<noteq> [] \<Longrightarrow> ds \<noteq> [] \<Longrightarrow>
     path_Join (join_slash cs) (join_slash ds) = join_slash (cs @ ds)"
  using clean_relative[of "cs @ ds"] by (simp add: path_Join_def join_slash_not_nil join_slash_append)

lemma abs_path_append: "abs_path (cs @ [c]) = (if cs = [] then ''/'' @ c else abs_path cs @ ''/'' @ c)"
  by (cases "cs = []") (simp_all add: abs_path_def join_slash_append)

lemma join_abs:
  assumes "proper_path cs" "proper_name c"
  shows "path_Join (abs_path cs) c = abs_path (cs @ [c])"
proof -
  have c: "c \<noteq> []" using assms(2) by (simp add: proper_name_def)
  have "clean_parts (abs_path cs @ ''/'' @ c) = cs @ [c]"
  proof (cases "cs = []")
    case True
    then show ?thesis using assms
      by (auto simp: clean_parts_def abs_path_def split_slash_plain proper_name_def)
  next
    case False
    then have "abs_path cs @ ''/'' @ c = abs_path (cs @ [c])" by (simp add: abs_path_append)
    then show ?thesis using assms clean_parts_abs[of "cs @ [c]"] by simp
  qed
  then show ?thesis using c by (simp add: path_Join_def path_Clean_parts) (simp add: abs_path_def)
qed

lemma drop_common_prefix: "drop_common cs (cs @ ds) = ([], ds)"
  by (induction cs) simp_all

lemma rel_abs:
  assumes "proper_path cs" "proper_path ds"
  shows "path_Rel (abs_path cs) (abs_path (cs @ ds)) = Ok (if ds = [] then ''.'' else join_slash ds)"
  using assms clean_parts_abs[of cs] clean_parts_abs[of "cs @ ds"]
  by (simp add: path_Rel_def drop_common_prefix Let_def) (simp add: abs_path_def)

lemma path_dir_append:
  assumes "CHR ''/'' \<notin> set c"
  shows "path_dir (s @ ''/'' @ c) = s @ ''/''" "path_dir c = []"
  using assms by (auto simp: path_dir_def dropWhile_append)

lemma dir_proper:
  assumes "proper_path (cs @ [c])"
  shows "path_Dir (join_slash (cs @ [c])) = (if cs = [] then ''.'' else join_slash cs)"
proof (cases "cs = []")
  case True
  then show ?thesis using assms by (simp add: path_Dir_def path_dir_append proper_name_def path_Clean_def)
next
  case False
  have "clean_parts (join_slash cs @ ''/'') = cs"
  proof -
    have "split_slash (join_slash cs @ ''/'') = cs @ [[]]"
      using assms False
    proof (induction cs)
      case (Cons d ds)
      then show ?case
        by (cases ds) (auto simp: join_slash_Cons proper_name_def split_slash_append split_slash_plain)
    qed simp
    then show ?thesis using assms False
      by (simp add: clean_parts_def clean_stack_trailing)
  qed
  moreover have "path_dir (join_slash (cs @ [c])) = join_slash cs @ ''/''"
    using assms False by (simp add: join_slash_append path_dir_append[simplified] proper_name_def)
  moreover have "\<not> prefix ''/'' (join_slash cs @ ''/'')" "join_slash cs \<noteq> []"
    using assms False join_slash_relative[of cs] join_slash_not_nil[of cs]
    by (auto simp: prefix_def append_eq_Cons_conv)
  ultimately show ?thesis using False by (simp add: path_Dir_def path_Clean_parts)
qed

section \<open>The directory of a path is shorter\<close>

definition weight :: "string list \<Rightarrow> nat" where "weight cs = sum_list (map (\<lambda>c. length c + 1) cs)"

lemma weight_simps [simp]: "weight [] = 0" "weight (c # cs) = Suc (length c + weight cs)" "weight (as @ bs) = weight as + weight bs"
  "weight (rev cs) = weight cs"
  by (simp_all add: weight_def flip: rev_map)

lemma weight_split: "weight (split_slash s) = Suc (length s)"
  by (induction s) (auto split: list.split)

lemma length_join_slash: "length (join_slash cs) = weight cs - 1"
proof (induction cs)
  case (Cons c cs)
  then show ?case by (cases cs) (simp_all add: join_slash_Cons)
qed simp

lemma weight_clean: "weight (clean_stack rooted st cs) + length (filter (\<lambda>c. c = []) cs) \<le> weight st + weight cs"
proof (induction rooted st cs rule: clean_stack.induct)
  case (2 rooted st c cs)
  then show ?case by (cases st) auto
qed simp

lemma split_slash_not_nil: "split_slash s \<noteq> []"
  by (induction s) (auto split: list.split)

lemma split_slash_ends: "\<exists>w ws. split_slash (s @ ''/'') = w # ws @ [[]]"
proof (induction s)
  case (Cons c s)
  then obtain w ws where "split_slash (s @ ''/'') = w # ws @ [[]]" by auto
  then show ?case by (cases "c = CHR ''/''") (auto intro: exI[of _ "w # ws"])
qed simp

lemma clean_shorter:
  assumes "p = q @ ''/''" "p \<noteq> ''/''"
  shows "path_Clean p = ''.'' \<or> length (path_Clean p) < length p"
proof -
  obtain cs where cs: "split_slash p = cs @ [[]]" using split_slash_ends[of q] assms(1) by (metis append_Cons)
  have w: "weight (clean_parts p) + length (filter (\<lambda>c. c = []) (cs @ [[]])) \<le> Suc (length p)"
    using weight_clean[of "prefix ''/'' p" "[]" "split_slash p"] weight_split[of p] by (simp add: clean_parts_def cs)
  show ?thesis
  proof (cases "prefix ''/'' p")
    case True
    then obtain q' where q: "p = CHR ''/'' # q'" "q' \<noteq> []" using assms(2) by (auto simp: prefix_def)
    then obtain cs' where "cs = [] # cs'" using cs split_slash_not_nil[of q'] by (cases cs) auto
    then have "weight (clean_parts p) + 2 \<le> Suc (length p)" using w by simp
    moreover have "length p \<ge> 2" using q by (cases q') auto
    ultimately show ?thesis using True by (auto simp: path_Clean_parts abs_path_def length_join_slash)
  next
    case False
    have "weight (clean_parts p) \<le> length p" using w by simp
    moreover have "length p \<ge> 1" using assms(1) by simp
    ultimately show ?thesis using False by (auto simp: path_Clean_parts length_join_slash)
  qed
qed

lemma path_dir_cases: "path_dir d = [] \<or> (\<exists>q c. path_dir d = q @ ''/'' \<and> d = q @ ''/'' @ c)"
proof -
  let ?p = "path_dir d"
  have d: "d = ?p @ path_file d"
    by (simp add: path_dir_def path_file_def flip: rev_append)
  show ?thesis
  proof (cases "?p = []")
    case False
    then have "dropWhile (\<lambda>c. c \<noteq> CHR ''/'') (rev d) \<noteq> []" by (simp add: path_dir_def)
    then have "hd (dropWhile (\<lambda>c. c \<noteq> CHR ''/'') (rev d)) = CHR ''/''" using hd_dropWhile by blast
    then have "last ?p = CHR ''/''" using False by (simp add: path_dir_def last_rev)
    then have "?p = butlast ?p @ ''/''" using False by (metis append_butlast_last_id)
    then show ?thesis using d by (metis append.assoc)
  qed simp
qed

lemma path_Dir_shorter: "path_Dir d = ''.'' \<or> length (path_Dir d) < length d \<or> d = ''/'' \<and> path_Dir d = ''/''"
proof (cases "path_dir d = []")
  case True
  then show ?thesis by (simp add: path_Dir_def path_Clean_def)
next
  case False
  then obtain q c where q: "path_dir d = q @ ''/''" "d = q @ ''/'' @ c" using path_dir_cases by blast
  show ?thesis
  proof (cases "q = []")
    case True
    then show ?thesis using q by (cases c) (simp_all add: path_Dir_def path_Clean_def)
  next
    case False
    then show ?thesis using clean_shorter[of "path_dir d" q] q by (auto simp: path_Dir_def)
  qed
qed

end
