(* ===== verification/GoPackage.thy ===== *)
theory GoPackage
  imports Paths CcPackage
begin

text \<open>
  The environment of a Go chaincode: \<open>env.go\<close> and \<open>list.go\<close> of \<open>internal/ccplatform/golang\<close>, with the
  checks of paths of \<open>platform.go\<close>, \<open>package.go\<close> and \<open>util.go\<close>. The sources and the archive are in the
  theory GoSource.

  The \<open>go\<close> tool, the file system calls and the encodings are the parameter \<open>go_lib\<close>; a command is
  its working directory, environment and arguments. The working directory is explicit state of the
  operations that change it. A map is ranged over in the order of a list of its keys.
\<close>

section \<open>The environment\<close>

type_synonym Env = "string \<rightharpoonup> string"

datatype stat_result = NotExist | StatError gerror | Stat_ok bool bool

record ModuleInfo =
  mi_Dir :: string
  mi_GoMod :: string
  mi_ImportPath :: string
  mi_ModulePath :: string

record PackageInfo =
  pi_ImportPath :: string
  pi_Dir :: string
  pi_GoFiles :: "string list"
  pi_Goroot :: bool
  pi_CFiles :: "string list"
  pi_CgoFiles :: "string list"
  pi_HFiles :: "string list"
  pi_SFiles :: "string list"
  pi_IgnoredGoFiles :: "string list"
  pi_Incomplete :: bool

record go_command =
  cmd_Dir :: string
  cmd_Env :: "string list"
  cmd_Args :: "string list"

text \<open>The result of a command: its output or error, what it wrote to its error stream, and whether its
  deadline has passed. \<open>go_packages\<close> is a command whose output is decoded as it comes: the errors of
  opening the pipe and of starting, what the decoder reads before the end, and the error of waiting.\<close>

record go_result =
  res_Output :: "string ret"
  res_Stderr :: string
  res_Deadline :: bool

record tar_entry = tar_header +
  te_Dir :: bool
  te_Uid :: int
  te_Gid :: int
  te_Body :: bytes

text \<open>The tree below a path as \<open>filepath.Walk\<close> sees it: files, directories with the error of reading
  their names, and entries whose \<open>lstat\<close> fails.\<close>

datatype fs = File string | Dir string "gerror option" "fs list" | Bad string gerror

record go_lib =
  go_Environ :: "string list"
  go_Run :: "go_command \<Rightarrow> go_result"
  go_Packages :: "go_command \<Rightarrow> gerror option \<times> gerror option \<times> PackageInfo ret list \<times> gerror option"
  go_json_Module :: "string \<Rightarrow> ModuleInfo ret"
  go_Getwd :: "string \<Rightarrow> string ret"
  go_Chdir :: "string \<Rightarrow> string \<Rightarrow> string ret"
  go_Stat :: "string \<Rightarrow> stat_result"
  go_Open :: "string \<Rightarrow> bytes ret"
  go_Tree :: "string \<Rightarrow> fs"
  go_Os :: string
  go_Arch :: string
  go_LocalFirst :: bool
  go_FileInfoHeader :: "string \<Rightarrow> (string \<times> int) ret"
  go_WriteHeader :: "tar_entry list \<Rightarrow> tar_entry \<Rightarrow> gerror option"
  go_Write :: "tar_entry list \<Rightarrow> tar_entry \<Rightarrow> bytes \<Rightarrow> bytes ret"
  go_gzip_NewWriter :: "gerror option"
  go_Close :: "tar_entry list \<Rightarrow> bytes ret"
  go_URLScheme :: "string \<Rightarrow> string ret"

text \<open>
  \<open>go_Getwd\<close> and \<open>go_Chdir\<close> take the working directory. \<open>go_WriteHeader\<close> and \<open>go_Write\<close> take the
  entries already written; \<open>go_Write\<close> returns the bytes that reached the archive. \<open>go_Close\<close> is the
  closing of both writers with the bytes they have produced. \<open>go_LocalFirst\<close> is the order in which the map
  of distributions is ranged over.
\<close>

text \<open>\<open>strings.SplitN(entry, "=", 2)\<close>.\<close>

definition split_entry :: "string \<Rightarrow> (string \<times> string) option" where
  "split_entry entry =
     (case dropWhile (\<lambda>c. c \<noteq> CHR ''='') entry of
        [] \<Rightarrow> None
      | _ # v \<Rightarrow> Some (takeWhile (\<lambda>c. c \<noteq> CHR ''='') entry, v))"

fun env_entries :: "(string \<Rightarrow> string) \<Rightarrow> string list \<Rightarrow> Env \<Rightarrow> Env" where
  "env_entries f [] env = env"
| "env_entries f (e # es) env =
     env_entries f es (case split_entry e of None \<Rightarrow> env | Some (k, v) \<Rightarrow> env(k \<mapsto> f v))"

definition getEnv :: "go_lib \<Rightarrow> Env" where
  "getEnv G = env_entries (\<lambda>v. v) (go_Environ G) Map.empty"

definition flattenEnv :: "string list \<Rightarrow> Env \<Rightarrow> string list" where
  "flattenEnv keys env = map (\<lambda>k. k @ ''='' @ the (env k)) keys"

text \<open>\<open>strings.Trim\<close> of one character and \<open>strings.TrimSpace\<close> of ASCII white space.\<close>

definition trim_chars :: "(char \<Rightarrow> bool) \<Rightarrow> string \<Rightarrow> string" where
  "trim_chars p s = rev (dropWhile p (rev (dropWhile p s)))"

definition TrimSpace :: "string \<Rightarrow> string" where
  "TrimSpace s = trim_chars (\<lambda>c. c \<in> set [CHR 0x20, CHR 0x09, CHR 0x0A, CHR 0x0B, CHR 0x0C, CHR 0x0D]) s"

text \<open>\<open>keys\<close> is the order in which the environment is ranged over.\<close>

definition runProgram :: "go_lib \<Rightarrow> string \<Rightarrow> Env option \<Rightarrow> string list \<Rightarrow> int \<Rightarrow> string list \<Rightarrow> string outcome" where
  "runProgram G wd env keys timeout args =
     (case env of
        None \<Rightarrow> Err (Errorf ''<%s, %v>: nil env provided'' (map AStr args))
      | Some e \<Rightarrow>
        (let r = go_Run G \<lparr>cmd_Dir = wd, cmd_Env = flattenEnv keys e, cmd_Args = args\<rparr>;
             err = (if res_Deadline r then Some (Errorf ''timed out after %s'' [AInt timeout]) else snd (res_Output r)) in
         case err of
           Some x \<Rightarrow> Err (Errorf ''command <%s %s>: failed with error: \"%s\"%s'' (map AStr args @ [AErr x, AStr (res_Stderr r)]))
         | None \<Rightarrow> Ok (fst (res_Output r))))"

abbreviation newline :: char where "newline \<equiv> CHR 0x0A"

definition getGoEnv :: "go_lib \<Rightarrow> string \<Rightarrow> string list \<Rightarrow> Env outcome" where
  "getGoEnv G wd keys =
     bind (runProgram G wd (Some (getEnv G)) keys 10000000000 [''go'', ''env'']) (\<lambda>goenvbytes.
     Ok (env_entries (trim_chars (\<lambda>c. c = CHR 0x22)) (split_char newline goenvbytes) Map.empty))"

definition go_list :: "go_lib \<Rightarrow> string \<Rightarrow> Env option \<Rightarrow> string list \<Rightarrow> string \<Rightarrow> string \<Rightarrow> string list outcome" where
  "go_list G wd env keys template pkg =
     bind (runProgram G wd (Some (case env of None \<Rightarrow> getEnv G | Some e \<Rightarrow> e)) keys 60000000000
             [''go'', ''list'', ''-f'', template, pkg]) (\<lambda>lst.
     Ok (split_char newline (trim_chars (\<lambda>c. c = newline) lst)))"

definition listDeps :: "go_lib \<Rightarrow> string \<Rightarrow> Env option \<Rightarrow> string list \<Rightarrow> string \<Rightarrow> string list outcome" where
  "listDeps G wd env keys pkg = go_list G wd env keys (''{{ join .Deps '' @ [CHR 0x22, CHR 0x5C] @ ''n'' @ [CHR 0x22] @ ''}}'') pkg"

definition listImports :: "go_lib \<Rightarrow> string \<Rightarrow> Env option \<Rightarrow> string list \<Rightarrow> string \<Rightarrow> string list outcome" where
  "listImports G wd env keys pkg = go_list G wd env keys (''{{ join .Imports '' @ [CHR 0x22, CHR 0x5C] @ ''n'' @ [CHR 0x22] @ ''}}'') pkg"

text \<open>\<open>filepath.SplitList\<close>: an empty list has no elements.\<close>

definition SplitList :: "string \<Rightarrow> string list" where
  "SplitList path = (if path = [] then [] else split_char (CHR '':'') path)"

text \<open>A set of paths is ranged over in the order of a list.\<close>

definition splitEnvPaths :: "string \<Rightarrow> string list" where
  "splitEnvPaths val = remdups (SplitList val)"

definition flattenEnvPaths :: "string list \<Rightarrow> string" where
  "flattenEnvPaths paths = join_char (CHR '':'') paths"

definition getGopath :: "go_lib \<Rightarrow> string \<Rightarrow> string list \<Rightarrow> string outcome" where
  "getGopath G wd keys =
     bind (getGoEnv G wd keys) (\<lambda>env.
     let gopath = (case env ''GOPATH'' of Some p \<Rightarrow> p | None \<Rightarrow> []) in
     case SplitList gopath of
       [] \<Rightarrow> Err (Errorf ''invalid GOPATH environment variable value: %s'' [AStr gopath])
     | p # ps \<Rightarrow> Ok p)"

definition pathExists :: "go_lib \<Rightarrow> string \<Rightarrow> bool ret" where
  "pathExists G path = (case go_Stat G path of
     Stat_ok _ _ \<Rightarrow> (True, None) | NotExist \<Rightarrow> (False, None) | StatError err \<Rightarrow> (True, Some err))"

definition IsCodeExist :: "go_lib \<Rightarrow> string \<Rightarrow> unit outcome" where
  "IsCodeExist G tmppath =
     bind (reformat ''Could not open file %s'' (check (go_Open G tmppath))) (\<lambda>_.
     case go_Stat G tmppath of
       Stat_ok regular dir \<Rightarrow> if dir then Ok () else Err (Errorf ''File %s is not dir'' [AStr tmppath])
     | StatError err \<Rightarrow> Err (Errorf ''Could not stat file %s'' [AErr err])
     | NotExist \<Rightarrow> Err (Errorf ''Could not stat file %s'' [AErr (ErrExt ''file does not exist'')]))"

definition getCodeFromFS :: "go_lib \<Rightarrow> string \<Rightarrow> string list \<Rightarrow> string \<Rightarrow> string outcome" where
  "getCodeFromFS G wd keys path =
     bind (getGopath G wd keys) (\<lambda>gopath.
     bind (reformat ''code does not exist %s'' (IsCodeExist G (path_Join (path_Join gopath ''src'') path))) (\<lambda>_.
     Ok gopath))"

definition ValidatePath :: "go_lib \<Rightarrow> string \<Rightarrow> string list \<Rightarrow> string \<Rightarrow> unit outcome" where
  "ValidatePath G wd keys rawPath =
     bind (reformat ''invalid path: %s'' (check (go_URLScheme G rawPath))) (\<lambda>scheme.
     if scheme \<noteq> [] then Ok ()
     else
     bind (getGopath G wd keys) (\<lambda>gopath.
     let pathToCheck = path_Join (path_Join gopath ''src'') rawPath in
     bind (reformat ''error validating chaincode path: %s'' (check (pathExists G pathToCheck))) (\<lambda>exists.
     if \<not> exists then Err (Errorf ''path to chaincode does not exist: %s'' [AStr pathToCheck]) else Ok ())))"

section \<open>Modules and dependencies\<close>

definition listModuleInfo :: "go_lib \<Rightarrow> string \<Rightarrow> string list \<Rightarrow> ModuleInfo option outcome" where
  "listModuleInfo G wd extraEnv =
     (let r = go_Run G \<lparr>cmd_Dir = wd, cmd_Env = (go_Environ G @ [''GO111MODULE=on'']) @ extraEnv,
                        cmd_Args = [''go'', ''list'', ''-json'', ''.'']\<rparr> in
      bind (on_err (CHR 0x27 # ''go list'' @ CHR 0x27 # '' failed'') (check (res_Output r))) (\<lambda>output.
      bind (on_err (''failed to unmarshal output from '' @ CHR 0x27 # ''go list'' @ [CHR 0x27])
              (check (go_json_Module G output))) (\<lambda>m.
      Ok (Some m))))"

definition regularFileExists :: "go_lib \<Rightarrow> string \<Rightarrow> bool outcome" where
  "regularFileExists G path = (case go_Stat G path of
     NotExist \<Rightarrow> Ok False | StatError err \<Rightarrow> Err err | Stat_ok regular dir \<Rightarrow> Ok regular)"

text \<open>The body of \<open>moduleInfo\<close> once it is in the directory.\<close>

definition module_here :: "go_lib \<Rightarrow> string \<Rightarrow> ModuleInfo option outcome" where
  "module_here G wd =
     (let r = go_Run G \<lparr>cmd_Dir = wd, cmd_Env = go_Environ G @ [''GO111MODULE=on''],
                        cmd_Args = [''go'', ''env'', ''GOMOD'']\<rparr> in
      bind (on_err ''failed to determine module root'' (check (res_Output r))) (\<lambda>output.
      bind (regularFileExists G (TrimSpace output)) (\<lambda>modExists.
      if \<not> modExists then Ok None else listModuleInfo G wd [])))"

text \<open>The result comes with the working directory the call leaves behind.\<close>

definition moduleInfo :: "go_lib \<Rightarrow> string \<Rightarrow> string \<Rightarrow> ModuleInfo option outcome \<times> string" where
  "moduleInfo G wd path =
     (case go_Getwd G wd of
        (_, Some err) \<Rightarrow> (Err (WithMsg ''failed to get working directory'' err), wd)
      | (entryWD, None) \<Rightarrow>
        (case go_Chdir G wd path of
           (_, Some _) \<Rightarrow> (Ok None, wd)
         | (wd', None) \<Rightarrow>
           (case go_Chdir G wd' entryWD of
              (_, Some err) \<Rightarrow> (Panic (PanicMsg ''failed to restore working directory: %s''), wd')
            | (wd'', None) \<Rightarrow> (module_here G wd', wd''))))"

fun deps_loop :: "PackageInfo ret list \<Rightarrow> PackageInfo list \<Rightarrow> PackageInfo list outcome" where
  "deps_loop [] lst = Ok lst"
| "deps_loop ((p, Some err) # ps) lst = Err err"
| "deps_loop ((p, None) # ps) lst =
     (if pi_Incomplete p
      then Err (Errorf ''failed to calculate dependencies: incomplete package: %s'' [AStr (pi_ImportPath p)])
      else if pi_Goroot p then deps_loop ps lst
      else deps_loop ps (lst @ [p]))"

definition gopathDependencyPackageInfo ::
    "go_lib \<Rightarrow> string \<Rightarrow> string \<Rightarrow> string \<Rightarrow> string \<Rightarrow> PackageInfo list outcome" where
  "gopathDependencyPackageInfo G wd goos goarch pkg =
     (case go_Packages G \<lparr>cmd_Dir = wd,
             cmd_Env = go_Environ G @ [''GOOS='' @ goos, ''GOARCH='' @ goarch],
             cmd_Args = [''go'', ''list'', ''-deps'', ''-json'', pkg]\<rparr> of
        (pipe, start, items, wait) \<Rightarrow>
      case pipe of Some err \<Rightarrow> Err (WithMsg (CHR 0x27 # ''go list -deps'' @ CHR 0x27 # '' failed'') err)
      | None \<Rightarrow>
      (case start of Some err \<Rightarrow> Err err
       | None \<Rightarrow>
         bind (deps_loop items []) (\<lambda>lst.
         case wait of Some err \<Rightarrow> Err (WithMsg ''listing deps for package %s failed'' err)
         | None \<Rightarrow> Ok lst)))"

definition Files :: "PackageInfo \<Rightarrow> string list" where
  "Files p = pi_GoFiles p @ pi_CFiles p @ pi_CgoFiles p @ pi_HFiles p @ pi_SFiles p @ pi_IgnoredGoFiles p"

lemma deps_loop_ok:
  "deps_loop ps lst = Ok r \<longleftrightarrow>
     list_all (\<lambda>p. snd p = None \<and> \<not> pi_Incomplete (fst p)) ps \<and>
     r = lst @ filter (\<lambda>p. \<not> pi_Goroot p) (map fst ps)"
  by (induction ps lst rule: deps_loop.induct) auto

lemma moduleInfo_restores:
  assumes "\<And>e w v. go_Getwd G wd = (e, None) \<Longrightarrow> go_Chdir G w e = (v, None) \<Longrightarrow> v = wd"
    and "moduleInfo G wd path = (r, wd')" "\<not> is_panic r"
  shows "wd' = wd"
  using assms by (auto simp: moduleInfo_def split: prod.splits option.splits)

end
