(* ===== verification/GoSource.thy ===== *)
theory GoSource
  imports GoPackage "HOL-Library.AList"
begin

text \<open>
  The sources of a Go chaincode and the archive made of them: \<open>internal/ccplatform/golang/package.go\<close>,
  the packing half of \<open>platform.go\<close>, the tar writers of \<open>golang/util.go\<close> and \<open>internal/ccplatform/util.go\<close>.

  A \<open>SourceMap\<close> is an association list: its order is the order in which Go ranges over the map. The
  closure of \<open>findSource\<close> is its two branches, \<open>visit_dir\<close> and \<open>visit_file\<close>, and \<open>filepath.Walk\<close> is
  the recursion over the tree that calls them. The tar writer is the list of entries written so far.
\<close>

section \<open>Where the code is\<close>

record CodeDescriptor =
  cd_Source :: string
  cd_MetadataRoot :: string
  cd_Path :: string
  cd_Module :: bool

record SourceDescriptor =
  sd_Name :: string
  sd_Path :: string

type_synonym SourceMap = "(string \<times> SourceDescriptor) list"

definition isMetadata :: "CodeDescriptor \<Rightarrow> string \<Rightarrow> bool" where
  "isMetadata cd path = prefix (path_Clean (cd_MetadataRoot cd)) (path_Clean path)"

definition isMetadataDir :: "string \<Rightarrow> string \<Rightarrow> bool" where
  "isMetadataDir path tld = prefix (path_Join tld ''META-INF'') path"

text \<open>\<open>filepath.Join\<close> of three elements.\<close>

definition path_Join3 :: "string \<Rightarrow> string \<Rightarrow> string \<Rightarrow> string" where
  "path_Join3 a b c =
     (let es = filter (\<lambda>e. e \<noteq> []) [a, b, c] in if es = [] then [] else path_Clean (join_slash es))"

definition describeGopath :: "go_lib \<Rightarrow> string \<Rightarrow> string \<Rightarrow> CodeDescriptor outcome" where
  "describeGopath G wd importPath =
     bind (on_err (CHR 0x27 # ''go list'' @ CHR 0x27 # '' failed'')
       (check (res_Output (go_Run G \<lparr>cmd_Dir = wd, cmd_Env = go_Environ G,
          cmd_Args = [''go'', ''list'', ''-f'', ''{{.Dir}}'', importPath]\<rparr>)))) (\<lambda>output.
     let sourcePath = path_Clean (TrimSpace output) in
     Ok \<lparr>cd_Source = sourcePath, cd_MetadataRoot = path_Join sourcePath ''META-INF'',
         cd_Path = importPath, cd_Module = False\<rparr>)"

definition DescribeCode :: "go_lib \<Rightarrow> string \<Rightarrow> string \<Rightarrow> CodeDescriptor outcome \<times> string" where
  "DescribeCode G wd path =
     (if path = [] then (Err (ErrNew ''cannot collect files from empty chaincode path''), wd)
      else case moduleInfo G wd path of
        (Err err, w) \<Rightarrow> (Err err, w)
      | (Panic p, w) \<Rightarrow> (Panic p, w)
      | (Ok (Some m), w) \<Rightarrow>
          (bind (path_Rel (mi_ModulePath m) (mi_ImportPath m)) (\<lambda>relImport.
           Ok \<lparr>cd_Source = mi_Dir m, cd_MetadataRoot = path_Join3 (mi_Dir m) relImport ''META-INF'',
               cd_Path = mi_ImportPath m, cd_Module = True\<rparr>), w)
      | (Ok None, w) \<Rightarrow> (describeGopath G w path, w))"

text \<open>The local distribution may be the one the set already holds.\<close>

definition distributions :: "go_lib \<Rightarrow> (string \<times> string) list" where
  "distributions G =
     (let dists = [(''linux'', ''amd64''), (go_Os G, go_Arch G)] in
      remdups (if go_LocalFirst G then rev dists else dists))"

definition NormalizePath :: "go_lib \<Rightarrow> string \<Rightarrow> string \<Rightarrow> string outcome \<times> string" where
  "NormalizePath G wd rawPath =
     (case moduleInfo G wd rawPath of (r, w) \<Rightarrow>
        (bind r (\<lambda>m. case m of None \<Rightarrow> Ok rawPath | Some mi \<Rightarrow> Ok (mi_ImportPath mi)), w))"

section \<open>The source files\<close>

definition validateMetadata :: "go_lib \<Rightarrow> (bytes \<Rightarrow> entries option) \<Rightarrow> string \<Rightarrow> string \<Rightarrow> unit outcome" where
  "validateMetadata G parse name path =
     bind (check (go_Open G path)) (\<lambda>contents.
     bind (ValidateMetadataFile parse name contents) (\<lambda>err.
     case err of None \<Rightarrow> Ok ()
     | Some (UnhandledDirectoryError e) \<Rightarrow> Err e
     | Some (FileError e) \<Rightarrow> Err e))"

text \<open>Whether the walk enters a directory: the alternative is \<open>filepath.SkipDir\<close>.\<close>

definition visit_dir :: "CodeDescriptor \<Rightarrow> string \<Rightarrow> string \<Rightarrow> bool" where
  "visit_dir cd path info_Name =
     (if path = cd_Source cd then True
      else if isMetadata cd path then True
      else if cd_Module cd \<and> \<not> prefix ''.'' info_Name then True
      else False)"

definition visit_file ::
    "go_lib \<Rightarrow> (bytes \<Rightarrow> entries option) \<Rightarrow> CodeDescriptor \<Rightarrow> string \<Rightarrow> string \<Rightarrow> SourceMap \<Rightarrow> SourceMap outcome" where
  "visit_file G parse cd path info_Name sources =
     (let relativeRoot = (if isMetadata cd path then cd_MetadataRoot cd else cd_Source cd);
          add = (\<lambda>name. Ok (AList.update name \<lparr>sd_Name = name, sd_Path = path\<rparr> sources)) in
      bind (on_err ''failed to calculate relative path for %s'' (path_Rel relativeRoot path)) (\<lambda>name.
      if isMetadata cd path
      then (if prefix ''.'' info_Name then Ok sources
            else let name = path_Join ''META-INF'' name in
                 bind (validateMetadata G parse name path) (\<lambda>_. add name))
      else if cd_Module cd then add (path_Join ''src'' name)
      else if name = ''go.mod'' \<or> name = ''go.sum'' then Ok sources
      else add (path_Join3 ''src'' (cd_Path cd) name)))"

fun fs_name :: "fs \<Rightarrow> string" where
  "fs_name (File n) = n"
| "fs_name (Dir n err es) = n"
| "fs_name (Bad n err) = n"

text \<open>The entries of a directory come in the order of their names; the walk of each gets the path of the
  directory joined with the name.\<close>

fun walk_tree ::
    "go_lib \<Rightarrow> (bytes \<Rightarrow> entries option) \<Rightarrow> CodeDescriptor \<Rightarrow> string \<Rightarrow> fs \<Rightarrow> SourceMap \<Rightarrow> SourceMap outcome"
  and walk_list ::
    "go_lib \<Rightarrow> (bytes \<Rightarrow> entries option) \<Rightarrow> CodeDescriptor \<Rightarrow> string \<Rightarrow> fs list \<Rightarrow> SourceMap \<Rightarrow> SourceMap outcome" where
  "walk_tree G parse cd path (File n) sources = visit_file G parse cd path n sources"
| "walk_tree G parse cd path (Bad n err) sources = Err err"
| "walk_tree G parse cd path (Dir n (Some err) es) sources = Err err"
| "walk_tree G parse cd path (Dir n None es) sources =
     (if visit_dir cd path n then walk_list G parse cd path es sources else Ok sources)"
| "walk_list G parse cd dir [] sources = Ok sources"
| "walk_list G parse cd dir (e # es) sources =
     bind (walk_tree G parse cd (path_Join dir (fs_name e)) e sources) (\<lambda>sources.
     walk_list G parse cd dir es sources)"

definition findSource :: "go_lib \<Rightarrow> (bytes \<Rightarrow> entries option) \<Rightarrow> CodeDescriptor \<Rightarrow> SourceMap outcome" where
  "findSource G parse cd =
     on_err ''walk failed'' (walk_tree G parse cd (cd_Source cd) (go_Tree G (cd_Source cd)) [])"

section \<open>Vendoring, sorting, directories\<close>

fun vendor_exclusions :: "string \<Rightarrow> string list \<Rightarrow> string list" where
  "vendor_exclusions prev [] = []"
| "vendor_exclusions prev (element # elements) =
     (let curr = path_Join prev element in path_Join curr ''vendor'' # vendor_exclusions curr elements)"

text \<open>\<open>strings.Replace(s, old, new, 1)\<close>.\<close>

fun replace_first :: "string \<Rightarrow> string \<Rightarrow> string \<Rightarrow> string" where
  "replace_first old new [] = (if old = [] then new else [])"
| "replace_first old new (c # cs) =
     (if prefix old (c # cs) then new @ drop (length old) (c # cs) else c # replace_first old new cs)"

text \<open>Each goroutine writes its own element of the slice.\<close>

definition vendorDependencies :: "string \<Rightarrow> SourceDescriptor list \<Rightarrow> SourceDescriptor list" where
  "vendorDependencies pkg files =
     (let exclusions = vendor_exclusions ''src'' (split_slash pkg) @ [path_Join ''src'' pkg];
          vendorPath = path_Join3 ''src'' pkg ''vendor'' in
      map (\<lambda>file. if list_ex (\<lambda>exclusion. prefix exclusion (sd_Name file)) exclusions then file
                  else file\<lparr>sd_Name := replace_first ''src'' vendorPath (sd_Name file)\<rparr>) files)"

definition Sources_Less :: "SourceDescriptor \<Rightarrow> SourceDescriptor \<Rightarrow> bool" where
  "Sources_Less a b = (sd_Name a < sd_Name b)"

text \<open>\<open>sort.Sort\<close> with \<open>Sources.Less\<close>, the order of the names.\<close>

definition map_Sources :: "SourceMap \<Rightarrow> SourceDescriptor list" where
  "map_Sources s = sort_key sd_Name (map snd s)"

function add_dirs :: "string \<Rightarrow> string list \<Rightarrow> string list" where
  "add_dirs dir dirs =
     (if dir = ''.'' \<or> dir \<in> set dirs then dirs else add_dirs (path_Dir dir) (dirs @ [dir]))"
  by pat_completeness auto

termination
proof (relation "measure (\<lambda>(dir, dirs).
    if dir = ''.'' then 0 else 2 * length dir + (if dir \<in> set dirs then 1 else 2))", goal_cases)
  case (2 dir dirs)
  then show ?case using path_Dir_shorter[of dir] by auto
qed simp

declare add_dirs.simps [simp del]

definition Directories :: "SourceMap \<Rightarrow> string list" where
  "Directories s = sort (fold (\<lambda>e. add_dirs (path_Dir (fst e))) s [])"

section \<open>The archive\<close>

definition WriteStreamToPackage ::
    "go_lib \<Rightarrow> bytes \<Rightarrow> string \<Rightarrow> string \<Rightarrow> tar_entry list \<Rightarrow> tar_entry list outcome" where
  "WriteStreamToPackage G stream localpath packagepath tw =
     (case go_Stat G localpath of
        NotExist \<Rightarrow> Err (Errorf ''%s: %s'' [AStr localpath, AErr (ErrExt ''file does not exist'')])
      | StatError err \<Rightarrow> Err (Errorf ''%s: %s'' [AStr localpath, AErr err])
      | Stat_ok regular isdir \<Rightarrow>
        bind (reformat ''Error getting FileInfoHeader: %s'' (check (go_FileInfoHeader G localpath)))
          (\<lambda>(oldname, sz).
        let header = \<lparr>tar_Name = packagepath, tar_Mode = 33188, te_Dir = isdir,
                      te_Uid = 500, te_Gid = 500, te_Body = []\<rparr>;
            report = (\<lambda>format err. Err (Errorf format
              [AStr localpath, AStr oldname, AStr packagepath, AInt sz, AErr err])) in
        case go_WriteHeader G tw header of
          Some err \<Rightarrow> report ''Error write header for (path: %s, oldname:%s,newname:%s,sz:%d) : %s'' err
        | None \<Rightarrow>
          (case go_Write G tw header stream of
             (written, Some err) \<Rightarrow> report ''Error copy (path: %s, oldname:%s,newname:%s,sz:%d) : %s'' err
           | (written, None) \<Rightarrow> Ok (tw @ [header\<lparr>te_Body := written\<rparr>]))))"

definition WriteFileToPackage ::
    "go_lib \<Rightarrow> string \<Rightarrow> string \<Rightarrow> tar_entry list \<Rightarrow> tar_entry list outcome" where
  "WriteFileToPackage G localpath packagepath tw =
     (case go_Open G localpath of
        (_, Some err) \<Rightarrow> Err (Errorf ''%s: %s'' [AStr localpath, AErr err])
      | (contents, None) \<Rightarrow> WriteStreamToPackage G contents localpath packagepath tw)"

text \<open>The errors of the header and of the write are dropped: the result is always nil.\<close>

definition WriteBytesToPackage ::
    "go_lib \<Rightarrow> string \<Rightarrow> bytes \<Rightarrow> tar_entry list \<Rightarrow> gerror option \<times> tar_entry list" where
  "WriteBytesToPackage G name payload tw =
     (let header = \<lparr>tar_Name = name, tar_Mode = 33188, te_Dir = False, te_Uid = 0, te_Gid = 0, te_Body = []\<rparr> in
      case go_WriteHeader G tw header of
        Some err \<Rightarrow> (None, tw)
      | None \<Rightarrow> (None, tw @ [header\<lparr>te_Body := fst (go_Write G tw header payload)\<rparr>]))"

text \<open>The writer of the registry, in \<open>internal/ccplatform/util.go\<close>.\<close>

definition registry_WriteBytesToPackage ::
    "go_lib \<Rightarrow> string \<Rightarrow> bytes \<Rightarrow> tar_entry list \<Rightarrow> gerror option \<times> tar_entry list" where
  "registry_WriteBytesToPackage G name payload tw =
     (let header = \<lparr>tar_Name = name, tar_Mode = 33188, te_Dir = False, te_Uid = 0, te_Gid = 0, te_Body = []\<rparr> in
      case go_WriteHeader G tw header of
        Some err \<Rightarrow> (None, tw)
      | None \<Rightarrow> (None, tw @ [header\<lparr>te_Body := fst (go_Write G tw header payload)\<rparr>]))"

definition dir_entry :: "string \<Rightarrow> tar_entry" where
  "dir_entry dirname =
     \<lparr>tar_Name = dirname @ ''/'', tar_Mode = 16384 OR 493, te_Dir = True, te_Uid = 500, te_Gid = 500, te_Body = []\<rparr>"

fun write_dirs :: "go_lib \<Rightarrow> string list \<Rightarrow> tar_entry list \<Rightarrow> tar_entry list outcome" where
  "write_dirs G [] tw = Ok tw"
| "write_dirs G (dirname # ds) tw =
     (case go_WriteHeader G tw (dir_entry dirname) of
        Some err \<Rightarrow> Err err
      | None \<Rightarrow> write_dirs G ds (tw @ [dir_entry dirname]))"

fun write_sources :: "go_lib \<Rightarrow> SourceDescriptor list \<Rightarrow> tar_entry list \<Rightarrow> tar_entry list outcome" where
  "write_sources G [] tw = Ok tw"
| "write_sources G (file # files) tw =
     (case WriteFileToPackage G (sd_Path file) (sd_Name file) tw of
        Err err \<Rightarrow> Err (Errorf ''Error writing %s to tar: %s'' [AStr (sd_Name file), AErr err])
      | Panic p \<Rightarrow> Panic p
      | Ok tw' \<Rightarrow> write_sources G files tw')"

fun dependency_loop :: "go_lib \<Rightarrow> string \<Rightarrow> string \<Rightarrow> (string \<times> string) list \<Rightarrow> PackageInfo list \<Rightarrow> PackageInfo list outcome" where
  "dependency_loop G wd path [] deps = Ok deps"
| "dependency_loop G wd path ((goos, goarch) # ds) deps =
     bind (gopathDependencyPackageInfo G wd goos goarch path) (\<lambda>pkgs.
     dependency_loop G wd path ds (deps @ pkgs))"

definition add_package :: "PackageInfo \<Rightarrow> SourceMap \<Rightarrow> SourceMap" where
  "add_package pkg fileMap =
     fold (\<lambda>filename m. let name = path_Join3 ''src'' (pi_ImportPath pkg) filename in
       AList.update name \<lparr>sd_Name = name, sd_Path = path_Join (pi_Dir pkg) filename\<rparr> m) (Files pkg) fileMap"

text \<open>The files of the archive, and the archive made of them.\<close>

definition payload_files ::
    "go_lib \<Rightarrow> (bytes \<Rightarrow> entries option) \<Rightarrow> string \<Rightarrow> CodeDescriptor \<Rightarrow> SourceMap outcome" where
  "payload_files G parse wd cd =
     bind (findSource G parse cd) (\<lambda>fileMap.
     bind (if cd_Module cd then Ok [] else dependency_loop G wd (cd_Path cd) (distributions G) []) (\<lambda>deps.
     Ok (fold add_package deps fileMap)))"

definition write_payload :: "go_lib \<Rightarrow> SourceMap \<Rightarrow> tar_entry list outcome" where
  "write_payload G fileMap =
     bind (check ((), go_gzip_NewWriter G)) (\<lambda>_.
     bind (write_dirs G (Directories fileMap) []) (\<lambda>tw.
     write_sources G (map_Sources fileMap) tw))"

definition GetDeploymentPayload ::
    "go_lib \<Rightarrow> (bytes \<Rightarrow> entries option) \<Rightarrow> string \<Rightarrow> string \<Rightarrow> bytes outcome \<times> string" where
  "GetDeploymentPayload G parse wd codePath =
     (case DescribeCode G wd codePath of (r, w) \<Rightarrow>
       (bind r (\<lambda>codeDescriptor.
        bind (payload_files G parse w codeDescriptor) (\<lambda>fileMap.
        bind (write_payload G fileMap) (\<lambda>tw.
        on_err ''failed to create tar for chaincode'' (check (go_Close G tw))))), w))"

end
