(* ===== verification/GoPayload.thy ===== *)
theory GoPayload
  imports GoSource "HOL-Library.Multiset"
begin

text \<open>
  What the packaging of Go chaincode guarantees: the directories of an archive are the ancestors of its
  files and come before them, and every file of the source map is in the archive.
\<close>

section \<open>Directories are the ancestors of the files\<close>

text \<open>A key of a source map: a relative path of proper components.\<close>

definition source_key :: "string \<Rightarrow> bool" where
  "source_key k \<longleftrightarrow> proper_path (split_slash k)"

lemma join_split_slash: "join_slash (split_slash s) = s"
proof (induction s)
  case (Cons c s)
  then show ?case
    using split_slash_not_nil[of s] by (cases "split_slash s") (auto simp: join_slash_Cons)
qed simp

lemma source_key_join [simp]: "proper_path cs \<Longrightarrow> cs \<noteq> [] \<Longrightarrow> source_key (join_slash cs)"
  by (simp add: source_key_def split_join_slash)

lemma join_slash_inj:
  "proper_path cs \<Longrightarrow> proper_path ds \<Longrightarrow> cs \<noteq> [] \<Longrightarrow> ds \<noteq> [] \<Longrightarrow> join_slash cs = join_slash ds \<longleftrightarrow> cs = ds"
  by (metis split_join_slash)

lemma proper_path_prefix: "proper_path cs \<Longrightarrow> prefix ds cs \<Longrightarrow> proper_path ds"
  by (auto simp: prefix_def)

lemma join_slash_not_dot: "proper_path cs \<Longrightarrow> join_slash cs \<noteq> ''.''"
  by (cases cs) (auto simp: join_slash_Cons proper_name_def append_eq_Cons_conv)

definition ancestors :: "string list \<Rightarrow> string set" where
  "ancestors cs = {join_slash ds | ds. ds \<noteq> [] \<and> prefix ds cs}"

lemma ancestors_simps [simp]:
  "ancestors [] = {}" "ancestors (cs @ [c]) = insert (join_slash (cs @ [c])) (ancestors cs)"
  by (auto simp: ancestors_def)

text \<open>A set of directories that has the ancestors of those of its members that lead to \<open>cs\<close>.\<close>

definition closed_below :: "string list \<Rightarrow> string set \<Rightarrow> bool" where
  "closed_below cs D \<longleftrightarrow> (\<forall>p. prefix p cs \<and> p \<noteq> [] \<and> join_slash p \<in> D \<longrightarrow> ancestors p \<subseteq> D)"

lemma add_dirs_ancestors:
  assumes "proper_path cs" "closed_below cs (set D)"
  shows "set (add_dirs (if cs = [] then ''.'' else join_slash cs) D) = set D \<union> ancestors cs"
  using assms
proof (induction cs arbitrary: D rule: rev_induct)
  case Nil
  then show ?case by (simp add: add_dirs.simps)
next
  case (snoc c cs)
  show ?case
  proof (cases "join_slash (cs @ [c]) \<in> set D")
    case True
    then have "ancestors (cs @ [c]) \<subseteq> set D" using snoc.prems(2) unfolding closed_below_def by blast
    then show ?thesis using True by (auto simp: add_dirs.simps[of "join_slash (cs @ [c])"])
  next
    case False
    have "closed_below cs (set (D @ [join_slash (cs @ [c])]))"
      unfolding closed_below_def
    proof (intro allI impI)
      fix p assume p: "prefix p cs \<and> p \<noteq> [] \<and> join_slash p \<in> set (D @ [join_slash (cs @ [c])])"
      then have "p \<noteq> cs @ [c]" by (auto simp: prefix_def)
      then have "join_slash p \<noteq> join_slash (cs @ [c])"
        using p snoc.prems(1) proper_path_prefix[of cs p] by (subst join_slash_inj) auto
      then show "ancestors p \<subseteq> set (D @ [join_slash (cs @ [c])])"
        using p snoc.prems(2) unfolding closed_below_def by auto
    qed
    then have "set (add_dirs (if cs = [] then ''.'' else join_slash cs) (D @ [join_slash (cs @ [c])]))
        = set (D @ [join_slash (cs @ [c])]) \<union> ancestors cs"
      using snoc.IH snoc.prems(1) by simp
    then show ?thesis
      using False snoc.prems(1) join_slash_not_dot[of "cs @ [c]"] dir_proper[of cs c]
      by (simp add: add_dirs.simps[of "join_slash (cs @ [c])"])
  qed
qed

lemma add_dirs_distinct: "distinct D \<Longrightarrow> distinct (add_dirs d D)"
  by (induction d D rule: add_dirs.induct) (subst add_dirs.simps, simp)

definition all_ancestors :: "string list \<Rightarrow> string set" where
  "all_ancestors ks = (\<Union>k\<in>set ks. ancestors (butlast (split_slash k)))"

lemma closed_ancestors:
  assumes "list_all source_key ks" "proper_path cs"
  shows "closed_below cs (all_ancestors ks)"
  unfolding closed_below_def
proof (intro allI impI)
  fix p assume p: "prefix p cs \<and> p \<noteq> [] \<and> join_slash p \<in> all_ancestors ks"
  then obtain k ds where k: "k \<in> set ks" "join_slash p = join_slash ds" "ds \<noteq> []"
    "prefix ds (butlast (split_slash k))" by (auto simp: all_ancestors_def ancestors_def)
  have "proper_path (split_slash k)" using assms(1) k(1) by (auto simp: list_all_iff source_key_def)
  then have "proper_path ds" using k(4) proper_path_prefix prefixeq_butlast prefix_order.trans by metis
  then have "p = ds" using k p assms(2) proper_path_prefix join_slash_inj by metis
  then have "ancestors p \<subseteq> ancestors (butlast (split_slash k))"
    using k(4) by (auto simp: ancestors_def dest: prefix_order.trans)
  then show "ancestors p \<subseteq> all_ancestors ks" using k(1) by (auto simp: all_ancestors_def)
qed

lemma dir_of_key: "source_key k \<Longrightarrow>
  path_Dir k = (if butlast (split_slash k) = [] then ''.'' else join_slash (butlast (split_slash k)))"
  using dir_proper[of "butlast (split_slash k)" "last (split_slash k)"] split_slash_not_nil[of k]
  by (simp add: source_key_def join_split_slash)

lemma fold_add_dirs:
  assumes "list_all source_key ks" "list_all source_key ks'" "set D = all_ancestors ks'" "distinct D"
  shows "set (fold (\<lambda>k. add_dirs (path_Dir k)) ks D) = all_ancestors (ks' @ ks) \<and>
    distinct (fold (\<lambda>k. add_dirs (path_Dir k)) ks D)"
  using assms
proof (induction ks arbitrary: D ks')
  case (Cons k ks)
  let ?b = "butlast (split_slash k)"
  have b: "proper_path ?b" using Cons.prems(1) proper_path_prefix[OF _ prefixeq_butlast]
    by (auto simp: source_key_def)
  have "set (add_dirs (path_Dir k) D) = set D \<union> ancestors ?b"
    using add_dirs_ancestors[OF b, of D] closed_ancestors[OF Cons.prems(2) b] Cons.prems dir_of_key[of k]
    by simp
  then have "set (add_dirs (path_Dir k) D) = all_ancestors (ks' @ [k])"
    using Cons.prems(3) by (auto simp: all_ancestors_def)
  then show ?case using Cons.IH[of "ks' @ [k]" "add_dirs (path_Dir k) D"] Cons.prems
    by (simp add: add_dirs_distinct)
qed simp

lemma directories_set:
  assumes "list_all (\<lambda>e. source_key (fst e)) s"
  shows "set (Directories s) = all_ancestors (map fst s) \<and> distinct (Directories s)"
proof -
  have "fold (\<lambda>e. add_dirs (path_Dir (fst e))) s [] = fold (\<lambda>k. add_dirs (path_Dir k)) (map fst s) []"
    by (simp add: fold_map comp_def)
  then show ?thesis
    using fold_add_dirs[of "map fst s" "[]" "[]"] assms
    by (simp add: Directories_def list.pred_map comp_def all_ancestors_def)
qed

text \<open>Whatever the order in which the source map is ranged over, the directories of its files are
  exactly the ancestors of its keys, each once and in the order of their names: the loop that walks up
  from each file stops at a directory it has seen and still misses none above it.\<close>

lemma directories_are_the_ancestors:
  assumes "list_all (\<lambda>e. source_key (fst e)) s"
  shows "set (Directories s) = all_ancestors (map fst s) \<and> distinct (Directories s) \<and> sorted (Directories s)"
  using directories_set[OF assms] by (simp add: Directories_def)

definition sample_map :: SourceMap where
  "sample_map = map (\<lambda>k. (k, \<lparr>sd_Name = k, sd_Path = ''/b'' @ k\<rparr>)) [''src/a/x.go'', ''src/b/c/y.go'', ''src/a/z.go'']"

lemma sample_key: "source_key ''src/a/x.go''" "source_key ''src/b/c/y.go''" "source_key ''src/a/z.go''"
  by code_simp+

theorem directories_are_the_ancestors_witness:
  "set (Directories sample_map) = all_ancestors (map fst sample_map)"
  using directories_are_the_ancestors[of sample_map] sample_key by (simp add: sample_map_def)

section \<open>The archive\<close>

definition source_map_ok :: "SourceMap \<Rightarrow> bool" where
  "source_map_ok s \<longleftrightarrow> list_all (\<lambda>e. source_key (fst e) \<and> sd_Name (snd e) = fst e) s \<and> distinct (map fst s)"

lemma write_dirs_ok: "write_dirs G ds tw = Ok tw' \<Longrightarrow> tw' = tw @ map dir_entry ds"
  by (induction G ds tw rule: write_dirs.induct) (auto split: option.splits)

lemma write_stream_ok:
  assumes "WriteStreamToPackage G is p n tw = Ok tw'"
  shows "\<exists>e. tw' = tw @ [e] \<and> tar_Name e = n \<and> tar_Mode e = 33188 \<and> te_Uid e = 500 \<and> te_Gid e = 500"
proof (cases "go_Stat G p")
  case (Stat_ok r d)
  let ?h = "\<lparr>tar_Name = n, tar_Mode = 33188, te_Dir = d, te_Uid = 500, te_Gid = 500, te_Body = []\<rparr>"
  obtain nm sz where h: "go_FileInfoHeader G p = ((nm, sz), None)"
    using assms Stat_ok by (auto simp: WriteStreamToPackage_def)
  obtain w err where w: "go_Write G tw ?h is = (w, err)" by fastforce
  have "go_WriteHeader G tw ?h = None \<and> err = None \<and> tw' = tw @ [?h\<lparr>te_Body := w\<rparr>]"
    using assms w by (cases "go_WriteHeader G tw ?h"; cases err)
      (simp_all add: WriteStreamToPackage_def Stat_ok h reformat_def Let_def)
  then show ?thesis by simp
qed (use assms in \<open>simp_all add: WriteStreamToPackage_def\<close>)

lemma write_file_ok:
  "WriteFileToPackage G p n tw = Ok tw' \<Longrightarrow>
     \<exists>e. tw' = tw @ [e] \<and> tar_Name e = n \<and> tar_Mode e = 33188 \<and> te_Uid e = 500 \<and> te_Gid e = 500"
proof -
  assume *: "WriteFileToPackage G p n tw = Ok tw'"
  obtain c err where o: "go_Open G p = (c, err)" by fastforce
  have "WriteStreamToPackage G c p n tw = Ok tw'" using * o by (cases err) (simp_all add: WriteFileToPackage_def)
  then show ?thesis by (rule write_stream_ok)
qed

lemma write_sources_ok:
  "write_sources G fs tw = Ok tw' \<Longrightarrow>
     \<exists>es. tw' = tw @ es \<and> map tar_Name es = map sd_Name fs \<and>
       list_all (\<lambda>e. tar_Mode e = 33188 \<and> te_Uid e = 500 \<and> te_Gid e = 500) es"
proof (induction fs arbitrary: tw)
  case (Cons f fs)
  then obtain tw1 where 1: "WriteFileToPackage G (sd_Path f) (sd_Name f) tw = Ok tw1" "write_sources G fs tw1 = Ok tw'"
    by (cases "WriteFileToPackage G (sd_Path f) (sd_Name f) tw") simp_all
  obtain e where e: "tw1 = tw @ [e]" "tar_Name e = sd_Name f" "tar_Mode e = 33188 \<and> te_Uid e = 500 \<and> te_Gid e = 500"
    using write_file_ok[OF 1(1)] by blast
  obtain es where "tw' = tw1 @ es" "map tar_Name es = map sd_Name fs"
    "list_all (\<lambda>e. tar_Mode e = 33188 \<and> te_Uid e = 500 \<and> te_Gid e = 500) es" using Cons.IH[OF 1(2)] by blast
  then show ?case using e by (intro exI[of _ "e # es"]) simp
qed simp

lemma write_payload_ok:
  assumes "write_payload G s = Ok tw"
  shows "\<exists>es. tw = map dir_entry (Directories s) @ es \<and> map tar_Name es = map sd_Name (map_Sources s) \<and>
    list_all (\<lambda>e. tar_Mode e = 33188 \<and> te_Uid e = 500 \<and> te_Gid e = 500) es"
proof -
  obtain tw0 where "write_dirs G (Directories s) [] = Ok tw0" "write_sources G (map_Sources s) tw0 = Ok tw"
    using assms by (auto simp: write_payload_def)
  then show ?thesis using write_dirs_ok write_sources_ok by fastforce
qed

lemma sources_names: "source_map_ok s \<Longrightarrow> map sd_Name (map_Sources s) = sort (map fst s)"
proof -
  assume "source_map_ok s"
  then have "map sd_Name (map snd s) = map fst s"
    by (simp add: source_map_ok_def list_all_iff)
  moreover have "map sd_Name (sort_key sd_Name (map snd s)) = sort (map sd_Name (map snd s))"
    by (rule properties_for_sort[symmetric]) (simp_all add: sorted_sort_key multiset.map_comp)
  ultimately show ?thesis unfolding map_Sources_def by argo
qed

lemma join_slash_less: "cs \<noteq> [] \<Longrightarrow> join_slash cs < join_slash (cs @ [c])"
proof -
  assume "cs \<noteq> []"
  then have "join_slash (cs @ [c]) = join_slash cs @ ''/'' @ c" by (simp add: join_slash_append)
  then show ?thesis by (simp add: list_less_def lexord_def)
qed

lemma sorted_position:
  fixes ds :: "string list"
  assumes "sorted ds" "j < length ds" "i < length ds" "ds ! j < ds ! i"
  shows "j < i"
  using assms by (meson not_le sorted_nth_mono)

lemma parent_listed:
  assumes "source_map_ok s" "proper_path (cs @ [c])" "cs \<noteq> []"
    and "join_slash (cs @ [c]) \<in> set (Directories s) \<or> join_slash (cs @ [c]) \<in> set (map fst s)"
  shows "join_slash cs \<in> set (Directories s)"
proof -
  have keys: "list_all source_key (map fst s)"
    using assms(1) by (simp add: source_map_ok_def list_all_iff)
  have D: "set (Directories s) = all_ancestors (map fst s)"
    using directories_set[of s] assms(1) by (simp add: source_map_ok_def list_all_iff)
  show ?thesis
    using assms(4)
  proof
    assume "join_slash (cs @ [c]) \<in> set (Directories s)"
    then have "ancestors (cs @ [c]) \<subseteq> set (Directories s)"
      using closed_ancestors[OF keys assms(2)] D unfolding closed_below_def by blast
    then show ?thesis using assms(3) by (auto simp: ancestors_def)
  next
    assume "join_slash (cs @ [c]) \<in> set (map fst s)"
    then have "ancestors (butlast (split_slash (join_slash (cs @ [c])))) \<subseteq> set (Directories s)"
      unfolding D all_ancestors_def by blast
    then show ?thesis using assms(2,3) by (auto simp: split_join_slash ancestors_def)
  qed
qed

text \<open>The name of an entry without the slash that marks a directory.\<close>

definition entry_path :: "tar_entry \<Rightarrow> string" where
  "entry_path e = (if te_Dir e \<and> last (tar_Name e) = CHR ''/'' then butlast (tar_Name e) else tar_Name e)"

lemma entry_path_dir [simp]: "entry_path (dir_entry d) = d"
  by (simp add: entry_path_def dir_entry_def)

lemma key_last: "source_key k \<Longrightarrow> k \<noteq> [] \<and> last k \<noteq> CHR ''/''"
proof -
  assume k: "source_key k"
  define cs where "cs = split_slash k"
  have cs: "proper_path cs" "cs \<noteq> []" "k = join_slash cs"
    using k by (simp_all add: cs_def source_key_def split_slash_not_nil join_split_slash)
  then obtain ds c where ds: "cs = ds @ [c]" by (cases cs rule: rev_cases) auto
  have c: "c \<noteq> []" "last c \<noteq> CHR ''/''"
    using cs(1) ds last_in_set[of c] by (force simp: proper_name_def)+
  show ?thesis using c cs(3) by (cases "ds = []") (auto simp: ds join_slash_append)
qed

text \<open>The archive does not depend on the order in which the source map is ranged over.\<close>

lemma archive_order_irrelevant:
  assumes "source_map_ok s" "mset s' = mset s"
  shows "write_payload G s' = write_payload G s"
proof -
  have set: "set s' = set s" using assms(2) by (rule mset_eq_setD)
  have keys: "list_all (\<lambda>e. source_key (fst e)) s" "list_all (\<lambda>e. source_key (fst e)) s'"
    using assms(1) by (auto simp: source_map_ok_def list_all_iff set)
  have "Directories s' = Directories s"
    by (rule sorted_distinct_set_unique)
      (use directories_set[OF keys(1)] directories_set[OF keys(2)] in \<open>simp_all add: Directories_def all_ancestors_def set\<close>)
  moreover have "map_Sources s' = map_Sources s"
    unfolding map_Sources_def
  proof (rule sort_key_inj_key_eq)
    show "mset (map snd s') = mset (sort_key sd_Name (map snd s))" using assms(2) by simp
    have "\<forall>e\<in>set s. sd_Name (snd e) = fst e" "inj_on fst (set s)"
      using assms(1) by (auto simp: source_map_ok_def list_all_iff distinct_map)
    then show "inj_on sd_Name (set (map snd s'))" by (auto simp: inj_on_def set)
    show "sorted (map sd_Name (sort_key sd_Name (map snd s)))" by (rule sorted_sort_key)
  qed
  ultimately show ?thesis by (simp add: write_payload_def)
qed

text \<open>C37. An archive can be unpacked in the order it is written: when the files of a source map are
  packed without an error, the entry of the directory that holds an entry comes before it, for files and
  directories of any depth, and every file of the map has its entry.\<close>

theorem parents_come_first:
  assumes ok: "source_map_ok s" and run: "write_payload G s = Ok tw"
    and e: "i < length tw" "entry_path (tw ! i) = join_slash (cs @ [c])" "proper_path (cs @ [c])" "cs \<noteq> []"
  shows "(\<exists>j. j < i \<and> tw ! j = dir_entry (join_slash cs)) \<and> set (map fst s) \<subseteq> set (map entry_path tw)"
proof -
  let ?ds = "Directories s"
  obtain es where es: "tw = map dir_entry ?ds @ es" "map tar_Name es = sort (map fst s)"
    using write_payload_ok[OF run] sources_names[OF ok] by auto
  have sorted: "sorted ?ds" by (simp add: Directories_def)
  have plain: "entry_path x = tar_Name x \<and> tar_Name x \<in> set (map fst s)" if "x \<in> set es" for x
  proof -
    have "tar_Name x \<in> set (map fst s)" using that es(2) by (metis image_eqI set_map set_sort)
    then show ?thesis using ok key_last by (auto simp: source_map_ok_def list_all_iff entry_path_def)
  qed
  have "join_slash cs \<in> set ?ds"
  proof (rule parent_listed[OF ok e(3,4)])
    have "tw ! i \<in> set tw" using e(1) by (rule nth_mem)
    then consider d where "d \<in> set ?ds" "tw ! i = dir_entry d" | "tw ! i \<in> set es" using es(1) by auto
    then show "join_slash (cs @ [c]) \<in> set ?ds \<or> join_slash (cs @ [c]) \<in> set (map fst s)"
      using e(2) plain[of "tw ! i"] by cases auto
  qed
  then obtain j where j: "j < length ?ds" "?ds ! j = join_slash cs" by (auto simp: in_set_conv_nth)
  have "j < i"
  proof (cases "i < length ?ds")
    case True
    then have "?ds ! i = join_slash (cs @ [c])" using e(2) es(1) by (simp add: nth_append)
    then show ?thesis using sorted_position[OF sorted j(1) True] j(2) join_slash_less[OF e(4)] by simp
  qed (use j in simp)
  moreover have "tw ! j = dir_entry (join_slash cs)" using j es(1) by (simp add: nth_append)
  moreover have "set (map fst s) = set (map entry_path es)"
    using es(2) plain by (metis (no_types, lifting) map_eq_conv set_sort)
  ultimately show ?thesis using es(1) by auto
qed

definition sample_go :: go_lib where
  "sample_go =
     \<lparr>go_Environ = [], go_Run = (\<lambda>c. \<lparr>res_Output = (''/m/go.mod'', None), res_Stderr = [], res_Deadline = False\<rparr>),
      go_Packages = (\<lambda>c. (None, None, [], None)),
      go_json_Module = (\<lambda>s. (\<lparr>mi_Dir = ''/m'', mi_GoMod = ''/m/go.mod'', mi_ImportPath = ''x/m'', mi_ModulePath = ''x/m''\<rparr>, None)),
      go_Getwd = (\<lambda>wd. (wd, None)), go_Chdir = (\<lambda>wd p. (p, None)),
      go_Stat = (\<lambda>p. Stat_ok True False), go_Open = (\<lambda>p. ([1, 2], None)),
      go_Tree = (\<lambda>p. Dir ''m'' None [File ''a.go'', Dir ''.git'' None [File ''HEAD''], Dir ''lib'' None [File ''b.go'', File ''.x''],
        Dir ''META-INF'' None [Dir ''statedb'' None [Dir ''couchdb'' None [Dir ''indexes'' None [File ''i.json'']]]]]),
      go_Os = ''linux'', go_Arch = ''amd64'', go_LocalFirst = False,
      go_FileInfoHeader = (\<lambda>p. ((p, 2), None)), go_WriteHeader = (\<lambda>tw e. None),
      go_Write = (\<lambda>tw e b. (b, None)), go_gzip_NewWriter = None,
      go_Close = (\<lambda>tw. (map (\<lambda>e. of_nat (length (te_Body e))) tw, None)), go_URLScheme = (\<lambda>s. ([], None))\<rparr>"

abbreviation sample_payload :: "tar_entry list" where
  "sample_payload \<equiv> map dir_entry [''src'', ''src/a'', ''src/b'', ''src/b/c''] @
     map (\<lambda>n. \<lparr>tar_Name = n, tar_Mode = 33188, te_Dir = False, te_Uid = 500, te_Gid = 500, te_Body = [1, 2]\<rparr>)
       [''src/a/x.go'', ''src/a/z.go'', ''src/b/c/y.go'']"

lemma sample_payload: "write_payload sample_go sample_map = Ok sample_payload"
  by code_simp

theorem parents_come_first_witness:
  "(\<exists>j. j < 3 \<and> sample_payload ! j = dir_entry (join_slash [''src'', ''b''])) \<and>
   set (map fst sample_map) \<subseteq> set (map entry_path sample_payload)"
  by (rule parents_come_first[OF _ sample_payload, of 3 "[''src'', ''b'']" "''c''"])
    (simp_all add: source_map_ok_def sample_map_def sample_key proper_name_def)

end
