(* ===== verification/GoModule.thy ===== *)
theory GoModule
  imports GoPayload
begin

text \<open>
  The sources of a Go module: which files \<open>findSource\<close> of \<open>internal/ccplatform/golang/package.go\<close>
  collects from the tree of a module, and under which names they enter the archive; what the validator of
  code packages makes of the archive; and that packaging restores the working directory.
\<close>

section \<open>What counts as metadata\<close>

text \<open>A file or directory is the list of its components below the source directory; \<open>meta\<close> is the
  metadata directory. \<open>isMetadata\<close> is a prefix of strings: of the components it makes a prefix in which
  the last one need only begin with that of \<open>meta\<close>.\<close>

fun meta_path :: "string list \<Rightarrow> string list \<Rightarrow> bool" where
  "meta_path [] p = True"
| "meta_path (m # ms) [] = False"
| "meta_path (m # ms) (c # p) = (if ms = [] then prefix m c else m = c \<and> meta_path ms p)"

lemma meta_path_iff: "meta_path (i @ [m]) p \<longleftrightarrow> (\<exists>c q. p = i @ c # q \<and> prefix m c)"
proof (induction i arbitrary: p)
  case Nil
  show ?case by (cases p) auto
next
  case (Cons m' i)
  then show ?case by (cases p) auto
qed

lemma meta_path_append: "ms \<noteq> [] \<Longrightarrow> meta_path (root @ ms) (root @ p) = meta_path ms p"
  by (induction root) auto

lemma prefix_meta_path: "prefix meta p \<Longrightarrow> meta_path meta p"
  by (induction meta p rule: meta_path.induct) auto

lemma prefix_slash:
  "CHR ''/'' \<notin> set c \<Longrightarrow> prefix (m @ CHR ''/'' # r) (c @ CHR ''/'' # s) \<Longrightarrow> CHR ''/'' \<notin> set m \<Longrightarrow> m = c \<and> prefix r s"
  "CHR ''/'' \<notin> set m \<Longrightarrow> prefix m (c @ CHR ''/'' # s) \<longleftrightarrow> prefix m c"
  by (induction m arbitrary: c; case_tac c; auto)+

lemma prefix_join_slash:
  assumes "proper_path ms" "ms \<noteq> []" "proper_path p"
  shows "prefix (join_slash ms) (join_slash p) \<longleftrightarrow> meta_path ms p"
  using assms
proof (induction ms p rule: meta_path.induct)
  case (2 m ms)
  then show ?case by (auto simp: join_slash_Cons proper_name_def)
next
  case (3 m ms c p)
  have s: "CHR ''/'' \<notin> set m" "CHR ''/'' \<notin> set c" using 3(2,4) by (auto simp: proper_name_def)
  show ?case
  proof (cases "ms = []")
    case True
    then show ?thesis using prefix_slash(2)[OF s(1), of c "join_slash p"] by (simp add: join_slash_Cons)
  next
    case ms: False
    show ?thesis
    proof (cases "p = []")
      case True
      have "\<not> prefix (m @ CHR ''/'' # join_slash ms) c" using s(2) by (auto simp: prefix_def)
      then show ?thesis using ms True by (cases ms) (auto simp: join_slash_Cons)
    next
      case False
      have "prefix (m @ CHR ''/'' # join_slash ms) (c @ CHR ''/'' # join_slash p) \<longleftrightarrow>
          m = c \<and> prefix (join_slash ms) (join_slash p)" (is "?l = ?r")
      proof
        show "?l \<Longrightarrow> ?r" by (rule prefix_slash(1)[OF s(2) _ s(1)])
        show "?r \<Longrightarrow> ?l" by simp
      qed
      then show ?thesis using 3 ms False by (auto simp: join_slash_Cons)
    qed
  qed
qed simp

text \<open>The descriptor of a module in the directory \<open>root\<close>, as \<open>DescribeCode\<close> makes it.\<close>

definition module_at :: "CodeDescriptor \<Rightarrow> string list \<Rightarrow> string list \<Rightarrow> bool" where
  "module_at cd root meta \<longleftrightarrow> cd_Module cd \<and> cd_Source cd = abs_path root \<and>
     cd_MetadataRoot cd = abs_path (root @ meta) \<and> proper_path root \<and> proper_path meta \<and>
     meta \<noteq> [] \<and> last meta = ''META-INF''"

lemma isMetadata_path:
  assumes "module_at cd root meta" "proper_path p"
  shows "isMetadata cd (abs_path (root @ p)) = meta_path meta p"
proof -
  have m: "proper_path (root @ meta)" "root @ meta \<noteq> []" "proper_path (root @ p)"
    using assms by (auto simp: module_at_def)
  then have "isMetadata cd (abs_path (root @ p)) = prefix (join_slash (root @ meta)) (join_slash (root @ p))"
    using assms(1) by (simp add: module_at_def isMetadata_def clean_abs del: proper_path_simps) (simp add: abs_path_def)
  then show ?thesis using prefix_join_slash[OF m] meta_path_append[of meta root p] assms(1) by (simp add: module_at_def)
qed

section \<open>The visible files and their names in the archive\<close>

text \<open>A directory is entered unless it is hidden and not metadata. The name of a metadata file in the
  archive begins with the component that makes it one, which is \<open>META-INF\<close> in the metadata directory.\<close>

fun visible :: "string list \<Rightarrow> string list \<Rightarrow> fs \<Rightarrow> string list list" where
  "visible meta p (File n) = [p]"
| "visible meta p (Bad n err) = []"
| "visible meta p (Dir n err es) =
     (if p = [] \<or> meta_path meta p \<or> \<not> prefix ''.'' n
      then List.concat (map (\<lambda>e. visible meta (p @ [fs_name e]) e) es) else [])"

definition archive_name :: "string list \<Rightarrow> string list \<Rightarrow> string list option" where
  "archive_name meta p =
     (if meta_path meta p
      then (if prefix ''.'' (last p) then None else Some (drop (length meta - 1) p))
      else Some (''src'' # p))"

lemma archive_name_metadata:
  "meta \<noteq> [] \<Longrightarrow> last meta = ''META-INF'' \<Longrightarrow> \<not> prefix ''.'' (last (meta @ q)) \<Longrightarrow>
     archive_name meta (meta @ q) = Some (''META-INF'' # q)"
  by (cases meta rule: rev_cases) (auto simp: archive_name_def prefix_meta_path)

text \<open>A directory that can be read, with names as a file system has them.\<close>

fun tree_ok :: "string list \<Rightarrow> fs \<Rightarrow> bool" where
  "tree_ok p (File n) = (p \<noteq> [])"
| "tree_ok p (Bad n err) = False"
| "tree_ok p (Dir n err es) =
     (err = None \<and> list_all (\<lambda>e. proper_name (fs_name e) \<and> tree_ok (p @ [fs_name e]) e) es)"

definition metadata_valid :: "go_lib \<Rightarrow> (bytes \<Rightarrow> entries option) \<Rightarrow> string list \<Rightarrow> string list \<Rightarrow> string list \<Rightarrow> bool" where
  "metadata_valid G parse root meta p =
     (case archive_name meta p of
        None \<Rightarrow> True
      | Some cs \<Rightarrow> \<not> meta_path meta p \<or> validateMetadata G parse (join_slash cs) (abs_path (root @ p)) = Ok ())"

definition source_of :: "string list \<Rightarrow> string list \<Rightarrow> string list \<Rightarrow> (string \<times> SourceDescriptor) list" where
  "source_of root meta p =
     (case archive_name meta p of None \<Rightarrow> []
      | Some cs \<Rightarrow> [(join_slash cs, \<lparr>sd_Name = join_slash cs, sd_Path = abs_path (root @ p)\<rparr>)])"

definition add_sources :: "(string \<times> SourceDescriptor) list \<Rightarrow> SourceMap \<Rightarrow> SourceMap" where
  "add_sources kds s = fold (\<lambda>(k, d). AList.update k d) kds s"

lemma add_sources_simps [simp]:
  "add_sources [] s = s" "add_sources (as @ bs) s = add_sources bs (add_sources as s)"
  by (simp_all add: add_sources_def)

lemma joined_name:
  assumes "proper_path ds" "proper_name c"
  shows "path_Join c (if ds = [] then ''.'' else join_slash ds) = join_slash (c # ds)"
proof (cases "ds = []")
  case True
  then show ?thesis using assms(2)
    by (cases c) (auto simp: path_Join_def path_Clean_def proper_name_def split_slash_append split_slash_plain prefix_def Cons_eq_append_conv)
next
  case False
  then show ?thesis using join_relative[of "[c]" ds] assms by simp
qed

text \<open>The path of a sibling relative to the metadata directory leads up first, and joining it to
  \<open>META-INF\<close> gives the sibling.\<close>

lemma drop_common_append: "drop_common (cs @ as) (cs @ bs) = drop_common as bs"
  by (induction cs) simp_all

lemma sibling_name:
  assumes "proper_path (i @ [m])" "proper_path (i @ c # q)" "m \<noteq> c"
  shows "path_Rel (abs_path (i @ [m])) (abs_path (i @ c # q)) = Ok (join_slash (''..'' # c # q))"
    "path_Join ''META-INF'' (join_slash (''..'' # c # q)) = join_slash (c # q)"
proof -
  have "m \<noteq> ''..''" using assms(1) by (auto simp: proper_name_def)
  then show "path_Rel (abs_path (i @ [m])) (abs_path (i @ c # q)) = Ok (join_slash (''..'' # c # q))"
    using clean_parts_abs[OF assms(1)] clean_parts_abs[OF assms(2)] assms(3)
    by (simp add: path_Rel_def drop_common_append Let_def) (simp add: abs_path_def)
  have p: "proper_path (c # q)" using assms(2) by simp
  have "split_slash (''META-INF/../'' @ join_slash (c # q)) = ''META-INF'' # ''..'' # c # q"
    using split_join_slash[OF p] by simp
  then have "clean_parts (''META-INF/../'' @ join_slash (c # q)) = c # q"
    using clean_stack_proper[OF p, of False "[]"] by (simp add: clean_parts_def)
  then show "path_Join ''META-INF'' (join_slash (''..'' # c # q)) = join_slash (c # q)"
    using join_slash_not_nil[OF p] by (simp add: path_Join_def path_Clean_parts)
qed

lemma metadata_name:
  assumes cd: "module_at cd root meta" and "proper_path p" "meta_path meta p"
  shows "\<exists>rel. path_Rel (abs_path (root @ meta)) (abs_path (root @ p)) = Ok rel \<and>
    path_Join ''META-INF'' rel = join_slash (drop (length meta - 1) p)"
proof -
  obtain i where i: "meta = i @ [''META-INF'']"
    using cd by (cases meta rule: rev_cases) (auto simp: module_at_def)
  then obtain c q where q: "p = i @ c # q" "prefix ''META-INF'' c" using assms(3) meta_path_iff by blast
  have proper: "proper_path ((root @ i) @ [''META-INF''])" "proper_path ((root @ i) @ c # q)"
    using cd assms(2) by (simp_all add: module_at_def i q(1))
  show ?thesis
  proof (cases "c = ''META-INF''")
    case True
    then show ?thesis
      using rel_abs[OF proper(1), of q] joined_name[of q "''META-INF''"] proper(2) by (simp add: i q(1))
  next
    case False
    then show ?thesis using sibling_name[OF proper] by (simp add: i q(1))
  qed
qed

lemma visit_file_ok:
  assumes cd: "module_at cd root meta" and "proper_path p" "p \<noteq> []" "last p = n"
  shows "visit_file G parse cd (abs_path (root @ p)) n s = Ok m \<longleftrightarrow>
    metadata_valid G parse root meta p \<and> m = add_sources (source_of root meta p) s"
proof (cases "meta_path meta p")
  case True
  obtain rel where "path_Rel (abs_path (root @ meta)) (abs_path (root @ p)) = Ok rel"
    "path_Join ''META-INF'' rel = join_slash (drop (length meta - 1) p)"
    using metadata_name[OF cd assms(2) True] by blast
  then show ?thesis using assms True isMetadata_path[OF cd assms(2)]
    by (auto simp: module_at_def visit_file_def Let_def metadata_valid_def source_of_def archive_name_def add_sources_def)
next
  case False
  have "path_Rel (abs_path root) (abs_path (root @ p)) = Ok (join_slash p)"
    using rel_abs[of root p] assms(2,3) cd by (simp add: module_at_def)
  moreover have "path_Join ''src'' (join_slash p) = join_slash (''src'' # p)"
    using joined_name[of p "''src''"] assms(2,3) by (simp add: proper_name_def)
  ultimately show ?thesis using assms False isMetadata_path[OF cd assms(2)]
    by (auto simp: module_at_def visit_file_def Let_def metadata_valid_def source_of_def archive_name_def add_sources_def)
qed

lemma abs_root: "abs_path (root @ p) = abs_path root \<longleftrightarrow> p = []" if "proper_path p" "proper_path root"
  using that clean_parts_abs[of "root @ p"] clean_parts_abs[of root] by auto

lemma walk_ok:
  assumes cd: "module_at cd root meta"
    and "proper_path p" "tree_ok p t" "p \<noteq> [] \<Longrightarrow> last p = fs_name t"
  shows "walk_tree G parse cd (abs_path (root @ p)) t s = Ok m \<longleftrightarrow>
    list_all (metadata_valid G parse root meta) (visible meta p t) \<and>
    m = add_sources (List.concat (map (source_of root meta) (visible meta p t))) s"
  using assms(2-)
proof (induction t arbitrary: p s m)
  case (File n)
  then show ?case using visit_file_ok[OF cd] by simp
next
  case (Dir n err es)
  have enter: "visit_dir cd (abs_path (root @ p)) n \<longleftrightarrow> p = [] \<or> meta_path meta p \<or> \<not> prefix ''.'' n"
    using Dir.prems cd isMetadata_path[OF cd Dir.prems(1)] by (simp add: visit_dir_def module_at_def abs_root)
  have elems: "walk_list G parse cd (abs_path (root @ p)) fs s = Ok m \<longleftrightarrow>
      list_all (metadata_valid G parse root meta) (List.concat (map (\<lambda>e. visible meta (p @ [fs_name e]) e) fs)) \<and>
      m = add_sources (List.concat (map (source_of root meta) (List.concat (map (\<lambda>e. visible meta (p @ [fs_name e]) e) fs)))) s"
    if "set fs \<subseteq> set es" for fs s m
    using that
  proof (induction fs arbitrary: s)
    case (Cons e fs)
    have e: "proper_name (fs_name e)" "tree_ok (p @ [fs_name e]) e"
      using Dir.prems(2) Cons.prems by (auto simp: list_all_iff)
    have "path_Join (abs_path (root @ p)) (fs_name e) = abs_path (root @ p @ [fs_name e])"
      using join_abs[of "root @ p" "fs_name e"] Dir.prems(1) e(1) cd by (simp add: module_at_def)
    moreover have "walk_tree G parse cd (abs_path (root @ (p @ [fs_name e]))) e s = Ok m' \<longleftrightarrow>
        list_all (metadata_valid G parse root meta) (visible meta (p @ [fs_name e]) e) \<and>
        m' = add_sources (List.concat (map (source_of root meta) (visible meta (p @ [fs_name e]) e))) s" for m'
      by (rule Dir.IH) (use Cons.prems Dir.prems(1) e in auto)
    ultimately show ?case using Cons by auto
  qed auto
  show ?case using Dir.prems enter elems[of es s m] by auto
qed simp

lemma add_sources_map:
  assumes "\<forall>(k, d) \<in> set kds. \<forall>(k', d') \<in> set kds. k = k' \<longrightarrow> d = d'"
  shows "map_of (add_sources kds []) k = Some d \<longleftrightarrow> (k, d) \<in> set kds"
  using assms
proof (induction kds arbitrary: k d rule: rev_induct)
  case (snoc kd kds)
  obtain k' d' where kd: "kd = (k', d')" by fastforce
  have "\<forall>(k, d) \<in> set kds. \<forall>(k', d') \<in> set kds. k = k' \<longrightarrow> d = d'" using snoc.prems by auto
  note IH = snoc.IH[OF this]
  show ?case
  proof (cases "k = k'")
    case True
    then show ?thesis using snoc.prems by (auto simp: kd add_sources_def update_conv')
  next
    case False
    then show ?thesis using IH by (simp add: kd add_sources_def update_conv')
  qed
qed (simp add: add_sources_def)

lemma visible_proper:
  "proper_path p \<Longrightarrow> tree_ok p t \<Longrightarrow> x \<in> set (visible meta p t) \<Longrightarrow> proper_path x"
proof (induction t arbitrary: p)
  case (Dir n err es)
  then obtain e where e: "e \<in> set es" "x \<in> set (visible meta (p @ [fs_name e]) e)" by (auto split: if_splits)
  then show ?case using Dir.IH[OF e(1) _ _ e(2)] Dir.prems by (auto simp: list_all_iff)
qed auto

text \<open>Different files have different names in the archive.\<close>

lemma archive_name_cases:
  assumes "archive_name meta p = Some cs" "meta \<noteq> []" "last meta = ''META-INF''"
  shows "\<not> meta_path meta p \<and> cs = ''src'' # p \<or>
    (\<exists>c q. meta_path meta p \<and> p = butlast meta @ c # q \<and> prefix ''META-INF'' c \<and> cs = c # q)"
proof (cases "meta_path meta p")
  case True
  obtain i where i: "meta = i @ [''META-INF'']" using assms by (cases meta rule: rev_cases) auto
  then obtain c q where "p = i @ c # q" "prefix ''META-INF'' c" using True meta_path_iff by blast
  then show ?thesis using assms(1) True i by (auto simp: archive_name_def split: if_splits)
qed (use assms(1) in \<open>simp add: archive_name_def\<close>)

lemma archive_name_proper:
  assumes "module_at cd root meta" "archive_name meta p = Some cs" "proper_path p"
  shows "proper_path cs \<and> cs \<noteq> []"
  using archive_name_cases[OF assms(2)] assms(1,3) by (auto simp: module_at_def proper_name_def)

lemma archive_name_inj:
  assumes "module_at cd root meta" "archive_name meta p = Some cs" "archive_name meta q = Some cs"
  shows "p = q"
  using archive_name_cases[OF assms(2)] archive_name_cases[OF assms(3)] assms(1) by (auto simp: module_at_def)

text \<open>What the validator accepts is in \<open>META-INF\<close>: a sibling whose name begins with it is refused.\<close>

lemma validateMetadata_prefix:
  assumes "validateMetadata G parse name path = Ok ()"
  shows "prefix ''META-INF/'' name"
proof (rule ccontr)
  assume n: "\<not> prefix ''META-INF/'' name"
  have s: "strip_prefix pre name = None" if "prefix ''META-INF/'' pre" for pre
  proof (rule ccontr)
    assume "strip_prefix pre name \<noteq> None"
    then obtain r where "name = pre @ r" using strip_prefix_eq by blast
    then have "prefix pre name" by (rule prefixI)
    then show False using n prefix_order.trans[OF that] by simp
  qed
  have "\<not> index_path name" "\<not> collection_index_path name"
    by (simp_all add: index_path_def collection_index_path_def s)
  then have "ValidateMetadataFile parse name b = Ok (Some (UnhandledDirectoryError (buildMetadataFileErrorMessage name)))" for b
    by (simp add: ValidateMetadataFile_def selectFileValidator_def)
  then show False using assms by (auto simp: validateMetadata_def)
qed

lemma valid_metadata_inside:
  assumes "module_at cd root meta" "metadata_valid G parse root meta p" "proper_path p" "meta_path meta p"
    "archive_name meta p = Some cs"
  shows "prefix meta p"
proof -
  have m: "meta \<noteq> []" "last meta = ''META-INF''" using assms(1) by (simp_all add: module_at_def)
  obtain c q where q: "p = butlast meta @ c # q" "cs = c # q"
    using archive_name_cases[OF assms(5) m] assms(4) by blast
  have "prefix ''META-INF/'' (join_slash cs)"
    using assms(2,4,5) validateMetadata_prefix by (simp add: metadata_valid_def)
  then obtain r where "join_slash cs = ''META-INF'' @ CHR ''/'' # r" by (auto simp: prefix_def)
  then have "hd (split_slash (join_slash cs)) = ''META-INF''" by (simp add: split_slash_append)
  then have "c = ''META-INF''" using split_join_slash[of cs] assms(3) q by simp
  then have "p = meta @ q" using q(1) m append_butlast_last_id[of meta] by (metis append.assoc append_Cons append_Nil)
  then show ?thesis by simp
qed

lemma source_of_iff: "(k, d) \<in> set (source_of root meta p) \<longleftrightarrow>
    (\<exists>cs. archive_name meta p = Some cs \<and> k = join_slash cs \<and>
      d = \<lparr>sd_Name = k, sd_Path = abs_path (root @ p)\<rparr>)"
  by (cases "archive_name meta p") (auto simp: source_of_def)

lemma add_sources_distinct:
  "distinct (map fst s) \<Longrightarrow> distinct (map fst (add_sources kds s))"
  by (induction kds arbitrary: s) (auto simp: add_sources_def intro: distinct_update)

text \<open>C36. Packaging a module succeeds in collecting its sources exactly when each visible metadata file is
  accepted, and then all of them lie in the metadata directory. The source map holds each visible file
  once, those of the metadata directory under \<open>META-INF\<close> and all others under \<open>src\<close> with their path in
  the module, and nothing else: no hidden directory outside the metadata and no hidden metadata file is
  packaged. What the code counts as metadata is derived from the names: a sibling of the metadata
  directory whose name begins with \<open>META-INF\<close> is counted too, and a file of it that is not hidden is
  never accepted, and so keeps the module from being packaged.\<close>

theorem module_sources_are_the_visible_files:
  assumes cd: "module_at cd root meta" and tree: "tree_ok [] (go_Tree G (cd_Source cd))"
  shows "(is_ok (findSource G parse cd) \<longleftrightarrow>
      list_all (metadata_valid G parse root meta) (visible meta [] (go_Tree G (cd_Source cd)))) \<and>
    (\<forall>m. findSource G parse cd = Ok m \<longrightarrow> source_map_ok m \<and>
      (\<forall>p \<in> set (visible meta [] (go_Tree G (cd_Source cd))).
        meta_path meta p \<longrightarrow> prefix ''.'' (last p) \<or> (\<exists>q. p = meta @ q \<and> archive_name meta p = Some (''META-INF'' # q))) \<and>
      (\<forall>k d. map_of m k = Some d \<longleftrightarrow>
        (\<exists>p cs. p \<in> set (visible meta [] (go_Tree G (cd_Source cd))) \<and> archive_name meta p = Some cs \<and>
          k = join_slash cs \<and> d = \<lparr>sd_Name = k, sd_Path = abs_path (root @ p)\<rparr>)))"
proof -
  let ?t = "go_Tree G (cd_Source cd)"
  let ?v = "visible meta [] ?t"
  let ?kds = "List.concat (map (source_of root meta) ?v)"
  have run: "findSource G parse cd = Ok m \<longleftrightarrow> list_all (metadata_valid G parse root meta) ?v \<and> m = add_sources ?kds []" for m
    using walk_ok[OF cd, of "[]" ?t G parse "[]" m] tree cd by (simp add: findSource_def module_at_def)
  have mem: "(k, d) \<in> set ?kds \<longleftrightarrow> (\<exists>p cs. p \<in> set ?v \<and> archive_name meta p = Some cs \<and>
      k = join_slash cs \<and> d = \<lparr>sd_Name = k, sd_Path = abs_path (root @ p)\<rparr>)" for k d
    by (simp add: source_of_iff) blast
  have proper: "proper_path cs \<and> cs \<noteq> []" if "p \<in> set ?v" "archive_name meta p = Some cs" for p cs
    using visible_proper[OF _ tree that(1)] archive_name_proper[OF cd that(2)] by simp
  have "\<forall>(k, d) \<in> set ?kds. \<forall>(k', d') \<in> set ?kds. k = k' \<longrightarrow> d = d'"
  proof (clarify, unfold mem, elim exE conjE)
    fix k d d' p cs p' cs'
    assume *: "p \<in> set ?v" "archive_name meta p = Some cs" "k = join_slash cs" "d = \<lparr>sd_Name = k, sd_Path = abs_path (root @ p)\<rparr>"
      "p' \<in> set ?v" "archive_name meta p' = Some cs'" "k = join_slash cs'" "d' = \<lparr>sd_Name = k, sd_Path = abs_path (root @ p')\<rparr>"
    then have "cs = cs'" using proper join_slash_inj by metis
    then show "d = d'" using * archive_name_inj[OF cd] by metis
  qed
  note map = add_sources_map[OF this]
  have "source_map_ok (add_sources ?kds [])"
  proof -
    have dist: "distinct (map fst (add_sources ?kds []))" using add_sources_distinct[of "[]" ?kds] by simp
    have "source_key (fst e) \<and> sd_Name (snd e) = fst e" if "e \<in> set (add_sources ?kds [])" for e
    proof -
      have "map_of (add_sources ?kds []) (fst e) = Some (snd e)" using dist that by simp
      then have "(fst e, snd e) \<in> set ?kds" by (simp only: map)
      then obtain p cs where p: "p \<in> set ?v" "archive_name meta p = Some cs" "fst e = join_slash cs"
        "snd e = \<lparr>sd_Name = fst e, sd_Path = abs_path (root @ p)\<rparr>" unfolding mem by blast
      then show ?thesis using proper[OF p(1,2)] by simp
    qed
    then show ?thesis using dist by (simp add: source_map_ok_def list_all_iff)
  qed
  moreover have "prefix ''.'' (last p) \<or> (\<exists>q. p = meta @ q \<and> archive_name meta p = Some (''META-INF'' # q))"
    if p: "p \<in> set ?v" "meta_path meta p" and ok: "list_all (metadata_valid G parse root meta) ?v" for p
  proof (cases "archive_name meta p")
    case None
    then show ?thesis using p(2) by (simp add: archive_name_def split: if_splits)
  next
    case (Some cs)
    have "prefix meta p"
      using valid_metadata_inside[OF cd _ visible_proper[OF _ tree p(1)] p(2) Some, of G parse] ok p(1)
      by (simp add: list_all_iff)
    then obtain q where "p = meta @ q" by (auto simp: prefix_def)
    then show ?thesis using Some cd archive_name_metadata[of meta q] by (auto simp: archive_name_def module_at_def split: if_splits)
  qed
  ultimately show ?thesis using run map mem by (simp add: is_ok_iff)
qed

definition sample_cd :: CodeDescriptor where
  "sample_cd = \<lparr>cd_Source = ''/m'', cd_MetadataRoot = ''/m/META-INF'', cd_Path = ''x/m'', cd_Module = True\<rparr>"

definition sample_index :: "bytes \<Rightarrow> entries option" where
  "sample_index b = Some [(''index'', JObj [(''fields'', JArr [JStr ''a''])])]"

lemma sample_module: "module_at sample_cd [''m''] [''META-INF'']"
  by code_simp

lemma sample_tree: "tree_ok [] (go_Tree sample_go (cd_Source sample_cd))"
  by code_simp

theorem module_sources_are_the_visible_files_witness:
  "\<exists>m. findSource sample_go sample_index sample_cd = Ok m \<and> map_of m ''src/.git/HEAD'' = None \<and>
    map_of m ''META-INF/statedb/couchdb/indexes/i.json'' =
      Some \<lparr>sd_Name = ''META-INF/statedb/couchdb/indexes/i.json'', sd_Path = ''/m/META-INF/statedb/couchdb/indexes/i.json''\<rparr>"
proof -
  note * = module_sources_are_the_visible_files[OF sample_module sample_tree, of sample_index]
  have v: "visible [''META-INF''] [] (go_Tree sample_go (cd_Source sample_cd)) =
      [[''a.go''], [''lib'', ''b.go''], [''lib'', ''.x''], [''META-INF'', ''statedb'', ''couchdb'', ''indexes'', ''i.json'']]"
    by code_simp
  have "list_all (metadata_valid sample_go sample_index [''m''] [''META-INF'']) (visible [''META-INF''] [] (go_Tree sample_go (cd_Source sample_cd)))"
    by code_simp
  then obtain m where m: "findSource sample_go sample_index sample_cd = Ok m" using * by (auto simp: is_ok_iff)
  then have iff: "\<And>k d. map_of m k = Some d \<longleftrightarrow> (\<exists>p cs. p \<in> set [[''a.go''], [''lib'', ''b.go''], [''lib'', ''.x''],
        [''META-INF'', ''statedb'', ''couchdb'', ''indexes'', ''i.json'']] \<and> archive_name [''META-INF''] p = Some cs \<and>
        k = join_slash cs \<and> d = \<lparr>sd_Name = k, sd_Path = abs_path ([''m''] @ p)\<rparr>)"
    using * v by metis
  have "map_of m ''src/.git/HEAD'' = None"
    by (rule ccontr) (auto simp: iff archive_name_def)
  moreover have "map_of m ''META-INF/statedb/couchdb/indexes/i.json'' =
      Some \<lparr>sd_Name = ''META-INF/statedb/couchdb/indexes/i.json'', sd_Path = ''/m/META-INF/statedb/couchdb/indexes/i.json''\<rparr>"
    unfolding iff by (rule exI[of _ "[''META-INF'', ''statedb'', ''couchdb'', ''indexes'', ''i.json'']"]) (simp add: archive_name_def abs_path_def)
  ultimately show ?thesis using m by blast
qed

section \<open>A sibling of the metadata directory\<close>

text \<open>\<open>isMetadata\<close> compares strings: a file whose name only begins with \<open>META-INF\<close> counts as metadata, gets
  a name outside the directory and is refused, so that the module cannot be packaged.\<close>

lemma metadata_sibling_refused:
  "walk_tree sample_go sample_index sample_cd ''/m'' (Dir ''m'' None [File ''a.go'', File ''META-INFO.md'']) [] =
     Err (Errorf ''metadata file path must begin with META-INF/statedb, found: %s'' [AStr []])"
  by code_simp

section \<open>The sample module packaged\<close>

definition sample_archive :: "tar_entry list" where
  "sample_archive = map dir_entry [''META-INF'', ''META-INF/statedb'', ''META-INF/statedb/couchdb'',
       ''META-INF/statedb/couchdb/indexes'', ''src'', ''src/lib''] @
     map (\<lambda>n. \<lparr>tar_Name = n, tar_Mode = 33188, te_Dir = False, te_Uid = 500, te_Gid = 500, te_Body = [1, 2]\<rparr>)
       [''META-INF/statedb/couchdb/indexes/i.json'', ''src/a.go'', ''src/lib/.x'', ''src/lib/b.go'']"

text \<open>Closing succeeds for this archive, whose bytes are a token that reads back as its headers.\<close>

definition sample_env :: go_lib where
  "sample_env = sample_go\<lparr>go_Close := (\<lambda>tw. if tw = sample_archive then ([1], None) else ([], Some (ErrExt ''short write'')))\<rparr>"

lemma sample_deployment: "GetDeploymentPayload sample_env sample_index ''/w'' ''/m'' = (Ok [1], ''/w'')"
  by code_simp

section \<open>The archive and the validator\<close>

lemma dir_mode_refused: "(16384 OR 493 :: 64 word) AND NOT 33206 \<noteq> 0"
  by code_simp

lemma scan_headers_dir: "scan_headers (tar_header.truncate (dir_entry d) # hs) \<noteq> Ok ()"
  using dir_mode_refused by (simp add: tar_header.defs dir_entry_def)

text \<open>C38. The archive that \<open>GetDeploymentPayload\<close> returns does not pass \<open>ValidateCodePackage\<close> of the same
  platform as soon as it has a directory entry: the mode of the directories is not among the modes the
  validator accepts. The hypothesis is that the archive reads back as it was written.\<close>

theorem payload_fails_validation:
  assumes run: "GetDeploymentPayload G parse wd codePath = (Ok code, w)"
    and reads: "\<And>tw b. go_Close G tw = (b, None) \<Longrightarrow>
      b \<noteq> [] \<and> gzip_open b = None \<and> tar_headers b = map tar_header.truncate tw"
  shows "\<exists>cd m. DescribeCode G wd codePath = (Ok cd, w) \<and> payload_files G parse w cd = Ok m \<and>
    (ValidateCodePackage gzip_open tar_headers code = Ok () \<longrightarrow> Directories m = [])"
proof -
  obtain r w' where d: "DescribeCode G wd codePath = (r, w')" by fastforce
  then obtain cd m tw where r: "r = Ok cd" "w' = w" "payload_files G parse w cd = Ok m"
    "write_payload G m = Ok tw" "go_Close G tw = (code, None)"
    using run by (auto simp: GetDeploymentPayload_def)
  obtain es where es: "tw = map dir_entry (Directories m) @ es" using write_payload_ok[OF r(4)] by blast
  have "ValidateCodePackage gzip_open tar_headers code = Ok () \<Longrightarrow> Directories m = []"
    using reads[OF r(5)] es by (cases "Directories m") (simp_all add: ValidateCodePackage_def scan_headers_dir del: scan_headers.simps(2))
  then show ?thesis using d r by blast
qed

theorem payload_fails_validation_witness:
  "\<not> (ValidateCodePackage (\<lambda>b. None) (\<lambda>b. map tar_header.truncate sample_archive) [1] = Ok ())"
proof -
  have "\<exists>cd m. DescribeCode sample_env ''/w'' ''/m'' = (Ok cd, ''/w'') \<and>
      payload_files sample_env sample_index ''/w'' cd = Ok m \<and>
      (ValidateCodePackage (\<lambda>b. None) (\<lambda>b. map tar_header.truncate sample_archive) [1] = Ok () \<longrightarrow> Directories m = [])"
    by (rule payload_fails_validation[OF sample_deployment]) (auto simp: sample_env_def sample_go_def split: if_splits)
  moreover have "DescribeCode sample_env ''/w'' ''/m'' = (Ok sample_cd, ''/w'')" by code_simp
  moreover have "payload_files sample_env sample_index ''/w'' sample_cd \<noteq> Ok m" if "Directories m = []" for m
  proof
    assume "payload_files sample_env sample_index ''/w'' sample_cd = Ok m"
    moreover have "bind (payload_files sample_env sample_index ''/w'' sample_cd) (\<lambda>m. Ok (Directories m = [])) = Ok False"
      by code_simp
    ultimately show False using that by simp
  qed
  ultimately show ?thesis by auto
qed

section \<open>The working directory\<close>

text \<open>C39. \<open>GetDeploymentPayload\<close> and \<open>NormalizePath\<close> leave the process in the working directory they
  found, on every path, errors included, that does not panic: the hypothesis is that changing to the name
  \<open>os.Getwd\<close> has given leads back to the same directory.\<close>

theorem working_directory_restored:
  assumes law: "\<And>e w v. go_Getwd G wd = (e, None) \<Longrightarrow> go_Chdir G w e = (v, None) \<Longrightarrow> v = wd"
  shows "(\<not> is_panic (fst (DescribeCode G wd path)) \<longrightarrow> snd (GetDeploymentPayload G parse wd path) = wd) \<and>
    (\<not> is_panic (fst (NormalizePath G wd path)) \<longrightarrow> snd (NormalizePath G wd path) = wd)"
proof -
  obtain r w where m: "moduleInfo G wd path = (r, w)" by fastforce
  have w: "w = wd" if "\<not> is_panic r" using moduleInfo_restores[OF law m that] .
  have "snd (GetDeploymentPayload G parse wd path) = wd" if "\<not> is_panic (fst (DescribeCode G wd path))"
    using that m w by (cases r) (auto simp: GetDeploymentPayload_def DescribeCode_def split: prod.splits if_splits option.splits)
  then show ?thesis using m w by (auto simp: NormalizePath_def)
qed

theorem working_directory_restored_witness:
  "snd (GetDeploymentPayload sample_env sample_index ''/w'' ''/m'') = ''/w'' \<and> snd (NormalizePath sample_env ''/w'' ''/m'') = ''/w''"
proof -
  have "\<not> is_panic (fst (DescribeCode sample_env ''/w'' ''/m''))" "\<not> is_panic (fst (NormalizePath sample_env ''/w'' ''/m''))"
    by code_simp+
  then show ?thesis
    using working_directory_restored[of sample_env "''/w''" "''/m''" sample_index]
    by (simp add: sample_env_def sample_go_def)
qed

section \<open>A chaincode in a GOPATH\<close>

text \<open>Without a module only the files beside the chaincode and its metadata are walked: a directory that is
  not metadata is skipped, whatever its name, and \<open>go.mod\<close> and \<open>go.sum\<close> of the chaincode are left out.\<close>

lemma gopath_skips_directories:
  assumes "\<not> cd_Module cd" "path \<noteq> cd_Source cd" "\<not> isMetadata cd path"
  shows "walk_tree G parse cd path (Dir n None es) s = Ok s"
  using assms by (simp add: visit_dir_def)

lemma gopath_names:
  assumes "\<not> cd_Module cd" "cd_Source cd = abs_path root" "proper_path root" "proper_path imp" "imp \<noteq> []"
    and "cd_Path cd = join_slash imp" "proper_name n" "\<not> isMetadata cd (abs_path (root @ [n]))"
  shows "walk_tree G parse cd (abs_path (root @ [n])) (File n) s =
    Ok (if n = ''go.mod'' \<or> n = ''go.sum'' then s
        else AList.update (join_slash (''src'' # imp @ [n]))
          \<lparr>sd_Name = join_slash (''src'' # imp @ [n]), sd_Path = abs_path (root @ [n])\<rparr> s)"
proof -
  have rel: "path_Rel (abs_path root) (abs_path (root @ [n])) = Ok n"
    using rel_abs[of root "[n]"] assms(3,7) by simp
  have "path_Join3 ''src'' (join_slash imp) n = path_Clean (join_slash (''src'' # imp @ [n]))"
    using assms(4,5,7) join_slash_not_nil[of imp]
    by (simp add: path_Join3_def Let_def proper_name_def join_slash_Cons join_slash_append)
  also have "\<dots> = join_slash (''src'' # imp @ [n])"
    by (rule clean_relative) (use assms(4,7) in \<open>simp_all add: proper_name_def\<close>)
  finally have "path_Join3 ''src'' (join_slash imp) n = join_slash (''src'' # imp @ [n])" .
  then show ?thesis using rel assms by (simp add: visit_file_def Let_def)
qed

end
