(* ===== verification/Spec2Isabelle.thy ===== *)
theory Spec2Isabelle
  imports Gateway Connections CaClient GoModule RwSet
begin

text \<open>
  \<^bold>\<open>A development for fabricsdk-go\<close>, a client library for Hyperledger Fabric networks written in Go.

  \<^bold>\<open>The program.\<close> The package \<open>gateway\<close> is the API: each handler reads a request, makes a signer from the
  key and certificate in it, dials peers and orderers and runs one operation of \<open>internal/chaincode\<close>
  (install, approve, commit, invoke, query) or \<open>internal/channel\<close> (create, update, join, fetch, propose,
  sign and submit a configuration). These build messages with \<open>internal/utils\<close>, sign them with
  \<open>internal/cryptoutil\<close>, send them over the clients of \<open>internal/client\<close> and \<open>internal/comm\<close>, wait for the
  commitment with \<open>internal/client/delivegroup\<close>, and read blocks with \<open>internal/blockutil\<close>.
  \<open>internal/ccplatform\<close> packages chaincode, \<open>internal/rwsetutil\<close> converts read-write sets, and \<open>caclient\<close>
  enrols and registers identities with a certificate authority.

  \<^bold>\<open>How Go is modelled.\<close> A function that returns \<open>(T, error)\<close> and may panic is a function into \<open>'a outcome\<close>,
  with the values \<open>Ok\<close>, \<open>Err\<close> and \<open>Panic\<close>; \<open>'a ret\<close> keeps both components where a caller ignores the error.
  A pointer is an \<open>option\<close>, an integer whose width matters is a word, and a struct that a method changes is
  taken and returned. What goes to the network is recorded: an operation is a \<open>run\<close>, the list of its events
  with its outcome. Goroutines are a step relation over all interleavings. A map that is ranged over is a
  list of its entries in the order of the iteration, and the theorems hold for every such order.

  \<^bold>\<open>Parameters.\<close> Code outside the repository is an argument: the protobuf codecs (\<open>pb\<close>, with \<open>codec_laws\<close>
  and the concrete \<open>table_codec\<close>), \<open>configtx_lib\<close> (fabric-config, with \<open>group_laws\<close> of the organisations
  and \<open>update_laws\<close> of an update as the difference of two configurations), \<open>ecdsa_lib\<close>, \<open>x509_lib\<close> (with
  \<open>pem_laws\<close>, \<open>marshal_laws\<close> and \<open>pkcs8_laws\<close>, which ask of the code the version and size of a key),
  \<open>csr_lib\<close>, \<open>comm_lib\<close> (gRPC and TLS), the evaluator of expressions (with \<open>gov_calls\<close>), \<open>go_lib\<close> (the go tool,
  files, tar and gzip), the CA server, the network, hashes, random bytes and the clock. Each theorem that
  needs a law of one of them has a witness on a concrete instance.

  \<^bold>\<open>The theories and what they model.\<close>
  \<^item> \<open>Prelude\<close>, \<open>GoStrings\<close>, \<open>Paths\<close>: outcomes, slices and their loops; strings, decimal numbers and paths.
  \<^item> \<open>OrderedCodec\<close> (\<open>internal/utils/util.go\<close>, \<open>cryptoutil/hash.go\<close>), \<open>Height\<close> (\<open>rwsetutil/version.go\<close>) and
    \<open>RwSet\<close> (\<open>rwsetutil/rw_util.go\<close>): the integer coding, round trip, order and bounds; heights and their
    comparison at 64 bits; read-write sets and their messages. Locales: \<open>varint_lib\<close>, \<open>ordered_codec\<close> (a
    sublocale gives it for numbers and for heights), \<open>msg_pair\<close>.
  \<^item> \<open>Codec\<close>, \<open>Messages\<close>, \<open>Unmarshal\<close>, \<open>TxUtils\<close>, \<open>TxFlow\<close> (\<open>internal/utils\<close>): messages, headers, proposals,
    transaction ids and the assembly of a transaction; \<open>TxFlow\<close> follows a transaction from the proposal to
    the committer and shows what each party reads.
  \<^item> \<open>BlockUtil\<close> (\<open>utils/blockutil.go\<close>, \<open>internal/blockutil\<close>): block metadata, the DER header hash, and the
    nested structures of transaction and configuration blocks.
  \<^item> \<open>PolicyDSL\<close> (\<open>chaincode/policy.go\<close>, \<open>policy/policydsl.go\<close>): the passes of the policy parser.
  \<^item> \<open>DeliverGroup\<close> (\<open>client/delivegroup\<close>): the goroutines of \<open>Connect\<close> and \<open>Wait\<close> as the relation \<open>gstep\<close>;
    the locale \<open>goroutine_group\<close> holds the invariant of the wait group and of the shared error, and that a
    group can always be run to its end; it is interpreted for both phases.
  \<^item> \<open>Submit\<close> (\<open>chaincode/config.go\<close>, \<open>invoke.go\<close>), \<open>Lifecycle\<close> (\<open>request.go\<close>, \<open>option.go\<close>, \<open>approve.go\<close>,
    \<open>commit.go\<close>), \<open>Install\<close> (\<open>chaincode.go\<close>, \<open>install.go\<close>), \<open>Queries\<close> (\<open>list.go\<close>): endorsement in any order
    of arrival, broadcast, waiting; the definition that is approved and committed; the reports over peers.
  \<^item> \<open>OrdererDeliver\<close> (\<open>client/orderer\<close>, \<open>channel/list.go\<close>), \<open>ChannelConfig\<close> (\<open>channel/config.go\<close>,
    \<open>channel.go\<close>), \<open>ChannelUpdate\<close> (\<open>channel/update.go\<close>, \<open>util.go\<close>): the seek protocol, channel
    configurations, updates with their signatures, joining.
  \<^item> \<open>CcPackage\<close>, \<open>Metadata\<close>, \<open>GoPackage\<close>, \<open>GoSource\<close>, \<open>GoPayload\<close>, \<open>GoModule\<close> (\<open>internal/ccplatform\<close>): package
    formats and their validation, the platform registry, metadata files, the walk over the source tree,
    the archive and its validator.
  \<^item> \<open>Ecdsa\<close>, \<open>Identity\<close>, \<open>Csr\<close> (\<open>internal/cryptoutil\<close>): low-S signatures, tokens, keys in PEM, the signing
    suite (locale \<open>signing_identity\<close>, interpreted on \<open>as_signer\<close>) and certificate requests.
  \<^item> \<open>Connections\<close> (\<open>internal/comm\<close>, \<open>client/peer\<close>, \<open>client/orderer\<close>): the TLS options of a connection; the
    locale \<open>tls_client\<close> is interpreted for peers and for orderers.
  \<^item> \<open>CaClient\<close> (\<open>caclient\<close>): the requests to the CA server and what is concluded from its answers.
  \<^item> \<open>Gateway\<close> (\<open>gateway\<close>, \<open>chaincode/contract\<close>): every handler, composed of the operations above.

  \<^bold>\<open>What the theorems show.\<close> A transaction that was signed was endorsed by all with one payload and reads back
  at the committer, and nothing is sent in any order of arrival unless the endorsers agree;
  an invocation that succeeds was committed as valid at every peer, under every
  interleaving, and waiting for it cannot deadlock; approving and committing agree on the definition;
  configuration updates carry one valid signature of each signer and nothing else, are what \<open>Create\<close> and
  \<open>Update\<close> send, and undo each other when an organisation is added and removed; the newest
  configuration is found by the seek protocol; envelopes name their signer and verify under his key;
  connections trust exactly the configured roots; registration keeps its order of requests and
  registers nothing that the server knows; a module
  is packaged as its visible files, with directories before their contents. Some theorems state defects
  of the code, which the manifest lists as findings: the comparison of heights beyond half the range, the
  exchanged policies of organisations, the transactions of the gateway, archives that fail their validator,
  siblings of the metadata directory that are taken for metadata, and empty parts that the hash refuses.

  \<^bold>\<open>Bounds and termination.\<close> No fuel is used. The loops that end on every input are structural recursions
  or have a measure: the loop over the ancestors of a path ends because each directory is shorter, or is
  the root and has been seen. The loop over PEM blocks is a \<open>partial_function\<close>; that it ends is a
  theorem from the progress of the decoder. A Go \<open>int\<close> has 64 bits.

  \<^bold>\<open>Not modelled.\<close> Logging and printing; the generated messages of \<open>gateway/protoutil\<close>, which appear as the
  request records of \<open>Gateway\<close>; the closing of response bodies and the time that calls take, beyond the
  deadlines that a select or a command observes; the text of formatted errors, kept as format and
  arguments; Windows paths. Interface values that only rename a method of another package have no
  definition of their own.
\<close>

end
